(* ===== verification/Prelude.thy ===== *)
theory Prelude
  imports Complex_Main
begin

text \<open>
  Shared vocabulary of the development: JavaScript errors, programs that thread a state and may
  throw, a weakest-precondition reading of such programs that the simplifier executes, the
  arithmetic of \<open>bignumber.js\<close> as a record parameter with its documented laws, and a few facts on
  lists and strings.  Every other theory builds on this one.
\<close>

named_theorems wp_simps \<open>symbolic execution of programs\<close>
named_theorems model_simps \<open>unfolding rules of small model operations\<close>

section \<open>Errors and programs\<close>

text \<open>An \<open>Error\<close> object: its message and the numeric \<open>code\<close> the Binance client attaches.\<close>

datatype js_error = JsError (err_message: string) (err_code: "int option")

abbreviation Err :: "string \<Rightarrow> js_error" where
  "Err m \<equiv> JsError m None"

text \<open>
  An \<open>async\<close> function that reads and writes shared state and may throw: \<open>Inl\<close> is the rejected
  promise, \<open>Inr\<close> the resolved one, and the state carries every effect done up to that point.
\<close>

type_synonym ('s, 'a) prog = "'s \<Rightarrow> (js_error + 'a) \<times> 's"

definition returnE :: "'a \<Rightarrow> ('s, 'a) prog" where
  "returnE x = (\<lambda>s. (Inr x, s))"

definition throwE :: "js_error \<Rightarrow> ('s, 'a) prog" where
  "throwE e = (\<lambda>s. (Inl e, s))"

definition bindE :: "('s, 'a) prog \<Rightarrow> ('a \<Rightarrow> ('s, 'b) prog) \<Rightarrow> ('s, 'b) prog" where
  "bindE m f = (\<lambda>s. case m s of (Inl e, s') \<Rightarrow> (Inl e, s') | (Inr x, s') \<Rightarrow> f x s')"

definition seqE :: "('s, 'a) prog \<Rightarrow> ('s, 'b) prog \<Rightarrow> ('s, 'b) prog" where
  "seqE m k = bindE m (\<lambda>_. k)"

text \<open>\<open>try { m } catch (err) { h }\<close>: the handler runs in the state the body left behind.\<close>

definition tryE :: "('s, 'a) prog \<Rightarrow> (js_error \<Rightarrow> ('s, 'a) prog) \<Rightarrow> ('s, 'a) prog" where
  "tryE m h = (\<lambda>s. case m s of (Inl e, s') \<Rightarrow> h e s' | (Inr x, s') \<Rightarrow> (Inr x, s'))"

text \<open>
  \<open>try { m } finally { k }\<close>: \<open>k\<close> always runs; an exception of \<open>k\<close> replaces the outcome of \<open>m\<close>.
\<close>

definition finallyE :: "('s, 'a) prog \<Rightarrow> ('s, unit) prog \<Rightarrow> ('s, 'a) prog" where
  "finallyE m k = (\<lambda>s. case m s of (r, s') \<Rightarrow>
     (case k s' of (Inl e, s'') \<Rightarrow> (Inl e, s'') | (Inr _, s'') \<Rightarrow> (r, s'')))"

definition assertE :: "bool \<Rightarrow> string \<Rightarrow> ('s, unit) prog" where
  "assertE b msg = (if b then returnE () else throwE (Err msg))"

definition getE :: "('s \<Rightarrow> 'a) \<Rightarrow> ('s, 'a) prog" where
  "getE f = (\<lambda>s. (Inr (f s), s))"

definition modifyE :: "('s \<Rightarrow> 's) \<Rightarrow> ('s, unit) prog" where
  "modifyE f = (\<lambda>s. (Inr (), f s))"

text \<open>Lifting a pure computation that may throw.\<close>

definition liftE :: "js_error + 'a \<Rightarrow> ('s, 'a) prog" where
  "liftE r = (\<lambda>s. (r, s))"

lemma liftE_Inr_bind: "bindE (liftE (Inr x)) f = f x"
  by (simp add: bindE_def liftE_def fun_eq_iff)

text \<open>The \<open>for ... of\<close> loop that awaits its body: the first exception ends it.\<close>

fun forE :: "'x list \<Rightarrow> ('x \<Rightarrow> ('s, unit) prog) \<Rightarrow> ('s, unit) prog" where
  "forE [] f = returnE ()"
| "forE (x # xs) f = seqE (f x) (forE xs f)"

section \<open>Weakest preconditions\<close>

text \<open>
  \<open>wp m Q R s\<close>: run from \<open>s\<close>, program \<open>m\<close> ends in a result and state satisfying \<open>Q\<close>, or throws
  an error in a state satisfying \<open>R\<close>.  The equations below compute it along the program text.
\<close>

definition wp :: "('s, 'a) prog \<Rightarrow> ('a \<Rightarrow> 's \<Rightarrow> bool) \<Rightarrow> (js_error \<Rightarrow> 's \<Rightarrow> bool) \<Rightarrow> 's \<Rightarrow> bool" where
  "wp m Q R s = (case m s of (Inl e, s') \<Rightarrow> R e s' | (Inr x, s') \<Rightarrow> Q x s')"

lemma wp_returnE [simp, wp_simps]: "wp (returnE x) Q R = Q x"
  by (simp add: fun_eq_iff wp_def returnE_def)

lemma wp_throwE [simp, wp_simps]: "wp (throwE e) Q R = R e"
  by (simp add: fun_eq_iff wp_def throwE_def)

lemma wp_bindE [simp, wp_simps]: "wp (bindE m f) Q R = wp m (\<lambda>x. wp (f x) Q R) R"
  by (simp add: fun_eq_iff wp_def bindE_def split: prod.split sum.split)

lemma wp_seqE [simp, wp_simps]: "wp (seqE m k) Q R = wp m (\<lambda>_. wp k Q R) R"
  by (simp add: seqE_def)

lemma wp_tryE [simp, wp_simps]: "wp (tryE m h) Q R = wp m Q (\<lambda>e. wp (h e) Q R)"
  by (simp add: fun_eq_iff wp_def tryE_def split: prod.split sum.split)

lemma wp_finallyE [simp, wp_simps]:
  "wp (finallyE m k) Q R = wp m (\<lambda>x. wp k (\<lambda>_. Q x) R) (\<lambda>e. wp k (\<lambda>_. R e) R)"
  by (simp add: fun_eq_iff wp_def finallyE_def split: prod.split sum.split)

lemma wp_assertE [simp, wp_simps]:
  "wp (assertE b msg) Q R = (if b then Q () else R (Err msg))"
  by (simp add: assertE_def)

lemma wp_getE [simp, wp_simps]: "wp (getE f) Q R = (\<lambda>s. Q (f s) s)"
  by (simp add: fun_eq_iff wp_def getE_def)

lemma wp_modifyE [simp, wp_simps]: "wp (modifyE f) Q R = (\<lambda>s. Q () (f s))"
  by (simp add: fun_eq_iff wp_def modifyE_def)

lemma wp_liftE [simp, wp_simps]:
  "wp (liftE r) Q R = (\<lambda>s. case r of Inl e \<Rightarrow> R e s | Inr x \<Rightarrow> Q x s)"
  by (simp add: fun_eq_iff wp_def liftE_def)

lemma wp_if [wp_simps]: "wp (if b then m else k) Q R = (if b then wp m Q R else wp k Q R)"
  by simp

lemma wp_mono:
  assumes "wp m Q R s" and "\<And>x t. Q x t \<Longrightarrow> Q' x t" and "\<And>e t. R e t \<Longrightarrow> R' e t"
  shows "wp m Q' R' s"
  using assms by (auto simp: wp_def split: prod.splits sum.splits)

text \<open>Sequencing after a step that is known not to throw.\<close>

lemma wp_bind_rule:
  "wp m A (\<lambda>_ _. False) s \<Longrightarrow> (\<And>x t. A x t \<Longrightarrow> wp (f x) Q R t) \<Longrightarrow> wp (bindE m f) Q R s"
  by (auto intro: wp_mono)

lemma wp_conj: "wp m Q R s \<Longrightarrow> wp m Q' R' s \<Longrightarrow> wp m (\<lambda>x t. Q x t \<and> Q' x t) (\<lambda>e t. R e t \<and> R' e t) s"
  by (auto simp: wp_def split: prod.splits sum.splits)

lemma wp_true: "wp m (\<lambda>_ _. True) (\<lambda>_ _. True) s"
  by (simp add: wp_def split: prod.split sum.split)

lemma wp_result: "m s = (Inr x, t) \<Longrightarrow> wp m Q R s \<Longrightarrow> Q x t"
  by (simp add: wp_def)

lemma wp_error: "m s = (Inl e, t) \<Longrightarrow> wp m Q R s \<Longrightarrow> R e t"
  by (simp add: wp_def)

lemma wp_final: "wp m (\<lambda>_. P) (\<lambda>_. P) s \<Longrightarrow> P (snd (m s))"
  by (auto simp: wp_def split: prod.splits sum.splits)

lemma wp_final_iff: "wp m (\<lambda>_. P) (\<lambda>_. P) s \<longleftrightarrow> P (snd (m s))"
  by (auto simp: wp_def split: prod.splits sum.splits)

lemma wp_total: "wp m Q (\<lambda>_ _. False) s \<Longrightarrow> \<exists>x t. m s = (Inr x, t) \<and> Q x t"
  by (auto simp: wp_def split: prod.splits sum.splits)

lemma wp_never_throws: "wp m (\<lambda>_ _. True) (\<lambda>_ _. False) s \<longleftrightarrow> (\<exists>x. fst (m s) = Inr x)"
  by (auto simp: wp_def split: prod.splits sum.splits)

lemma wp_outcome: "m s = (r, t) \<longleftrightarrow> wp m (\<lambda>x u. r = Inr x \<and> t = u) (\<lambda>e u. r = Inl e \<and> t = u) s"
  by (auto simp: wp_def split: prod.splits sum.splits)

lemma wp_of_eq: "m s = (r, t) \<Longrightarrow> wp m Q R s = (case r of Inl e \<Rightarrow> R e t | Inr x \<Rightarrow> Q x t)"
  by (simp add: wp_def)

text \<open>A relation between start and end state kept by every step is kept by every program.\<close>

definition keeps :: "('s \<Rightarrow> 's \<Rightarrow> bool) \<Rightarrow> ('s, 'a) prog \<Rightarrow> bool" where
  "keeps K m \<longleftrightarrow> (\<forall>s. K s (snd (m s)))"

lemma keepsD: "keeps K m \<Longrightarrow> K s (snd (m s))"
  by (simp add: keeps_def)

lemma keeps_wp: "keeps K m \<longleftrightarrow> (\<forall>s. wp m (\<lambda>_. K s) (\<lambda>_. K s) s)"
  by (simp add: keeps_def wp_final_iff)

lemma keeps_returnE: "reflp K \<Longrightarrow> keeps K (returnE x)"
  by (simp add: keeps_def returnE_def reflpD)

lemma keeps_throwE: "reflp K \<Longrightarrow> keeps K (throwE e)"
  by (simp add: keeps_def throwE_def reflpD)

lemma keeps_liftE: "reflp K \<Longrightarrow> keeps K (liftE r)"
  by (simp add: keeps_def liftE_def reflpD)

lemma keeps_getE: "reflp K \<Longrightarrow> keeps K (getE f)"
  by (simp add: keeps_def getE_def reflpD)

lemma keeps_assertE: "reflp K \<Longrightarrow> keeps K (assertE b msg)"
  by (simp add: assertE_def keeps_returnE keeps_throwE)

lemma keeps_bindE:
  assumes "transp K" "keeps K m" "\<And>x. keeps K (f x)"
  shows "keeps K (bindE m f)"
proof -
  have "wp m (\<lambda>x. wp (f x) (\<lambda>_. K s) (\<lambda>_. K s)) (\<lambda>_. K s) s" for s
  proof (rule wp_mono)
    show "wp m (\<lambda>_. K s) (\<lambda>_. K s) s" using assms(2) by (simp add: keeps_wp)
    show "K s t \<Longrightarrow> wp (f x) (\<lambda>_. K s) (\<lambda>_. K s) t" for x t
      using assms(1,3) by (auto simp: wp_final_iff keeps_def dest: transpD)
  qed simp
  then show ?thesis by (simp add: keeps_wp)
qed

lemma keeps_seqE: "transp K \<Longrightarrow> keeps K m \<Longrightarrow> keeps K k \<Longrightarrow> keeps K (seqE m k)"
  by (simp add: seqE_def keeps_bindE)

lemma keeps_tryE:
  assumes "transp K" "keeps K m" "\<And>e. keeps K (h e)"
  shows "keeps K (tryE m h)"
proof -
  have "wp m (\<lambda>_. K s) (\<lambda>e. wp (h e) (\<lambda>_. K s) (\<lambda>_. K s)) s" for s
  proof (rule wp_mono)
    show "wp m (\<lambda>_. K s) (\<lambda>_. K s) s" using assms(2) by (simp add: keeps_wp)
    show "K s t \<Longrightarrow> wp (h e) (\<lambda>_. K s) (\<lambda>_. K s) t" for e t
      using assms(1,3) by (auto simp: wp_final_iff keeps_def dest: transpD)
  qed simp
  then show ?thesis by (simp add: keeps_wp)
qed

lemma keeps_forE: "reflp K \<Longrightarrow> transp K \<Longrightarrow> (\<And>x. x \<in> set xs \<Longrightarrow> keeps K (f x)) \<Longrightarrow> keeps K (forE xs f)"
  by (induction xs) (simp_all add: keeps_returnE keeps_seqE)

section \<open>The arithmetic of bignumber.js\<close>

text \<open>
  A \<open>BigNumber\<close> is modelled by the rational number it denotes; \<open>plus\<close>, \<open>minus\<close>, \<open>times\<close>,
  \<open>negated\<close> and the comparisons are exact in the library and are the field operations here.
  What the library rounds or parses is a parameter: \<open>bn_div\<close> is \<open>dividedBy\<close> (20 decimal
  places), \<open>bn_dp\<close> the value of \<open>toFixed(n)\<close> and \<open>dp(n)\<close>, \<open>bn_dp_down\<close> is \<open>dp(n, ROUND_DOWN)\<close>,
  \<open>bn_parse\<close> the constructor on a string (\<open>None\<close>: it throws, \<open>BigNumber.DEBUG\<close> being set) and
  \<open>bn_near_int\<close> the test \<open>Number.isInteger(x.toNumber())\<close>, which rounds to a double first.
  Numeric strings the program itself produced with \<open>toFixed()\<close> are modelled by their value.
\<close>

record bignum =
  bn_div :: "rat \<Rightarrow> rat \<Rightarrow> rat"
  bn_dp :: "nat \<Rightarrow> rat \<Rightarrow> rat"
  bn_dp_down :: "nat \<Rightarrow> rat \<Rightarrow> rat"
  bn_parse :: "string \<Rightarrow> rat option"
  bn_near_int :: "rat \<Rightarrow> bool"

text \<open>The decimals with \<open>n\<close> digits after the point.\<close>

definition on_grid :: "nat \<Rightarrow> rat \<Rightarrow> bool" where
  "on_grid n x \<longleftrightarrow> x * 10 ^ n \<in> \<int>"

lemma on_grid_int [simp]: "on_grid n (of_int k)"
  unfolding on_grid_def by (metis Ints_mult Ints_of_int Ints_numeral Ints_power)

lemma on_grid_0 [simp]: "on_grid n 0" and on_grid_1 [simp]: "on_grid n 1"
  and on_grid_numeral [simp]: "on_grid n (numeral w)"
  using on_grid_int [of n 0] on_grid_int [of n 1] on_grid_int [of n "numeral w"] by simp_all

lemma on_grid_add: "on_grid n x \<Longrightarrow> on_grid n y \<Longrightarrow> on_grid n (x + y)"
  by (simp add: on_grid_def distrib_right)

lemma on_grid_diff: "on_grid n x \<Longrightarrow> on_grid n y \<Longrightarrow> on_grid n (x - y)"
  by (simp add: on_grid_def left_diff_distrib)

lemma on_grid_minus: "on_grid n x \<Longrightarrow> on_grid n (- x)"
  by (simp add: on_grid_def)

lemma Ints_close_eq:
  assumes "(x::rat) \<in> \<int>" "y \<in> \<int>" "\<bar>x - y\<bar> \<le> 1 / 2"
  shows "x = y"
proof -
  obtain a b where ab: "x = of_int a" "y = of_int b"
    using assms(1,2) by (auto elim!: Ints_cases)
  then have "\<bar>of_int (a - b) :: rat\<bar> < 1" using assms(3) by simp
  then have "\<bar>a - b\<bar> < 1" by linarith
  with ab show ?thesis by simp
qed

lemma on_grid_close_eq:
  assumes "on_grid n x" "on_grid n y" "\<bar>x - y\<bar> \<le> 1 / (2 * 10 ^ n)"
  shows "x = y"
proof -
  have "\<bar>x * 10 ^ n - y * 10 ^ n\<bar> = \<bar>x - y\<bar> * 10 ^ n"
    by (simp add: abs_mult flip: left_diff_distrib)
  also have "\<dots> \<le> 1 / (2 * 10 ^ n) * 10 ^ n"
    using assms(3) by (intro mult_right_mono) simp_all
  finally have "\<bar>x * 10 ^ n - y * 10 ^ n\<bar> \<le> 1 / 2" by simp
  with assms(1,2) have "x * 10 ^ n = y * 10 ^ n"
    unfolding on_grid_def by (rule Ints_close_eq)
  then show ?thesis by simp
qed

locale bignum_laws =
  fixes B :: bignum
  assumes div_grid: "y \<noteq> 0 \<Longrightarrow> on_grid 20 (bn_div B x y)"
    and div_close: "y \<noteq> 0 \<Longrightarrow> \<bar>bn_div B x y - x / y\<bar> \<le> 1 / (2 * 10 ^ 20)"
    and dp_grid: "on_grid n (bn_dp B n x)"
    and dp_close: "\<bar>bn_dp B n x - x\<bar> \<le> 1 / (2 * 10 ^ n)"
    and dp_down_grid: "on_grid n (bn_dp_down B n x)"
    and dp_down_le: "0 \<le> x \<Longrightarrow> bn_dp_down B n x \<le> x"
    and dp_down_nonneg: "0 \<le> x \<Longrightarrow> 0 \<le> bn_dp_down B n x"
    and dp_down_close: "0 \<le> x \<Longrightarrow> x < bn_dp_down B n x + 1 / 10 ^ n"
    and near_int: "x \<in> \<int> \<Longrightarrow> bn_near_int B x"
begin

lemma div_exact: "y \<noteq> 0 \<Longrightarrow> on_grid 20 (x / y) \<Longrightarrow> bn_div B x y = x / y"
  by (rule on_grid_close_eq [OF div_grid _ div_close])

lemma dp_exact: "on_grid n x \<Longrightarrow> bn_dp B n x = x"
  by (rule on_grid_close_eq [OF dp_grid _ dp_close])

lemma grid_nonneg:
  assumes "on_grid n r" "\<bar>r - x\<bar> \<le> 1 / (2 * 10 ^ n)" "0 \<le> x"
  shows "0 \<le> r"
proof (rule ccontr)
  assume "\<not> 0 \<le> r"
  obtain k where k: "r * 10 ^ n = of_int k"
    using assms(1) unfolding on_grid_def by (elim Ints_cases)
  have "r * 10 ^ n < 0" using \<open>\<not> 0 \<le> r\<close> by (simp add: mult_neg_pos)
  with k have "k \<le> -1" by simp
  then have "r * 10 ^ n \<le> -1" using k by (metis of_int_le_iff of_int_minus of_int_1)
  then have "r \<le> -1 / 10 ^ n" by (simp add: field_simps)
  moreover have "- (1 / (2 * 10 ^ n)) \<le> r" using assms(2,3) by (simp add: abs_le_iff)
  moreover have "(0::rat) < 1 / 10 ^ n" by simp
  ultimately show False by (simp add: field_simps)
qed

lemma dp_nonneg: "0 \<le> x \<Longrightarrow> 0 \<le> bn_dp B n x"
  by (rule grid_nonneg [OF dp_grid dp_close])

lemma div_nonneg: "0 \<le> x \<Longrightarrow> 0 < y \<Longrightarrow> 0 \<le> bn_div B x y"
  by (rule grid_nonneg [OF div_grid div_close]) simp_all

end

text \<open>
  An executable instance of the documented behaviour: rounding half away from zero, 20 decimal
  places for division, plain integer numerals for the parser.
\<close>

definition ref_round :: "rat \<Rightarrow> int" where
  "ref_round x = (if 0 \<le> x then \<lfloor>x + 1 / 2\<rfloor> else - \<lfloor>1 / 2 - x\<rfloor>)"

definition ref_dp :: "nat \<Rightarrow> rat \<Rightarrow> rat" where
  "ref_dp n x = of_int (ref_round (x * 10 ^ n)) / 10 ^ n"

definition ref_dp_down :: "nat \<Rightarrow> rat \<Rightarrow> rat" where
  "ref_dp_down n x = (if 0 \<le> x then of_int \<lfloor>x * 10 ^ n\<rfloor> / 10 ^ n else - (of_int \<lfloor>- x * 10 ^ n\<rfloor> / 10 ^ n))"

fun ref_digits :: "rat \<Rightarrow> string \<Rightarrow> rat option" where
  "ref_digits acc [] = Some acc"
| "ref_digits acc (c # cs) =
     (let d = of_char c :: nat in
      if 48 \<le> d \<and> d \<le> 57 then ref_digits (acc * 10 + of_nat (d - 48)) cs else None)"

definition ref_bignum :: bignum where
  "ref_bignum = \<lparr>bn_div = (\<lambda>x y. ref_dp 20 (x / y)), bn_dp = ref_dp, bn_dp_down = ref_dp_down,
     bn_parse = (\<lambda>s. if s = [] then None else ref_digits 0 s), bn_near_int = (\<lambda>x. of_int \<lfloor>x\<rfloor> = x)\<rparr>"

lemma ref_round_close: "\<bar>of_int (ref_round x) - x\<bar> \<le> 1 / 2"
proof (cases "0 \<le> x")
  case True
  then show ?thesis unfolding ref_round_def using floor_correct [of "x + 1 / 2"]
    by (simp only: if_True abs_le_iff) linarith
next
  case False
  then show ?thesis unfolding ref_round_def using floor_correct [of "1 / 2 - x"]
    by (simp only: if_False abs_le_iff of_int_minus) linarith
qed

lemma ref_dp_grid: "on_grid n (ref_dp n x)"
  by (simp add: ref_dp_def on_grid_def)

lemma ref_dp_close: "\<bar>ref_dp n x - x\<bar> \<le> 1 / (2 * 10 ^ n)"
proof -
  have "ref_dp n x - x = (of_int (ref_round (x * 10 ^ n)) - x * 10 ^ n) / 10 ^ n"
    by (simp add: ref_dp_def field_simps)
  then have "\<bar>ref_dp n x - x\<bar> = \<bar>of_int (ref_round (x * 10 ^ n)) - x * 10 ^ n\<bar> / 10 ^ n"
    by simp
  also have "\<dots> \<le> (1 / 2) / 10 ^ n"
    by (intro divide_right_mono ref_round_close) simp
  finally show ?thesis by simp
qed

lemma ref_dp_down_grid: "on_grid n (ref_dp_down n x)"
  by (simp add: ref_dp_down_def on_grid_def)

lemma ref_dp_down_le: "0 \<le> x \<Longrightarrow> ref_dp_down n x \<le> x"
  by (simp add: ref_dp_down_def divide_le_eq)

lemma ref_dp_down_nonneg: "0 \<le> x \<Longrightarrow> 0 \<le> ref_dp_down n x"
  by (simp add: ref_dp_down_def)

lemma ref_dp_down_close:
  assumes "0 \<le> x"
  shows "x < ref_dp_down n x + 1 / 10 ^ n"
proof -
  have "x * 10 ^ n < of_int \<lfloor>x * 10 ^ n\<rfloor> + 1" by linarith
  then have "x < (of_int \<lfloor>x * 10 ^ n\<rfloor> + 1) / 10 ^ n" by (simp add: less_divide_eq)
  with assms show ?thesis by (simp add: ref_dp_down_def add_divide_distrib)
qed

interpretation ref_bn: bignum_laws ref_bignum
proof unfold_locales
  show "y \<noteq> 0 \<Longrightarrow> \<bar>bn_div ref_bignum x y - x / y\<bar> \<le> 1 / (2 * 10 ^ 20)" for x y
    unfolding ref_bignum_def bignum.simps by (rule ref_dp_close)
qed (unfold ref_bignum_def bignum.simps, auto intro: ref_dp_grid ref_dp_close ref_dp_down_grid
      ref_dp_down_le ref_dp_down_nonneg ref_dp_down_close elim!: Ints_cases simp del: times_divide_eq_right)

lemma ref_bignum_laws: "bignum_laws ref_bignum"
  by (rule ref_bn.bignum_laws_axioms)

section \<open>Lists and strings\<close>

text \<open>\<open>xs.slice(-n)\<close>: the last \<open>n\<close> elements; \<open>slice(-0)\<close> is \<open>slice(0)\<close>, the whole array.\<close>

definition slice_last :: "nat \<Rightarrow> 'a list \<Rightarrow> 'a list" where
  "slice_last n xs = (if n = 0 then xs else drop (length xs - n) xs)"

lemma length_slice_last: "0 < n \<Longrightarrow> length (slice_last n xs) = min n (length xs)"
  by (auto simp: slice_last_def)

lemma set_slice_last: "set (slice_last n xs) \<subseteq> set xs"
  by (auto simp: slice_last_def dest: in_set_dropD)

text \<open>ASCII \<open>toUpperCase\<close>.\<close>

definition upper_char :: "char \<Rightarrow> char" where
  "upper_char c = (let d = of_char c :: nat in if 97 \<le> d \<and> d \<le> 122 then char_of (d - 32) else c)"

definition to_upper :: "string \<Rightarrow> string" where
  "to_upper = map upper_char"

lemma upper_char_idem [simp]: "upper_char (upper_char c) = upper_char c"
  by (auto simp: upper_char_def Let_def)

lemma to_upper_idem [simp]: "to_upper (to_upper s) = to_upper s"
  by (simp add: to_upper_def)

lemma to_upper_append [simp]: "to_upper (s @ t) = to_upper s @ to_upper t"
  by (simp add: to_upper_def)

text \<open>\<open>s.indexOf(c)\<close>, \<open>None\<close> for -1.\<close>

fun index_of :: "'a \<Rightarrow> 'a list \<Rightarrow> nat option" where
  "index_of c [] = None"
| "index_of c (x # xs) = (if x = c then Some 0 else map_option Suc (index_of c xs))"

text \<open>A substring test, the meaning of \<open>match\<close> with a literal regular expression.\<close>

fun is_prefix_of :: "'a list \<Rightarrow> 'a list \<Rightarrow> bool" where
  "is_prefix_of [] ys = True"
| "is_prefix_of (x # xs) [] = False"
| "is_prefix_of (x # xs) (y # ys) = (x = y \<and> is_prefix_of xs ys)"

fun contains :: "'a list \<Rightarrow> 'a list \<Rightarrow> bool" where
  "contains p [] = (p = [])"
| "contains p (x # xs) = (is_prefix_of p (x # xs) \<or> contains p xs)"

lemma is_prefix_of_append [simp]: "is_prefix_of xs (xs @ ys)"
  by (induction xs) auto

lemma is_prefix_of_iff: "is_prefix_of xs ys \<longleftrightarrow> (\<exists>zs. ys = xs @ zs)"
  by (induction xs ys rule: is_prefix_of.induct) auto

text \<open>\<open>s.split(c)\<close> and the corresponding join.\<close>

fun split_on :: "'a \<Rightarrow> 'a list \<Rightarrow> 'a list list" where
  "split_on c [] = [[]]"
| "split_on c (x # xs) =
     (if x = c then [] # split_on c xs
      else (case split_on c xs of [] \<Rightarrow> [[x]] | y # ys \<Rightarrow> (x # y) # ys))"

lemma split_on_nonempty [simp]: "split_on c xs \<noteq> []"
  by (induction xs) (auto split: list.splits)

lemma split_on_no_sep: "c \<notin> set xs \<Longrightarrow> split_on c xs = [xs]"
  by (induction xs) auto

lemma split_on_append:
  "c \<notin> set xs \<Longrightarrow> split_on c (xs @ c # ys) = xs # split_on c ys"
  by (induction xs) auto

end
