(* ===== verification/Types.thy ===== *)
theory Types
  imports Prelude
begin

text \<open>
  The data the services exchange: exchange and market identifiers (\<open>events/shared\<close>), order
  contexts (\<open>interfaces/orders\<close>), generic orders (\<open>types/exchange_neutral\<close>), the Binance records
  the program reads (\<open>interfaces/exchanges/binance\<close>), position identifiers and the check of the
  authorised edges (\<open>classes/spot/abstractions/position-identifier.ts\<close>).  Constant tag fields
  (\<open>object_type\<close>, \<open>version\<close>) and the free text \<open>msg\<close> are left out; a number written as a decimal
  string is the number.
\<close>

section \<open>Identifiers\<close>

text \<open>\<open>ExchangeIdentifier_V4\<close> and the older \<open>ExchangeIdentifier_V3\<close>.\<close>

datatype exchange_type = Margin | Spot | Futures

fun exchange_type_string :: "exchange_type \<Rightarrow> string" where
  "exchange_type_string Margin = ''margin''"
| "exchange_type_string Spot = ''spot''"
| "exchange_type_string Futures = ''futures''"

record exchange_identifier =
  ei_exchange :: string
  ei_type :: exchange_type

record exchange_identifier_v3 =
  ei3_exchange :: string
  ei3_type :: exchange_type
  ei3_account :: string

definition ei_v4_to_v3 :: "exchange_identifier \<Rightarrow> exchange_identifier_v3" where
  "ei_v4_to_v3 ei = \<lparr>ei3_exchange = ei_exchange ei, ei3_type = ei_type ei, ei3_account = ''default''\<rparr>"

definition exchange_identifier_to_redis_key_snippet :: "exchange_identifier \<Rightarrow> string" where
  "exchange_identifier_to_redis_key_snippet ei =
     (let ei3 = ei_v4_to_v3 ei
      in exchange_type_string (ei3_type ei3) @ '':'' @ ei3_exchange ei3 @ '':default'')"

text \<open>\<open>MarketIdentifier_V5_with_base_asset\<close>.\<close>

record market_identifier =
  mi_exchange_identifier :: exchange_identifier
  mi_base_asset :: string
  mi_quote_asset :: "string option"
  mi_symbol :: string

text \<open>\<open>SpotPositionIdentifier_V3\<close>; \<open>pi_edge = None\<close> is the \<open>undefined\<close> edge of a manual order.\<close>

record position_identifier =
  pi_exchange_identifier :: exchange_identifier
  pi_edge :: "string option"
  pi_base_asset :: string

definition create_position_identifier_from_tuple ::
    "string \<Rightarrow> string \<Rightarrow> string \<Rightarrow> string \<Rightarrow> js_error + position_identifier" where
  "create_position_identifier_from_tuple baseAsset account exchange edge =
     (if baseAsset = [] \<or> account = [] \<or> exchange = []
      then Inl (Err ''missing element in create_position_identifier_from_tuple'')
      else Inr \<lparr>pi_exchange_identifier = \<lparr>ei_exchange = exchange, ei_type = Spot\<rparr>,
                pi_edge = Some edge, pi_base_asset = baseAsset\<rparr>)"

section \<open>Authorised edges\<close>

definition authorised_edges :: "string list" where
  "authorised_edges = [''edge62'', ''edge70'']"

definition is_authorised_edge :: "string \<Rightarrow> bool" where
  "is_authorised_edge edge \<longleftrightarrow> edge \<in> set authorised_edges"

definition check_edge :: "string option \<Rightarrow> js_error + string" where
  "check_edge edge =
     (case edge of
        Some e \<Rightarrow>
          if e \<noteq> [] \<and> is_authorised_edge e then Inr e
          else if e = [] then Inl (Err ''check_edge: undefined passed in'')
          else Inl (Err (''check_edge: Unauthorised edge: '' @ e))
      | None \<Rightarrow> Inl (Err ''check_edge: undefined passed in''))"

lemma check_edge_Inr_iff: "check_edge (Some e) = Inr e' \<longleftrightarrow> e' = e \<and> (e = ''edge62'' \<or> e = ''edge70'')"
  by (auto simp: check_edge_def is_authorised_edge_def authorised_edges_def)

section \<open>Orders\<close>

datatype side = BUY | SELL

datatype order_status =
  CANCELED | EXPIRED | FILLED | NEW | PARTIALLY_FILLED | PENDING_CANCEL | REJECTED

datatype order_type =
  LIMIT | MARKET | STOP_LOSS | STOP_LOSS_LIMIT | TAKE_PROFIT | TAKE_PROFIT_LIMIT | LIMIT_MAKER

text \<open>\<open>OrderContext_V1\<close> has no trade id, \<open>OrderContext_V2\<close> has one.\<close>

record order_context =
  oc_edge :: string
  oc_trade_id :: "string option"

text \<open>
  \<open>GenericOrderData\<close>.  The fields other than the exchange identifier come first: they are what
  survives the way orders are serialised into Redis.
\<close>

record order_core =
  o_order_id :: string
  o_market_symbol :: string
  o_baseAsset :: string
  o_quoteAsset :: string
  o_side :: side
  o_orderType :: order_type
  o_orderStatus :: "order_status option"
  o_orderTime :: int
  o_totalBaseTradeQuantity :: rat
  o_totalQuoteTradeQuantity :: rat
  o_averageExecutionPrice :: "rat option"

record generic_order_data = order_core +
  o_exchange_identifier :: exchange_identifier

text \<open>\<open>GenericOrderUpdate\<close>.\<close>

record generic_order_update =
  u_timestamp_ms :: int
  u_exchange_identifier :: exchange_identifier
  u_market_identifier :: market_identifier
  u_order_id :: string
  u_side :: side
  u_order_type :: order_type
  u_order_status :: order_status
  u_total_base_trade_quantity :: rat
  u_total_quote_trade_quantity :: rat

section \<open>What the exchange reports\<close>

text \<open>
  The fields of \<open>ExchangeInfo\<close> (\<open>binance-api-node\<close>) that the program reads.  The filters carry
  \<open>stepSize\<close> and \<open>minQty\<close>, \<open>tickSize\<close> and \<open>minPrice\<close>, \<open>minNotional\<close>.
\<close>

datatype symbol_filter =
    LOT_SIZE string rat
  | PRICE_FILTER string rat
  | NOTIONAL rat
  | OTHER_FILTER string

record symbol_info =
  s_symbol :: string
  s_baseAsset :: string
  s_quoteAsset :: string
  s_filters :: "symbol_filter list"
  s_orderTypes :: "string list"
  s_isSpotTradingAllowed :: bool
  s_status :: string
  s_baseAssetPrecision :: int
  s_quoteAssetPrecision :: int

type_synonym exchange_info = "symbol_info list"

text \<open>Order requests and replies of the exchange's REST interface.\<close>

record order_req =
  q_symbol :: string
  q_side :: side
  q_type :: order_type
  q_quantity :: "rat option"
  q_quoteOrderQty :: "rat option"
  q_price :: "rat option"
  q_stopPrice :: "rat option"
  q_newClientOrderId :: string
  q_timeInForce :: "string option"
  q_newOrderRespType :: "string option"

record oco_req =
  oco_symbol :: string
  oco_side :: side
  oco_quantity :: rat
  oco_price :: rat
  oco_stopPrice :: rat
  oco_stopLimitPrice :: rat
  oco_listClientOrderId :: string
  oco_limitClientOrderId :: string
  oco_stopClientOrderId :: string

record order_resp =
  r_clientOrderId :: string
  r_executedQty :: rat
  r_cummulativeQuoteQty :: rat
  r_transactTime :: "int option"
  r_stopPrice :: "rat option"

text \<open>Requests and replies for futures orders (\<open>NewFuturesOrder\<close>, \<open>FuturesOrder\<close>).\<close>

datatype futures_order_type = FUTURES_LIMIT | STOP_MARKET | TAKE_PROFIT_MARKET

record futures_req =
  fq_symbol :: string
  fq_side :: side
  fq_type :: futures_order_type
  fq_quantity :: "rat option"
  fq_price :: "rat option"
  fq_stopPrice :: "rat option"
  fq_newClientOrderId :: string
  fq_timeInForce :: "string option"
  fq_closePosition :: bool

record futures_resp =
  fr_updateTime :: int
  fr_executedQty :: rat
  fr_cumQuote :: rat
  fr_avgPrice :: rat

text \<open>\<open>AssetBalance\<close>: what the account holds of an asset, and how much of that is in orders.\<close>

record asset_balance =
  b_asset :: string
  b_free :: rat
  b_locked :: rat

section \<open>Position events\<close>

text \<open>\<open>SpotPositionOpenedEvent_V1\<close> and \<open>SpotPositionClosed\<close>, the shared part first.\<close>

record position_opened_event =
  ev_edge :: string
  ev_exchange_identifier :: exchange_identifier
  ev_base_asset :: string
  ev_entry_signal_timestamp_ms :: int
  ev_initial_entry_timestamp_ms :: int
  ev_initial_entry_executed_price :: "rat option"
  ev_initial_entry_quote_asset :: string
  ev_initial_entry_quote_invested :: "rat option"
  ev_initial_entry_position_size :: rat
  ev_orders :: "order_core list"

record position_closed_event = position_opened_event +
  ev_exit_timestamp_ms :: int
  ev_exit_executed_price :: rat
  ev_exit_quote_asset :: string
  ev_exit_quote_returned :: rat
  ev_exit_position_size :: rat
  ev_total_quote_invested :: "rat option"
  ev_total_quote_returned :: rat
  ev_abs_quote_change :: "rat option"
  ev_percentage_quote_change :: "rat option"

end
