(* ===== verification/World.thy ===== *)
theory World
  imports Types "HOL-Library.AList"
begin

text \<open>
  The world the services act on.  Redis is a finite map from keys to values; everything else
  outside the program (the exchange, AMQP, the clock, the random ids) answers through an
  environment record of arbitrary functions of the history of effects.  A program step that calls
  out records the call at the head of the history and then asks the environment for the reply, so
  a statement about all environments covers every reply, refusal and failure.
\<close>

section \<open>Effects and the environment\<close>

datatype redis_cmd =
    GET string
  | SET string
  | MSET "string list"
  | SADD string
  | SMEMBERS string
  | INCRBY string
  | KEYS string
  | DEL "string list"

datatype effect =
    Redis redis_cmd
  | PlaceOrder order_req
  | PlaceOco oco_req
  | CancelOrder string string
  | CancelOco string string
  | GetExchangeInfo
  | GetPrices
  | GetAccountInfo
  | FuturesOrder futures_req
  | GetFuturesExchangeInfo
  | GetFuturesPrices
  | Sleep int
  | Alert string
  | PublishOpened position_opened_event
  | PublishClosed position_closed_event

text \<open>A Redis call succeeds, fails before it is executed, or is executed with its reply lost.\<close>

datatype redis_fault = RedisOk | RedisFailed js_error | RedisReplyLost js_error

record env =
  env_redis :: "effect list \<Rightarrow> redis_fault"
  env_order :: "effect list \<Rightarrow> js_error + order_resp"
  env_oco :: "effect list \<Rightarrow> js_error + string"
  env_cancel :: "effect list \<Rightarrow> js_error + string"
  env_cancel_oco :: "effect list \<Rightarrow> js_error + string"
  env_exchange_info :: "effect list \<Rightarrow> js_error + exchange_info"
  env_prices :: "effect list \<Rightarrow> js_error + (string \<Rightarrow> rat option)"
  env_account_info :: "effect list \<Rightarrow> js_error + asset_balance list"
  env_publish :: "effect list \<Rightarrow> js_error option"
  env_now :: "effect list \<Rightarrow> int"
  env_uuid :: "effect list \<Rightarrow> string"

text \<open>
  Redis values, by what their strings render: an integer (satoshis, timestamps), a text, a decimal,
  a serialised order context, a set of serialised orders.
\<close>

datatype redis_value =
    RInt int
  | RText string
  | RDecimal rat
  | RContext order_context
  | ROrders "order_core list"

record world =
  store :: "(string \<times> redis_value) list"
  trace :: "effect list"

definition emit :: "effect \<Rightarrow> (world, unit) prog" where
  "emit e = modifyE (\<lambda>w. w\<lparr>trace := e # trace w\<rparr>)"

lemma wp_emit [simp, wp_simps]: "wp (emit e) Q R = (\<lambda>w. Q () (w\<lparr>trace := e # trace w\<rparr>))"
  by (simp add: emit_def)

definition now :: "env \<Rightarrow> (world, int) prog" where
  "now E = getE (\<lambda>w. env_now E (trace w))"

lemma wp_now [simp, wp_simps]: "wp (now E) Q R = (\<lambda>w. Q (env_now E (trace w)) w)"
  by (simp add: now_def)

definition alert :: "string \<Rightarrow> (world, unit) prog" where
  "alert msg = emit (Alert msg)"

lemma wp_alert [simp, wp_simps]: "wp (alert m) Q R = (\<lambda>w. Q () (w\<lparr>trace := Alert m # trace w\<rparr>))"
  by (simp add: alert_def)

text \<open>A call out: record it, then take the environment's answer.\<close>

definition call_out :: "effect \<Rightarrow> (effect list \<Rightarrow> js_error + 'a) \<Rightarrow> (world, 'a) prog" where
  "call_out e answer = bindE (emit e) (\<lambda>_. bindE (getE (\<lambda>w. answer (trace w))) liftE)"

lemma wp_call_out [simp, wp_simps]:
  "wp (call_out e answer) Q R =
     (\<lambda>w. case answer (e # trace w) of Inl err \<Rightarrow> R err (w\<lparr>trace := e # trace w\<rparr>)
      | Inr x \<Rightarrow> Q x (w\<lparr>trace := e # trace w\<rparr>))"
  by (simp add: call_out_def)

section \<open>Redis commands\<close>

definition redis_call :: "env \<Rightarrow> redis_cmd \<Rightarrow> (world, 'a) prog \<Rightarrow> (world, 'a) prog" where
  "redis_call E c body =
     bindE (emit (Redis c)) (\<lambda>_. bindE (getE (\<lambda>w. env_redis E (trace w))) (\<lambda>f.
       case f of
         RedisOk \<Rightarrow> body
       | RedisFailed e \<Rightarrow> throwE e
       | RedisReplyLost e \<Rightarrow> bindE body (\<lambda>_. throwE e)))"

lemma wp_redis_call [wp_simps]:
  "wp (redis_call E c body) Q R =
     (\<lambda>w. let w' = w\<lparr>trace := Redis c # trace w\<rparr> in
      case env_redis E (Redis c # trace w) of
        RedisOk \<Rightarrow> wp body Q R w'
      | RedisFailed e \<Rightarrow> R e w'
      | RedisReplyLost e \<Rightarrow> wp body (\<lambda>_. R e) R w')"
  by (simp add: fun_eq_iff redis_call_def Let_def split: redis_fault.split)

definition redis_up :: "env \<Rightarrow> bool" where
  "redis_up E \<longleftrightarrow> (\<forall>h. env_redis E h = RedisOk)"

lemma redis_upD [simp]: "redis_up E \<Longrightarrow> env_redis E h = RedisOk"
  by (simp add: redis_up_def)

text \<open>\<open>GET\<close> of a key that holds a set is refused.\<close>

definition redis_get :: "env \<Rightarrow> string \<Rightarrow> (world, redis_value option) prog" where
  "redis_get E k = redis_call E (GET k)
     (bindE (getE (\<lambda>w. map_of (store w) k)) (\<lambda>v.
        case v of
          Some (ROrders _) \<Rightarrow> throwE (Err ''WRONGTYPE Operation against a key holding the wrong kind of value'')
        | _ \<Rightarrow> returnE v))"

definition redis_set :: "env \<Rightarrow> string \<Rightarrow> redis_value \<Rightarrow> (world, unit) prog" where
  "redis_set E k v = redis_call E (SET k) (modifyE (\<lambda>w. w\<lparr>store := AList.update k v (store w)\<rparr>))"

definition redis_mset :: "env \<Rightarrow> (string \<times> redis_value) list \<Rightarrow> (world, unit) prog" where
  "redis_mset E kvs = redis_call E (MSET (map fst kvs))
     (modifyE (\<lambda>w. w\<lparr>store := AList.updates (map fst kvs) (map snd kvs) (store w)\<rparr>))"

text \<open>
  \<open>INCRBY\<close> on an absent key starts from zero; it rejects an increment or a value that is not a 64-bit
  integer, and a sum that would overflow.
\<close>

definition int64 :: "int \<Rightarrow> bool" where
  "int64 n \<longleftrightarrow> - (2 ^ 63) \<le> n \<and> n < 2 ^ 63"

definition redis_incrby :: "env \<Rightarrow> string \<Rightarrow> int \<Rightarrow> (world, int) prog" where
  "redis_incrby E k n = redis_call E (INCRBY k)
     (bindE (getE (\<lambda>w. map_of (store w) k)) (\<lambda>v.
        case (case v of None \<Rightarrow> Some 0 | Some (RInt m) \<Rightarrow> Some m | Some _ \<Rightarrow> None) of
          None \<Rightarrow> throwE (Err ''ERR value is not an integer or out of range'')
        | Some m \<Rightarrow>
            if \<not> int64 n \<or> \<not> int64 m then throwE (Err ''ERR value is not an integer or out of range'')
            else if \<not> int64 (m + n) then throwE (Err ''ERR increment or decrement would overflow'')
            else bindE (modifyE (\<lambda>w. w\<lparr>store := AList.update k (RInt (m + n)) (store w)\<rparr>))
                   (\<lambda>_. returnE (m + n))))"

text \<open>\<open>SADD\<close> returns how many of the given members were not in the set yet.\<close>

definition set_adds :: "'a list \<Rightarrow> 'a list \<Rightarrow> 'a list \<times> nat" where
  "set_adds xs new = fold (\<lambda>x (ys, n). if x \<in> set ys then (ys, n) else (ys @ [x], Suc n)) new (xs, 0)"

definition redis_sadd :: "env \<Rightarrow> string \<Rightarrow> order_core list \<Rightarrow> (world, nat) prog" where
  "redis_sadd E k new = redis_call E (SADD k)
     (bindE (getE (\<lambda>w. map_of (store w) k)) (\<lambda>v.
        case (case v of None \<Rightarrow> Some [] | Some (ROrders xs) \<Rightarrow> Some xs | _ \<Rightarrow> None) of
          None \<Rightarrow> throwE (Err ''WRONGTYPE Operation against a key holding the wrong kind of value'')
        | Some xs \<Rightarrow>
            bindE (modifyE (\<lambda>w. w\<lparr>store := AList.update k (ROrders (fst (set_adds xs new))) (store w)\<rparr>))
              (\<lambda>_. returnE (snd (set_adds xs new)))))"

definition redis_smembers :: "env \<Rightarrow> string \<Rightarrow> (world, order_core list) prog" where
  "redis_smembers E k = redis_call E (SMEMBERS k)
     (bindE (getE (\<lambda>w. map_of (store w) k)) (\<lambda>v.
        case v of
          None \<Rightarrow> returnE []
        | Some (ROrders xs) \<Rightarrow> returnE xs
        | Some _ \<Rightarrow> throwE (Err ''WRONGTYPE Operation against a key holding the wrong kind of value'')))"

text \<open>\<open>KEYS\<close> with the glob character \<open>*\<close>, the only one the program's patterns use.\<close>

fun glob :: "string \<Rightarrow> string \<Rightarrow> bool" where
  "glob [] [] = True"
| "glob [] (y # ys) = False"
| "glob (p # ps) [] = (p = CHR ''*'' \<and> glob ps [])"
| "glob (p # ps) (y # ys) =
     (if p = CHR ''*'' then glob ps (y # ys) \<or> glob (p # ps) ys else p = y \<and> glob ps ys)"

definition redis_keys :: "env \<Rightarrow> string \<Rightarrow> (world, string list) prog" where
  "redis_keys E pat = redis_call E (KEYS pat) (getE (\<lambda>w. filter (glob pat) (remdups (map fst (store w)))))"

text \<open>\<open>DEL\<close> without keys is a protocol error.\<close>

definition redis_del :: "env \<Rightarrow> string list \<Rightarrow> (world, unit) prog" where
  "redis_del E ks = redis_call E (DEL ks)
     (if ks = [] then throwE (Err ''ERR wrong number of arguments for 'del' command'')
      else modifyE (\<lambda>w. w\<lparr>store := filter (\<lambda>(k, _). k \<notin> set ks) (store w)\<rparr>))"

lemmas redis_defs = redis_get_def redis_set_def redis_mset_def redis_incrby_def redis_sadd_def
  redis_smembers_def redis_keys_def redis_del_def

section \<open>Facts about the store\<close>

lemma set_adds_single:
  "set_adds xs [x] = (if x \<in> set xs then (xs, 0) else (xs @ [x], 1))"
  by (simp add: set_adds_def)

lemma map_of_filter_keys:
  "map_of (filter (\<lambda>(k, _). P k) xs) k = (if P k then map_of xs k else None)"
  by (induction xs) auto

lemma glob_star_all: "glob ''*'' ys"
  by (induction ys) auto

lemma glob_literal: "CHR ''*'' \<notin> set p \<Longrightarrow> glob (p @ ''*'') ys \<longleftrightarrow> is_prefix_of p ys"
proof (induction p arbitrary: ys)
  case Nil
  then show ?case using glob_star_all by simp
next
  case (Cons c p)
  then show ?case by (cases ys) auto
qed

lemma glob_star: "glob (CHR ''*'' # p) ys \<longleftrightarrow> (\<exists>m zs. ys = m @ zs \<and> glob p zs)"
proof (induction ys)
  case (Cons y ys)
  then show ?case by (auto simp: Cons_eq_append_conv)
qed simp

lemma glob_append: "CHR ''*'' \<notin> set p \<Longrightarrow> glob (p @ q) ys \<longleftrightarrow> (\<exists>zs. ys = p @ zs \<and> glob q zs)"
proof (induction p arbitrary: ys)
  case (Cons c p)
  then show ?case by (cases ys) auto
qed simp

text \<open>Only the store and the history of effects change, and the history only grows.\<close>

definition extends :: "world \<Rightarrow> world \<Rightarrow> bool" where
  "extends w w' \<longleftrightarrow> (\<exists>es. trace w' = es @ trace w)"

lemma reflp_extends [simp]: "reflp extends"
  by (auto simp: reflp_def extends_def)

lemma transp_extends [simp]: "transp extends"
  by (auto simp: transp_def extends_def)

lemma extends_refl [simp]: "extends w w"
  by (simp add: extends_def)

lemma extends_trans: "extends u v \<Longrightarrow> extends v w \<Longrightarrow> extends u w"
  using transp_extends by (rule transpD)

lemma trace_in_extends: "extends w w' \<Longrightarrow> e \<in> set (trace w) \<Longrightarrow> e \<in> set (trace w')"
  by (auto simp: extends_def)

section \<open>A quiet environment\<close>

text \<open>
  Redis up, every order accepted under its own id and filled at its price, no exchange information:
  an instance the witnesses run the model in.
\<close>

definition echo_order :: "effect list \<Rightarrow> js_error + order_resp" where
  "echo_order h = (case h of
     PlaceOrder q # _ \<Rightarrow>
       (let qty = (case q_quantity q of Some x \<Rightarrow> x | None \<Rightarrow> 1);
            px = (case q_price q of Some x \<Rightarrow> x | None \<Rightarrow> 100) in
        Inr \<lparr>r_clientOrderId = q_newClientOrderId q, r_executedQty = qty,
             r_cummulativeQuoteQty = qty * px, r_transactTime = Some 1, r_stopPrice = q_stopPrice q\<rparr>)
   | _ \<Rightarrow> Inl (Err ''no order''))"

definition quiet_env :: "exchange_info \<Rightarrow> env" where
  "quiet_env ei =
     \<lparr>env_redis = (\<lambda>_. RedisOk), env_order = echo_order, env_oco = (\<lambda>_. Inr ''oco''),
      env_cancel = (\<lambda>_. Inr ''cancelled''), env_cancel_oco = (\<lambda>_. Inr ''cancelled''),
      env_exchange_info = (\<lambda>_. Inr ei), env_prices = (\<lambda>_. Inr (\<lambda>_. Some 100)),
      env_account_info = (\<lambda>_. Inr []),
      env_publish = (\<lambda>_. None), env_now = (\<lambda>h. int (length h)),
      env_uuid = (\<lambda>h. ''id'' @ replicate (length h) (CHR ''x''))\<rparr>"

definition demo_exchange_info :: exchange_info where
  "demo_exchange_info = [\<lparr>s_symbol = ''ETHUSDT'', s_baseAsset = ''ETH'', s_quoteAsset = ''USDT'',
     s_filters = [PRICE_FILTER ''1'' 1, LOT_SIZE ''1'' 1, NOTIONAL 10],
     s_orderTypes = [''LIMIT'', ''STOP_LOSS_LIMIT''], s_isSpotTradingAllowed = True, s_status = ''TRADING'',
     s_baseAssetPrecision = 8, s_quoteAssetPrecision = 8\<rparr>]"

definition empty_world :: world where
  "empty_world = \<lparr>store = [], trace = []\<rparr>"

lemma quiet_env_up [simp]: "redis_up (quiet_env ei)"
  by (simp add: redis_up_def quiet_env_def)

end
