(* ===== verification/SpotPositions.thy ===== *)
theory SpotPositions
  imports World
begin

text \<open>
  Spot positions in Redis: \<open>RedisSpotPositionsState\<close> (low level keys and values),
  \<open>RedisSpotPositionsPersistence\<close> (the interface the services use), \<open>SpotPosition\<close> and
  \<open>SpotPositionsQuery\<close> (\<open>classes/spot\<close>), and \<open>RedisOrderContextPersistence\<close>.
\<close>

section \<open>Amounts in satoshis\<close>

definition to_sats :: "bignum \<Rightarrow> rat \<Rightarrow> int" where
  "to_sats B x = \<lfloor>bn_dp B 0 (x * 10 ^ 8)\<rfloor>"

definition from_sats :: "bignum \<Rightarrow> rat \<Rightarrow> rat" where
  "from_sats B n = bn_dp B 8 (bn_div B n (10 ^ 8))"

text \<open>
  \<open>Number(s)\<close> of an integer string: the nearest double, ties to even.  \<open>excess_bits\<close> is how far
  the integer exceeds 53 bits.
\<close>

fun excess_bits :: "nat \<Rightarrow> nat" where
  "excess_bits n = (if n < 2 ^ 53 then 0 else Suc (excess_bits (n div 2)))"

declare excess_bits.simps [simp del]

definition double_of_nat :: "nat \<Rightarrow> nat" where
  "double_of_nat n =
     (let u = 2 ^ excess_bits n; q = n div u; r = n mod u in
      if 2 * r < u \<or> 2 * r = u \<and> even q then q * u else (q + 1) * u)"

definition double_of_int :: "int \<Rightarrow> int" where
  "double_of_int n = (if 0 \<le> n then int (double_of_nat (nat n)) else - int (double_of_nat (nat (- n))))"

lemma double_of_int_exact: "\<bar>n\<bar> < 2 ^ 53 \<Longrightarrow> double_of_int n = n"
proof -
  assume n: "\<bar>n\<bar> < 2 ^ 53"
  have small: "double_of_nat k = k" if "k < 2 ^ 53" for k
    using that by (simp add: double_of_nat_def excess_bits.simps)
  have "nat \<bar>n\<bar> < nat (2 ^ 53)" using n by (intro nat_mono_iff [THEN iffD2]) auto
  then have "nat \<bar>n\<bar> < 2 ^ 53" by simp
  then show ?thesis by (auto simp: double_of_int_def abs_if small split: if_splits)
qed

section \<open>Keys\<close>

definition key_base :: string where
  "key_base = ''positions-v3''"

text \<open>A template literal renders an undefined edge as \<open>undefined\<close>.\<close>

definition edge_text :: "string option \<Rightarrow> string" where
  "edge_text e = (case e of None \<Rightarrow> ''undefined'' | Some s \<Rightarrow> s)"

definition position_prefix :: "position_identifier \<Rightarrow> js_error + string" where
  "position_prefix p =
     (if ei_type (pi_exchange_identifier p) \<noteq> Spot
      then Inl (Err ''assert.equal(pi.exchange_identifier.exchange_type, spot)'')
      else Inr (key_base @ '':spot:'' @ ei_exchange (pi_exchange_identifier p) @ '':default:'' @
                pi_base_asset p @ '':'' @ edge_text (pi_edge p)))"

definition sats_names :: "string list" where
  "sats_names = [''position_size'', ''initial_entry_price'', ''initial_entry_position_size'',
     ''initial_quote_invested'', ''total_quote_invested'', ''total_quote_withdrawn'', ''edge'']"

definition name_to_key :: "position_identifier \<Rightarrow> string \<Rightarrow> js_error + string" where
  "name_to_key p name =
     (case position_prefix p of
        Inl e \<Rightarrow> Inl e
      | Inr prefix \<Rightarrow>
          Inr (if name \<in> set sats_names then prefix @ '':sats_'' @ name else prefix @ '':'' @ name))"

section \<open>Reading and writing single keys\<close>

text \<open>\<open>new BigNumber(s)\<close> of a stored string; an empty string counts as missing.\<close>

definition value_number :: "bignum \<Rightarrow> redis_value \<Rightarrow> js_error + rat" where
  "value_number B v =
     (case v of
        RInt n \<Rightarrow> Inr (of_int n)
      | RDecimal x \<Rightarrow> Inr x
      | RText s \<Rightarrow> (case bn_parse B s of None \<Rightarrow> Inl (Err ''[BigNumber Error] Not a number'') | Some x \<Rightarrow> Inr x)
      | _ \<Rightarrow> Inl (Err ''[BigNumber Error] Not a number''))"

definition falsy :: "redis_value option \<Rightarrow> bool" where
  "falsy v \<longleftrightarrow> v = None \<or> v = Some (RText [])"

definition get_key :: "env \<Rightarrow> position_identifier \<Rightarrow> string \<Rightarrow> (world, redis_value option) prog" where
  "get_key E p name = bindE (liftE (name_to_key p name)) (redis_get E)"

definition get_key_no_null :: "env \<Rightarrow> position_identifier \<Rightarrow> string \<Rightarrow> (world, redis_value) prog" where
  "get_key_no_null E p name =
     bindE (get_key E p name) (\<lambda>v.
       if falsy v then throwE (Err (name @ '' missing from position'')) else returnE (the v))"

definition set_position_size :: "bignum \<Rightarrow> env \<Rightarrow> position_identifier \<Rightarrow> rat \<Rightarrow> (world, unit) prog" where
  "set_position_size B E p position_size =
     bindE (liftE (name_to_key p ''position_size''))
       (\<lambda>key. redis_set E key (RInt (to_sats B position_size)))"

definition get_sats_key :: "bignum \<Rightarrow> env \<Rightarrow> position_identifier \<Rightarrow> string \<Rightarrow> (world, rat) prog" where
  "get_sats_key B E p name =
     bindE (get_key_no_null E p name) (\<lambda>v.
     bindE (liftE (value_number B v)) (\<lambda>n. returnE (from_sats B n)))"

definition value_text :: "redis_value \<Rightarrow> js_error + string" where
  "value_text v = (case v of RText s \<Rightarrow> Inr s | _ \<Rightarrow> Inl (Err ''not a text''))"

definition get_string_key_no_null :: "env \<Rightarrow> position_identifier \<Rightarrow> string \<Rightarrow> (world, string) prog" where
  "get_string_key_no_null E p name = bindE (get_key_no_null E p name) (\<lambda>v. liftE (value_text v))"

definition get_string_key_null_allowed ::
    "env \<Rightarrow> position_identifier \<Rightarrow> string \<Rightarrow> (world, redis_value option) prog" where
  "get_string_key_null_allowed E p name =
     bindE (get_key E p name) (\<lambda>v. returnE (if falsy v then None else v))"

definition set_string_key :: "env \<Rightarrow> position_identifier \<Rightarrow> string \<Rightarrow> redis_value \<Rightarrow> (world, unit) prog" where
  "set_string_key E p name v = bindE (liftE (name_to_key p name)) (\<lambda>key. redis_set E key v)"

definition get_number_key :: "env \<Rightarrow> position_identifier \<Rightarrow> string \<Rightarrow> (world, int) prog" where
  "get_number_key E p name =
     bindE (get_key_no_null E p name) (\<lambda>v. case v of RInt n \<Rightarrow> returnE n | _ \<Rightarrow> throwE (Err ''not a number''))"

text \<open>Every failure of the lookup is read as a size of zero.\<close>

definition get_position_size :: "bignum \<Rightarrow> env \<Rightarrow> position_identifier \<Rightarrow> (world, rat) prog" where
  "get_position_size B E p = tryE (get_sats_key B E p ''position_size'') (\<lambda>_. returnE 0)"

definition get_initial_entry_price :: "bignum \<Rightarrow> env \<Rightarrow> position_identifier \<Rightarrow> (world, rat) prog" where
  "get_initial_entry_price B E p = get_sats_key B E p ''initial_entry_price''"

definition get_initial_entry_position_size :: "bignum \<Rightarrow> env \<Rightarrow> position_identifier \<Rightarrow> (world, rat) prog" where
  "get_initial_entry_position_size B E p = get_sats_key B E p ''initial_entry_position_size''"

definition get_initial_entry_quote_asset :: "env \<Rightarrow> position_identifier \<Rightarrow> (world, string) prog" where
  "get_initial_entry_quote_asset E p = get_string_key_no_null E p ''initial_entry_quote_asset''"

definition get_initial_entry_timestamp :: "env \<Rightarrow> position_identifier \<Rightarrow> (world, int) prog" where
  "get_initial_entry_timestamp E p = get_number_key E p ''initial_entry_timestamp''"

definition get_initial_quote_invested :: "bignum \<Rightarrow> env \<Rightarrow> position_identifier \<Rightarrow> (world, rat) prog" where
  "get_initial_quote_invested B E p = get_sats_key B E p ''initial_quote_invested''"

definition get_edge :: "env \<Rightarrow> position_identifier \<Rightarrow> (world, string) prog" where
  "get_edge E p = get_string_key_no_null E p ''edge''"

section \<open>Orders, stops and OCOs of a position\<close>

text \<open>
  The replacer array given to \<open>JSON.stringify\<close> keeps only properties named like the order's own, at
  every depth: of the nested exchange identifier only its version is written.
\<close>

definition stringify_order :: "generic_order_data \<Rightarrow> order_core" where
  "stringify_order o' = order_core.truncate o'"

definition add_orders :: "env \<Rightarrow> position_identifier \<Rightarrow> generic_order_data list \<Rightarrow> (world, nat) prog" where
  "add_orders E p orders =
     bindE (liftE (name_to_key p ''orders'')) (\<lambda>key. redis_sadd E key (map stringify_order orders))"

definition get_orders :: "env \<Rightarrow> position_identifier \<Rightarrow> (world, order_core list) prog" where
  "get_orders E p = bindE (liftE (name_to_key p ''orders'')) (redis_smembers E)"

definition set_stop_order :: "env \<Rightarrow> position_identifier \<Rightarrow> string \<Rightarrow> (world, unit) prog" where
  "set_stop_order E p order_id = set_string_key E p ''stop_order_id'' (RText order_id)"

definition get_stop_order :: "env \<Rightarrow> position_identifier \<Rightarrow> (world, string option) prog" where
  "get_stop_order E p =
     tryE (bindE (get_string_key_null_allowed E p ''stop_order_id'') (\<lambda>v.
             case v of None \<Rightarrow> returnE None | Some x \<Rightarrow> bindE (liftE (value_text x)) (\<lambda>s. returnE (Some s))))
       (\<lambda>_. returnE None)"

definition set_stop_price :: "env \<Rightarrow> position_identifier \<Rightarrow> rat \<Rightarrow> (world, unit) prog" where
  "set_stop_price E p stop_price = set_string_key E p ''stop_order_price'' (RDecimal stop_price)"

definition get_stop_price :: "bignum \<Rightarrow> env \<Rightarrow> position_identifier \<Rightarrow> (world, rat option) prog" where
  "get_stop_price B E p =
     tryE (bindE (get_string_key_null_allowed E p ''stop_order_price'') (\<lambda>v.
             case v of None \<Rightarrow> returnE None | Some x \<Rightarrow> bindE (liftE (value_number B x)) (\<lambda>s. returnE (Some s))))
       (\<lambda>_. returnE None)"

definition set_oco_order :: "env \<Rightarrow> position_identifier \<Rightarrow> string \<Rightarrow> (world, unit) prog" where
  "set_oco_order E p order_id = set_string_key E p ''oco_order_id'' (RText order_id)"

definition get_oco_order :: "env \<Rightarrow> position_identifier \<Rightarrow> (world, string option) prog" where
  "get_oco_order E p =
     bindE (get_string_key_null_allowed E p ''oco_order_id'') (\<lambda>v.
       case v of None \<Rightarrow> returnE None | Some x \<Rightarrow> bindE (liftE (value_text x)) (\<lambda>s. returnE (Some s)))"

section \<open>Creating, adjusting and deleting positions\<close>

text \<open>\<open>SpotPositionInitialisationData\<close>.\<close>

record position_init =
  in_initial_entry_timestamp :: int
  in_position_size :: rat
  in_initial_quote_invested :: rat
  in_initial_entry_quote_asset :: string
  in_initial_entry_price :: rat
  in_orders :: "generic_order_data list"
  in_edge :: "string option"

text \<open>\<open>Promise.all\<close> of two started promises: both run, a failure of either is the result.\<close>

definition promise_all2 :: "('s, 'a) prog \<Rightarrow> ('s, 'b) prog \<Rightarrow> ('s, unit) prog" where
  "promise_all2 m k =
     bindE (tryE (bindE m (\<lambda>_. returnE None)) (\<lambda>e. returnE (Some e))) (\<lambda>failed.
     seqE k (case failed of None \<Rightarrow> returnE () | Some e \<Rightarrow> throwE e))"

text \<open>
  The keys are computed before either command is awaited.  The client rejects a command with an
  argument that is not a string, which an undefined edge is.
\<close>

definition create_new_position :: "bignum \<Rightarrow> env \<Rightarrow> position_identifier \<Rightarrow> position_init \<Rightarrow> (world, unit) prog" where
  "create_new_position B E p spid =
     seqE (assertE (0 \<le> in_initial_quote_invested spid) ''assert(initial_quote_invested.isPositive())'')
     (bindE (liftE (position_prefix p)) (\<lambda>prefix.
      promise_all2 (add_orders E p (in_orders spid))
        (case in_edge spid of
           None \<Rightarrow> throwE (Err ''TypeError: Invalid argument type'')
         | Some edge \<Rightarrow>
             redis_mset E
               [(prefix @ '':initial_entry_timestamp'', RInt (in_initial_entry_timestamp spid)),
                (prefix @ '':sats_initial_entry_position_size'', RInt (to_sats B (in_position_size spid))),
                (prefix @ '':sats_position_size'', RInt (to_sats B (in_position_size spid))),
                (prefix @ '':sats_initial_quote_invested'', RInt (to_sats B (in_initial_quote_invested spid))),
                (prefix @ '':sats_initial_entry_price'', RInt (to_sats B (in_initial_entry_price spid))),
                (prefix @ '':initial_entry_quote_asset'', RText (in_initial_entry_quote_asset spid)),
                (prefix @ '':sats_edge'', RText edge)])))"

definition patch_initial_entry_quote_asset ::
    "env \<Rightarrow> position_identifier \<Rightarrow> string \<Rightarrow> (world, unit) prog" where
  "patch_initial_entry_quote_asset E p initial_entry_quote_asset =
     bindE (liftE (name_to_key p ''initial_entry_quote_asset''))
       (\<lambda>key. redis_set E key (RText initial_entry_quote_asset))"

definition patch_initial_entry_timestamp ::
    "env \<Rightarrow> position_identifier \<Rightarrow> int \<Rightarrow> (world, unit) prog" where
  "patch_initial_entry_timestamp E p initial_entry_timestamp =
     bindE (liftE (name_to_key p ''initial_entry_timestamp''))
       (\<lambda>key. redis_set E key (RInt initial_entry_timestamp))"

text \<open>The size is read before and after for a log line; neither reading can fail.\<close>

definition adjust_position_size_by :: "bignum \<Rightarrow> env \<Rightarrow> position_identifier \<Rightarrow> rat \<Rightarrow> (world, unit) prog" where
  "adjust_position_size_by B E p base_change =
     bindE (get_position_size B E p) (\<lambda>before.
     bindE (liftE (name_to_key p ''position_size'')) (\<lambda>key.
     bindE (redis_incrby E key (double_of_int (to_sats B base_change))) (\<lambda>_.
     bindE (get_position_size B E p) (\<lambda>_. returnE ()))))"

definition delete_position :: "env \<Rightarrow> position_identifier \<Rightarrow> (world, unit) prog" where
  "delete_position E p =
     bindE (liftE (position_prefix p)) (\<lambda>prefix.
     bindE (redis_keys E (prefix @ '':*'')) (redis_del E))"

section \<open>Listing open positions\<close>

text \<open>
  The regular expression
  \<open>:spot:([^:]+):([^:]+):([^:]+):([^:]+):sats_position_size\<close> over the parts between colons, the
  part before the first colon left out; its end is not anchored.
\<close>

fun match_position_parts :: "string list \<Rightarrow> (string \<times> string \<times> string \<times> string) option" where
  "match_position_parts (s # x # a # b # e # n # rest) =
     (if s = ''spot'' \<and> x \<noteq> [] \<and> a \<noteq> [] \<and> b \<noteq> [] \<and> e \<noteq> [] \<and> is_prefix_of ''sats_position_size'' n
      then Some (x, a, b, e) else match_position_parts (x # a # b # e # n # rest))"
| "match_position_parts _ = None"

definition key_to_position :: "string \<Rightarrow> js_error + position_identifier" where
  "key_to_position key =
     (case match_position_parts (tl (split_on (CHR '':'') key)) of
        None \<Rightarrow> Inl (Err (''Key '' @ key @ '' did not match regexp''))
      | Some (exchange, account, base_asset, edge) \<Rightarrow>
          Inr \<lparr>pi_exchange_identifier = \<lparr>ei_exchange = exchange, ei_type = Spot\<rparr>,
               pi_edge = Some edge, pi_base_asset = base_asset\<rparr>)"

fun map_result :: "('a \<Rightarrow> js_error + 'b) \<Rightarrow> 'a list \<Rightarrow> js_error + 'b list" where
  "map_result f [] = Inr []"
| "map_result f (x # xs) =
     (case f x of Inl e \<Rightarrow> Inl e
      | Inr y \<Rightarrow> (case map_result f xs of Inl e \<Rightarrow> Inl e | Inr ys \<Rightarrow> Inr (y # ys)))"

definition open_positions :: "env \<Rightarrow> (world, position_identifier list) prog" where
  "open_positions E =
     bindE (redis_keys E (key_base @ '':*:sats_position_size'')) (\<lambda>keys. liftE (map_result key_to_position keys))"

section \<open>The persistence interface\<close>

text \<open>\<open>SpotPositionObject\<close>.\<close>

record position_object =
  po_position_size :: rat
  po_initial_entry_price :: "rat option"
  po_initial_entry_position_size :: rat
  po_initial_entry_quote_asset :: string
  po_initial_quote_invested :: "rat option"
  po_initial_entry_timestamp :: int
  po_orders :: "order_core list"
  po_edge :: string
  po_stop_order_id :: "string option"

text \<open>\<open>try { x = await m } catch (e) {}\<close>: the variable stays undefined.\<close>

definition try_option :: "('s, 'a) prog \<Rightarrow> ('s, 'a option) prog" where
  "try_option m = tryE (bindE m (\<lambda>x. returnE (Some x))) (\<lambda>_. returnE None)"

definition describe_position :: "bignum \<Rightarrow> env \<Rightarrow> position_identifier \<Rightarrow> (world, position_object) prog" where
  "describe_position B E p =
     bindE (get_position_size B E p) (\<lambda>position_size.
     bindE (get_initial_entry_position_size B E p) (\<lambda>initial_entry_position_size.
     bindE (get_initial_entry_quote_asset E p) (\<lambda>initial_entry_quote_asset.
     bindE (get_initial_entry_timestamp E p) (\<lambda>initial_entry_timestamp.
     bindE (get_orders E p) (\<lambda>orders.
     bindE (get_edge E p) (\<lambda>edge.
     bindE (try_option (get_initial_entry_price B E p)) (\<lambda>initial_entry_price.
     bindE (try_option (get_initial_quote_invested B E p)) (\<lambda>initial_quote_invested.
     bindE (get_stop_order E p) (\<lambda>stop_order_id.
     returnE \<lparr>po_position_size = position_size, po_initial_entry_price = initial_entry_price,
       po_initial_entry_position_size = initial_entry_position_size,
       po_initial_entry_quote_asset = initial_entry_quote_asset,
       po_initial_quote_invested = initial_quote_invested,
       po_initial_entry_timestamp = initial_entry_timestamp, po_orders = orders, po_edge = edge,
       po_stop_order_id = stop_order_id\<rparr>)))))))))"

text \<open>The operations of \<open>SpotPositionsPersistence\<close> that change or measure a position.\<close>

record 's persistence =
  ps_position_size :: "position_identifier \<Rightarrow> ('s, rat) prog"
  ps_add_orders :: "position_identifier \<Rightarrow> generic_order_data list \<Rightarrow> ('s, nat) prog"
  ps_initialise_position :: "position_identifier \<Rightarrow> position_init \<Rightarrow> ('s, unit) prog"
  ps_adjust_position_size_by :: "position_identifier \<Rightarrow> rat \<Rightarrow> ('s, unit) prog"
  ps_delete_position :: "position_identifier \<Rightarrow> ('s, unit) prog"
  ps_as_spot_position_object :: "position_identifier \<Rightarrow> ('s, position_object) prog"

definition redis_persistence :: "bignum \<Rightarrow> env \<Rightarrow> world persistence" where
  "redis_persistence B E =
     \<lparr>ps_position_size = get_position_size B E, ps_add_orders = add_orders E,
      ps_initialise_position = create_new_position B E,
      ps_adjust_position_size_by = adjust_position_size_by B E,
      ps_delete_position = delete_position E, ps_as_spot_position_object = describe_position B E\<rparr>"

lemma redis_persistence_sel:
  "ps_position_size (redis_persistence B E) = get_position_size B E"
  "ps_add_orders (redis_persistence B E) = add_orders E"
  "ps_initialise_position (redis_persistence B E) = create_new_position B E"
  "ps_adjust_position_size_by (redis_persistence B E) = adjust_position_size_by B E"
  "ps_delete_position (redis_persistence B E) = delete_position E"
  "ps_as_spot_position_object (redis_persistence B E) = describe_position B E"
  by (simp_all add: redis_persistence_def)

definition in_position :: "'s persistence \<Rightarrow> position_identifier \<Rightarrow> ('s, bool) prog" where
  "in_position P p = bindE (ps_position_size P p) (\<lambda>n. returnE (n > 0))"

section \<open>SpotPosition\<close>

definition genericOrderDataToSpotPositionInitialisationData ::
    "generic_order_data \<Rightarrow> string option \<Rightarrow> js_error + position_init" where
  "genericOrderDataToSpotPositionInitialisationData ord edge =
     (case o_averageExecutionPrice ord of
        None \<Rightarrow> Inl (Err ''[BigNumber Error] Not a number: undefined'')
      | Some price \<Rightarrow>
          Inr \<lparr>in_initial_entry_timestamp = o_orderTime ord, in_position_size = o_totalBaseTradeQuantity ord,
               in_initial_quote_invested = o_totalQuoteTradeQuantity ord,
               in_initial_entry_quote_asset = o_quoteAsset ord, in_initial_entry_price = price,
               in_orders = [ord], in_edge = edge\<rparr>)"

definition add_order_to_position ::
    "'s persistence \<Rightarrow> position_identifier \<Rightarrow> generic_order_data \<Rightarrow> ('s, unit) prog" where
  "add_order_to_position P p ord =
     (if o_baseAsset ord \<noteq> pi_base_asset p
      then throwE (Err ''Unexpected base_asset in call to Position.add_order_to_position'')
      else
        bindE (ps_add_orders P p [ord]) (\<lambda>num_added.
          if num_added = 0 then returnE ()
          else
            bindE (ps_position_size P p) (\<lambda>n.
              if n = 0 then
                bindE (liftE (genericOrderDataToSpotPositionInitialisationData ord (pi_edge p)))
                  (ps_initialise_position P p)
              else
                ps_adjust_position_size_by P p
                  (if o_side ord = BUY then o_totalBaseTradeQuantity ord else - o_totalBaseTradeQuantity ord))))"

text \<open>\<open>None\<close>: the quotient by zero, \<open>Infinity\<close> or \<open>NaN\<close>.\<close>

definition percentage_price_change_since_initial_entry ::
    "bignum \<Rightarrow> env \<Rightarrow> position_identifier \<Rightarrow> rat \<Rightarrow> (world, rat option) prog" where
  "percentage_price_change_since_initial_entry B E p current_price =
     bindE (get_initial_entry_price B E p) (\<lambda>initial_entry_price.
       returnE (if initial_entry_price = 0 then None
                else Some (bn_div B (current_price - initial_entry_price) initial_entry_price * 100)))"

definition get_SpotPositionOpenedEvent ::
    "'s persistence \<Rightarrow> position_identifier \<Rightarrow> ('s, position_opened_event) prog" where
  "get_SpotPositionOpenedEvent P p =
     bindE (ps_as_spot_position_object P p) (\<lambda>ob.
     returnE \<lparr>ev_edge = po_edge ob, ev_exchange_identifier = pi_exchange_identifier p,
       ev_base_asset = pi_base_asset p, ev_entry_signal_timestamp_ms = po_initial_entry_timestamp ob,
       ev_initial_entry_timestamp_ms = po_initial_entry_timestamp ob,
       ev_initial_entry_executed_price = po_initial_entry_price ob,
       ev_initial_entry_quote_asset = po_initial_entry_quote_asset ob,
       ev_initial_entry_quote_invested = po_initial_quote_invested ob,
       ev_initial_entry_position_size = po_initial_entry_position_size ob,
       ev_orders = po_orders ob\<rparr>)"

text \<open>
  \<open>.dividedBy(0).times(100).dp(3)\<close> is infinite or \<open>NaN\<close>: no percentage in the model; everything else
  of the event is as in the code.
\<close>

definition get_SpotPositionClosedEvent ::
    "bignum \<Rightarrow> 's persistence \<Rightarrow> position_identifier \<Rightarrow> int \<Rightarrow> rat \<Rightarrow> string \<Rightarrow> rat \<Rightarrow> rat \<Rightarrow>
     ('s, position_closed_event) prog" where
  "get_SpotPositionClosedEvent B P p exit_timestamp_ms exit_executed_price exit_quote_asset
       exit_quote_returned exit_position_size =
     bindE (ps_as_spot_position_object P p) (\<lambda>ob.
     (let abs_quote_change = map_option (\<lambda>q. exit_quote_returned - q) (po_initial_quote_invested ob);
          percentage_quote_change =
            (case po_initial_quote_invested ob of
               None \<Rightarrow> None
             | Some q \<Rightarrow> if q = 0 then None
                 else Some (bn_dp B 3 (bn_div B (exit_quote_returned - q) q * 100))) in
     returnE \<lparr>ev_edge = po_edge ob, ev_exchange_identifier = pi_exchange_identifier p,
       ev_base_asset = pi_base_asset p, ev_entry_signal_timestamp_ms = po_initial_entry_timestamp ob,
       ev_initial_entry_timestamp_ms = po_initial_entry_timestamp ob,
       ev_initial_entry_executed_price = po_initial_entry_price ob,
       ev_initial_entry_quote_asset = po_initial_entry_quote_asset ob,
       ev_initial_entry_quote_invested = po_initial_quote_invested ob,
       ev_initial_entry_position_size = po_initial_entry_position_size ob,
       ev_orders = po_orders ob,
       ev_exit_timestamp_ms = exit_timestamp_ms, ev_exit_executed_price = exit_executed_price,
       ev_exit_quote_asset = exit_quote_asset, ev_exit_quote_returned = exit_quote_returned,
       ev_exit_position_size = exit_position_size,
       ev_total_quote_invested = po_initial_quote_invested ob,
       ev_total_quote_returned = exit_quote_returned, ev_abs_quote_change = abs_quote_change,
       ev_percentage_quote_change = percentage_quote_change\<rparr>))"

section \<open>Order contexts\<close>

definition order_context_key :: "exchange_identifier \<Rightarrow> string \<Rightarrow> string" where
  "order_context_key ei order_id =
     ''OrderToEdgeMapper:'' @ exchange_identifier_to_redis_key_snippet ei @ '':'' @ order_id"

definition set_order_context_for_order ::
    "env \<Rightarrow> exchange_identifier \<Rightarrow> string \<Rightarrow> order_context \<Rightarrow> (world, unit) prog" where
  "set_order_context_for_order E ei order_id ctx =
     (if order_id = [] then throwE (Err ''null order_id in set_order_context_for_order'')
      else redis_set E (order_context_key ei order_id) (RContext ctx))"

definition get_order_context_for_order ::
    "env \<Rightarrow> exchange_identifier \<Rightarrow> string \<Rightarrow> (world, order_context) prog" where
  "get_order_context_for_order E ei order_id =
     (if order_id = [] then throwE (Err ''null order_id in get_order_context_for_order'')
      else bindE (redis_get E (order_context_key ei order_id)) (\<lambda>v.
        case v of
          Some (RContext ctx) \<Rightarrow> returnE ctx
        | Some (RText s) \<Rightarrow> throwE (Err (if s = [] then ''No OrderContext found for order '' @ order_id else ''SyntaxError''))
        | Some _ \<Rightarrow> throwE (Err ''not an order context'')
        | None \<Rightarrow> throwE (Err (''No OrderContext found for order '' @ order_id))))"

section \<open>The contract of the persistence and what its clients get from it\<close>

text \<open>
  Abstractly a position is a size in satoshis and a set of orders.  Adding an order: nothing when the
  order is known; otherwise it is recorded and opens the position with its own size when the size is
  zero, whatever its side, and else adds or subtracts its amount.
\<close>

type_synonym position_view = "int \<times> order_core set"

definition apply_order :: "(rat \<Rightarrow> int) \<Rightarrow> (rat \<Rightarrow> int) \<Rightarrow> generic_order_data \<Rightarrow> position_view \<Rightarrow> position_view" where
  "apply_order sats bump ord v =
     (if stringify_order ord \<in> snd v then v
      else (if fst v = 0 then sats (o_totalBaseTradeQuantity ord)
            else fst v + bump (if o_side ord = BUY then o_totalBaseTradeQuantity ord
                               else - o_totalBaseTradeQuantity ord),
            insert (stringify_order ord) (snd v)))"

locale positions_persistence =
  fixes P :: "'s persistence"
    and view :: "'s \<Rightarrow> position_identifier \<Rightarrow> position_view"
    and inv :: "'s \<Rightarrow> bool"
    and okp :: "position_identifier \<Rightarrow> bool"
    and sats bump :: "rat \<Rightarrow> int"
    and fits :: "int \<Rightarrow> bool"
  assumes okp_edge: "okp p \<Longrightarrow> \<exists>e. pi_edge p = Some e"
    and size_law: "inv s \<Longrightarrow> okp p \<Longrightarrow>
      wp (ps_position_size P p) (\<lambda>x t. x = of_int (fst (view s p)) / 10 ^ 8 \<and> inv t \<and> view t = view s) (\<lambda>_ _. False) s"
    and add_law: "inv s \<Longrightarrow> okp p \<Longrightarrow>
      wp (ps_add_orders P p [ord])
        (\<lambda>n t. (n = 0 \<longleftrightarrow> stringify_order ord \<in> snd (view s p)) \<and> inv t \<and>
           view t = (view s)(p := (fst (view s p), insert (stringify_order ord) (snd (view s p)))))
        (\<lambda>_ _. False) s"
    and init_law: "inv s \<Longrightarrow> okp p \<Longrightarrow> 0 \<le> in_initial_quote_invested d \<Longrightarrow> in_edge d \<noteq> None \<Longrightarrow> fits (sats (in_position_size d)) \<Longrightarrow>
      wp (ps_initialise_position P p d)
        (\<lambda>_ t. inv t \<and> view t = (view s)(p := (sats (in_position_size d),
           snd (view s p) \<union> stringify_order ` set (in_orders d)))) (\<lambda>_ _. False) s"
    and adjust_law: "inv s \<Longrightarrow> okp p \<Longrightarrow> fits (bump x) \<Longrightarrow> fits (fst (view s p) + bump x) \<Longrightarrow>
      wp (ps_adjust_position_size_by P p x)
        (\<lambda>_ t. inv t \<and> view t = (view s)(p := (fst (view s p) + bump x, snd (view s p)))) (\<lambda>_ _. False) s"
    and delete_law: "inv s \<Longrightarrow> okp p \<Longrightarrow> snd (view s p) \<noteq> {} \<Longrightarrow>
      wp (ps_delete_position P p) (\<lambda>_ t. inv t \<and> view t = (view s)(p := (0, {}))) (\<lambda>_ _. False) s"
begin

text \<open>What an order must satisfy to be added without an error.\<close>

definition acceptable :: "position_identifier \<Rightarrow> generic_order_data \<Rightarrow> position_view \<Rightarrow> bool" where
  "acceptable p ord v \<longleftrightarrow> o_baseAsset ord = pi_base_asset p \<and> o_averageExecutionPrice ord \<noteq> None \<and>
     0 \<le> o_totalQuoteTradeQuantity ord \<and> fits (sats (o_totalBaseTradeQuantity ord)) \<and>
     fits (bump (o_totalBaseTradeQuantity ord)) \<and> fits (bump (- o_totalBaseTradeQuantity ord)) \<and>
     fits (fst (apply_order sats bump ord v))"

lemma add_order_spec:
  assumes "inv s" "okp p" "acceptable p ord (view s p)"
  shows "wp (add_order_to_position P p ord)
    (\<lambda>_ t. inv t \<and> view t = (view s)(p := apply_order sats bump ord (view s p))) (\<lambda>_ _. False) s"
proof -
  let ?v = "view s p" and ?c = "stringify_order ord"
  let ?Q = "\<lambda>(_::unit) t. inv t \<and> view t = (view s)(p := apply_order sats bump ord ?v)"
  obtain e where e: "pi_edge p = Some e" using okp_edge assms(2) by auto
  obtain price where price: "o_averageExecutionPrice ord = Some price"
    using assms(3) by (auto simp: acceptable_def)
  note acc = assms(3) [unfolded acceptable_def]
  have init: "wp (bindE (liftE (genericOrderDataToSpotPositionInitialisationData ord (pi_edge p)))
        (ps_initialise_position P p)) ?Q (\<lambda>_ _. False) t"
    if "inv t" "view t = (view s)(p := (0, insert ?c (snd ?v)))" "fst ?v = 0" "?c \<notin> snd ?v" for t
  proof -
    let ?d = "\<lparr>in_initial_entry_timestamp = o_orderTime ord, in_position_size = o_totalBaseTradeQuantity ord,
        in_initial_quote_invested = o_totalQuoteTradeQuantity ord,
        in_initial_entry_quote_asset = o_quoteAsset ord, in_initial_entry_price = price,
        in_orders = [ord], in_edge = pi_edge p\<rparr>"
    have "wp (ps_initialise_position P p ?d) ?Q (\<lambda>_ _. False) t"
      by (rule wp_mono [OF init_law [OF that(1) assms(2)]]) (use acc e that in \<open>auto simp: apply_order_def\<close>)
    then show ?thesis by (simp add: genericOrderDataToSpotPositionInitialisationData_def price)
  qed
  have adjust: "wp (ps_adjust_position_size_by P p
        (if o_side ord = BUY then o_totalBaseTradeQuantity ord else - o_totalBaseTradeQuantity ord)) ?Q (\<lambda>_ _. False) t"
    if "inv t" "view t = (view s)(p := (fst ?v, insert ?c (snd ?v)))" "fst ?v \<noteq> 0" "?c \<notin> snd ?v" for t
    by (rule wp_mono [OF adjust_law [OF that(1) assms(2)]]) (use acc that in \<open>auto simp: apply_order_def\<close>)
  have "wp (bindE (ps_add_orders P p [ord]) (\<lambda>num_added.
          if num_added = 0 then returnE ()
          else bindE (ps_position_size P p) (\<lambda>n.
              if n = 0 then bindE (liftE (genericOrderDataToSpotPositionInitialisationData ord (pi_edge p)))
                  (ps_initialise_position P p)
              else ps_adjust_position_size_by P p
                  (if o_side ord = BUY then o_totalBaseTradeQuantity ord else - o_totalBaseTradeQuantity ord))))
      ?Q (\<lambda>_ _. False) s"
  proof (rule wp_bind_rule [OF add_law [OF assms(1,2), of ord]], goal_cases)
    case (1 n t)
    show ?case
    proof (cases "n = 0")
      case True
      with 1 show ?thesis by (auto simp: apply_order_def insert_absorb)
    next
      case False
      with 1 have new: "?c \<notin> snd ?v" and t: "inv t" "view t = (view s)(p := (fst ?v, insert ?c (snd ?v)))"
        by auto
      show ?thesis unfolding if_not_P [OF False]
        by (rule wp_bind_rule [OF size_law [OF t(1) assms(2)]])
          (use new t init adjust in \<open>auto split: if_split simp del: wp_bindE\<close>)
    qed
  qed
  then show ?thesis using acc by (simp add: add_order_to_position_def)
qed

lemma add_known_order:
  assumes "inv s" "okp p" "o_baseAsset ord = pi_base_asset p" "stringify_order ord \<in> snd (view s p)"
  shows "wp (add_order_to_position P p ord) (\<lambda>_ t. inv t \<and> view t = view s) (\<lambda>_ _. False) s"
proof -
  have "wp (bindE (ps_add_orders P p [ord]) (\<lambda>n. if n = 0 then returnE () else G n))
      (\<lambda>_ t. inv t \<and> view t = view s) (\<lambda>_ _. False) s" for G
  proof (rule wp_bind_rule [OF add_law [OF assms(1,2), of ord]], goal_cases)
    case (1 n t)
    then have "n = 0" "inv t" "view t = view s" using assms(4) by (auto simp: insert_absorb)
    then show ?case by simp
  qed
  then show ?thesis using assms(3) by (simp add: add_order_to_position_def)
qed

text \<open>Orders delivered in a batch.\<close>

lemma add_orders_run:
  "inv s \<Longrightarrow> okp p \<Longrightarrow>
   (\<forall>n < length os. acceptable p (os ! n) (fold (apply_order sats bump) (take n os) (view s p))) \<Longrightarrow>
   wp (forE os (add_order_to_position P p))
     (\<lambda>_ t. inv t \<and> view t = (view s)(p := fold (apply_order sats bump) os (view s p))) (\<lambda>_ _. False) s"
proof (induction os arbitrary: s)
  case (Cons ord os)
  have acc: "acceptable p ord (view s p)" using Cons.prems(3) by force
  have rest: "\<forall>n < length os. acceptable p (os ! n)
      (fold (apply_order sats bump) (take n os) (apply_order sats bump ord (view s p)))"
    using Cons.prems(3) by (metis Suc_mono fold_simps(2) length_Cons nth_Cons_Suc take_Suc_Cons)
  show ?case
    unfolding forE.simps seqE_def
    by (rule wp_bind_rule [OF add_order_spec [OF Cons.prems(1,2) acc]])
      (rule wp_mono [OF Cons.IH], use Cons.prems(2) rest in auto)
qed simp

end

text \<open>Redelivered orders change nothing.\<close>

lemma apply_order_known: "stringify_order ord \<in> snd v \<Longrightarrow> apply_order sats bump ord v = v"
  by (simp add: apply_order_def)

lemma apply_order_records: "insert (stringify_order ord) (snd v) = snd (apply_order sats bump ord v)"
  by (auto simp: apply_order_def)

fun first_deliveries :: "order_core set \<Rightarrow> generic_order_data list \<Rightarrow> generic_order_data list" where
  "first_deliveries seen [] = []"
| "first_deliveries seen (ord # os) =
     (if stringify_order ord \<in> seen then first_deliveries seen os
      else ord # first_deliveries (insert (stringify_order ord) seen) os)"

lemma fold_apply_first_deliveries:
  "fold (apply_order sats bump) os v = fold (apply_order sats bump) (first_deliveries (snd v) os) v"
proof (induction os arbitrary: v)
  case (Cons ord os)
  then show ?case
    by (simp add: apply_order_known insert_absorb flip: apply_order_records [of ord v sats bump])
qed simp

section \<open>The Redis implementation meets the contract\<close>

text \<open>Identifiers whose parts can be told apart in a key and in a glob pattern.\<close>

definition plain :: "string \<Rightarrow> bool" where
  "plain s \<longleftrightarrow> s \<noteq> [] \<and> CHR '':'' \<notin> set s \<and> CHR ''*'' \<notin> set s"

definition plain_identifier :: "position_identifier \<Rightarrow> bool" where
  "plain_identifier p \<longleftrightarrow> ei_type (pi_exchange_identifier p) = Spot \<and>
     plain (ei_exchange (pi_exchange_identifier p)) \<and> plain (pi_base_asset p) \<and>
     (\<exists>e. pi_edge p = Some e \<and> plain e)"

definition prefix_of :: "position_identifier \<Rightarrow> string" where
  "prefix_of p = key_base @ '':spot:'' @ ei_exchange (pi_exchange_identifier p) @ '':default:'' @
     pi_base_asset p @ '':'' @ edge_text (pi_edge p)"

definition size_key :: "position_identifier \<Rightarrow> string" where
  "size_key p = prefix_of p @ '':sats_position_size''"

definition orders_key :: "position_identifier \<Rightarrow> string" where
  "orders_key p = prefix_of p @ '':orders''"

lemma plain_prefix: "plain_identifier p \<Longrightarrow> position_prefix p = Inr (prefix_of p)"
  by (simp add: plain_identifier_def position_prefix_def prefix_of_def)

lemma plain_keys:
  assumes "plain_identifier p"
  shows "name_to_key p ''position_size'' = Inr (size_key p)" "name_to_key p ''orders'' = Inr (orders_key p)"
  using assms by (simp_all add: name_to_key_def plain_prefix sats_names_def size_key_def orders_key_def)

lemma split_prefix:
  assumes "plain_identifier p"
  shows "split_on (CHR '':'') (prefix_of p @ CHR '':'' # zs) =
    [''positions-v3'', ''spot'', ei_exchange (pi_exchange_identifier p), ''default'', pi_base_asset p,
     the (pi_edge p)] @ split_on (CHR '':'') zs"
proof -
  obtain e where e: "pi_edge p = Some e" "plain e" using assms by (auto simp: plain_identifier_def)
  let ?str = "''positions-v3'' @ CHR '':'' # ''spot'' @ CHR '':'' #
      ei_exchange (pi_exchange_identifier p) @ CHR '':'' # ''default'' @ CHR '':'' # pi_base_asset p @
      CHR '':'' # e @ CHR '':'' # zs"
  have eq: "prefix_of p @ CHR '':'' # zs = ?str"
    by (simp add: prefix_of_def key_base_def edge_text_def e)
  have no: "CHR '':'' \<notin> set ''positions-v3''" "CHR '':'' \<notin> set ''spot''" "CHR '':'' \<notin> set ''default''"
    "CHR '':'' \<notin> set (ei_exchange (pi_exchange_identifier p))" "CHR '':'' \<notin> set (pi_base_asset p)"
    "CHR '':'' \<notin> set e"
    using assms e(2) by (simp_all add: plain_def plain_identifier_def)
  have "split_on (CHR '':'') ?str =
    [''positions-v3'', ''spot'', ei_exchange (pi_exchange_identifier p), ''default'', pi_base_asset p, e] @
      split_on (CHR '':'') zs"
    unfolding split_on_append [OF no(1)] split_on_append [OF no(2)] split_on_append [OF no(3)]
      split_on_append [OF no(4)] split_on_append [OF no(5)] split_on_append [OF no(6)] by simp
  then show ?thesis unfolding eq by (simp add: e)
qed

lemma plain_identifier_eqI:
  "plain_identifier p \<Longrightarrow> plain_identifier q \<Longrightarrow>
   ei_exchange (pi_exchange_identifier p) = ei_exchange (pi_exchange_identifier q) \<Longrightarrow>
   pi_base_asset p = pi_base_asset q \<Longrightarrow> the (pi_edge p) = the (pi_edge q) \<Longrightarrow> p = q"
  by (auto simp: plain_identifier_def)

lemma prefix_separates:
  assumes "plain_identifier p" "plain_identifier q"
    and "prefix_of p @ CHR '':'' # a = prefix_of q @ CHR '':'' # b"
  shows "p = q" "a = b"
proof -
  have "split_on (CHR '':'') (prefix_of p @ CHR '':'' # a) = split_on (CHR '':'') (prefix_of q @ CHR '':'' # b)"
    by (simp only: assms(3))
  then show "p = q"
    using plain_identifier_eqI [OF assms(1,2)] by (simp add: split_prefix assms(1,2))
  with assms(3) show "a = b" by simp
qed

lemma key_eqs:
  assumes "plain_identifier p" "plain_identifier q"
  shows "prefix_of p @ CHR '':'' # a = size_key q \<longleftrightarrow> p = q \<and> a = ''sats_position_size''"
    and "prefix_of p @ CHR '':'' # a = orders_key q \<longleftrightarrow> p = q \<and> a = ''orders''"
    and "size_key p = size_key q \<longleftrightarrow> p = q" and "orders_key p = orders_key q \<longleftrightarrow> p = q"
    and "size_key p \<noteq> orders_key q" and "orders_key p \<noteq> size_key q"
  using prefix_separates [OF assms, of a "''sats_position_size''"] prefix_separates [OF assms, of a "''orders''"]
    prefix_separates [OF assms, of "''sats_position_size''" "''sats_position_size''"]
    prefix_separates [OF assms, of "''orders''" "''orders''"]
    prefix_separates [OF assms, of "''sats_position_size''" "''orders''"]
    prefix_separates [OF assms, of "''orders''" "''sats_position_size''"]
  by (auto simp: size_key_def orders_key_def)

text \<open>The abstract view of the store, and the typing of the keys the view reads.\<close>

definition redis_view :: "world \<Rightarrow> position_identifier \<Rightarrow> position_view" where
  "redis_view w p = (if \<not> plain_identifier p then (0, {}) else
     (case map_of (store w) (size_key p) of Some (RInt n) \<Rightarrow> n | _ \<Rightarrow> 0,
      case map_of (store w) (orders_key p) of Some (ROrders xs) \<Rightarrow> set xs | _ \<Rightarrow> {}))"

definition store_ok :: "world \<Rightarrow> bool" where
  "store_ok w \<longleftrightarrow> (\<forall>p. plain_identifier p \<longrightarrow>
     (case map_of (store w) (size_key p) of None \<Rightarrow> True | Some (RInt n) \<Rightarrow> int64 n | _ \<Rightarrow> False) \<and>
     (case map_of (store w) (orders_key p) of None \<Rightarrow> True | Some (ROrders xs) \<Rightarrow> True | _ \<Rightarrow> False))"

lemma view_trace [simp]: "redis_view (w\<lparr>trace := t\<rparr>) = redis_view w" "store_ok (w\<lparr>trace := t\<rparr>) = store_ok w"
  by (simp_all add: redis_view_def store_ok_def fun_eq_iff)

lemma from_sats_int:
  assumes "bignum_laws B"
  shows "from_sats B (of_int n) = of_int n / 10 ^ 8"
proof -
  have grid: "on_grid m (of_int n / 10 ^ 8)" if ge: "8 \<le> m" for m
  proof -
    obtain k where "m = 8 + k" using le_Suc_ex [OF ge] by blast
    then have "(of_int n / 10 ^ 8) * (10::rat) ^ m = of_int (n * 10 ^ k)"
      by (simp add: power_add)
    then show ?thesis unfolding on_grid_def by (metis Ints_of_int)
  qed
  have div: "bn_div B (of_int n) (10 ^ 8) = of_int n / 10 ^ 8"
    by (rule bignum_laws.div_exact [OF assms]) (use grid [of 20] in simp_all)
  show ?thesis
    unfolding from_sats_def div by (rule bignum_laws.dp_exact [OF assms grid]) simp
qed

lemma wp_redis_up:
  assumes "redis_up E"
  shows "wp (redis_call E c body) Q R = (\<lambda>w. wp body Q R (w\<lparr>trace := Redis c # trace w\<rparr>))"
  using assms by (simp add: fun_eq_iff Let_def wp_redis_call)

lemma wp_redis_get_up:
  assumes "redis_up E"
  shows "wp (redis_get E k) Q R w = (let w' = w\<lparr>trace := Redis (GET k) # trace w\<rparr> in
    case map_of (store w) k of
      None \<Rightarrow> Q None w'
    | Some v \<Rightarrow> if \<exists>xs. v = ROrders xs
         then R (Err ''WRONGTYPE Operation against a key holding the wrong kind of value'') w' else Q (Some v) w')"
  unfolding redis_get_def wp_redis_up [OF assms] by (simp add: Let_def split: option.split redis_value.split)

lemma wp_get_position_size:
  assumes "bignum_laws B" "redis_up E" "store_ok w" "plain_identifier p"
  shows "wp (get_position_size B E p) (\<lambda>x t. x = of_int (fst (redis_view w p)) / 10 ^ 8 \<and>
      store_ok t \<and> redis_view t = redis_view w \<and> store t = store w) (\<lambda>_ _. False) w"
proof -
  have "(case map_of (store w) (size_key p) of None \<Rightarrow> True | Some (RInt n) \<Rightarrow> int64 n | _ \<Rightarrow> False)"
    using assms(3,4) by (simp add: store_ok_def)
  then show ?thesis
    using assms
    by (auto simp: get_position_size_def get_sats_key_def get_key_no_null_def get_key_def plain_keys
        redis_get_def wp_redis_up falsy_def value_number_def from_sats_int redis_view_def
        split: option.splits redis_value.splits)
qed

lemma view_update_size:
  assumes "plain_identifier p"
  shows "redis_view (w\<lparr>trace := t, store := AList.update (size_key p) (RInt n) (store w)\<rparr>)
    = (redis_view w)(p := (n, snd (redis_view w p)))"
  using assms by (auto simp: fun_eq_iff redis_view_def update_conv' key_eqs)

lemma store_ok_update_size:
  "plain_identifier p \<Longrightarrow> store_ok w \<Longrightarrow> int64 n \<Longrightarrow>
   store_ok (w\<lparr>trace := t, store := AList.update (size_key p) (RInt n) (store w)\<rparr>)"
  by (auto simp: store_ok_def update_conv' key_eqs)

lemma view_update_orders:
  assumes "plain_identifier p"
  shows "redis_view (w\<lparr>trace := t, store := AList.update (orders_key p) (ROrders xs) (store w)\<rparr>)
    = (redis_view w)(p := (fst (redis_view w p), set xs))"
  using assms by (auto simp: fun_eq_iff redis_view_def update_conv' key_eqs)

lemma store_ok_update_orders:
  "plain_identifier p \<Longrightarrow> store_ok w \<Longrightarrow>
   store_ok (w\<lparr>trace := t, store := AList.update (orders_key p) (ROrders xs) (store w)\<rparr>)"
  by (auto simp: store_ok_def update_conv' key_eqs)

lemma set_adds_set: "set (fst (set_adds xs new)) = set xs \<union> set new"
proof -
  have "set (fst (fold (\<lambda>x (ys, n). if x \<in> set ys then (ys, n) else (ys @ [x], Suc n)) new (xs, n))) = set xs \<union> set new" for n
    by (induction new arbitrary: xs n) auto
  then show ?thesis by (simp add: set_adds_def)
qed

lemma store_ok_cases:
  assumes "store_ok w" "plain_identifier p"
  obtains (orders) xs where "map_of (store w) (orders_key p) = Some (ROrders xs) \<or>
      map_of (store w) (orders_key p) = None \<and> xs = []" "snd (redis_view w p) = set xs"
proof -
  have "(case map_of (store w) (orders_key p) of None \<Rightarrow> True | Some (ROrders xs) \<Rightarrow> True | _ \<Rightarrow> False)"
    using assms by (simp add: store_ok_def)
  then show ?thesis
    using assms(2) that by (cases "map_of (store w) (orders_key p)") (auto simp: redis_view_def split: redis_value.splits)
qed

lemma store_ok_cases2:
  assumes "store_ok w" "plain_identifier p"
  shows "\<exists>m. (case map_of (store w) (size_key p) of None \<Rightarrow> Some 0 | Some (RInt m) \<Rightarrow> Some m | Some _ \<Rightarrow> None) = Some m \<and>
    int64 m \<and> m = fst (redis_view w p)"
proof -
  have "(case map_of (store w) (size_key p) of None \<Rightarrow> True | Some (RInt n) \<Rightarrow> int64 n | _ \<Rightarrow> False)"
    using assms by (simp add: store_ok_def)
  then show ?thesis
    using assms(2) by (cases "map_of (store w) (size_key p)") (auto simp: redis_view_def int64_def split: redis_value.splits)
qed

lemma wp_add_orders:
  assumes "redis_up E" "store_ok w" "plain_identifier p"
  shows "wp (add_orders E p os)
    (\<lambda>n t. (\<forall>ord. os = [ord] \<longrightarrow> (n = 0 \<longleftrightarrow> stringify_order ord \<in> snd (redis_view w p))) \<and> store_ok t \<and>
       redis_view t = (redis_view w)(p := (fst (redis_view w p), stringify_order ` set os \<union> snd (redis_view w p))))
    (\<lambda>_ _. False) w"
proof -
  obtain xs where xs: "map_of (store w) (orders_key p) = Some (ROrders xs) \<or>
      map_of (store w) (orders_key p) = None \<and> xs = []" and view: "snd (redis_view w p) = set xs"
    using store_ok_cases [OF assms(2,3)] by blast
  have body: "(case (case map_of (store w) (orders_key p) of None \<Rightarrow> Some [] | Some (ROrders xs) \<Rightarrow> Some xs | _ \<Rightarrow> None) of
      None \<Rightarrow> F | Some xs \<Rightarrow> G xs) = G xs" for F and G :: "order_core list \<Rightarrow> 'x"
    using xs by auto
  have single: "\<forall>ord. os = [ord] \<longrightarrow> (snd (set_adds xs (map stringify_order os)) = 0 \<longleftrightarrow> stringify_order ord \<in> set xs)"
    by (auto simp: set_adds_single)
  show ?thesis
    using single assms(3)
    by (simp add: add_orders_def plain_keys redis_sadd_def wp_redis_up [OF assms(1)] body
        view_update_orders store_ok_update_orders assms(2) set_adds_set view Un_commute)
qed

lemma map_of_updates_keys:
  "length ks = length vs \<Longrightarrow> k \<notin> set ks \<Longrightarrow> map_of (AList.updates ks vs al) k = map_of al k"
  by (simp add: updates_conv')

lemma wp_adjust_position_size_by:
  assumes "bignum_laws B" "redis_up E" "store_ok w" "plain_identifier p"
    and "int64 n" "int64 (fst (redis_view w p) + n)" "n = double_of_int (to_sats B x)"
  shows "wp (adjust_position_size_by B E p x)
    (\<lambda>_ t. store_ok t \<and> redis_view t = (redis_view w)(p := (fst (redis_view w p) + n, snd (redis_view w p))))
    (\<lambda>_ _. False) w"
proof -
  note read = wp_get_position_size [OF assms(1,2) _ assms(4)]
  have incr: "wp (redis_incrby E (size_key p) n)
      (\<lambda>_ t. store_ok t \<and> redis_view t = (redis_view w)(p := (fst (redis_view w p) + n, snd (redis_view w p))))
      (\<lambda>_ _. False) u" if u: "store_ok u" "redis_view u = redis_view w" "store u = store w" for u
  proof -
    obtain m where m: "(case map_of (store u) (size_key p) of None \<Rightarrow> Some 0 | Some (RInt m) \<Rightarrow> Some m | Some _ \<Rightarrow> None) = Some m"
        "int64 m" "m = fst (redis_view w p)"
      using store_ok_cases2 [OF u(1) assms(4)] u(2) by metis
    show ?thesis
      using m assms(5,6) u(1,2)
      by (simp add: redis_incrby_def wp_redis_up [OF assms(2)] view_update_size assms(4) store_ok_update_size)
  qed
  let ?Q = "\<lambda>(_::unit) t. store_ok t \<and>
    redis_view t = (redis_view w)(p := (fst (redis_view w p) + n, snd (redis_view w p)))"
  have rest: "wp (bindE (redis_incrby E (size_key p) n) (\<lambda>_. bindE (get_position_size B E p) (\<lambda>_. returnE ())))
      ?Q (\<lambda>_ _. False) u" if "store_ok u" "redis_view u = redis_view w" "store u = store w" for u
    by (rule wp_bind_rule [OF incr [OF that]], rule wp_bind_rule [OF read]) auto
  show ?thesis
    unfolding adjust_position_size_by_def
  proof (rule wp_bind_rule [OF read [OF assms(3)]], goal_cases)
    case (1 y u)
    then show ?case using rest [of u] by (simp add: plain_keys [OF assms(4)] assms(7))
  qed
qed

text \<open>The keys a position creation writes, none of which but the size is read by the view.\<close>

lemma other_keys_distinct:
  assumes "plain_identifier p" "plain_identifier q" "a \<noteq> ''sats_position_size''" "a \<noteq> ''orders''"
  shows "prefix_of p @ CHR '':'' # a \<noteq> size_key q" "prefix_of p @ CHR '':'' # a \<noteq> orders_key q"
  using assms key_eqs(1,2) [OF assms(1,2), of a] by auto

lemma wp_create_new_position:
  assumes "redis_up E" "store_ok w" "plain_identifier p" "0 \<le> in_initial_quote_invested d"
    "in_edge d \<noteq> None" "int64 (to_sats B (in_position_size d))"
  shows "wp (create_new_position B E p d)
    (\<lambda>_ t. store_ok t \<and> redis_view t = (redis_view w)(p := (to_sats B (in_position_size d),
        snd (redis_view w p) \<union> stringify_order ` set (in_orders d)))) (\<lambda>_ _. False) w"
proof -
  obtain edge where edge: "in_edge d = Some edge" using assms(5) by auto
  let ?pre = "prefix_of p"
  let ?kvs = "[(?pre @ '':initial_entry_timestamp'', RInt (in_initial_entry_timestamp d)),
     (?pre @ '':sats_initial_entry_position_size'', RInt (to_sats B (in_position_size d))),
     (?pre @ '':sats_position_size'', RInt (to_sats B (in_position_size d))),
     (?pre @ '':sats_initial_quote_invested'', RInt (to_sats B (in_initial_quote_invested d))),
     (?pre @ '':sats_initial_entry_price'', RInt (to_sats B (in_initial_entry_price d))),
     (?pre @ '':initial_entry_quote_asset'', RText (in_initial_entry_quote_asset d)),
     (?pre @ '':sats_edge'', RText edge)]"
  define written where "written al = AList.updates (map fst ?kvs) (map snd ?kvs) al" for al
  have lookup: "map_of (written al) (size_key q)
      = (if q = p then Some (RInt (to_sats B (in_position_size d))) else map_of al (size_key q))"
    "map_of (written al) (orders_key q) = map_of al (orders_key q)"
    if q: "plain_identifier q" for q al
    using key_eqs(1,2) [OF assms(3) q, THEN eq_commute [THEN trans]]
    by (simp_all add: written_def update_conv')
  have mset: "wp (redis_mset E ?kvs)
      (\<lambda>_ t. store_ok t \<and> redis_view t = (redis_view u)(p := (to_sats B (in_position_size d), snd (redis_view u p))))
      (\<lambda>_ _. False) u" if u: "store_ok u" for u
  proof -
    have "store_ok (u\<lparr>trace := tr, store := written (store u)\<rparr>)"
      "redis_view (u\<lparr>trace := tr, store := written (store u)\<rparr>)
         = (redis_view u)(p := (to_sats B (in_position_size d), snd (redis_view u p)))" for tr
      using u assms(3,6) by (auto simp: store_ok_def redis_view_def lookup fun_eq_iff)
    then show ?thesis
      unfolding redis_mset_def wp_redis_up [OF assms(1)] written_def wp_modifyE by simp
  qed
  have add: "wp (add_orders E p (in_orders d))
      (\<lambda>_ t. store_ok t \<and> redis_view t = (redis_view w)(p := (fst (redis_view w p),
         stringify_order ` set (in_orders d) \<union> snd (redis_view w p)))) (\<lambda>_ _. False) w"
    by (rule wp_mono [OF wp_add_orders [OF assms(1,2,3)]]) auto
  have pre: "position_prefix p = Inr (prefix_of p)" by (rule plain_prefix [OF assms(3)])
  show ?thesis
    unfolding create_new_position_def promise_all2_def pre edge option.case
    using assms(4)
    by (auto simp: Un_commute intro!: wp_mono [OF add] wp_mono [OF mset])
qed

lemma prefix_match:
  assumes "plain_identifier p" "plain_identifier q"
  shows "glob (prefix_of p @ '':*'') (size_key q) \<longleftrightarrow> p = q"
    and "glob (prefix_of p @ '':*'') (orders_key q) \<longleftrightarrow> p = q"
proof -
  obtain e where "pi_edge p = Some e" "plain e" using assms(1) by (auto simp: plain_identifier_def)
  then have "CHR ''*'' \<notin> set (prefix_of p @ '':'')"
    using assms(1) by (simp add: prefix_of_def key_base_def edge_text_def plain_identifier_def plain_def)
  from glob_literal [OF this] have lit: "glob (prefix_of p @ '':*'') ys \<longleftrightarrow> (\<exists>zs. ys = prefix_of p @ CHR '':'' # zs)" for ys
    by (simp add: is_prefix_of_iff)
  show "glob (prefix_of p @ '':*'') (size_key q) \<longleftrightarrow> p = q"
    "glob (prefix_of p @ '':*'') (orders_key q) \<longleftrightarrow> p = q"
    unfolding lit size_key_def orders_key_def
    using prefix_separates(1) [OF assms(2,1)] by auto
qed

lemma map_of_in_keys: "map_of xs k = Some v \<Longrightarrow> k \<in> set (map fst xs)"
  by (force dest: map_of_SomeD)

lemma wp_delete_position:
  assumes "redis_up E" "store_ok w" "plain_identifier p" "snd (redis_view w p) \<noteq> {}"
  shows "wp (delete_position E p)
    (\<lambda>_ t. store_ok t \<and> redis_view t = (redis_view w)(p := (0, {}))) (\<lambda>_ _. False) w"
proof -
  let ?ks = "filter (glob (prefix_of p @ '':*'')) (remdups (map fst (store w)))"
  define kept where "kept = filter (\<lambda>(k, _). k \<notin> set ?ks) (store w)"
  have "\<exists>v. map_of (store w) (orders_key p) = Some v"
    using assms(3,4) by (auto simp: redis_view_def split: option.splits redis_value.splits)
  then have ne: "?ks \<noteq> []"
    using prefix_match(2) [OF assms(3,3)] by (fastforce simp: filter_empty_conv dest!: map_of_in_keys)
  have kept_lookup: "map_of kept k = (if k \<in> set ?ks then None else map_of (store w) k)" for k
    unfolding kept_def using map_of_filter_keys [of "\<lambda>k. k \<notin> set ?ks" "store w" k] by (auto split: if_splits)
  have absent: "map_of (store w) k = None" if "k \<notin> set (map fst (store w))" for k
    using that by (simp add: map_of_eq_None_iff)
  have lookup: "map_of kept (size_key q) = (if p = q then None else map_of (store w) (size_key q))"
    "map_of kept (orders_key q) = (if p = q then None else map_of (store w) (orders_key q))"
    if "plain_identifier q" for q
    using prefix_match [OF assms(3) that] absent by (auto simp: kept_lookup)
  have "store_ok (w\<lparr>trace := tr, store := kept\<rparr>)"
    "redis_view (w\<lparr>trace := tr, store := kept\<rparr>) = (redis_view w)(p := (0, {}))" for tr
    using assms(2,3) by (auto simp: store_ok_def redis_view_def lookup fun_eq_iff)
  then show ?thesis
    using ne unfolding delete_position_def kept_def
    by (simp add: plain_prefix [OF assms(3)] redis_keys_def redis_del_def wp_redis_up [OF assms(1)])
qed

text \<open>
  The invariant of the interpretation carries the conditions on the environment: the library rounds as
  documented and Redis answers.
\<close>

definition redis_ready :: "bignum \<Rightarrow> env \<Rightarrow> world \<Rightarrow> bool" where
  "redis_ready B E w \<longleftrightarrow> bignum_laws B \<and> redis_up E \<and> store_ok w"

interpretation redis_positions: positions_persistence
  "redis_persistence B E" redis_view "redis_ready B E" plain_identifier
  "to_sats B" "\<lambda>x. double_of_int (to_sats B x)" int64 for B E
proof unfold_locales
  show "\<exists>e. pi_edge p = Some e" if "plain_identifier p" for p
    using that by (auto simp: plain_identifier_def)
next
  fix w p assume *: "redis_ready B E w" "plain_identifier p"
  then have r: "bignum_laws B" "redis_up E" "store_ok w" by (simp_all add: redis_ready_def)
  show "wp (ps_position_size (redis_persistence B E) p)
      (\<lambda>x t. x = of_int (fst (redis_view w p)) / 10 ^ 8 \<and> redis_ready B E t \<and> redis_view t = redis_view w)
      (\<lambda>_ _. False) w"
    using wp_mono [OF wp_get_position_size [OF r *(2)]] r
    by (simp add: redis_persistence_def redis_ready_def)
  show "wp (ps_add_orders (redis_persistence B E) p [ord])
      (\<lambda>n t. (n = 0) = (stringify_order ord \<in> snd (redis_view w p)) \<and> redis_ready B E t \<and>
         redis_view t = (redis_view w)(p := (fst (redis_view w p), insert (stringify_order ord) (snd (redis_view w p)))))
      (\<lambda>_ _. False) w" for ord
    using wp_mono [OF wp_add_orders [OF r(2,3) *(2), of "[ord]"]] r
    by (simp add: redis_persistence_def redis_ready_def)
  show "wp (ps_initialise_position (redis_persistence B E) p d)
      (\<lambda>_ t. redis_ready B E t \<and> redis_view t = (redis_view w)(p := (to_sats B (in_position_size d),
         snd (redis_view w p) \<union> stringify_order ` set (in_orders d)))) (\<lambda>_ _. False) w"
    if "0 \<le> in_initial_quote_invested d" "in_edge d \<noteq> None" "int64 (to_sats B (in_position_size d))" for d
    using wp_mono [OF wp_create_new_position [OF r(2,3) *(2) that]] r
    by (simp add: redis_persistence_def redis_ready_def)
  show "wp (ps_adjust_position_size_by (redis_persistence B E) p x)
      (\<lambda>_ t. redis_ready B E t \<and> redis_view t = (redis_view w)
         (p := (fst (redis_view w p) + double_of_int (to_sats B x), snd (redis_view w p)))) (\<lambda>_ _. False) w"
    if "int64 (double_of_int (to_sats B x))" "int64 (fst (redis_view w p) + double_of_int (to_sats B x))" for x
    using wp_mono [OF wp_adjust_position_size_by [OF r *(2) that refl]] r
    by (simp add: redis_persistence_def redis_ready_def)
  show "wp (ps_delete_position (redis_persistence B E) p)
      (\<lambda>_ t. redis_ready B E t \<and> redis_view t = (redis_view w)(p := (0, {}))) (\<lambda>_ _. False) w"
    if "snd (redis_view w p) \<noteq> {}"
    using wp_mono [OF wp_delete_position [OF r(2,3) *(2) that]] r
    by (simp add: redis_persistence_def redis_ready_def)
qed

section \<open>Net positions\<close>

definition signed_amount :: "generic_order_data \<Rightarrow> rat" where
  "signed_amount ord = (if o_side ord = BUY then o_totalBaseTradeQuantity ord else - o_totalBaseTradeQuantity ord)"

definition net :: "generic_order_data list \<Rightarrow> rat" where
  "net os = sum_list (map signed_amount os)"

lemma net_snoc [simp]: "net (os @ [ord]) = net os + signed_amount ord" and net_Nil [simp]: "net [] = 0"
  by (simp_all add: net_def)

lemma to_sats_exact:
  assumes "bignum_laws B" "on_grid 8 x"
  shows "of_int (to_sats B x) = x * 10 ^ 8"
proof -
  have "on_grid 0 (x * 10 ^ 8)" using assms(2) by (simp add: on_grid_def)
  then have "bn_dp B 0 (x * 10 ^ 8) = x * 10 ^ 8" using assms(1) by (intro bignum_laws.dp_exact)
  then show ?thesis using assms(2) by (auto simp: to_sats_def on_grid_def elim: Ints_cases)
qed

text \<open>A fill as the exchange reports it: eight decimals, and an amount a double holds exactly.\<close>

definition exact_fill :: "generic_order_data \<Rightarrow> bool" where
  "exact_fill ord \<longleftrightarrow> on_grid 8 (o_totalBaseTradeQuantity ord) \<and>
     \<bar>o_totalBaseTradeQuantity ord * 10 ^ 8\<bar> < 2 ^ 53"

lemma exact_amount_bump:
  assumes "bignum_laws B" "on_grid 8 x" "\<bar>x * 10 ^ 8\<bar> < 2 ^ 53"
  shows "of_int (double_of_int (to_sats B x)) = x * 10 ^ 8"
    and "int64 (double_of_int (to_sats B x))" and "int64 (to_sats B x)"
proof -
  note s = to_sats_exact [OF assms(1,2)]
  have "\<bar>of_int (to_sats B x) :: rat\<bar> < of_int (2 ^ 53)" using assms(3) s by simp
  then have "\<bar>to_sats B x\<bar> < 2 ^ 53" by (metis of_int_abs of_int_less_iff)
  then show "of_int (double_of_int (to_sats B x)) = x * 10 ^ 8"
    "int64 (double_of_int (to_sats B x))" "int64 (to_sats B x)"
    using s by (simp_all add: double_of_int_exact int64_def) linarith+
qed

lemma exact_fill_bump:
  assumes "bignum_laws B" "exact_fill ord"
  shows "of_int (double_of_int (to_sats B (signed_amount ord))) = signed_amount ord * 10 ^ 8"
  using assms by (intro exact_amount_bump) (auto simp: exact_fill_def signed_amount_def intro: on_grid_minus)

text \<open>
  A trade: distinct fills that open with a buy and keep the position positive until, perhaps, the end.
\<close>

definition trade :: "generic_order_data list \<Rightarrow> bool" where
  "trade os \<longleftrightarrow> distinct (map stringify_order os) \<and> (\<forall>ord \<in> set os. exact_fill ord) \<and>
     os \<noteq> [] \<and> o_side (hd os) = BUY \<and>
     (\<forall>n. 0 < n \<and> n < length os \<longrightarrow> 0 < net (take n os)) \<and>
     (\<forall>n \<le> length os. \<bar>net (take n os)\<bar> * 10 ^ 8 < 2 ^ 62)"

lemma trade_fold:
  assumes "bignum_laws B" "trade os" "n \<le> length os"
  defines "v \<equiv> fold (apply_order (to_sats B) (\<lambda>x. double_of_int (to_sats B x))) (take n os) (0, {})"
  shows "of_int (fst v) = net (take n os) * 10 ^ 8 \<and> snd v = stringify_order ` set (take n os)"
  using assms(3) unfolding v_def
proof (induction n)
  case (Suc n)
  let ?f = "fold (apply_order (to_sats B) (\<lambda>x. double_of_int (to_sats B x)))"
  let ?ord = "os ! n"
  have n: "n < length os" using Suc.prems by simp
  have tk: "take (Suc n) os = take n os @ [?ord]" using n by (simp add: take_Suc_conv_app_nth)
  have IH: "of_int (fst (?f (take n os) (0, {}))) = net (take n os) * 10 ^ 8"
      "snd (?f (take n os) (0, {})) = stringify_order ` set (take n os)"
    using Suc.IH n by auto
  have new: "stringify_order ?ord \<notin> stringify_order ` set (take n os)"
  proof -
    have "distinct (map stringify_order (take (Suc n) os))"
      using assms(2) by (metis trade_def distinct_take take_map)
    then show ?thesis by (simp add: tk)
  qed
  have fill: "exact_fill ?ord" using assms(2) n by (auto simp: trade_def)
  have zero: "fst (?f (take n os) (0, {})) = 0 \<longleftrightarrow> n = 0"
  proof (cases "n = 0")
    case False
    then have "0 < net (take n os)" using assms(2) n by (simp add: trade_def)
    then show ?thesis using IH(1) False by auto
  qed simp
  have buy: "o_side ?ord = BUY" if "n = 0" using that assms(2) by (auto simp: trade_def hd_conv_nth)
  let ?v = "?f (take n os) (0, {})"
  have open_sats: "of_int (to_sats B (o_totalBaseTradeQuantity ?ord)) = o_totalBaseTradeQuantity ?ord * 10 ^ 8"
    using fill by (intro to_sats_exact assms(1)) (simp add: exact_fill_def)
  have step: "?f (take (Suc n) os) (0, {}) = apply_order (to_sats B) (\<lambda>x. double_of_int (to_sats B x)) ?ord ?v"
    by (simp add: tk)
  have "of_int (fst (apply_order (to_sats B) (\<lambda>x. double_of_int (to_sats B x)) ?ord ?v))
      = (net (take n os) + signed_amount ?ord) * 10 ^ 8"
  proof (cases "n = 0")
    case True
    then show ?thesis using open_sats buy [OF True] by (simp add: apply_order_def signed_amount_def)
  next
    case False
    then have "fst (apply_order (to_sats B) (\<lambda>x. double_of_int (to_sats B x)) ?ord ?v)
        = fst ?v + double_of_int (to_sats B (signed_amount ?ord))"
      using zero new IH(2) by (simp add: apply_order_def signed_amount_def)
    then show ?thesis
      using IH(1) exact_fill_bump [OF assms(1) fill] by (simp only: of_int_add distrib_right)
  qed
  moreover have "snd (apply_order (to_sats B) (\<lambda>x. double_of_int (to_sats B x)) ?ord ?v)
      = stringify_order ` set (take (Suc n) os)"
    unfolding apply_order_records [symmetric] IH(2) tk by auto
  ultimately show ?case unfolding step by (simp add: tk)
qed simp

lemma trade_acceptable:
  assumes "bignum_laws B" "trade os" "n < length os"
    and "\<forall>ord \<in> set os. o_baseAsset ord = pi_base_asset p \<and> o_averageExecutionPrice ord \<noteq> None \<and>
      0 \<le> o_totalQuoteTradeQuantity ord"
  shows "redis_positions.acceptable B p (os ! n)
    (fold (apply_order (to_sats B) (\<lambda>x. double_of_int (to_sats B x))) (take n os) (0, {}))"
proof -
  let ?ord = "os ! n" and ?f = "apply_order (to_sats B) (\<lambda>x. double_of_int (to_sats B x))"
  have mem: "?ord \<in> set os" using assms(3) by simp
  then have fill: "on_grid 8 (o_totalBaseTradeQuantity ?ord)" "\<bar>o_totalBaseTradeQuantity ?ord * 10 ^ 8\<bar> < 2 ^ 53"
    using assms(2) by (auto simp: trade_def exact_fill_def)
  have nxt: "?f ?ord (fold ?f (take n os) (0, {})) = fold ?f (take (Suc n) os) (0, {})"
    using assms(3) by (simp add: take_Suc_conv_app_nth)
  have "\<bar>of_int (fst (fold ?f (take (Suc n) os) (0, {}))) :: rat\<bar> = \<bar>net (take (Suc n) os)\<bar> * 10 ^ 8"
    using trade_fold [OF assms(1,2), of "Suc n"] assms(3) by (simp add: abs_mult)
  also have "\<dots> < of_int (2 ^ 62)"
    using assms(2,3) by (simp add: trade_def Suc_le_eq del: of_int_power)
  finally have "\<bar>fst (fold ?f (take (Suc n) os) (0, {}))\<bar> < 2 ^ 62"
    by (metis of_int_abs of_int_less_iff)
  then have "int64 (fst (?f ?ord (fold ?f (take n os) (0, {}))))" unfolding nxt by (simp add: int64_def abs_less_iff)
  moreover have "int64 (double_of_int (to_sats B (- o_totalBaseTradeQuantity ?ord)))"
    using exact_amount_bump(2) [OF assms(1), of "- o_totalBaseTradeQuantity ?ord"] fill
    by (simp add: on_grid_minus)
  ultimately show ?thesis
    using assms(4) mem exact_amount_bump(2,3) [OF assms(1) fill]
    by (simp add: redis_positions.acceptable_def)
qed

section \<open>Properties\<close>

definition demo_position :: position_identifier where
  "demo_position = \<lparr>pi_exchange_identifier = \<lparr>ei_exchange = ''binance'', ei_type = Spot\<rparr>,
     pi_edge = Some ''edge70'', pi_base_asset = ''ETH''\<rparr>"

definition demo_fill :: "string \<Rightarrow> side \<Rightarrow> rat \<Rightarrow> generic_order_data" where
  "demo_fill cid sd qty = \<lparr>o_order_id = cid, o_market_symbol = ''ETHUSDT'', o_baseAsset = ''ETH'',
     o_quoteAsset = ''USDT'', o_side = sd, o_orderType = MARKET, o_orderStatus = Some FILLED,
     o_orderTime = 1, o_totalBaseTradeQuantity = qty, o_totalQuoteTradeQuantity = qty * 100,
     o_averageExecutionPrice = Some 100,
     o_exchange_identifier = \<lparr>ei_exchange = ''binance'', ei_type = Spot\<rparr>\<rparr>"

lemma demo_position_plain [simp]: "plain_identifier demo_position"
  by (simp add: plain_identifier_def demo_position_def plain_def)

lemma empty_world_ok [simp]: "store_ok empty_world" "redis_view empty_world p = (0, {})"
  by (simp_all add: store_ok_def redis_view_def empty_world_def)

text \<open>
  C4: A position in Redis is the net of its fills.  Starting without a position and with Redis up, add
  any sequence of distinct fills that opens with a buy and does not sell more than is held: every
  addition succeeds, the size read back is exactly the sum of the buys minus the sum of the sells,
  and no other position is touched.
\<close>

theorem position_size_is_net_of_fills:
  assumes "bignum_laws B" "redis_up E" "store_ok w" "plain_identifier p" "redis_view w p = (0, {})"
    and "trade os"
    and "\<forall>ord \<in> set os. o_baseAsset ord = pi_base_asset p \<and> o_averageExecutionPrice ord \<noteq> None \<and>
      0 \<le> o_totalQuoteTradeQuantity ord"
  shows "\<exists>t t'. forE os (add_order_to_position (redis_persistence B E) p) w = (Inr (), t) \<and>
    get_position_size B E p t = (Inr (net os), t') \<and> (\<forall>q. q \<noteq> p \<longrightarrow> redis_view t q = redis_view w q)"
proof -
  let ?f = "fold (apply_order (to_sats B) (\<lambda>x. double_of_int (to_sats B x)))"
  have "redis_ready B E w" using assms by (simp add: redis_ready_def)
  from redis_positions.add_orders_run [OF this assms(4), of os]
  have "wp (forE os (add_order_to_position (redis_persistence B E) p))
     (\<lambda>_ t. redis_ready B E t \<and> redis_view t = (redis_view w)(p := ?f os (0, {}))) (\<lambda>_ _. False) w"
    using trade_acceptable [OF assms(1,6) _ assms(7)] by (simp add: assms(5))
  then obtain t where t: "forE os (add_order_to_position (redis_persistence B E) p) w = (Inr (), t)"
      "redis_ready B E t" "redis_view t = (redis_view w)(p := ?f os (0, {}))"
    by (auto simp: wp_def split: prod.splits sum.splits)
  have "of_int (fst (redis_view t p)) = net os * 10 ^ 8"
    using trade_fold [OF assms(1,6), of "length os"] t(3) by simp
  then have "wp (get_position_size B E p) (\<lambda>x _. x = net os) (\<lambda>_ _. False) t"
    using wp_mono [OF wp_get_position_size [OF assms(1,2) _ assms(4)]] t(2)
    by (simp add: redis_ready_def)
  then show ?thesis using t(1,3) by (auto simp: wp_def split: prod.splits sum.splits)
qed

lemma demo_trade: "trade [demo_fill ''a'' BUY 2, demo_fill ''b'' SELL 1]"
proof -
  have "n = 0 \<or> n = 1 \<or> n = 2" if "n \<le> 2" for n :: nat using that by auto
  then have "\<bar>net (take n [demo_fill ''a'' BUY 2, demo_fill ''b'' SELL 1])\<bar> * 10 ^ 8 < 2 ^ 62" if "n \<le> 2" for n
    using that by (fastforce simp: net_def signed_amount_def demo_fill_def)
  moreover have "0 < net (take n [demo_fill ''a'' BUY 2, demo_fill ''b'' SELL 1])" if "0 < n" "n < 2" for n
  proof -
    have "n = 1" using that by simp
    then show ?thesis by (simp add: net_def signed_amount_def demo_fill_def)
  qed
  ultimately show ?thesis
    by (simp add: trade_def exact_fill_def) (simp add: demo_fill_def stringify_order_def order_core.truncate_def)
qed

theorem position_size_is_net_of_fills_witness:
  "\<exists>t t'. forE [demo_fill ''a'' BUY 2, demo_fill ''b'' SELL 1]
      (add_order_to_position (redis_persistence ref_bignum (quiet_env [])) demo_position) empty_world = (Inr (), t) \<and>
    get_position_size ref_bignum (quiet_env []) demo_position t = (Inr 1, t')"
proof -
  have "net [demo_fill ''a'' BUY 2, demo_fill ''b'' SELL 1] = 1"
    by (simp add: net_def signed_amount_def demo_fill_def)
  then show ?thesis
    using position_size_is_net_of_fills
      [OF ref_bignum_laws quiet_env_up empty_world_ok(1) demo_position_plain empty_world_ok(2) demo_trade]
    by (force simp: demo_fill_def demo_position_def)
qed

text \<open>
  Redelivery is harmless.  Adding an order whose serialisation the position already holds succeeds
  and leaves every position's size and orders as they were, whatever the order's other data.
\<close>

theorem redelivered_order_changes_nothing:
  assumes "bignum_laws B" "redis_up E" "store_ok w" "plain_identifier p"
    and "o_baseAsset ord = pi_base_asset p" "stringify_order ord \<in> snd (redis_view w p)"
  shows "\<exists>t. add_order_to_position (redis_persistence B E) p ord w = (Inr (), t) \<and>
    redis_view t = redis_view w \<and> store_ok t"
proof -
  have ready: "redis_ready B E w" using assms by (simp add: redis_ready_def)
  show ?thesis
    using redis_positions.add_known_order [OF ready assms(4-6)]
    by (auto simp: wp_def redis_ready_def split: prod.splits sum.splits)
qed

theorem redelivered_order_changes_nothing_witness:
  "\<exists>t. add_order_to_position (redis_persistence ref_bignum (quiet_env [])) demo_position (demo_fill ''a'' BUY 2)
      \<lparr>store = [(orders_key demo_position, ROrders [stringify_order (demo_fill ''a'' BUY 2)])], trace = []\<rparr>
    = (Inr (), t)"
proof -
  let ?w = "\<lparr>store = [(orders_key demo_position, ROrders [stringify_order (demo_fill ''a'' BUY 2)])], trace = []\<rparr>"
  have "store_ok ?w" "stringify_order (demo_fill ''a'' BUY 2) \<in> snd (redis_view ?w demo_position)"
    by (auto simp: store_ok_def redis_view_def key_eqs [OF demo_position_plain] key_eqs [OF _ demo_position_plain])
  then show ?thesis
    using redelivered_order_changes_nothing [OF ref_bignum_laws quiet_env_up _ demo_position_plain,
        of ?w "demo_fill ''a'' BUY 2" "[]"]
    by (auto simp: demo_fill_def demo_position_def)
qed

text \<open>
  The satoshi encoding of amounts is faithful: an amount with at most eight decimals is read back
  as it was written, and any amount to within half a satoshi.
\<close>

theorem sats_roundtrip:
  assumes "bignum_laws B"
  shows "\<bar>from_sats B (of_int (to_sats B x)) - x\<bar> \<le> 1 / (2 * 10 ^ 8) \<and>
    (on_grid 8 x \<longrightarrow> from_sats B (of_int (to_sats B x)) = x)"
proof -
  have int: "of_int (to_sats B x) = bn_dp B 0 (x * 10 ^ 8)"
    using bignum_laws.dp_grid [OF assms, of 0 "x * 10 ^ 8"]
    by (auto simp: to_sats_def on_grid_def elim: Ints_cases)
  have close: "\<bar>of_int (to_sats B x) - x * 10 ^ 8\<bar> \<le> 1 / 2"
    unfolding int using bignum_laws.dp_close [OF assms, of 0 "x * 10 ^ 8"] by simp
  have "of_int (to_sats B x) / 10 ^ 8 - x = (of_int (to_sats B x) - x * 10 ^ 8) / 10 ^ 8"
    by (simp add: diff_divide_distrib)
  then have "\<bar>of_int (to_sats B x) / 10 ^ 8 - x\<bar> = \<bar>of_int (to_sats B x) - x * 10 ^ 8\<bar> / 10 ^ 8"
    by (simp only: abs_divide) simp
  also have "\<dots> \<le> (1 / 2) / 10 ^ 8"
    by (rule divide_right_mono [OF close]) simp
  also have "(1 / 2) / 10 ^ 8 = 1 / (2 * 10 ^ 8 :: rat)" by simp
  finally have "\<bar>of_int (to_sats B x) / 10 ^ 8 - x\<bar> \<le> 1 / (2 * 10 ^ 8)" .
  then show ?thesis
    unfolding from_sats_int [OF assms] using to_sats_exact [OF assms, of x] by simp
qed

theorem sats_roundtrip_witness: "from_sats ref_bignum (of_int (to_sats ref_bignum 3)) = 3"
  using sats_roundtrip [OF ref_bignum_laws, of 3] by simp

lemma key_to_position_size_key: "plain_identifier p \<Longrightarrow> key_to_position (size_key p) = Inr p"
proof -
  assume p: "plain_identifier p"
  then obtain e where e: "pi_edge p = Some e" "plain e" by (auto simp: plain_identifier_def)
  have "split_on (CHR '':'') (size_key p) = [''positions-v3'', ''spot'', ei_exchange (pi_exchange_identifier p),
     ''default'', pi_base_asset p, e, ''sats_position_size'']"
    using split_prefix [OF p, of "''sats_position_size''"] e by (simp add: size_key_def)
  then show ?thesis
    using p e by (simp add: key_to_position_def plain_identifier_def plain_def)
qed

lemma map_result_Inr: "(\<forall>x \<in> set xs. f x = Inr (g x)) \<Longrightarrow> map_result f xs = Inr (map g xs)"
  by (induction xs) auto

lemma glob_size_key: "glob ''positions-v3:*:sats_position_size'' (size_key p)"
proof -
  have "\<exists>m. size_key p = ''positions-v3:'' @ m @ '':sats_position_size''"
    by (auto simp: size_key_def prefix_of_def key_base_def)
  then obtain m where m: "size_key p = ''positions-v3:'' @ m @ '':sats_position_size''" by blast
  have "glob '':sats_position_size'' '':sats_position_size''" by code_simp
  then have "glob (CHR ''*'' # '':sats_position_size'') (m @ '':sats_position_size'')"
    unfolding glob_star by blast
  moreover have star: "CHR ''*'' \<notin> set ''positions-v3:''" by simp
  ultimately have "glob (''positions-v3:'' @ CHR ''*'' # '':sats_position_size'') (size_key p)"
    unfolding m glob_append [OF star] by blast
  then show ?thesis unfolding append.simps .
qed

lemma positions_of_size_keys:
  assumes "distinct ks" "\<forall>k \<in> set ks. \<exists>p. plain_identifier p \<and> k = size_key p"
  obtains ps where "map_result key_to_position ks = Inr ps" "distinct ps" "map size_key ps = ks" "\<forall>p \<in> set ps. plain_identifier p"
proof -
  from assms(2) obtain inverse where inv: "\<forall>k \<in> set ks. plain_identifier (inverse k) \<and> k = size_key (inverse k)" by metis
  have "map_result key_to_position ks = Inr (map inverse ks)"
  proof (rule map_result_Inr, rule ballI)
    fix k assume "k \<in> set ks"
    with inv have "plain_identifier (inverse k)" "k = size_key (inverse k)" by simp_all
    then show "key_to_position k = Inr (inverse k)" using key_to_position_size_key [of "inverse k"] by (simp only:)
  qed
  moreover have keys: "map size_key (map inverse ks) = ks" using inv by (auto simp: o_def intro!: map_idI)
  moreover from keys assms(1) have "distinct (map inverse ks)" by (metis distinct_map)
  ultimately show thesis using that inv by auto
qed

lemma open_positions_lists:
  assumes "redis_up E" "map_result key_to_position
      (filter (glob ''positions-v3:*:sats_position_size'') (remdups (map fst (store w)))) = Inr ps"
  obtains t where "open_positions E w = (Inr ps, t)"
proof -
  have "wp (open_positions E) (\<lambda>x t. x = ps) (\<lambda>_ _. False) w"
    using assms(2) by (simp add: open_positions_def redis_keys_def wp_redis_up [OF assms(1)] key_base_def)
  then show thesis using that by (auto simp: wp_def split: prod.splits sum.splits)
qed

text \<open>
  C23: \<open>open_positions\<close> inverts the key scheme.  If every key that matches its pattern is the size key
  of a plain identifier, listing succeeds and returns exactly the identifiers whose size is stored.
\<close>

theorem open_positions_inverts_keys:
  assumes "redis_up E"
    and "\<forall>k \<in> fst ` set (store w). glob ''positions-v3:*:sats_position_size'' k \<longrightarrow>
      (\<exists>p. plain_identifier p \<and> k = size_key p)"
  shows "\<exists>ps t. open_positions E w = (Inr ps, t) \<and> distinct ps \<and>
    set ps = {p. plain_identifier p \<and> size_key p \<in> fst ` set (store w)}"
proof -
  let ?ks = "filter (glob ''positions-v3:*:sats_position_size'') (remdups (map fst (store w)))"
  have d: "distinct ?ks" by simp
  have s: "\<forall>k \<in> set ?ks. \<exists>p. plain_identifier p \<and> k = size_key p" using assms(2) by auto
  obtain ps where ps: "map_result key_to_position ?ks = Inr ps" "distinct ps" "map size_key ps = ?ks"
      "\<forall>p \<in> set ps. plain_identifier p" by (rule positions_of_size_keys [OF d s])
  obtain t where t: "open_positions E w = (Inr ps, t)" by (rule open_positions_lists [OF assms(1) ps(1)])
  have "p \<in> set ps \<longleftrightarrow> plain_identifier p \<and> size_key p \<in> fst ` set (store w)" for p
  proof
    assume "p \<in> set ps"
    moreover from this have "size_key p \<in> set ?ks" unfolding ps(3) [symmetric] by simp
    ultimately show "plain_identifier p \<and> size_key p \<in> fst ` set (store w)" using ps(4) by simp
  next
    assume p: "plain_identifier p \<and> size_key p \<in> fst ` set (store w)"
    then have "size_key p \<in> set (map size_key ps)" unfolding ps(3) using glob_size_key [of p] by simp
    then obtain q where "q \<in> set ps" "size_key p = size_key q" by auto
    with p show "p \<in> set ps" using key_eqs(3) [of p q] ps(4) by metis
  qed
  then show ?thesis using t ps(2) by auto
qed

theorem open_positions_inverts_keys_witness:
  "\<exists>ps t. open_positions (quiet_env []) \<lparr>store = [(size_key demo_position, RInt 5)], trace = []\<rparr> = (Inr ps, t) \<and>
    demo_position \<in> set ps"
proof -
  let ?w = "\<lparr>store = [(size_key demo_position, RInt 5)], trace = []\<rparr>"
  have "\<forall>k \<in> fst ` set (store ?w). glob ''positions-v3:*:sats_position_size'' k \<longrightarrow>
      (\<exists>p. plain_identifier p \<and> k = size_key p)"
    by (auto intro!: exI [of _ demo_position])
  then obtain ps t where "open_positions (quiet_env []) ?w = (Inr ps, t)"
      "set ps = {p. plain_identifier p \<and> size_key p \<in> fst ` set (store ?w)}"
    using open_positions_inverts_keys [OF quiet_env_up [of "[]"], of ?w] by blast
  then show ?thesis by auto
qed

definition refuses_reads :: "env \<Rightarrow> bool" where
  "refuses_reads E \<longleftrightarrow> (\<forall>c h. env_redis E (Redis c # h) =
     (case c of GET k \<Rightarrow> RedisFailed (Err ''LOADING'') | _ \<Rightarrow> RedisOk))"

lemma redis_call_cong:
  "env_redis E (Redis c # trace w) = env_redis E' (Redis c # trace w) \<Longrightarrow> redis_call E c m w = redis_call E' c m w"
  by (simp add: redis_call_def bindE_def emit_def modifyE_def getE_def)

text \<open>
  A failure to read the size is taken for a size of zero.  When Redis refuses every \<open>GET\<close> but
  executes everything else, adding a new fill to a position of any size overwrites the size with
  that of the fill alone, whether it is a buy or a sell, and reports success.
\<close>

theorem unreadable_size_is_overwritten:
  assumes "refuses_reads E" "store_ok w" "plain_identifier p"
    and "o_baseAsset ord = pi_base_asset p" "o_averageExecutionPrice ord \<noteq> None"
    and "0 \<le> o_totalQuoteTradeQuantity ord" "stringify_order ord \<notin> snd (redis_view w p)"
    and "int64 (to_sats B (o_totalBaseTradeQuantity ord))"
  shows "\<exists>t. add_order_to_position (redis_persistence B E) p ord w = (Inr (), t) \<and>
    fst (redis_view t p) = to_sats B (o_totalBaseTradeQuantity ord)"
proof -
  let ?E = "E\<lparr>env_redis := \<lambda>_. RedisOk\<rparr>"
  have up: "redis_up ?E" by (simp add: redis_up_def)
  have same: "redis_call E c m u = redis_call ?E c m u" if "\<forall>k. c \<noteq> GET k" for c m u
    by (rule redis_call_cong) (use assms(1) that in \<open>auto simp: refuses_reads_def split: redis_cmd.split\<close>)
  have sadd: "redis_sadd E k os = redis_sadd ?E k os" for k os
    unfolding redis_sadd_def by (rule ext) (simp add: same)
  have mset: "redis_mset E kvs = redis_mset ?E kvs" for kvs
    unfolding redis_mset_def by (rule ext) (simp add: same)
  have add: "add_orders E p os = add_orders ?E p os" for os by (simp add: add_orders_def sadd)
  have create: "create_new_position B E p d = create_new_position B ?E p d" for d
    by (cases "in_edge d") (simp_all add: create_new_position_def add mset)
  have zero: "get_position_size B E p u = (Inr 0, u\<lparr>trace := Redis (GET (size_key p)) # trace u\<rparr>)" for u
    unfolding wp_outcome
    using assms(1,3)
    by (simp add: get_position_size_def get_sats_key_def get_key_no_null_def get_key_def redis_get_def
        plain_keys wp_redis_call Let_def refuses_reads_def)
  obtain price where price: "o_averageExecutionPrice ord = Some price" using assms(5) by auto
  let ?d = "\<lparr>in_initial_entry_timestamp = o_orderTime ord, in_position_size = o_totalBaseTradeQuantity ord,
      in_initial_quote_invested = o_totalQuoteTradeQuantity ord,
      in_initial_entry_quote_asset = o_quoteAsset ord, in_initial_entry_price = price,
      in_orders = [ord], in_edge = pi_edge p\<rparr>"
  have "pi_edge p \<noteq> None" using assms(3) by (auto simp: plain_identifier_def)
  then have init: "wp (create_new_position B ?E p ?d)
      (\<lambda>_ t. fst (redis_view t p) = to_sats B (o_totalBaseTradeQuantity ord)) (\<lambda>_ _. False) u" if "store_ok u" for u
    using wp_mono [OF wp_create_new_position [OF up that assms(3), of ?d]] assms(6,8) by simp
  have "wp (bindE (add_orders ?E p [ord]) (\<lambda>num_added.
          if num_added = 0 then returnE ()
          else bindE (get_position_size B E p) (\<lambda>n.
              if n = 0 then create_new_position B ?E p ?d
              else adjust_position_size_by B E p
                  (if o_side ord = BUY then o_totalBaseTradeQuantity ord else - o_totalBaseTradeQuantity ord))))
      (\<lambda>_ t. fst (redis_view t p) = to_sats B (o_totalBaseTradeQuantity ord)) (\<lambda>_ _. False) w"
  proof (rule wp_bind_rule [OF wp_add_orders [OF up assms(2,3)]], goal_cases)
    case (1 n t)
    then have n: "n \<noteq> 0" "store_ok t" using assms(7) by auto
    then show ?case using init [of "t\<lparr>trace := Redis (GET (size_key p)) # trace t\<rparr>"]
      by (simp add: wp_of_eq [OF zero])
  qed
  then have "wp (add_order_to_position (redis_persistence B E) p ord)
      (\<lambda>_ t. fst (redis_view t p) = to_sats B (o_totalBaseTradeQuantity ord)) (\<lambda>_ _. False) w"
    unfolding add_order_to_position_def redis_persistence_sel add create price
      genericOrderDataToSpotPositionInitialisationData_def option.case liftE_Inr_bind
    using assms(4) by simp
  then show ?thesis by (auto simp: wp_def split: prod.splits sum.splits)
qed

definition unreadable_env :: env where
  "unreadable_env = (quiet_env [])\<lparr>env_redis := (\<lambda>h. case h of
     Redis (GET k) # _ \<Rightarrow> RedisFailed (Err ''LOADING'') | _ \<Rightarrow> RedisOk)\<rparr>"

theorem unreadable_size_is_overwritten_witness:
  "\<exists>t. add_order_to_position (redis_persistence ref_bignum unreadable_env) demo_position (demo_fill ''s'' SELL 1)
      \<lparr>store = [(size_key demo_position, RInt 500000000)], trace = []\<rparr> = (Inr (), t) \<and>
    fst (redis_view t demo_position) = 100000000"
proof -
  let ?w = "\<lparr>store = [(size_key demo_position, RInt 500000000)], trace = []\<rparr>"
  have w: "store_ok ?w" "stringify_order (demo_fill ''s'' SELL 1) \<notin> snd (redis_view ?w demo_position)"
    by (auto simp: store_ok_def redis_view_def int64_def key_eqs [OF demo_position_plain] key_eqs [OF _ demo_position_plain])
  have e: "refuses_reads unreadable_env"
    by (auto simp: refuses_reads_def unreadable_env_def split: redis_cmd.split)
  have q: "to_sats ref_bignum (o_totalBaseTradeQuantity (demo_fill ''s'' SELL 1)) = 100000000"
    by (simp add: demo_fill_def) code_simp
  show ?thesis
    using unreadable_size_is_overwritten [OF e w(1) demo_position_plain _ _ _ w(2), of ref_bignum] q
    by (simp add: demo_fill_def demo_position_def int64_def)
qed

text \<open>A world in which three units of the demo position are held.\<close>

definition held_world :: world where
  "held_world = \<lparr>store = [(size_key demo_position, RInt 300000000)], trace = []\<rparr>"

lemma held_world_ready: "redis_ready ref_bignum (quiet_env ei) held_world"
  by (auto simp: redis_ready_def ref_bignum_laws store_ok_def held_world_def key_eqs [OF demo_position_plain]
      key_eqs [OF _ demo_position_plain] int64_def)

lemma held_world_view: "redis_view held_world demo_position = (300000000, {})"
  by (simp add: held_world_def redis_view_def key_eqs [OF demo_position_plain demo_position_plain])

end
