(* ===== verification/Orders.thy ===== *)
theory Orders
  imports World
begin

text \<open>
  From the exchange's execution reports to the program's own orders:
  \<open>OrderExecutionTracker.processExecutionReport\<close>
  (\<open>services/binance/spot/orders-to-amqp/spot-order-execution-tracker.ts\<close>) and the conversions of
  \<open>interfaces/exchanges/binance/spot-orders.ts\<close>.  A price that is not finite, which only a report
  without executed quantity has, is not represented: \<open>averageExecutionPrice\<close> is then absent.
\<close>

section \<open>The reports\<close>

text \<open>The fields of an \<open>ExecutionReport\<close> the program reads; enumerations are the exchange's strings.\<close>

record execution_report =
  x_eventType :: string
  x_symbol :: string
  x_newClientOrderId :: string
  x_originalClientOrderId :: string
  x_side :: side
  x_orderType :: string
  x_orderStatus :: string
  x_orderId :: nat
  x_orderTime :: int
  x_totalTradeQuantity :: rat
  x_totalQuoteTradeQuantity :: rat

text \<open>\<open>BinanceOrderData\<close>: the report with what the tracker adds.\<close>

record binance_order_data = execution_report +
  b_exchange_identifier :: exchange_identifier
  b_order_id :: string
  b_order_is_is_client_order_id :: bool
  b_averageExecutionPrice :: "rat option"

text \<open>Decimal rendering of a number, \<open>toString()\<close>.\<close>

fun nat_string :: "nat \<Rightarrow> string" where
  "nat_string n = (if n < 10 then [char_of (48 + n)] else nat_string (n div 10) @ [char_of (48 + n mod 10)])"

declare nat_string.simps [simp del]

definition int_string :: "int \<Rightarrow> string" where
  "int_string i = (if i < 0 then ''-'' @ nat_string (nat (- i)) else nat_string (nat i))"

lemma nat_string_nonempty [simp]: "nat_string n \<noteq> []"
  by (subst nat_string.simps) simp

section \<open>The execution tracker\<close>

text \<open>The optional handlers of \<open>OrderCallbacks\<close>; only \<open>order_filled\<close> is required.\<close>

record 's order_callbacks =
  order_created :: "(binance_order_data \<Rightarrow> ('s, unit) prog) option"
  order_filled_or_partially_filled :: "(binance_order_data \<Rightarrow> ('s, unit) prog) option"
  order_cancelled :: "(binance_order_data \<Rightarrow> ('s, unit) prog) option"
  order_expired :: "(binance_order_data \<Rightarrow> ('s, unit) prog) option"
  order_filled :: "binance_order_data \<Rightarrow> ('s, unit) prog"

definition call_if :: "('b \<Rightarrow> ('s, unit) prog) option \<Rightarrow> 'b \<Rightarrow> ('s, unit) prog" where
  "call_if f x = (case f of None \<Rightarrow> returnE () | Some g \<Rightarrow> g x)"

definition tracker_order_id :: "execution_report \<Rightarrow> string \<times> bool" where
  "tracker_order_id x =
     (if x_newClientOrderId x \<noteq> [] \<and> x_orderStatus x \<noteq> ''CANCELED'' then (x_newClientOrderId x, True)
      else if x_originalClientOrderId x \<noteq> [] then (x_originalClientOrderId x, True)
      else (nat_string (x_orderId x), False))"

definition average_execution_price :: "bignum \<Rightarrow> execution_report \<Rightarrow> rat option" where
  "average_execution_price B x =
     (if x_totalTradeQuantity x = 0 then None
      else Some (bn_dp B 8 (bn_div B (x_totalQuoteTradeQuantity x) (x_totalTradeQuantity x))))"

definition to_binance_order_data :: "bignum \<Rightarrow> exchange_identifier \<Rightarrow> execution_report \<Rightarrow> binance_order_data" where
  "to_binance_order_data B ei x =
     execution_report.extend x
       \<lparr>b_exchange_identifier = ei, b_order_id = fst (tracker_order_id x),
        b_order_is_is_client_order_id = snd (tracker_order_id x),
        b_averageExecutionPrice = average_execution_price B x\<rparr>"

definition processExecutionReport ::
    "bignum \<Rightarrow> exchange_identifier \<Rightarrow> 's order_callbacks option \<Rightarrow> execution_report \<Rightarrow> ('s, unit) prog" where
  "processExecutionReport B ei cbs x =
     (if x_eventType x \<noteq> ''executionReport'' then throwE (Err ''Unknown eventType'')
      else
        (let bod = to_binance_order_data B ei x; st = x_orderStatus x;
             optional = (\<lambda>sel. case cbs of None \<Rightarrow> returnE () | Some c \<Rightarrow> call_if (sel c) bod) in
         if st = ''NEW'' then optional order_created
         else if st = ''PARTIALLY_FILLED'' then optional order_filled_or_partially_filled
         else if st = ''CANCELED'' then optional order_cancelled
         else if st = ''EXPIRED'' then optional order_expired
         else if st \<noteq> ''FILLED'' then throwE (Err (''Unexpected orderStatus: '' @ st))
         else seqE (optional order_filled_or_partially_filled)
                (case cbs of None \<Rightarrow> returnE () | Some c \<Rightarrow> order_filled c bod)))"

text \<open>The stream handler: other events are ignored, an exception becomes a message to the user.\<close>

definition on_user_stream ::
    "bignum \<Rightarrow> exchange_identifier \<Rightarrow> world order_callbacks option \<Rightarrow> execution_report \<Rightarrow> (world, unit) prog" where
  "on_user_stream B ei cbs x =
     (if x_eventType x = ''executionReport''
      then tryE (processExecutionReport B ei cbs x)
             (\<lambda>_. alert (''Error calling processExecutionReport for pair '' @ x_symbol x))
      else returnE ())"

section \<open>Conversions\<close>

definition map_binance_order_type_to_generic_order_type :: "string \<Rightarrow> js_error + order_type" where
  "map_binance_order_type_to_generic_order_type i =
     (if i = ''LIMIT'' then Inr LIMIT
      else if i = ''MARKET'' then Inr MARKET
      else if i = ''STOP'' then Inr STOP_LOSS
      else if i = ''STOP_MARKET'' then Inr STOP_LOSS
      else if i = ''STOP_LOSS'' then Inr STOP_LOSS
      else if i = ''STOP_LOSS_LIMIT'' then Inr STOP_LOSS_LIMIT
      else if i = ''TAKE_PROFIT'' then Inr TAKE_PROFIT
      else if i = ''TAKE_PROFIT_LIMIT'' then Inr TAKE_PROFIT_LIMIT
      else if i = ''LIMIT_MAKER'' then Inr LIMIT_MAKER
      else Inl (Err ''Do not know how to map binance order type to generic order type''))"

definition map_binance_order_status_to_generic_order_status :: "string \<Rightarrow> js_error + order_status" where
  "map_binance_order_status_to_generic_order_status i =
     (if i = ''CANCELED'' then Inr CANCELED
      else if i = ''EXPIRED'' then Inr EXPIRED
      else if i = ''FILLED'' then Inr FILLED
      else if i = ''NEW'' then Inr NEW
      else if i = ''PARTIALLY_FILLED'' then Inr PARTIALLY_FILLED
      else if i = ''PENDING_CANCEL'' then Inr PENDING_CANCEL
      else if i = ''REJECTED'' then Inr REJECTED
      else Inl (Err ''Do not know how to map binance order status to generic order status''))"

definition binance_spot :: exchange_identifier where
  "binance_spot = \<lparr>ei_exchange = ''binance'', ei_type = Spot\<rparr>"

definition fromCompletedBinanceOrderData ::
    "binance_order_data \<Rightarrow> exchange_info \<Rightarrow> js_error + generic_order_data" where
  "fromCompletedBinanceOrderData i exchange_info =
     (if x_orderStatus i \<noteq> ''FILLED'' then Inl (Err ''orderStatus is not FILLED'')
      else case find (\<lambda>s. s_symbol s = x_symbol i) exchange_info of
        None \<Rightarrow> Inl (Err ''No exchange_info for symbol found when converting Binance order to GenericOrder'')
      | Some symbol_info \<Rightarrow>
          (case b_averageExecutionPrice i of
             None \<Rightarrow> Inl (Err ''No averageExecutionPrice for symbol found when converting Binance order to GenericOrder'')
           | Some averageExecutionPrice \<Rightarrow>
               (case map_binance_order_type_to_generic_order_type (x_orderType i) of
                  Inl e \<Rightarrow> Inl e
                | Inr orderType \<Rightarrow>
                    (case map_binance_order_status_to_generic_order_status (x_orderStatus i) of
                       Inl e \<Rightarrow> Inl e
                     | Inr orderStatus \<Rightarrow>
                         Inr \<lparr>o_order_id = b_order_id i, o_market_symbol = x_symbol i,
                              o_baseAsset = s_baseAsset symbol_info, o_quoteAsset = s_quoteAsset symbol_info,
                              o_side = x_side i, o_orderType = orderType, o_orderStatus = Some orderStatus,
                              o_orderTime = x_orderTime i,
                              o_totalBaseTradeQuantity = x_totalTradeQuantity i,
                              o_totalQuoteTradeQuantity = x_totalQuoteTradeQuantity i,
                              o_averageExecutionPrice = Some averageExecutionPrice,
                              o_exchange_identifier = binance_spot\<rparr>))))"

text \<open>Here the exchange's change of the client id on a cancellation is undone.\<close>

definition report_order_id :: "execution_report \<Rightarrow> string" where
  "report_order_id i =
     (if x_orderStatus i = ''CANCELED''
      then (if x_originalClientOrderId i \<noteq> [] then x_originalClientOrderId i else x_newClientOrderId i)
      else x_newClientOrderId i)"

definition fromBinanceExecutionReport :: "execution_report \<Rightarrow> exchange_info \<Rightarrow> js_error + generic_order_update" where
  "fromBinanceExecutionReport i exchange_info =
     (case find (\<lambda>s. s_symbol s = x_symbol i) exchange_info of
        None \<Rightarrow> Inl (Err ''No exchange_info for symbol found when converting Binance order to GenericOrder'')
      | Some symbol_info \<Rightarrow>
          (case map_binance_order_status_to_generic_order_status (x_orderStatus i) of
             Inl e \<Rightarrow> Inl e
           | Inr order_status \<Rightarrow>
               (case map_binance_order_type_to_generic_order_type (x_orderType i) of
                  Inl e \<Rightarrow> Inl e
                | Inr order_type \<Rightarrow>
                    Inr \<lparr>u_timestamp_ms = x_orderTime i, u_exchange_identifier = binance_spot,
                         u_market_identifier =
                           \<lparr>mi_exchange_identifier = binance_spot, mi_base_asset = s_baseAsset symbol_info,
                            mi_quote_asset = Some (s_quoteAsset symbol_info), mi_symbol = x_symbol i\<rparr>,
                         u_order_id = report_order_id i, u_side = x_side i, u_order_type = order_type,
                         u_order_status = order_status,
                         u_total_base_trade_quantity = x_totalTradeQuantity i,
                         u_total_quote_trade_quantity = x_totalQuoteTradeQuantity i\<rparr>)))"

section \<open>Properties\<close>

text \<open>The callback calls of a run, as a callback record that only records.\<close>

datatype callback_call =
    Created binance_order_data
  | FilledOrPartiallyFilled binance_order_data
  | Cancelled binance_order_data
  | Expired binance_order_data
  | Filled binance_order_data

definition record_call :: "('b \<Rightarrow> callback_call) \<Rightarrow> 'b \<Rightarrow> (callback_call list, unit) prog" where
  "record_call f x = modifyE (\<lambda>cs. cs @ [f x])"

definition recording_callbacks :: "callback_call list order_callbacks" where
  "recording_callbacks =
     \<lparr>order_created = Some (record_call Created),
      order_filled_or_partially_filled = Some (record_call FilledOrPartiallyFilled),
      order_cancelled = Some (record_call Cancelled), order_expired = Some (record_call Expired),
      order_filled = record_call Filled\<rparr>"

definition calls_of_status :: "string \<Rightarrow> binance_order_data \<Rightarrow> callback_call list option" where
  "calls_of_status st bod =
     (if st = ''NEW'' then Some [Created bod]
      else if st = ''PARTIALLY_FILLED'' then Some [FilledOrPartiallyFilled bod]
      else if st = ''CANCELED'' then Some [Cancelled bod]
      else if st = ''EXPIRED'' then Some [Expired bod]
      else if st = ''FILLED'' then Some [FilledOrPartiallyFilled bod, Filled bod]
      else None)"

text \<open>
  An execution report reaches exactly the handlers of its status: an order that is filled reaches
  \<open>order_filled\<close> once and after \<open>order_filled_or_partially_filled\<close>, no other status reaches
  \<open>order_filled\<close>, and a status the tracker does not know is an error that calls nothing.
\<close>

theorem report_dispatch:
  assumes "x_eventType x = ''executionReport''"
  shows "processExecutionReport B ei (Some recording_callbacks) x cs =
    (case calls_of_status (x_orderStatus x) (to_binance_order_data B ei x) of
       None \<Rightarrow> (Inl (Err (''Unexpected orderStatus: '' @ x_orderStatus x)), cs)
     | Some calls \<Rightarrow> (Inr (), cs @ calls))"
  using assms
  by (simp add: processExecutionReport_def calls_of_status_def recording_callbacks_def record_call_def
      call_if_def Let_def seqE_def bindE_def modifyE_def throwE_def)

definition demo_report :: "string \<Rightarrow> execution_report" where
  "demo_report st = \<lparr>x_eventType = ''executionReport'', x_symbol = ''ETHUSDT'', x_newClientOrderId = ''new'',
     x_originalClientOrderId = ''orig'', x_side = BUY, x_orderType = ''MARKET'', x_orderStatus = st,
     x_orderId = 42, x_orderTime = 1, x_totalTradeQuantity = 2, x_totalQuoteTradeQuantity = 200\<rparr>"

theorem report_dispatch_witness:
  "\<exists>bod. processExecutionReport ref_bignum binance_spot (Some recording_callbacks) (demo_report ''FILLED'') []
    = (Inr (), [FilledOrPartiallyFilled bod, Filled bod])"
  using report_dispatch [of "demo_report ''FILLED''" ref_bignum binance_spot "[]"]
  by (simp add: calls_of_status_def demo_report_def)

text \<open>
  The two ingestion paths name the same order.  The id of the tracker's \<open>BinanceOrderData\<close> and that
  of the \<open>GenericOrderUpdate\<close> agree whenever the report carries the client's id: the new one unless
  the order is cancelled, the original one if it is.  A cancellation that carries no original id is
  not covered: the paths then use the exchange's number and the new client id.
\<close>

theorem order_ids_agree:
  assumes "(if x_orderStatus x = ''CANCELED'' then x_originalClientOrderId x else x_newClientOrderId x) \<noteq> []"
    and "fromBinanceExecutionReport x exchange_info = Inr u"
  shows "u_order_id u = b_order_id (to_binance_order_data B ei x) \<and>
    b_order_is_is_client_order_id (to_binance_order_data B ei x)"
  using assms
  by (auto simp: fromBinanceExecutionReport_def to_binance_order_data_def tracker_order_id_def report_order_id_def
      execution_report.defs binance_order_data.simps split: option.splits sum.splits if_splits)

theorem order_ids_agree_witness:
  "\<exists>u. fromBinanceExecutionReport (demo_report ''CANCELED'') demo_exchange_info = Inr u \<and>
    u_order_id u = b_order_id (to_binance_order_data ref_bignum binance_spot (demo_report ''CANCELED''))"
proof -
  have "\<exists>u. fromBinanceExecutionReport (demo_report ''CANCELED'') demo_exchange_info = Inr u"
    by (simp add: fromBinanceExecutionReport_def demo_report_def demo_exchange_info_def
        map_binance_order_status_to_generic_order_status_def map_binance_order_type_to_generic_order_type_def)
  then show ?thesis
    using order_ids_agree [of "demo_report ''CANCELED''"] by (auto simp: demo_report_def)
qed

text \<open>
  A completed order keeps what was executed.  A \<open>FILLED\<close> report of a listed symbol with an executed
  quantity and a known order type converts to an order with the same quantities, side, time and client id, the
  symbol's assets, and an average price within a rounding error of quote over base quantity.
\<close>

theorem completed_order_is_faithful:
  assumes "bignum_laws B" "x_orderStatus x = ''FILLED''" "x_totalTradeQuantity x \<noteq> 0"
    and "find (\<lambda>s. s_symbol s = x_symbol x) exchange_info = Some info"
    and "map_binance_order_type_to_generic_order_type (x_orderType x) = Inr ty"
  shows "\<exists>g price. fromCompletedBinanceOrderData (to_binance_order_data B ei x) exchange_info = Inr g \<and>
    o_totalBaseTradeQuantity g = x_totalTradeQuantity x \<and>
    o_totalQuoteTradeQuantity g = x_totalQuoteTradeQuantity x \<and> o_side g = x_side x \<and>
    o_orderTime g = x_orderTime x \<and> o_orderStatus g = Some FILLED \<and> o_orderType g = ty \<and>
    o_baseAsset g = s_baseAsset info \<and> o_quoteAsset g = s_quoteAsset info \<and>
    (x_newClientOrderId x \<noteq> [] \<longrightarrow> o_order_id g = x_newClientOrderId x) \<and>
    o_averageExecutionPrice g = Some price \<and>
    \<bar>price - x_totalQuoteTradeQuantity x / x_totalTradeQuantity x\<bar> \<le> 1 / (2 * 10 ^ 8) + 1 / (2 * 10 ^ 20)"
proof -
  let ?q = "x_totalQuoteTradeQuantity x" and ?b = "x_totalTradeQuantity x"
  let ?price = "bn_dp B 8 (bn_div B ?q ?b)"
  have "\<bar>?price - bn_div B ?q ?b\<bar> \<le> 1 / (2 * 10 ^ 8)" "\<bar>bn_div B ?q ?b - ?q / ?b\<bar> \<le> 1 / (2 * 10 ^ 20)"
    using bignum_laws.dp_close [OF assms(1), of 8 "bn_div B ?q ?b"] bignum_laws.div_close [OF assms(1,3), of ?q]
    by simp_all
  then have close: "\<bar>?price - ?q / ?b\<bar> \<le> 1 / (2 * 10 ^ 8) + 1 / (2 * 10 ^ 20)"
    using abs_triangle_ineq [of "?price - bn_div B ?q ?b" "bn_div B ?q ?b - ?q / ?b"]
    by (simp only: diff_add_cancel add_diff_eq)
  show ?thesis
    using assms(2-5) close
    by (auto simp: fromCompletedBinanceOrderData_def to_binance_order_data_def tracker_order_id_def
        average_execution_price_def map_binance_order_status_to_generic_order_status_def
        execution_report.defs binance_order_data.simps)
qed

theorem completed_order_is_faithful_witness:
  "\<exists>g. fromCompletedBinanceOrderData (to_binance_order_data ref_bignum binance_spot (demo_report ''FILLED''))
      demo_exchange_info = Inr g \<and> o_totalBaseTradeQuantity g = 2"
proof -
  have "x_orderStatus (demo_report ''FILLED'') = ''FILLED''" "x_totalTradeQuantity (demo_report ''FILLED'') \<noteq> 0"
    "find (\<lambda>s. s_symbol s = x_symbol (demo_report ''FILLED'')) demo_exchange_info = Some (hd demo_exchange_info)"
    "map_binance_order_type_to_generic_order_type (x_orderType (demo_report ''FILLED'')) = Inr MARKET"
    by (simp_all add: demo_report_def demo_exchange_info_def map_binance_order_type_to_generic_order_type_def)
  from completed_order_is_faithful [OF ref_bignum_laws this, of binance_spot] show ?thesis
    by (auto simp: demo_report_def)
qed

end
