(* ===== verification/AlgoUtils.thy ===== *)
theory AlgoUtils
  imports World
begin

text \<open>
  Rounding to the exchange's rules and order creation: \<open>lib/utils.ts\<close>, \<open>StaticBinanceAlgoUtils\<close>
  and \<open>BinanceAlgoUtils\<close> of the spot trade abstraction service, and
  \<open>classes/specifications/stop-limit-price.ts\<close>.  The lemmas say what rounding does to a quantity
  and a price, and that the orders sent to the exchange satisfy the filters the code checked.
\<close>

section \<open>lib/utils\<close>

definition quote_volume_at_price_to_base_volume :: "bignum \<Rightarrow> rat \<Rightarrow> rat \<Rightarrow> rat" where
  "quote_volume_at_price_to_base_volume B quote_volume price = bn_dp_down B 8 (bn_div B quote_volume price)"

definition base_volume_at_price_to_quote_volume :: "rat \<Rightarrow> rat \<Rightarrow> rat" where
  "base_volume_at_price_to_quote_volume base_volume price = base_volume * price"

text \<open>
  Cutting the string of a decimal after \<open>d\<close> digits behind the point: truncation towards zero.
\<close>

definition cut_decimals :: "nat \<Rightarrow> rat \<Rightarrow> rat" where
  "cut_decimals d x = ref_dp_down d x"

definition desired_decimals :: "string \<Rightarrow> nat" where
  "desired_decimals stepSize = (case index_of (CHR ''1'') stepSize of None \<Rightarrow> 0 | Some i \<Rightarrow> i - 1)"

definition roundStep :: "bignum \<Rightarrow> rat \<Rightarrow> string \<Rightarrow> rat" where
  "roundStep B qty stepSize =
     (if bn_near_int B qty then qty
      else cut_decimals (desired_decimals stepSize) (bn_dp B 16 qty))"

text \<open>
  \<open>Number(s)\<close> on plain decimals, the only form the exchange sends; \<open>None\<close> stands for \<open>NaN\<close>.
\<close>

fun decimal_digits :: "string \<Rightarrow> rat \<Rightarrow> rat \<Rightarrow> rat option" where
  "decimal_digits [] unit acc = Some acc"
| "decimal_digits (c # cs) unit acc =
     (let d = of_char c :: nat in
      if 48 \<le> d \<and> d \<le> 57 then decimal_digits cs (unit / 10) (acc + unit * of_nat (d - 48)) else None)"

definition js_number :: "string \<Rightarrow> rat option" where
  "js_number s =
     (case split_on (CHR ''.'') s of
        [int_part] \<Rightarrow> if int_part = [] then Some 0 else decimal_digits int_part (10 ^ (length int_part - 1)) 0
      | [int_part, frac_part] \<Rightarrow>
          if int_part = [] \<and> frac_part = [] then None
          else (case decimal_digits int_part (10 ^ (length int_part - 1)) 0 of
                  None \<Rightarrow> None | Some w \<Rightarrow> decimal_digits frac_part (1 / 10) w)
      | _ \<Rightarrow> None)"

text \<open>
  \<open>formatter.format(x).split(".")?.[1]?.length || 0\<close> with zero to eight fraction digits: the
  number of fraction digits of \<open>x\<close> after rounding to eight, trailing zeros removed.
\<close>

definition formatted_fraction_digits :: "rat option \<Rightarrow> nat" where
  "formatted_fraction_digits x =
     (case x of
        None \<Rightarrow> 0
      | Some v \<Rightarrow> (let r = ref_dp 8 v in
          case find (\<lambda>n. of_int \<lfloor>r * 10 ^ n\<rfloor> = r * 10 ^ n) [0..<9] of Some n \<Rightarrow> n | None \<Rightarrow> 0))"

definition roundTicks :: "bignum \<Rightarrow> rat \<Rightarrow> rat option \<Rightarrow> rat" where
  "roundTicks B price tickSize = bn_dp B (formatted_fraction_digits tickSize) price"

section \<open>StaticBinanceAlgoUtils\<close>

definition get_symbol_filters :: "exchange_info \<Rightarrow> string \<Rightarrow> js_error + symbol_filter list" where
  "get_symbol_filters exchange_info symbol =
     (case find (\<lambda>ei. s_symbol ei = symbol) exchange_info of
        None \<Rightarrow> Inl (Err (''Could not find exchange info for '' @ symbol))
      | Some symbol_data \<Rightarrow> Inr (s_filters symbol_data))"

definition get_symbol_order_types :: "exchange_info \<Rightarrow> string \<Rightarrow> js_error + string list" where
  "get_symbol_order_types exchange_info symbol =
     (case find (\<lambda>ei. s_symbol ei = symbol) exchange_info of
        None \<Rightarrow> Inl (Err (''Could not find exchange info for '' @ symbol))
      | Some symbol_data \<Rightarrow> Inr (s_orderTypes symbol_data))"

fun lot_size_filter :: "symbol_filter list \<Rightarrow> (string \<times> rat) option" where
  "lot_size_filter [] = None"
| "lot_size_filter (LOT_SIZE stp mn # fs) = Some (stp, mn)"
| "lot_size_filter (_ # fs) = lot_size_filter fs"

fun price_filter :: "symbol_filter list \<Rightarrow> (string \<times> rat) option" where
  "price_filter [] = None"
| "price_filter (PRICE_FILTER tick mn # fs) = Some (tick, mn)"
| "price_filter (_ # fs) = price_filter fs"

fun notional_filter :: "symbol_filter list \<Rightarrow> rat option" where
  "notional_filter [] = None"
| "notional_filter (NOTIONAL mn # fs) = Some mn"
| "notional_filter (_ # fs) = notional_filter fs"

definition munge_and_check_quantity :: "bignum \<Rightarrow> exchange_info \<Rightarrow> string \<Rightarrow> rat \<Rightarrow> js_error + rat" where
  "munge_and_check_quantity B exchange_info symbol volume =
     (if symbol = [] then Inl (Err ''assert(symbol)'')
      else case get_symbol_filters exchange_info symbol of
        Inl e \<Rightarrow> Inl e
      | Inr filters \<Rightarrow>
          (case lot_size_filter filters of
             None \<Rightarrow> Inl (Err ''Return undefined getting filter for LOT_SIZE'')
           | Some (stepSize, minQty) \<Rightarrow>
               (let volume = roundStep B volume stepSize in
                if volume < minQty then Inl (Err ''does not meet minimum quantity (LOT_SIZE)'')
                else Inr volume)))"

definition munge_and_check_price :: "bignum \<Rightarrow> exchange_info \<Rightarrow> string \<Rightarrow> rat \<Rightarrow> js_error + rat" where
  "munge_and_check_price B exchange_info symbol price =
     (if symbol = [] then Inl (Err ''assert(symbol)'')
      else if price = 0 then Inr price
      else case get_symbol_filters exchange_info symbol of
        Inl e \<Rightarrow> Inl e
      | Inr filters \<Rightarrow>
          (case price_filter filters of
             None \<Rightarrow> Inl (Err ''Return undefined getting filter for LOT_SIZE'')
           | Some (tickSize, minPrice) \<Rightarrow>
               (let price = roundTicks B price (js_number tickSize) in
                if price < minPrice then Inl (Err ''does not meet minimum order price (PRICE_FILTER)'')
                else Inr price)))"

definition check_notional :: "exchange_info \<Rightarrow> string \<Rightarrow> rat \<Rightarrow> rat \<Rightarrow> js_error + unit" where
  "check_notional exchange_info symbol price volume =
     (if symbol = [] then Inl (Err ''assert(symbol)'')
      else if price = 0 then Inr ()
      else case get_symbol_filters exchange_info symbol of
        Inl e \<Rightarrow> Inl e
      | Inr filters \<Rightarrow>
          (case notional_filter filters of
             None \<Rightarrow> Inl (Err ''Return undefined getting filter for NOTIONAL'')
           | Some minNotional \<Rightarrow>
               if price * volume < minNotional
               then Inl (Err ''does not meet minimum order value (NOTIONAL)'')
               else Inr ()))"

text \<open>The optional prices, in the order in which the code checks them.\<close>

record notional_prices =
  np_price :: "rat option"
  np_buy_price :: "rat option"
  np_stop_price :: "rat option"
  np_target_price :: "rat option"
  np_limit_price :: "rat option"

abbreviation no_prices :: notional_prices where
  "no_prices \<equiv> \<lparr>np_price = None, np_buy_price = None, np_stop_price = None,
     np_target_price = None, np_limit_price = None\<rparr>"

fun check_notionals :: "exchange_info \<Rightarrow> string \<Rightarrow> rat \<Rightarrow> rat option list \<Rightarrow> js_error + unit" where
  "check_notionals exchange_info pair base_amount [] = Inr ()"
| "check_notionals exchange_info pair base_amount (None # ps) =
     check_notionals exchange_info pair base_amount ps"
| "check_notionals exchange_info pair base_amount (Some p # ps) =
     (case check_notional exchange_info pair p base_amount of
        Inl e \<Rightarrow> Inl e
      | Inr _ \<Rightarrow> check_notionals exchange_info pair base_amount ps)"

definition munge_amount_and_check_notionals ::
    "bignum \<Rightarrow> exchange_info \<Rightarrow> string \<Rightarrow> rat \<Rightarrow> notional_prices \<Rightarrow> js_error + rat" where
  "munge_amount_and_check_notionals B exchange_info pair base_amount ps =
     (case munge_and_check_quantity B exchange_info pair base_amount of
        Inl e \<Rightarrow> Inl e
      | Inr base_amount \<Rightarrow>
          (case check_notionals exchange_info pair base_amount
              [np_price ps, np_buy_price ps, np_stop_price ps, np_target_price ps, np_limit_price ps] of
             Inl e \<Rightarrow> Inl e
           | Inr _ \<Rightarrow> Inr base_amount))"

text \<open>
  \<open>get_limit_price_for_stop_order\<close>: 85 percent of the stop price.
\<close>

definition get_limit_price_for_stop_order :: "bignum \<Rightarrow> rat \<Rightarrow> rat" where
  "get_limit_price_for_stop_order B stop_price = stop_price * bn_div B (100 - 15) 100"

section \<open>BinanceAlgoUtils: creating orders\<close>

text \<open>
  \<open>this.ee.order(args)\<close> and the assertion on the id in the reply that every creator makes.  The
  \<open>try ... catch\<close> blocks of the creators only log and throw the error again.
\<close>

definition ee_order :: "env \<Rightarrow> order_req \<Rightarrow> (world, order_resp) prog" where
  "ee_order E args = call_out (PlaceOrder args) (env_order E)"

definition order_checked :: "env \<Rightarrow> order_req \<Rightarrow> (world, order_resp) prog" where
  "order_checked E args =
     bindE (ee_order E args) (\<lambda>response.
     seqE (assertE (r_clientOrderId response = q_newClientOrderId args) ''assert.equal(clientOrderId)'')
       (returnE response))"

definition is_too_small_to_trade ::
    "bignum \<Rightarrow> env \<Rightarrow> string \<Rightarrow> rat \<Rightarrow> rat \<Rightarrow> (world, bool) prog" where
  "is_too_small_to_trade B E symbol price volume =
     bindE (call_out GetExchangeInfo (env_exchange_info E)) (\<lambda>exchange_info.
       tryE
         (bindE (liftE (munge_and_check_price B exchange_info symbol price)) (\<lambda>munged_price.
          bindE (liftE (munge_and_check_quantity B exchange_info symbol volume)) (\<lambda>munged_volume.
          seqE (liftE (check_notional exchange_info symbol munged_price munged_volume)) (returnE False))))
         (\<lambda>_. returnE True))"

definition create_limit_buy_order ::
    "bignum \<Rightarrow> env \<Rightarrow> exchange_info \<Rightarrow> string \<Rightarrow> rat \<Rightarrow> rat \<Rightarrow> string \<Rightarrow> string option \<Rightarrow> (world, order_resp) prog" where
  "create_limit_buy_order B E exchange_info pair base_amount price clientOrderId timeInForce =
     seqE (assertE (pair \<noteq> []) ''assert(pair && price && base_amount)'')
     (bindE (liftE (munge_and_check_price B exchange_info pair price)) (\<lambda>price.
      bindE (liftE (munge_amount_and_check_notionals B exchange_info pair base_amount
              (no_prices\<lparr>np_price := Some price\<rparr>))) (\<lambda>base_amount.
      order_checked E
        \<lparr>q_symbol = pair, q_side = BUY, q_type = LIMIT, q_quantity = Some base_amount,
         q_quoteOrderQty = None, q_price = Some price, q_stopPrice = None,
         q_newClientOrderId = clientOrderId, q_timeInForce = timeInForce,
         q_newOrderRespType = Some ''RESULT''\<rparr>)))"

definition create_limit_sell_order ::
    "bignum \<Rightarrow> env \<Rightarrow> exchange_info \<Rightarrow> string \<Rightarrow> rat \<Rightarrow> rat \<Rightarrow> string \<Rightarrow> (world, order_resp) prog" where
  "create_limit_sell_order B E exchange_info pair base_amount price clientOrderId =
     seqE (assertE (pair \<noteq> []) ''assert(pair && price && base_amount)'')
     (bindE (liftE (munge_amount_and_check_notionals B exchange_info pair base_amount
              (no_prices\<lparr>np_price := Some price\<rparr>))) (\<lambda>base_amount.
      order_checked E
        \<lparr>q_symbol = pair, q_side = SELL, q_type = LIMIT, q_quantity = Some base_amount,
         q_quoteOrderQty = None, q_price = Some price, q_stopPrice = None,
         q_newClientOrderId = clientOrderId, q_timeInForce = None, q_newOrderRespType = None\<rparr>))"

definition munge_and_create_limit_sell_order ::
    "bignum \<Rightarrow> env \<Rightarrow> exchange_info \<Rightarrow> string \<Rightarrow> rat \<Rightarrow> rat \<Rightarrow> string \<Rightarrow> (world, order_resp) prog" where
  "munge_and_create_limit_sell_order B E exchange_info pair base_amount price clientOrderId =
     bindE (liftE (munge_and_check_price B exchange_info pair price)) (\<lambda>munged_price.
     bindE (liftE (munge_amount_and_check_notionals B exchange_info pair base_amount
             (no_prices\<lparr>np_price := Some munged_price\<rparr>))) (\<lambda>munged_base_amount.
     create_limit_sell_order B E exchange_info pair munged_base_amount munged_price clientOrderId))"

text \<open>The notionals of an OCO order are checked with the prices before they are munged.\<close>

definition munge_and_create_oco_order ::
    "bignum \<Rightarrow> env \<Rightarrow> exchange_info \<Rightarrow> string \<Rightarrow> rat \<Rightarrow> rat \<Rightarrow> rat \<Rightarrow> rat \<Rightarrow>
     string \<Rightarrow> string \<Rightarrow> string \<Rightarrow> (world, string) prog" where
  "munge_and_create_oco_order B E exchange_info pair base_amount target_price stop_price limit_price
       stop_ClientOrderId take_profit_ClientOrderId oco_list_ClientOrderId =
     seqE (assertE (pair \<noteq> []) ''assert(pair && target_price && base_amount && stop_price && limit_price)'')
     (bindE (liftE (munge_amount_and_check_notionals B exchange_info pair base_amount
              (no_prices\<lparr>np_stop_price := Some stop_price, np_limit_price := Some limit_price,
                 np_target_price := Some target_price\<rparr>))) (\<lambda>base_amount.
      bindE (liftE (munge_and_check_price B exchange_info pair stop_price)) (\<lambda>stop_price.
      bindE (liftE (munge_and_check_price B exchange_info pair limit_price)) (\<lambda>limit_price.
      bindE (liftE (munge_and_check_price B exchange_info pair target_price)) (\<lambda>target_price.
      call_out
        (PlaceOco \<lparr>oco_symbol = pair, oco_side = SELL, oco_quantity = base_amount,
           oco_price = target_price, oco_stopPrice = stop_price, oco_stopLimitPrice = limit_price,
           oco_listClientOrderId = oco_list_ClientOrderId,
           oco_limitClientOrderId = take_profit_ClientOrderId,
           oco_stopClientOrderId = stop_ClientOrderId\<rparr>)
        (env_oco E))))))"

definition munge_and_create_stop_loss_limit_sell_order ::
    "bignum \<Rightarrow> env \<Rightarrow> exchange_info \<Rightarrow> string \<Rightarrow> rat \<Rightarrow> rat \<Rightarrow> rat \<Rightarrow> string \<Rightarrow> (world, order_resp) prog" where
  "munge_and_create_stop_loss_limit_sell_order B E exchange_info pair base_amount stop_price limit_price
       clientOrderId =
     seqE (assertE (pair \<noteq> []) ''assert(pair && stop_price && base_amount && stop_price && limit_price)'')
     (bindE (liftE (munge_and_check_price B exchange_info pair stop_price)) (\<lambda>stop_price.
      bindE (liftE (munge_and_check_price B exchange_info pair limit_price)) (\<lambda>limit_price.
      bindE (liftE (munge_amount_and_check_notionals B exchange_info pair base_amount
              (no_prices\<lparr>np_stop_price := Some stop_price\<rparr>))) (\<lambda>base_amount.
      order_checked E
        \<lparr>q_symbol = pair, q_side = SELL, q_type = STOP_LOSS_LIMIT, q_quantity = Some base_amount,
         q_quoteOrderQty = None, q_price = Some limit_price, q_stopPrice = Some stop_price,
         q_newClientOrderId = clientOrderId, q_timeInForce = None, q_newOrderRespType = None\<rparr>))))"

definition market_order_req :: "side \<Rightarrow> string \<Rightarrow> string \<Rightarrow> order_req" where
  "market_order_req sd pair clientOrderId =
     \<lparr>q_symbol = pair, q_side = sd, q_type = MARKET, q_quantity = None, q_quoteOrderQty = None,
      q_price = None, q_stopPrice = None, q_newClientOrderId = clientOrderId,
      q_timeInForce = None, q_newOrderRespType = None\<rparr>"

definition create_market_buy_order :: "env \<Rightarrow> rat \<Rightarrow> string \<Rightarrow> string \<Rightarrow> (world, order_resp) prog" where
  "create_market_buy_order E base_amount pair clientOrderId =
     seqE (assertE (pair \<noteq> []) ''assert(pair)'')
       (order_checked E ((market_order_req BUY pair clientOrderId)\<lparr>q_quantity := Some base_amount\<rparr>))"

definition create_market_buy_order_by_quote_amount ::
    "env \<Rightarrow> rat \<Rightarrow> string \<Rightarrow> string \<Rightarrow> (world, order_resp) prog" where
  "create_market_buy_order_by_quote_amount E quote_amount pair clientOrderId =
     seqE (assertE (pair \<noteq> []) ''assert(pair)'')
       (order_checked E ((market_order_req BUY pair clientOrderId)\<lparr>q_quoteOrderQty := Some quote_amount\<rparr>))"

definition create_market_sell_order :: "env \<Rightarrow> rat \<Rightarrow> string \<Rightarrow> string \<Rightarrow> (world, order_resp) prog" where
  "create_market_sell_order E base_amount pair clientOrderId =
     seqE (assertE (pair \<noteq> []) ''assert(pair)'')
       (order_checked E ((market_order_req SELL pair clientOrderId)
          \<lparr>q_quantity := Some base_amount, q_newOrderRespType := Some ''RESULT''\<rparr>))"

definition cancelOrder :: "env \<Rightarrow> string \<Rightarrow> string \<Rightarrow> (world, string) prog" where
  "cancelOrder E symbol clientOrderId = call_out (CancelOrder symbol clientOrderId) (env_cancel E)"

lemma wp_order_checked [simp, wp_simps]:
  "wp (order_checked E q) Q R = (\<lambda>w. let w' = w\<lparr>trace := PlaceOrder q # trace w\<rparr> in
     case env_order E (PlaceOrder q # trace w) of
       Inl e \<Rightarrow> R e w'
     | Inr r \<Rightarrow> if r_clientOrderId r = q_newClientOrderId q then Q r w'
                else R (Err ''assert.equal(clientOrderId)'') w')"
  by (simp add: order_checked_def ee_order_def Let_def cong: if_cong)

section \<open>What the checks guarantee\<close>

text \<open>The filters of a symbol as the exchange enforces them on a request.\<close>

definition meets_lot_size :: "exchange_info \<Rightarrow> string \<Rightarrow> rat \<Rightarrow> bool" where
  "meets_lot_size ei symbol q \<longleftrightarrow>
     (\<exists>fs stp mn. get_symbol_filters ei symbol = Inr fs \<and> lot_size_filter fs = Some (stp, mn) \<and> mn \<le> q)"

definition meets_price_filter :: "exchange_info \<Rightarrow> string \<Rightarrow> rat \<Rightarrow> bool" where
  "meets_price_filter ei symbol p \<longleftrightarrow>
     (\<exists>fs tick mn. get_symbol_filters ei symbol = Inr fs \<and> price_filter fs = Some (tick, mn) \<and>
        mn \<le> p \<and> on_grid (formatted_fraction_digits (js_number tick)) p)"

definition meets_notional :: "exchange_info \<Rightarrow> string \<Rightarrow> rat \<Rightarrow> rat \<Rightarrow> bool" where
  "meets_notional ei symbol p q \<longleftrightarrow>
     (\<exists>fs mn. get_symbol_filters ei symbol = Inr fs \<and> notional_filter fs = Some mn \<and> mn \<le> p * q)"

lemma munge_and_check_quantity_Inr:
  "munge_and_check_quantity B ei symbol v = Inr q \<longleftrightarrow>
    symbol \<noteq> [] \<and> (\<exists>fs stp mn. get_symbol_filters ei symbol = Inr fs \<and> lot_size_filter fs = Some (stp, mn) \<and>
      q = roundStep B v stp \<and> mn \<le> q)"
  by (auto simp: munge_and_check_quantity_def Let_def split: sum.splits option.splits if_splits)

lemma munge_and_check_price_Inr:
  "munge_and_check_price B ei symbol v = Inr p \<longleftrightarrow>
    symbol \<noteq> [] \<and> (if v = 0 then p = 0 else
      (\<exists>fs tick mn. get_symbol_filters ei symbol = Inr fs \<and> price_filter fs = Some (tick, mn) \<and>
         p = roundTicks B v (js_number tick) \<and> mn \<le> p))"
  by (auto simp: munge_and_check_price_def Let_def split: sum.splits option.splits if_splits)

lemma check_notional_Inr:
  "check_notional ei symbol p q = Inr u \<longleftrightarrow> symbol \<noteq> [] \<and> (p = 0 \<or> meets_notional ei symbol p q)"
  by (auto simp: check_notional_def meets_notional_def not_less split: sum.splits option.splits)

lemma check_notional_Inl:
  "check_notional ei symbol p q = Inl e \<Longrightarrow> symbol \<noteq> [] \<Longrightarrow> p \<noteq> 0 \<and> \<not> meets_notional ei symbol p q"
  using check_notional_Inr [of ei symbol p q "()"] by auto

lemma check_notionals_Inr:
  "symbol \<noteq> [] \<Longrightarrow> check_notionals ei symbol q ps = Inr u \<longleftrightarrow>
    (\<forall>p. Some p \<in> set ps \<longrightarrow> p = 0 \<or> meets_notional ei symbol p q)"
  by (induction ei symbol q ps rule: check_notionals.induct)
    (auto split: sum.splits dest: check_notional_Inl simp: check_notional_Inr)

lemma munge_amount_and_check_notionals_Inr:
  "munge_amount_and_check_notionals B ei pair v ps = Inr q \<longleftrightarrow>
    munge_and_check_quantity B ei pair v = Inr q \<and>
    (\<forall>p. Some p \<in> {np_price ps, np_buy_price ps, np_stop_price ps, np_target_price ps, np_limit_price ps} \<longrightarrow>
      p = 0 \<or> meets_notional ei pair p q)"
proof (cases "munge_and_check_quantity B ei pair v")
  case (Inr a)
  then have "pair \<noteq> []" by (simp add: munge_and_check_quantity_Inr)
  then have "check_notionals ei pair a [np_price ps, np_buy_price ps, np_stop_price ps, np_target_price ps, np_limit_price ps] = Inr u
      \<longleftrightarrow> (\<forall>p. Some p \<in> {np_price ps, np_buy_price ps, np_stop_price ps, np_target_price ps, np_limit_price ps} \<longrightarrow>
      p = 0 \<or> meets_notional ei pair p a)" for u
    by (subst check_notionals_Inr) simp_all
  with Inr show ?thesis
    unfolding munge_amount_and_check_notionals_def
    by (auto split: sum.splits)
qed (simp add: munge_amount_and_check_notionals_def)

text \<open>Rounding a quantity never gives more than there is and loses less than one step.\<close>

lemma roundStep_bounds:
  assumes "bignum_laws B" "0 \<le> v" "on_grid 16 v"
  shows "roundStep B v stp \<le> v" and "0 \<le> roundStep B v stp"
    and "v < roundStep B v stp + 1 / 10 ^ desired_decimals stp"
    and "roundStep B v stp = v \<and> bn_near_int B v \<or> on_grid (desired_decimals stp) (roundStep B v stp)"
proof -
  have "bn_dp B 16 v = v" using assms by (intro bignum_laws.dp_exact)
  then have r: "roundStep B v stp = (if bn_near_int B v then v else ref_dp_down (desired_decimals stp) v)"
    by (simp add: roundStep_def cut_decimals_def)
  show "roundStep B v stp \<le> v" "0 \<le> roundStep B v stp"
    "v < roundStep B v stp + 1 / 10 ^ desired_decimals stp"
    "roundStep B v stp = v \<and> bn_near_int B v \<or> on_grid (desired_decimals stp) (roundStep B v stp)"
    using assms(2) by (simp_all add: r ref_dp_down_le ref_dp_down_nonneg ref_dp_down_close ref_dp_down_grid)
qed

lemma roundTicks_bounds:
  assumes "bignum_laws B"
  shows "on_grid (formatted_fraction_digits tick) (roundTicks B p tick)"
    and "\<bar>roundTicks B p tick - p\<bar> \<le> 1 / (2 * 10 ^ formatted_fraction_digits tick)"
  using assms by (simp_all add: roundTicks_def bignum_laws.dp_grid bignum_laws.dp_close)

lemma munged_price_meets_filter:
  "bignum_laws B \<Longrightarrow> munge_and_check_price B ei symbol v = Inr p \<Longrightarrow> p = 0 \<or> meets_price_filter ei symbol p"
  by (auto simp: munge_and_check_price_Inr meets_price_filter_def roundTicks_bounds split: if_splits)

lemma munged_quantity_meets_lot_size:
  "munge_and_check_quantity B ei symbol v = Inr q \<Longrightarrow> meets_lot_size ei symbol q"
  by (auto simp: munge_and_check_quantity_Inr meets_lot_size_def)

text \<open>The largest rounding error of a price of the symbol: half a unit of the last tick digit.\<close>

definition price_slack :: "exchange_info \<Rightarrow> string \<Rightarrow> rat" where
  "price_slack ei symbol =
     (case get_symbol_filters ei symbol of
        Inl _ \<Rightarrow> 0
      | Inr fs \<Rightarrow> (case price_filter fs of None \<Rightarrow> 0
          | Some (tick, _) \<Rightarrow> 1 / (2 * 10 ^ formatted_fraction_digits (js_number tick))))"

lemma price_slack_nonneg [simp]: "0 \<le> price_slack ei symbol"
  by (simp add: price_slack_def split: sum.split option.split)

lemma munged_price_close:
  "bignum_laws B \<Longrightarrow> munge_and_check_price B ei symbol v = Inr p \<Longrightarrow> \<bar>p - v\<bar> \<le> price_slack ei symbol"
  by (auto simp: munge_and_check_price_Inr price_slack_def roundTicks_bounds
      split: if_splits sum.split option.split)

lemma notional_after_munging:
  assumes "meets_notional ei symbol v q" "\<bar>p - v\<bar> \<le> slack" "0 \<le> q"
  shows "\<exists>fs mn. get_symbol_filters ei symbol = Inr fs \<and> notional_filter fs = Some mn \<and> mn - slack * q \<le> p * q"
proof -
  have "(v - slack) * q \<le> p * q" using assms(2,3) by (intro mult_right_mono) linarith+
  then show ?thesis using assms(1) by (auto simp: meets_notional_def algebra_simps)
qed

section \<open>Properties\<close>

lemma demo_filters [simp]:
  "get_symbol_filters demo_exchange_info ''ETHUSDT'' = Inr [PRICE_FILTER ''1'' 1, LOT_SIZE ''1'' 1, NOTIONAL 10]"
  by (simp add: get_symbol_filters_def demo_exchange_info_def)

lemma demo_tick [simp]: "js_number ''1'' = Some 1"
  by code_simp

lemma demo_fraction_digits [simp]: "formatted_fraction_digits (Some 1) = 0"
  by code_simp

text \<open>
  Munging a quantity rounds down to the symbol's step.  For a quantity with at most 16 decimals
  the munged quantity is not larger, differs by less than one unit of the step's decimals, meets
  the lot size, and lies on the step's decimal grid unless the library takes the quantity for an
  integer.
\<close>

theorem munged_quantity_rounds_down:
  assumes "bignum_laws B" "0 \<le> v" "on_grid 16 v"
    and "munge_and_check_quantity B ei symbol v = Inr q"
  shows "\<exists>fs stp mn. get_symbol_filters ei symbol = Inr fs \<and> lot_size_filter fs = Some (stp, mn) \<and>
    mn \<le> q \<and> q \<le> v \<and> v < q + 1 / 10 ^ desired_decimals stp \<and>
    (bn_near_int B v \<and> q = v \<or> on_grid (desired_decimals stp) q)"
proof -
  obtain fs stp mn where "get_symbol_filters ei symbol = Inr fs" "lot_size_filter fs = Some (stp, mn)"
      "q = roundStep B v stp" "mn \<le> q"
    using assms(4) by (auto simp: munge_and_check_quantity_Inr)
  then show ?thesis using roundStep_bounds [OF assms(1-3), of stp] by auto
qed

theorem munged_quantity_rounds_down_witness:
  "munge_and_check_quantity ref_bignum demo_exchange_info ''ETHUSDT'' (5 / 2) = Inr 2 \<and>
   (2::rat) \<le> 5 / 2"
proof -
  have q: "munge_and_check_quantity ref_bignum demo_exchange_info ''ETHUSDT'' (5 / 2) = Inr 2"
    by code_simp
  have "(5 / 2) * 10 ^ 16 = (of_int 25000000000000000 :: rat)" by simp
  then have "on_grid 16 (5 / 2)" unfolding on_grid_def by (metis Ints_of_int)
  from munged_quantity_rounds_down [OF ref_bignum_laws _ this q] q show ?thesis by auto
qed



definition oco_notional_ok :: "exchange_info \<Rightarrow> string \<Rightarrow> rat \<Rightarrow> rat \<Rightarrow> bool" where
  "oco_notional_ok ei pair p q \<longleftrightarrow>
     (\<exists>fs mn. get_symbol_filters ei pair = Inr fs \<and> notional_filter fs = Some mn \<and>
        mn - price_slack ei pair * q \<le> p * q)"

lemma oco_notional_okI:
  "bignum_laws B \<Longrightarrow> munge_and_check_price B ei pair v = Inr p \<Longrightarrow> v = 0 \<or> meets_notional ei pair v q \<Longrightarrow>
   0 \<le> q \<Longrightarrow> p = 0 \<or> oco_notional_ok ei pair p q"
  unfolding oco_notional_ok_def
  by (metis munged_price_close notional_after_munging munge_and_check_price_Inr)

text \<open>
  An OCO order is checked before its prices are rounded.  Whatever is sent is one OCO order whose
  quantity meets the lot size and whose three prices are on the tick grid; its notional at the stop,
  limit and target prices reaches the minimum only up to the rounding error of the price, half a
  unit of the last tick digit, times the quantity.
\<close>

theorem oco_order_notional_within_rounding:
  assumes "bignum_laws B" "\<And>v q. munge_and_check_quantity B ei pair v = Inr q \<Longrightarrow> 0 \<le> q"
    and "munge_and_create_oco_order B E ei pair base_amount target stop limit sid tid lid w = (r, w')"
  shows "trace w' = trace w \<and> isl r \<or>
    (\<exists>o'. trace w' = PlaceOco o' # trace w \<and> oco_symbol o' = pair \<and> oco_side o' = SELL \<and>
       meets_lot_size ei pair (oco_quantity o') \<and>
       (\<forall>p \<in> {oco_price o', oco_stopPrice o', oco_stopLimitPrice o'}.
          p = 0 \<or> meets_price_filter ei pair p \<and> oco_notional_ok ei pair p (oco_quantity o')))"
proof -
  have "wp (munge_and_create_oco_order B E ei pair base_amount target stop limit sid tid lid)
    (\<lambda>x t. r = Inr x \<and> w' = t) (\<lambda>e t. r = Inl e \<and> w' = t) w"
    using assms(3) by (simp flip: wp_outcome)
  then show ?thesis using assms(1)
    by (auto simp: munge_and_create_oco_order_def Let_def munge_amount_and_check_notionals_Inr
        split: if_splits sum.splits
        dest: munged_price_meets_filter munged_quantity_meets_lot_size assms(2)
          oco_notional_okI [rotated])
qed

theorem oco_order_notional_within_rounding_witness:
  "meets_lot_size demo_exchange_info ''ETHUSDT'' 1 \<and> oco_notional_ok demo_exchange_info ''ETHUSDT'' 10 1"
proof -
  have pos: "munge_and_check_quantity ref_bignum demo_exchange_info ''ETHUSDT'' v = Inr q \<Longrightarrow> 0 \<le> q" for v q
    by (auto simp: munge_and_check_quantity_Inr)
  have "munge_and_create_oco_order ref_bignum (quiet_env []) demo_exchange_info ''ETHUSDT'' 1 20 12
      (52 / 5) ''s'' ''t'' ''l'' empty_world =
    (Inr ''oco'', \<lparr>store = [], trace = [PlaceOco \<lparr>oco_symbol = ''ETHUSDT'', oco_side = SELL, oco_quantity = 1,
       oco_price = 20, oco_stopPrice = 12, oco_stopLimitPrice = 10, oco_listClientOrderId = ''l'',
       oco_limitClientOrderId = ''t'', oco_stopClientOrderId = ''s''\<rparr>]\<rparr>)"
    by code_simp
  from oco_order_notional_within_rounding [OF ref_bignum_laws pos this] show ?thesis
    by (simp add: empty_world_def)
qed

lemma limit_buy_sent:
  assumes "pair \<noteq> []"
  shows "(\<not> (\<exists>p q. munge_and_check_price B ei pair price = Inr p \<and>
      munge_and_check_quantity B ei pair volume = Inr q \<and> (p = 0 \<or> meets_notional ei pair p q)))
    = (trace (snd (create_limit_buy_order B E ei pair volume price cid tif w)) = trace w)"
proof (cases "munge_and_check_price B ei pair price")
  case (Inl e)
  then have "wp (create_limit_buy_order B E ei pair volume price cid tif) (\<lambda>_ t. trace t = trace w) (\<lambda>_ t. trace t = trace w) w"
    by (simp add: create_limit_buy_order_def)
  then show ?thesis using Inl by (auto dest: wp_final)
next
  case (Inr p)
  let ?ps = "no_prices\<lparr>np_price := Some p\<rparr>"
  show ?thesis
  proof (cases "munge_amount_and_check_notionals B ei pair volume ?ps")
    case (Inl e)
    then have none: "\<nexists>q. munge_and_check_quantity B ei pair volume = Inr q \<and> (p = 0 \<or> meets_notional ei pair p q)"
      using munge_amount_and_check_notionals_Inr [of B ei pair volume ?ps] by auto
    have "wp (create_limit_buy_order B E ei pair volume price cid tif) (\<lambda>_ t. trace t = trace w) (\<lambda>_ t. trace t = trace w) w"
      using Inl Inr by (simp add: create_limit_buy_order_def)
    then show ?thesis using none Inr by (auto dest: wp_final)
  next
    case q: (Inr q)
    then have some: "munge_and_check_quantity B ei pair volume = Inr q \<and> (p = 0 \<or> meets_notional ei pair p q)"
      by (simp add: munge_amount_and_check_notionals_Inr)
    have "wp (create_limit_buy_order B E ei pair volume price cid tif) (\<lambda>_ t. trace t \<noteq> trace w) (\<lambda>_ t. trace t \<noteq> trace w) w"
      using Inr q assms by (simp add: create_limit_buy_order_def Let_def split: sum.split)
    then show ?thesis using some Inr by (auto dest: wp_final)
  qed
qed

text \<open>A volume the exchange would take at a price, as the checks see it.\<close>

definition tradeable :: "bignum \<Rightarrow> exchange_info \<Rightarrow> string \<Rightarrow> rat \<Rightarrow> rat \<Rightarrow> bool" where
  "tradeable B ei pair price volume \<longleftrightarrow> (\<exists>p q. munge_and_check_price B ei pair price = Inr p \<and>
     munge_and_check_quantity B ei pair volume = Inr q \<and> (p = 0 \<or> meets_notional ei pair p q))"

lemma is_too_small_to_trade_eq:
  assumes "env_exchange_info E (GetExchangeInfo # trace w) = Inr ei" "pair \<noteq> []"
  shows "is_too_small_to_trade B E pair price volume w
      = (Inr (\<not> tradeable B ei pair price volume), w\<lparr>trace := GetExchangeInfo # trace w\<rparr>)"
  unfolding wp_outcome using assms
  by (auto simp: is_too_small_to_trade_def tradeable_def check_notional_Inr
      split: sum.splits dest: check_notional_Inl)

text \<open>
  \<open>is_too_small_to_trade\<close> predicts the exchange's refusal.  When the exchange information is
  available it never throws, has no effect but the lookup, and answers \<open>false\<close> exactly when a
  limit buy of the same volume at the same price would be sent to the exchange.
\<close>

theorem too_small_to_trade_predicts_limit_order:
  assumes "env_exchange_info E (GetExchangeInfo # trace w) = Inr ei" "pair \<noteq> []"
  shows "\<exists>small. is_too_small_to_trade B E pair price volume w
      = (Inr small, w\<lparr>trace := GetExchangeInfo # trace w\<rparr>) \<and>
    (\<not> small \<longleftrightarrow> trace (snd (create_limit_buy_order B E' ei pair volume price clientOrderId tif w'))
                \<noteq> trace w')"
proof -
  have "(\<not> tradeable B ei pair price volume) =
      (trace (snd (create_limit_buy_order B E' ei pair volume price clientOrderId tif w')) = trace w')"
    unfolding tradeable_def by (rule limit_buy_sent [OF assms(2)])
  then show ?thesis using is_too_small_to_trade_eq [OF assms, of B price volume] by auto
qed

theorem too_small_to_trade_predicts_limit_order_witness:
  "\<exists>small. is_too_small_to_trade ref_bignum (quiet_env demo_exchange_info) ''ETHUSDT'' 20 (1 / 10) empty_world
     = (Inr small, empty_world\<lparr>trace := [GetExchangeInfo]\<rparr>)"
  using too_small_to_trade_predicts_limit_order
    [of "quiet_env demo_exchange_info" empty_world demo_exchange_info "''ETHUSDT''" ref_bignum 20 "1 / 10"
      "quiet_env []" "''x''" None empty_world]
  by (auto simp: quiet_env_def empty_world_def)

end
