(* ===== verification/PositionTracker.thy ===== *)
theory PositionTracker
  imports SpotPositions Orders AlgoUtils
begin

text \<open>
  The position tracker service (\<open>services/amqp/binance-order-data/position-tracker\<close>): a filled order
  from the message queue updates the position it belongs to in Redis and publishes that the
  position was opened or closed.
\<close>

section \<open>SpotPositionTracker\<close>

definition on_position_opened :: "env \<Rightarrow> position_opened_event \<Rightarrow> (world, unit) prog" where
  "on_position_opened E ev =
     call_out (PublishOpened ev) (\<lambda>h. case env_publish E h of None \<Rightarrow> Inr () | Some e \<Rightarrow> Inl e)"

definition on_position_closed :: "env \<Rightarrow> position_closed_event \<Rightarrow> (world, unit) prog" where
  "on_position_closed E ev =
     call_out (PublishClosed ev) (\<lambda>h. case env_publish E h of None \<Rightarrow> Inr () | Some e \<Rightarrow> Inl e)"

text \<open>The edge of an order, undefined when the lookup fails for any reason.\<close>

definition edge_of_order :: "env \<Rightarrow> generic_order_data \<Rightarrow> (world, string option) prog" where
  "edge_of_order E ord =
     tryE (bindE (get_order_context_for_order E (o_exchange_identifier ord) (o_order_id ord))
             (\<lambda>ctx. returnE (Some (oc_edge ctx))))
       (\<lambda>_. returnE None)"

definition load_position_for_order :: "env \<Rightarrow> generic_order_data \<Rightarrow> (world, position_identifier) prog" where
  "load_position_for_order E ord =
     bindE (edge_of_order E ord) (\<lambda>edge.
     returnE \<lparr>pi_exchange_identifier = o_exchange_identifier ord, pi_edge = edge,
              pi_base_asset = o_baseAsset ord\<rparr>)"

text \<open>
  \<open>buy_order_filled\<close>.  The edge is looked up twice: once for the log tags, once for the position.  A
  failure to describe or publish the position is only reported to the operators.
\<close>

definition buy_order_filled :: "bignum \<Rightarrow> env \<Rightarrow> generic_order_data \<Rightarrow> (world, unit) prog" where
  "buy_order_filled B E ord =
     bindE (edge_of_order E ord) (\<lambda>_.
     bindE (load_position_for_order E ord) (\<lambda>p.
     seqE (add_order_to_position (redis_persistence B E) p ord)
     (seqE (assertE (o_averageExecutionPrice ord \<noteq> None)
              ''averageExecutionPrice not defined, unable to publish SpotPositionOpenedEvent'')
       (tryE (bindE (get_SpotPositionOpenedEvent (redis_persistence B E) p) (on_position_opened E))
          (\<lambda>_. returnE ())))))"

text \<open>The closing branch of \<open>sell_order_filled\<close>: the event may fail, the keys are deleted all the same.\<close>

definition publish_and_delete :: "bignum \<Rightarrow> env \<Rightarrow> position_identifier \<Rightarrow> generic_order_data \<Rightarrow> rat \<Rightarrow> (world, unit) prog" where
  "publish_and_delete B E p ord averageExecutionPrice =
     seqE
       (tryE
          (bindE (get_SpotPositionClosedEvent B (redis_persistence B E) p (o_orderTime ord)
                    averageExecutionPrice (o_quoteAsset ord) (o_totalQuoteTradeQuantity ord)
                    (o_totalBaseTradeQuantity ord))
             (on_position_closed E))
          (\<lambda>_. alert (''Failed to create/send SpotPositionClosed for: '' @ o_baseAsset ord)))
       (delete_position E p)"

text \<open>
  \<open>sell_order_filled\<close> is given the test of what is too small to trade: the exchange's filters in the
  service, an empty position in the backtester.
\<close>

definition sell_order_filled_by ::
    "(string \<Rightarrow> rat \<Rightarrow> rat \<Rightarrow> (world, bool) prog) \<Rightarrow> bignum \<Rightarrow> env \<Rightarrow> generic_order_data \<Rightarrow> (world, unit) prog" where
  "sell_order_filled_by too_small B E ord =
     bindE (load_position_for_order E ord) (\<lambda>p.
     bindE (get_position_size B E p) (\<lambda>n.
       if n = 0 then alert (''Sell executed on unknown position for '' @ o_baseAsset ord)
       else
         seqE (add_order_to_position (redis_persistence B E) p ord)
         (case o_averageExecutionPrice ord of
            None \<Rightarrow> alert (''averageExecutionPrice not supplied, unable to determine if '' @ o_baseAsset ord @
                         '' position should be closed.'')
          | Some averageExecutionPrice \<Rightarrow>
              bindE (get_position_size B E p) (\<lambda>volume.
              bindE (too_small (o_market_symbol ord) averageExecutionPrice volume) (\<lambda>small.
                if small then publish_and_delete B E p ord averageExecutionPrice else returnE ())))))"

definition sell_order_filled :: "bignum \<Rightarrow> env \<Rightarrow> generic_order_data \<Rightarrow> (world, unit) prog" where
  "sell_order_filled B E ord = sell_order_filled_by (is_too_small_to_trade B E) B E ord"

text \<open>
  \<open>MyOrderCallbacks.order_filled\<close>: the message's edge is looked up once more for the log; the order
  is converted with the exchange information read when the service started.
\<close>

definition tracker_order_filled ::
    "bignum \<Rightarrow> env \<Rightarrow> exchange_info \<Rightarrow> binance_order_data \<Rightarrow> (world, unit) prog" where
  "tracker_order_filled B E exchange_info data =
     bindE (tryE (bindE (get_order_context_for_order E (b_exchange_identifier data) (b_order_id data))
                    (\<lambda>ctx. returnE (Some (oc_edge ctx)))) (\<lambda>_. returnE None)) (\<lambda>_.
     bindE (liftE (fromCompletedBinanceOrderData data exchange_info)) (\<lambda>ord.
       if x_side data = BUY then buy_order_filled B E ord else sell_order_filled B E ord))"

section \<open>Steps that do not touch positions\<close>

text \<open>Reading, publishing and alerting leave the store alone.\<close>

definition keeps_store :: "(world, 'a) prog \<Rightarrow> bool" where
  "keeps_store m \<longleftrightarrow> (\<forall>w. store (snd (m w)) = store w)"

lemma keeps_store_wp: "keeps_store m \<longleftrightarrow> (\<forall>w. wp m (\<lambda>_ t. store t = store w) (\<lambda>_ t. store t = store w) w)"
  by (simp add: keeps_store_def wp_final_iff)

named_theorems keeps_store_intros

lemma keeps_store_basic [keeps_store_intros]:
  "keeps_store (returnE x)" "keeps_store (throwE e)" "keeps_store (liftE r)" "keeps_store (getE f)"
  "keeps_store (alert m)" "keeps_store (call_out ef answer)" "keeps_store (emit ef)" "keeps_store (assertE b m')"
  by (simp_all add: keeps_store_wp split: sum.split)

lemma keeps_store_bindE [keeps_store_intros]:
  "keeps_store m \<Longrightarrow> (\<And>x. keeps_store (f x)) \<Longrightarrow> keeps_store (bindE m f)"
  unfolding keeps_store_def bindE_def by (auto split: prod.split sum.split) (metis snd_conv)+

lemma keeps_store_seqE [keeps_store_intros]: "keeps_store m \<Longrightarrow> keeps_store k \<Longrightarrow> keeps_store (seqE m k)"
  by (simp add: seqE_def keeps_store_bindE)

lemma keeps_store_tryE [keeps_store_intros]:
  "keeps_store m \<Longrightarrow> (\<And>e. keeps_store (h e)) \<Longrightarrow> keeps_store (tryE m h)"
  unfolding keeps_store_def tryE_def by (auto split: prod.split sum.split) (metis snd_conv)+

lemma keeps_store_case [keeps_store_intros]:
  "(b \<Longrightarrow> keeps_store m) \<Longrightarrow> (\<not> b \<Longrightarrow> keeps_store k) \<Longrightarrow> keeps_store (if b then m else k)"
  "keeps_store k \<Longrightarrow> (\<And>x. keeps_store (f x)) \<Longrightarrow> keeps_store (case ov of None \<Rightarrow> k | Some x \<Rightarrow> f x)"
  "(\<And>x. keeps_store (f1 x)) \<Longrightarrow> (\<And>x. keeps_store (f2 x)) \<Longrightarrow> (\<And>x. keeps_store (f3 x)) \<Longrightarrow>
   (\<And>x. keeps_store (f4 x)) \<Longrightarrow> (\<And>x. keeps_store (f5 x)) \<Longrightarrow>
   keeps_store (case rv of RInt x \<Rightarrow> f1 x | RText x \<Rightarrow> f2 x | RDecimal x \<Rightarrow> f3 x | RContext x \<Rightarrow> f4 x | ROrders x \<Rightarrow> f5 x)"
  by (auto split: option.split redis_value.split)

lemma keeps_store_redis_get [keeps_store_intros]: "keeps_store (redis_get E k)"
  by (auto simp: keeps_store_wp redis_get_def wp_redis_call Let_def
      split: redis_fault.split option.split redis_value.split)

lemma keeps_store_redis_smembers [keeps_store_intros]: "keeps_store (redis_smembers E k)"
  by (auto simp: keeps_store_wp redis_smembers_def wp_redis_call Let_def
      split: redis_fault.split option.split redis_value.split)

lemma keeps_store_keys [keeps_store_intros]:
  "keeps_store (get_key E p k)" "keeps_store (get_key_no_null E p k)" "keeps_store (get_sats_key B E p k)"
  "keeps_store (get_string_key_no_null E p k)" "keeps_store (get_string_key_null_allowed E p k)"
  "keeps_store (get_number_key E p k)" "keeps_store (get_position_size B E p)"
  unfolding get_key_def get_key_no_null_def get_sats_key_def get_string_key_no_null_def
    get_string_key_null_allowed_def get_number_key_def get_position_size_def
  by (intro keeps_store_intros)+

lemma keeps_store_get_order_context [keeps_store_intros]: "keeps_store (get_order_context_for_order E ei i)"
  unfolding get_order_context_for_order_def by (intro keeps_store_intros)

lemma keeps_store_edge_of_order [keeps_store_intros]: "keeps_store (edge_of_order E ord)"
  unfolding edge_of_order_def by (intro keeps_store_intros)

lemma keeps_store_describe [keeps_store_intros]: "keeps_store (describe_position B E p)"
  unfolding describe_position_def get_initial_entry_position_size_def get_initial_entry_quote_asset_def
    get_initial_entry_timestamp_def get_orders_def get_edge_def
    try_option_def get_initial_entry_price_def get_initial_quote_invested_def get_stop_order_def
  by (intro keeps_store_intros)

lemma view_store: "store t = store w \<Longrightarrow> redis_view t = redis_view w"
  by (simp add: redis_view_def fun_eq_iff)

lemma store_ok_store: "store t = store w \<Longrightarrow> store_ok t = store_ok w"
  by (simp add: store_ok_def)

text \<open>Sequencing after a step that keeps the store and does not throw.\<close>

lemma keeps_store_tryE_total:
  assumes "keeps_store m"
  shows "wp (tryE m (\<lambda>e. returnE (f e))) (\<lambda>_ t. store t = store w) (\<lambda>_ _. False) w"
proof -
  have "wp m (\<lambda>_ t. store t = store w) (\<lambda>_ t. store t = store w) w" using assms by (simp add: keeps_store_wp)
  then show ?thesis by (simp add: wp_mono)
qed

lemma wp_edge_of_order: "wp (edge_of_order E ord) (\<lambda>_ t. store t = store w) (\<lambda>_ _. False) w"
  unfolding edge_of_order_def by (rule keeps_store_tryE_total) (intro keeps_store_intros)

section \<open>What a filled order does\<close>

text \<open>The position an order belongs to, according to the stored context.\<close>

definition edge_stored :: "world \<Rightarrow> generic_order_data \<Rightarrow> string option" where
  "edge_stored w ord =
     (if o_order_id ord = [] then None
      else case map_of (store w) (order_context_key (o_exchange_identifier ord) (o_order_id ord)) of
        Some (RContext ctx) \<Rightarrow> Some (oc_edge ctx) | _ \<Rightarrow> None)"

definition position_of :: "world \<Rightarrow> generic_order_data \<Rightarrow> position_identifier" where
  "position_of w ord = \<lparr>pi_exchange_identifier = o_exchange_identifier ord, pi_edge = edge_stored w ord,
     pi_base_asset = o_baseAsset ord\<rparr>"

lemma wp_edge_stored:
  "redis_up E \<Longrightarrow> wp (edge_of_order E ord) (\<lambda>e t. e = edge_stored w ord \<and> store t = store w) (\<lambda>_ _. False) w"
proof -
  assume up: "redis_up E"
  have got: "wp (get_order_context_for_order E (o_exchange_identifier ord) (o_order_id ord))
      (\<lambda>ctx t. edge_stored w ord = Some (oc_edge ctx) \<and> store t = store w)
      (\<lambda>_ t. edge_stored w ord = None \<and> store t = store w) w"
  proof (cases "map_of (store w) (order_context_key (o_exchange_identifier ord) (o_order_id ord))")
    case None
    then show ?thesis
      by (simp add: get_order_context_for_order_def edge_stored_def wp_redis_get_up [OF up])
  next
    case (Some v)
    then show ?thesis
      by (cases v) (simp_all add: get_order_context_for_order_def edge_stored_def wp_redis_get_up [OF up])
  qed
  show ?thesis
    unfolding edge_of_order_def wp_tryE wp_bindE by (rule wp_mono [OF got]) simp_all
qed

lemma wp_load_position:
  "redis_up E \<Longrightarrow> wp (load_position_for_order E ord) (\<lambda>p t. p = position_of w ord \<and> store t = store w) (\<lambda>_ _. False) w"
  unfolding load_position_for_order_def
  by (rule wp_bind_rule [OF wp_edge_stored]) (auto simp: position_of_def)

lemma ready_store: "store t = store w \<Longrightarrow> redis_ready B E w \<Longrightarrow> redis_ready B E t"
  unfolding redis_ready_def by (metis store_ok_store)

abbreviation acceptable_for :: "bignum \<Rightarrow> position_identifier \<Rightarrow> generic_order_data \<Rightarrow> position_view \<Rightarrow> bool" where
  "acceptable_for B \<equiv> redis_positions.acceptable B"

definition apply_fill :: "bignum \<Rightarrow> generic_order_data \<Rightarrow> position_view \<Rightarrow> position_view" where
  "apply_fill B = apply_order (to_sats B) (\<lambda>x. double_of_int (to_sats B x))"

lemma apply_fill_records [simp]: "snd (apply_fill B ord v) \<noteq> {}"
  using apply_order_records [of ord v] by (auto simp: apply_fill_def)

text \<open>Reporting an event never fails for the caller and leaves the store alone.\<close>

lemma wp_report_opened:
  "wp (tryE (bindE (get_SpotPositionOpenedEvent (redis_persistence B E) p) (on_position_opened E)) (\<lambda>_. returnE ()))
     (\<lambda>_ t. store t = store w) (\<lambda>_ _. False) w"
  unfolding get_SpotPositionOpenedEvent_def on_position_opened_def redis_persistence_sel
  by (rule keeps_store_tryE_total) (intro keeps_store_intros)

lemma wp_buy_order_filled:
  assumes "redis_ready B E w" "plain_identifier (position_of w ord)"
    and "acceptable_for B (position_of w ord) ord (redis_view w (position_of w ord))"
    and "p = position_of w ord"
  shows "wp (buy_order_filled B E ord)
    (\<lambda>_ t. redis_ready B E t \<and> redis_view t = (redis_view w)(p := apply_fill B ord (redis_view w p))) (\<lambda>_ _. False) w"
proof -
  let ?Q = "\<lambda>(_::unit) t. redis_ready B E t \<and> redis_view t = (redis_view w)(p := apply_fill B ord (redis_view w p))"
  have up: "redis_up E" using assms(1) by (simp add: redis_ready_def)
  have avg: "o_averageExecutionPrice ord \<noteq> None"
    using assms(3) by (simp add: redis_positions.acceptable_def)
  have add: "wp (add_order_to_position (redis_persistence B E) p ord) ?Q (\<lambda>_ _. False) u"
    if u: "store u = store w" for u
    using redis_positions.add_order_spec [OF ready_store [OF u assms(1)]] assms(2,3,4)
    by (simp add: apply_fill_def view_store [OF u])
  have rest: "wp (seqE (assertE (o_averageExecutionPrice ord \<noteq> None) msg)
       (tryE (bindE (get_SpotPositionOpenedEvent (redis_persistence B E) p) (on_position_opened E)) (\<lambda>_. returnE ())))
      ?Q (\<lambda>_ _. False) u" if "?Q () u" for u msg
    unfolding wp_seqE wp_assertE if_P [OF avg]
  proof (rule wp_mono [OF wp_report_opened])
    fix x and t :: world assume "store t = store u"
    with view_store [OF this] ready_store [OF this] that show "?Q x t" by simp
  qed
  show ?thesis unfolding buy_order_filled_def
  proof (rule wp_bind_rule [OF wp_edge_of_order], rule wp_bind_rule [OF wp_load_position [OF up]], goal_cases)
    case (1 _ u q v)
    then have q: "q = p" and v: "store v = store w"
      using assms(4) by (simp_all add: position_of_def edge_stored_def)
    show ?case unfolding q seqE_def [of "add_order_to_position _ _ _"]
      by (rule wp_bind_rule [OF add [OF v]], rule rest)
  qed
qed

definition size_of :: "position_view \<Rightarrow> rat" where
  "size_of v = of_int (fst v) / 10 ^ 8"

definition closed_if :: "bool \<Rightarrow> position_view \<Rightarrow> position_view" where
  "closed_if c v = (if c then (0, {}) else v)"

lemma wp_report_closed:
  "wp (tryE (bindE (get_SpotPositionClosedEvent B (redis_persistence B E) p t1 t2 t3 t4 t5) (on_position_closed E))
        (\<lambda>_. alert msg))
     (\<lambda>_ t. store t = store w) (\<lambda>_ _. False) w"
proof -
  have "keeps_store (bindE (get_SpotPositionClosedEvent B (redis_persistence B E) p t1 t2 t3 t4 t5) (on_position_closed E))"
    unfolding get_SpotPositionClosedEvent_def on_position_closed_def redis_persistence_sel Let_def
    by (intro keeps_store_intros)
  then have "wp (bindE (get_SpotPositionClosedEvent B (redis_persistence B E) p t1 t2 t3 t4 t5) (on_position_closed E))
      (\<lambda>_ t. store t = store w) (\<lambda>_ t. store t = store w) w"
    by (simp only: keeps_store_wp)
  then show ?thesis by (simp only: wp_tryE wp_alert) (rule wp_mono, simp_all)
qed

lemma wp_publish_and_delete:
  assumes "redis_ready B E u" "plain_identifier p" "snd (redis_view u p) \<noteq> {}"
  shows "wp (publish_and_delete B E p ord price)
    (\<lambda>_ t. redis_ready B E t \<and> redis_view t = (redis_view u)(p := (0, {}))) (\<lambda>_ _. False) u"
  unfolding publish_and_delete_def seqE_def
proof (rule wp_bind_rule [OF wp_report_closed], goal_cases)
  case (1 x t)
  then have t: "redis_ready B E t" "redis_view t = redis_view u"
    using assms(1) ready_store view_store by metis+
  then show ?case
    using redis_positions.delete_law [OF t(1) assms(2), unfolded redis_persistence_sel] assms(3) by simp
qed

lemma wp_sell_order_filled_by:
  assumes "redis_ready B E w" "plain_identifier (position_of w ord)"
    and "acceptable_for B (position_of w ord) ord (redis_view w (position_of w ord))"
    and "p = position_of w ord" "fst (redis_view w p) \<noteq> 0"
    and "o_averageExecutionPrice ord = Some price"
    and test: "\<And>t. wp (too_small (o_market_symbol ord) price (size_of v)) (\<lambda>b u. b = small \<and> store u = store t) (\<lambda>_ _. False) t"
    and "v = apply_fill B ord (redis_view w p)"
  shows "wp (sell_order_filled_by too_small B E ord)
    (\<lambda>_ t. redis_ready B E t \<and> redis_view t = (redis_view w)(p := closed_if small v)) (\<lambda>_ _. False) w"
proof -
  let ?Q = "\<lambda>(_::unit) t. redis_ready B E t \<and> redis_view t = (redis_view w)(p := closed_if small v)"
  have r: "bignum_laws B" "redis_up E" using assms(1) by (simp_all add: redis_ready_def)
  have plain: "plain_identifier p" using assms(2,4) by simp
  note size = redis_positions.size_law [of B E _ p, unfolded redis_persistence_sel]
  have add: "wp (add_order_to_position (redis_persistence B E) p ord)
      (\<lambda>_ t. redis_ready B E t \<and> redis_view t = (redis_view w)(p := v)) (\<lambda>_ _. False) u"
    if u: "redis_ready B E u" "redis_view u = redis_view w" for u
    using redis_positions.add_order_spec [OF u(1)] assms(2,3,4,8) u(2) by (simp add: apply_fill_def)
  have decide: "wp (bindE (get_position_size B E p) (\<lambda>volume.
        bindE (too_small (o_market_symbol ord) price volume) (\<lambda>small.
          if small then publish_and_delete B E p ord price else returnE ()))) ?Q (\<lambda>_ _. False) u"
    if u: "redis_ready B E u" "redis_view u = (redis_view w)(p := v)" for u
  proof (rule wp_bind_rule [OF size [OF u(1) plain]], goal_cases)
    case (1 x t)
    then have x: "x = size_of v" and t: "redis_ready B E t" "redis_view t = (redis_view w)(p := v)"
      using u(2) by (simp_all add: size_of_def)
    show ?case unfolding x
    proof (rule wp_bind_rule [OF test], goal_cases)
      case (1 b u)
      then have b: "b = small" and u: "redis_ready B E u" "redis_view u = (redis_view w)(p := v)"
        using t ready_store view_store by metis+
      show ?case
      proof (cases small)
        case True
        then show ?thesis
          using wp_publish_and_delete [OF u(1) plain] u(2) assms(8) by (simp add: b closed_if_def)
      qed (use u in \<open>simp add: b closed_if_def\<close>)
    qed
  qed
  have main: "wp (bindE (get_position_size B E p) (\<lambda>n.
       if n = 0 then alert msg0
       else seqE (add_order_to_position (redis_persistence B E) p ord)
         (bindE (get_position_size B E p) (\<lambda>volume.
        bindE (too_small (o_market_symbol ord) price volume) (\<lambda>small.
          if small then publish_and_delete B E p ord price else returnE ()))))) ?Q (\<lambda>_ _. False) u"
    if u: "redis_ready B E u" "redis_view u = redis_view w" for u msg0
  proof (rule wp_bind_rule [OF size [OF u(1) plain]], goal_cases)
    case (1 x t)
    then have x: "x \<noteq> 0" and t: "redis_ready B E t" "redis_view t = redis_view w"
      using assms(5) u(2) by simp_all
    show ?case unfolding if_not_P [OF x] seqE_def [of "add_order_to_position _ _ _"]
      by (rule wp_bind_rule [OF add [OF t]], rule decide) simp_all
  qed
  show ?thesis unfolding sell_order_filled_by_def assms(6) option.case
  proof (rule wp_bind_rule [OF wp_load_position [OF r(2)]], goal_cases)
    case (1 q u)
    then have q: "q = p" and u: "redis_ready B E u" "redis_view u = redis_view w"
      using assms(1,4) ready_store view_store by metis+
    show ?case unfolding q by (rule main [OF u])
  qed
qed

lemma wp_sell_order_filled:
  assumes "redis_ready B E w" "plain_identifier (position_of w ord)"
    and "acceptable_for B (position_of w ord) ord (redis_view w (position_of w ord))"
    and "p = position_of w ord" "fst (redis_view w p) \<noteq> 0"
    and "o_averageExecutionPrice ord = Some price" "o_market_symbol ord \<noteq> []"
    and "\<forall>h. env_exchange_info E h = Inr ei"
    and "v = apply_fill B ord (redis_view w p)"
  shows "wp (sell_order_filled B E ord)
    (\<lambda>_ t. redis_ready B E t \<and> redis_view t = (redis_view w)
       (p := closed_if (\<not> tradeable B ei (o_market_symbol ord) price (size_of v)) v)) (\<lambda>_ _. False) w"
  unfolding sell_order_filled_def
proof (rule wp_sell_order_filled_by [OF assms(1-6) _ assms(9)])
  fix t
  have "is_too_small_to_trade B E (o_market_symbol ord) price (size_of v) t =
      (Inr (\<not> tradeable B ei (o_market_symbol ord) price (size_of v)), t\<lparr>trace := GetExchangeInfo # trace t\<rparr>)"
    using is_too_small_to_trade_eq [of E t ei "o_market_symbol ord" B price "size_of v"] assms(7,8) by simp
  then show "wp (is_too_small_to_trade B E (o_market_symbol ord) price (size_of v))
      (\<lambda>b u. b = (\<not> tradeable B ei (o_market_symbol ord) price (size_of v)) \<and> store u = store t) (\<lambda>_ _. False) t"
    by (simp add: wp_def)
qed

lemma wp_sell_unknown:
  assumes "redis_ready B E w" "plain_identifier (position_of w ord)" "fst (redis_view w (position_of w ord)) = 0"
  shows "wp (sell_order_filled B E ord) (\<lambda>_ t. store t = store w \<and>
    hd (trace t) = Alert (''Sell executed on unknown position for '' @ o_baseAsset ord)) (\<lambda>_ _. False) w"
  unfolding sell_order_filled_def sell_order_filled_by_def
proof (rule wp_bind_rule [OF wp_load_position], goal_cases)
  case 1
  show ?case using assms(1) by (simp add: redis_ready_def)
next
  case (2 q u)
  then have q: "q = position_of w ord" and u: "redis_ready B E u" "store u = store w" "redis_view u = redis_view w"
    using assms(1) ready_store view_store by metis+
  then have r: "bignum_laws B" "redis_up E" "store_ok u" by (simp_all add: redis_ready_def)
  show ?case unfolding q
  proof (rule wp_bind_rule [OF wp_get_position_size [OF r assms(2)]], goal_cases)
    case (1 n t)
    then have n: "n = 0" and t: "store t = store w" using assms(3) u by simp_all
    show ?case unfolding if_P [OF n] using t by simp
  qed
qed

section \<open>Order contexts survive\<close>

text \<open>The operations on positions leave the order contexts alone.\<close>

definition same_contexts :: "world \<Rightarrow> world \<Rightarrow> bool" where
  "same_contexts w w' \<longleftrightarrow> (\<forall>ei i. map_of (store w') (order_context_key ei i) = map_of (store w) (order_context_key ei i))"

lemma same_contexts_refl [simp]: "reflp same_contexts" and same_contexts_trans [simp]: "transp same_contexts"
  by (auto simp: reflp_def transp_def same_contexts_def)

lemma context_key_distinct [simp]:
  "order_context_key ei i \<noteq> size_key p" "order_context_key ei i \<noteq> orders_key p"
  "size_key p \<noteq> order_context_key ei i" "orders_key p \<noteq> order_context_key ei i"
  by (simp_all add: order_context_key_def size_key_def orders_key_def prefix_of_def key_base_def)

lemma prefix_not_context:
  "position_prefix p = Inr pre \<Longrightarrow> order_context_key ei i \<noteq> pre @ a"
  by (auto simp: position_prefix_def key_base_def order_context_key_def split: if_splits)

lemma key_not_context: "name_to_key p n = Inr k \<Longrightarrow> order_context_key ei i \<noteq> k"
  by (auto simp: name_to_key_def prefix_not_context split: sum.splits if_splits)

named_theorems context_intros

lemmas context_basic [context_intros] =
  keeps_returnE [OF same_contexts_refl] keeps_throwE [OF same_contexts_refl] keeps_getE [OF same_contexts_refl]
  keeps_bindE [OF same_contexts_trans] keeps_seqE [OF same_contexts_trans] keeps_tryE [OF same_contexts_trans]

lemma keeps_store_contexts: "keeps_store m \<Longrightarrow> keeps same_contexts m"
  by (simp add: keeps_store_def keeps_def same_contexts_def)

lemma keeps_case [context_intros]:
  "keeps K m \<Longrightarrow> keeps K k \<Longrightarrow> keeps K (if b then m else k)"
  "keeps K k \<Longrightarrow> (\<And>x. keeps K (f x)) \<Longrightarrow> keeps K (case ov of None \<Rightarrow> k | Some x \<Rightarrow> f x)"
  by (auto split: option.split)

lemma contexts_redis_call [context_intros]:
  assumes "keeps same_contexts m"
  shows "keeps same_contexts (redis_call E c m)"
proof -
  have "keeps same_contexts (emit (Redis c))" by (simp add: keeps_wp same_contexts_def)
  then show ?thesis unfolding redis_call_def
    by (intro context_intros) (auto split: redis_fault.split intro!: context_intros assms)
qed

lemma contexts_write [context_intros]:
  "(\<And>ei i. order_context_key ei i \<noteq> k) \<Longrightarrow> keeps same_contexts (modifyE (\<lambda>w. w\<lparr>store := AList.update k (v w) (store w)\<rparr>))"
  by (simp add: keeps_wp same_contexts_def update_conv')

lemma contexts_add_orders [context_intros]: "keeps same_contexts (add_orders E p os)"
proof (cases "name_to_key p ''orders''")
  case (Inr k)
  have "keeps same_contexts (redis_sadd E k xs)" for xs
    unfolding redis_sadd_def by (intro context_intros) (simp add: key_not_context [OF Inr])
  then show ?thesis by (simp add: add_orders_def Inr liftE_Inr_bind)
qed (simp add: add_orders_def keeps_wp same_contexts_def)

lemma contexts_adjust [context_intros]: "keeps same_contexts (adjust_position_size_by B E p x)"
proof -
  have read: "keeps same_contexts (get_position_size B E p)" by (intro keeps_store_contexts keeps_store_keys)
  have incr: "keeps same_contexts (bindE (liftE (name_to_key p ''position_size'')) (\<lambda>key.
      bindE (redis_incrby E key n) (\<lambda>_. bindE (get_position_size B E p) (\<lambda>_. returnE ()))))" for n
  proof (cases "name_to_key p ''position_size''")
    case (Inr k)
    have "keeps same_contexts (redis_incrby E k n)"
      unfolding redis_incrby_def by (intro context_intros) (simp_all add: key_not_context [OF Inr])
    then show ?thesis unfolding Inr liftE_Inr_bind by (intro context_intros read)
  qed (simp add: keeps_wp same_contexts_def)
  show ?thesis unfolding adjust_position_size_by_def by (rule context_basic(4) [OF read incr])
qed

lemma contexts_create [context_intros]: "keeps same_contexts (create_new_position B E p d)"
proof (cases "position_prefix p")
  case (Inr pre)
  have mset: "keeps same_contexts (redis_mset E kvs)"
    if "\<And>k ei i. k \<in> set (map fst kvs) \<Longrightarrow> order_context_key ei i \<noteq> k" for kvs
  proof -
    have "order_context_key ei i \<notin> set (map fst kvs)" for ei i using that by blast
    then show ?thesis unfolding redis_mset_def
      by (intro contexts_redis_call) (simp add: keeps_wp same_contexts_def map_of_updates_keys)
  qed
  show ?thesis
    unfolding create_new_position_def Inr liftE_Inr_bind promise_all2_def assertE_def
    by (intro context_intros mset) (auto simp: prefix_not_context [OF Inr])
qed (auto simp: create_new_position_def keeps_wp same_contexts_def)

lemma contexts_delete [context_intros]: "keeps same_contexts (delete_position E p)"
proof (cases "position_prefix p")
  case (Inr pre)
  have no: "\<not> glob (pre @ '':*'') (order_context_key ei i)" for ei i
    using Inr by (auto simp: position_prefix_def key_base_def order_context_key_def split: if_splits)
  have del: "map_of (filter (\<lambda>(k, _). k \<notin> set ks) xs) (order_context_key ei i) = map_of xs (order_context_key ei i)"
    if "\<forall>k \<in> set ks. glob (pre @ '':*'') k" for ks ei i and xs :: "(string \<times> redis_value) list"
    using that no map_of_filter_keys [of "\<lambda>k. k \<notin> set ks" xs "order_context_key ei i"] by auto
  have delw: "wp (redis_del E ks) (\<lambda>_ t. same_contexts w t) (\<lambda>_ t. same_contexts w t) u"
    if "\<forall>k \<in> set ks. glob (pre @ '':*'') k" "same_contexts w u" for ks w u
    using that(2) del [OF that(1)]
    by (auto simp: redis_del_def wp_redis_call Let_def same_contexts_def split: redis_fault.split)
  have "keeps same_contexts (bindE (redis_keys E (pre @ '':*'')) (redis_del E))"
    by (auto simp: keeps_wp redis_keys_def wp_redis_call Let_def same_contexts_def [of s "s\<lparr>trace := h\<rparr>" for s h]
        split: redis_fault.split intro!: delw)
  then show ?thesis by (simp add: delete_position_def Inr liftE_Inr_bind)
qed (auto simp: delete_position_def keeps_wp same_contexts_def)

lemma contexts_add_order [context_intros]:
  "keeps same_contexts (add_order_to_position (redis_persistence B E) p ord)"
  unfolding add_order_to_position_def redis_persistence_sel genericOrderDataToSpotPositionInitialisationData_def
  by (intro context_intros keeps_store_contexts keeps_store_intros)

lemma contexts_sell: "keeps same_contexts (sell_order_filled B E ord)"
proof -
  have small: "keeps same_contexts (is_too_small_to_trade B E sym price n)" for sym price n
    unfolding is_too_small_to_trade_def by (intro keeps_store_contexts keeps_store_intros)
  have report: "keeps same_contexts
      (bindE (get_SpotPositionClosedEvent B (redis_persistence B E) p t1 t2 t3 t4 t5) (on_position_closed E))"
    for p t1 t2 t3 t4 t5
    unfolding get_SpotPositionClosedEvent_def on_position_closed_def redis_persistence_sel Let_def
    by (intro keeps_store_contexts keeps_store_intros)
  have alert: "keeps same_contexts (alert m)" for m by (intro keeps_store_contexts keeps_store_intros)
  have size: "keeps same_contexts (get_position_size B E p)" for p by (intro keeps_store_contexts keeps_store_intros)
  show ?thesis
    unfolding sell_order_filled_def sell_order_filled_by_def load_position_for_order_def publish_and_delete_def
    by (intro context_intros small report alert size keeps_store_contexts [OF keeps_store_edge_of_order])
qed

lemma position_of_same_contexts: "same_contexts w t \<Longrightarrow> position_of t ord = position_of w ord"
  by (simp add: position_of_def edge_stored_def same_contexts_def)

section \<open>Properties\<close>

text \<open>What a filled order means for the abstract position it belongs to.\<close>

definition filled_spec :: "bignum \<Rightarrow> exchange_info \<Rightarrow> generic_order_data \<Rightarrow> position_view \<Rightarrow> position_view" where
  "filled_spec B ei ord v =
     (if o_side ord = BUY then apply_fill B ord v
      else if fst v = 0 then v
      else (let v' = apply_fill B ord v in
        closed_if (\<not> tradeable B ei (o_market_symbol ord) (the (o_averageExecutionPrice ord)) (size_of v')) v'))"

definition order_filled_handler :: "bignum \<Rightarrow> env \<Rightarrow> generic_order_data \<Rightarrow> (world, unit) prog" where
  "order_filled_handler B E ord = (if o_side ord = BUY then buy_order_filled B E ord else sell_order_filled B E ord)"

lemma wp_order_filled_handler:
  assumes "redis_ready B E w" "p = position_of w ord" "plain_identifier p"
    and "acceptable_for B p ord (redis_view w p)"
    and "o_market_symbol ord \<noteq> []" "\<forall>h. env_exchange_info E h = Inr ei"
  shows "wp (order_filled_handler B E ord)
    (\<lambda>_ t. redis_ready B E t \<and> redis_view t = (redis_view w)(p := filled_spec B ei ord (redis_view w p))) (\<lambda>_ _. False) w"
proof -
  let ?Q = "\<lambda>(_::unit) t. redis_ready B E t \<and> redis_view t = (redis_view w)(p := filled_spec B ei ord (redis_view w p))"
  obtain price where price: "o_averageExecutionPrice ord = Some price"
    using assms(4) by (auto simp: redis_positions.acceptable_def)
  show ?thesis
  proof (cases "o_side ord = BUY")
    case True
    then show ?thesis
      using wp_buy_order_filled [OF assms(1) _ _ assms(2)] assms(2-4)
      by (simp add: order_filled_handler_def filled_spec_def)
  next
    case sell: False
    show ?thesis
    proof (cases "fst (redis_view w p) = 0")
      case True
      have "wp (sell_order_filled B E ord) ?Q (\<lambda>_ _. False) w"
      proof (rule wp_mono [OF wp_sell_unknown], goal_cases)
        case (4 x t)
        then have "redis_ready B E t" "redis_view t = redis_view w"
          using assms(1) ready_store view_store by metis+
        then show ?case using True sell by (simp add: filled_spec_def)
      qed (use assms True in simp_all)
      then show ?thesis using sell by (simp add: order_filled_handler_def)
    next
      case False
      have "wp (sell_order_filled B E ord) ?Q (\<lambda>_ _. False) w"
        using wp_sell_order_filled [OF assms(1) _ _ assms(2) False price assms(5,6) refl] assms(2-4) sell False
        by (simp add: filled_spec_def Let_def price)
      then show ?thesis using sell by (simp add: order_filled_handler_def)
    qed
  qed
qed

text \<open>
  C3: The position tracker refines its abstract specification.  With Redis up and the exchange
  information available, a filled order changes exactly the position its stored context names: a
  buy opens or enlarges it, a sell of a position that is not there changes nothing, any other sell
  reduces it and closes it when the rest is too small to trade; it does so even when publishing
  the event fails, and the handler reports success.
\<close>

theorem tracker_refines_spec:
  assumes "redis_ready B E w" "p = position_of w ord" "plain_identifier p"
    and "acceptable_for B p ord (redis_view w p)"
    and "o_market_symbol ord \<noteq> []" "\<forall>h. env_exchange_info E h = Inr ei"
  shows "\<exists>t. order_filled_handler B E ord w = (Inr (), t) \<and> redis_ready B E t \<and>
    redis_view t = (redis_view w)(p := filled_spec B ei ord (redis_view w p))"
  using wp_total [OF wp_order_filled_handler [OF assms]] by simp

text \<open>
  A sell on a position the tracker does not know leaves Redis untouched and tells the user; it
  neither records the order nor opens a position.
\<close>

theorem unknown_sell_is_reported_only:
  assumes "redis_ready B E w" "plain_identifier (position_of w ord)" "fst (redis_view w (position_of w ord)) = 0"
  shows "\<exists>t. sell_order_filled B E ord w = (Inr (), t) \<and> store t = store w \<and>
    hd (trace t) = Alert (''Sell executed on unknown position for '' @ o_baseAsset ord)"
  using wp_sell_unknown [OF assms] by (auto simp: wp_def split: prod.splits sum.splits)

text \<open>
  Deleting a closed position forgets its orders.  If a sell closes the position and the buy that
  had opened it is delivered again, the buy is not recognised: it opens the position anew with its
  full size, although nothing is held.
\<close>

theorem redelivered_buy_reopens_closed_position:
  assumes "redis_ready B E w" "p = position_of w sell" "plain_identifier p"
    and "o_side sell \<noteq> BUY" "fst (redis_view w p) \<noteq> 0" "acceptable_for B p sell (redis_view w p)"
    and "o_market_symbol sell \<noteq> []" "\<forall>h. env_exchange_info E h = Inr ei"
    and "filled_spec B ei sell (redis_view w p) = (0, {})"
    and "sell_order_filled B E sell w = (Inr (), t)"
    and "stringify_order buy \<in> snd (redis_view w p)" "p = position_of w buy"
    and "acceptable_for B p buy (0, {})"
  shows "\<exists>u. buy_order_filled B E buy t = (Inr (), u) \<and>
    redis_view u p = (to_sats B (o_totalBaseTradeQuantity buy), {stringify_order buy})"
proof -
  obtain price where price: "o_averageExecutionPrice sell = Some price"
    using assms(6) by (auto simp: redis_positions.acceptable_def)
  have "wp (sell_order_filled B E sell) (\<lambda>_ t. redis_ready B E t \<and> redis_view t p = (0, {})) (\<lambda>_ _. False) w"
    using wp_sell_order_filled [OF assms(1) _ _ assms(2,5) price assms(7,8) refl] assms(2-6,9)
    by (auto simp: filled_spec_def Let_def price elim!: wp_mono)
  then have t: "redis_ready B E t" "redis_view t p = (0, {})" using assms(10) by (auto simp: wp_def)
  have "same_contexts w t" using keepsD [OF contexts_sell [of B E sell], of w] assms(10) by simp
  then have p: "p = position_of t buy" using assms(12) by (simp add: position_of_same_contexts)
  have "wp (buy_order_filled B E buy) (\<lambda>_ u. redis_view u p =
      (to_sats B (o_totalBaseTradeQuantity buy), {stringify_order buy})) (\<lambda>_ _. False) t"
    by (rule wp_mono [OF wp_buy_order_filled [OF t(1) _ _ p]])
      (use assms(3,13) p t(2) in \<open>auto simp: apply_fill_def apply_order_def\<close>)
  then show ?thesis by (auto simp: wp_def split: prod.splits sum.splits)
qed

text \<open>A world with the contexts of a buy and a sell, and optionally the position of the buy.\<close>

definition demo_store :: "(string \<times> redis_value) list" where
  "demo_store =
     [(order_context_key binance_spot ''a'', RContext \<lparr>oc_edge = ''edge70'', oc_trade_id = None\<rparr>),
      (order_context_key binance_spot ''s'', RContext \<lparr>oc_edge = ''edge70'', oc_trade_id = None\<rparr>)]"

definition flat_world :: world where
  "flat_world = \<lparr>store = demo_store, trace = []\<rparr>"

definition long_world :: world where
  "long_world = \<lparr>store = (size_key demo_position, RInt 200000000) #
     (orders_key demo_position, ROrders [stringify_order (demo_fill ''a'' BUY 2)]) # demo_store, trace = []\<rparr>"

definition demo_env :: env where
  "demo_env = quiet_env demo_exchange_info"

lemma demo_store_lookup:
  "map_of demo_store (size_key p) = None" "map_of demo_store (orders_key p) = None"
  by (simp_all add: demo_store_def)

lemma demo_worlds_ready: "redis_ready ref_bignum demo_env flat_world" "redis_ready ref_bignum demo_env long_world"
  by (auto simp: redis_ready_def ref_bignum_laws demo_env_def store_ok_def flat_world_def long_world_def
      demo_store_lookup int64_def key_eqs [OF demo_position_plain] key_eqs [OF _ demo_position_plain])

lemma demo_views:
  "redis_view flat_world demo_position = (0, {})"
  "redis_view long_world demo_position = (200000000, {stringify_order (demo_fill ''a'' BUY 2)})"
  by (simp_all add: redis_view_def flat_world_def long_world_def demo_store_lookup key_eqs [OF demo_position_plain demo_position_plain])

lemma demo_position_of:
  "position_of flat_world (demo_fill ''a'' sd q) = demo_position"
  "position_of long_world (demo_fill ''s'' sd q) = demo_position"
  "position_of long_world (demo_fill ''a'' sd q) = demo_position"
  by (simp_all add: position_of_def edge_stored_def demo_fill_def demo_position_def flat_world_def long_world_def
      demo_store_def binance_spot_def order_context_key_def size_key_def orders_key_def prefix_of_def key_base_def)

lemma demo_sats: "to_sats ref_bignum 2 = 200000000" "to_sats ref_bignum (- 2) = - 200000000"
  "double_of_int 200000000 = 200000000" "double_of_int (- 200000000) = - 200000000"
  by (code_simp, code_simp, rule double_of_int_exact, simp, rule double_of_int_exact, simp)

lemma demo_acceptable:
  "acceptable_for ref_bignum demo_position (demo_fill cid BUY 2) (0, {})"
  "acceptable_for ref_bignum demo_position (demo_fill ''s'' SELL 2) (redis_view long_world demo_position)"
  by (simp_all add: redis_positions.acceptable_def apply_order_def demo_views)
    (simp_all add: demo_fill_def demo_position_def int64_def demo_sats stringify_order_def order_core.truncate_def)

lemma demo_env_info: "\<forall>h. env_exchange_info demo_env h = Inr demo_exchange_info"
  by (simp add: demo_env_def quiet_env_def)

lemma demo_symbol: "o_market_symbol (demo_fill cid sd q) \<noteq> []"
  by (simp add: demo_fill_def)

theorem tracker_refines_spec_witness:
  "\<exists>t. order_filled_handler ref_bignum demo_env (demo_fill ''a'' BUY 2) flat_world = (Inr (), t) \<and>
    fst (redis_view t demo_position) = 200000000"
proof -
  have "fst (filled_spec ref_bignum demo_exchange_info (demo_fill ''a'' BUY 2) (0, {})) = 200000000"
    by (simp add: filled_spec_def apply_fill_def apply_order_def) (simp add: demo_fill_def demo_sats)
  then show ?thesis
    using tracker_refines_spec [OF demo_worlds_ready(1) demo_position_of(1) [symmetric] demo_position_plain _
        demo_symbol demo_env_info, of BUY 2] demo_acceptable(1) [of "''a''"]
    by (auto simp: demo_views)
qed

theorem unknown_sell_is_reported_only_witness:
  "\<exists>t. sell_order_filled ref_bignum demo_env (demo_fill ''a'' SELL 2) flat_world = (Inr (), t) \<and>
    store t = store flat_world"
  using unknown_sell_is_reported_only [OF demo_worlds_ready(1), of "demo_fill ''a'' SELL 2"]
  by (auto simp: demo_position_of demo_views)

theorem redelivered_buy_reopens_closed_position_witness:
  "\<exists>t u. sell_order_filled ref_bignum demo_env (demo_fill ''s'' SELL 2) long_world = (Inr (), t) \<and>
    buy_order_filled ref_bignum demo_env (demo_fill ''a'' BUY 2) t = (Inr (), u) \<and>
    fst (redis_view u demo_position) = 200000000"
proof -
  let ?s = "demo_fill ''s'' SELL 2" and ?v = "redis_view long_world demo_position"
  have q: "munge_and_check_quantity ref_bignum demo_exchange_info ''ETHUSDT'' 0 = Inl (Err ''does not meet minimum quantity (LOT_SIZE)'')"
    by code_simp
  have v': "fst (apply_fill ref_bignum ?s ?v) = 0"
    by (simp add: apply_fill_def apply_order_def demo_views)
      (simp add: demo_fill_def demo_sats stringify_order_def order_core.truncate_def)
  have closed: "filled_spec ref_bignum demo_exchange_info ?s ?v = (0, {})"
    using q v' by (simp add: filled_spec_def Let_def closed_if_def tradeable_def size_of_def demo_views)
      (simp add: demo_fill_def)
  have price: "o_averageExecutionPrice ?s = Some 100" by (simp add: demo_fill_def)
  have "wp (sell_order_filled ref_bignum demo_env ?s) (\<lambda>_ _. True) (\<lambda>_ _. False) long_world"
    by (rule wp_mono [OF wp_sell_order_filled [OF demo_worlds_ready(2) _ _ demo_position_of(2) [symmetric] _ price
        demo_symbol demo_env_info refl]])
      (use demo_acceptable(2) in \<open>simp_all add: demo_position_of demo_views\<close>)
  then obtain t where t: "sell_order_filled ref_bignum demo_env ?s long_world = (Inr (), t)"
    by (auto simp: wp_def split: prod.splits sum.splits)
  have buy: "demo_position = position_of long_world (demo_fill ''a'' BUY 2)"
    by (simp add: demo_position_of)
  have side: "o_side ?s \<noteq> BUY" and amount: "o_totalBaseTradeQuantity (demo_fill ''a'' BUY 2) = 2"
    by (simp_all add: demo_fill_def)
  have held: "fst ?v \<noteq> 0" "stringify_order (demo_fill ''a'' BUY 2) \<in> snd ?v" by (simp_all add: demo_views)
  obtain u where "buy_order_filled ref_bignum demo_env (demo_fill ''a'' BUY 2) t = (Inr (), u)"
    "redis_view u demo_position = (200000000, {stringify_order (demo_fill ''a'' BUY 2)})"
    using redelivered_buy_reopens_closed_position [OF demo_worlds_ready(2) demo_position_of(2) [symmetric]
        demo_position_plain side held(1) demo_acceptable(2) demo_symbol demo_env_info closed t held(2) buy
        demo_acceptable(1)]
    unfolding amount demo_sats by blast
  then show ?thesis using t by simp
qed

end
