(* ===== verification/Bank.thy ===== *)
theory Bank
  imports Prelude
begin

text \<open>
  The backtester's bank and position sizers (\<open>backtesting/edge70/cash-management.ts\<close>,
  \<open>backtesting/edge70/position_sizers\<close>): cash, a credit line and, when that is used up, dollar loans.
\<close>

section \<open>BacktesterCashManagement\<close>

record bank =
  bk_cash :: rat
  bk_loan_available :: rat
  bk_loan :: rat
  bk_dollar_loans :: bool

definition new_bank :: "rat \<Rightarrow> rat \<Rightarrow> bool \<Rightarrow> bank" where
  "new_bank starting_cash loan_available dollar_loans =
     \<lparr>bk_cash = starting_cash, bk_loan_available = loan_available, bk_loan = 0,
      bk_dollar_loans = dollar_loans\<rparr>"

definition take_loan :: "rat \<Rightarrow> bank \<Rightarrow> bank" where
  "take_loan loan_amount b =
     b\<lparr>bk_loan_available := bk_loan_available b - loan_amount, bk_loan := bk_loan b + loan_amount,
       bk_cash := bk_cash b + loan_amount\<rparr>"

text \<open>
  \<open>get_loan\<close> calls itself after raising the credit line to one dollar.  The value \<open>None\<close> is the
  recursion that never ends, as for a desired amount of zero.
\<close>

partial_function (option) get_loan :: "rat \<Rightarrow> bank \<Rightarrow> (js_error + bank) option" where
  "get_loan desired_amount b =
     (let loan_amount = min desired_amount (bk_loan_available b); b' = take_loan loan_amount b in
      if bk_loan_available b' < 0 then Some (Inl (Err ''bug in loans code''))
      else if loan_amount = 0 \<and> bk_dollar_loans b'
      then get_loan desired_amount (b'\<lparr>bk_loan_available := 1\<rparr>)
      else Some (Inr b'))"

text \<open>A recursion that never ends overflows the stack, which JavaScript throws as a \<open>RangeError\<close>.\<close>

definition loan :: "rat \<Rightarrow> (bank, unit) prog" where
  "loan desired_amount = (\<lambda>b. case get_loan desired_amount b of
       None \<Rightarrow> (Inl (Err ''RangeError: Maximum call stack size exceeded''), b)
     | Some (Inl e) \<Rightarrow> (Inl e, b)
     | Some (Inr b') \<Rightarrow> (Inr (), b'))"

definition withdraw_cash :: "rat \<Rightarrow> (bank, rat) prog" where
  "withdraw_cash amount =
     bindE (getE bk_cash) (\<lambda>cash.
     seqE (if cash < amount then loan (amount - cash) else returnE ())
     (bindE (getE bk_cash) (\<lambda>cash.
        let withdrawal_amount = min amount cash in
        seqE (modifyE (\<lambda>b. b\<lparr>bk_cash := bk_cash b - withdrawal_amount\<rparr>)) (returnE withdrawal_amount))))"

definition pay_in_cash :: "rat \<Rightarrow> (bank, unit) prog" where
  "pay_in_cash amount = modifyE (\<lambda>b. b\<lparr>bk_cash := bk_cash b + amount\<rparr>)"

definition balances :: "bank \<Rightarrow> rat \<times> rat" where
  "balances b = (bk_cash b, bk_loan b)"

text \<open>The sizers: everything the bank holds in cash, or a fixed amount.\<close>

definition all_in_position_size :: "bank \<Rightarrow> rat" where
  "all_in_position_size b = fst (balances b)"

definition backtester_fixed_position_size :: rat where
  "backtester_fixed_position_size = 100"

section \<open>Loans end\<close>

lemma get_loan_positive:
  assumes "0 < d" "0 \<le> bk_loan_available b"
  shows "get_loan d b = Some (Inr (
    if bk_loan_available b = 0 \<and> bk_dollar_loans b
    then take_loan (min d 1) ((take_loan 0 b)\<lparr>bk_loan_available := 1\<rparr>)
    else take_loan (min d (bk_loan_available b)) b))"
proof -
  have step: "get_loan d c = Some (Inr (take_loan (min d (bk_loan_available c)) c))"
    if "0 \<le> bk_loan_available c" "bk_loan_available c \<noteq> 0 \<or> \<not> bk_dollar_loans c" for c
    using that assms(1) by (subst get_loan.simps) (auto simp: Let_def take_loan_def min_def)
  show ?thesis
  proof (cases "bk_loan_available b = 0 \<and> bk_dollar_loans b")
    case True
    then have "get_loan d b = get_loan d ((take_loan 0 b)\<lparr>bk_loan_available := 1\<rparr>)"
      using assms(1) by (subst get_loan.simps) (simp add: Let_def take_loan_def)
    then show ?thesis using True step [of "(take_loan 0 b)\<lparr>bk_loan_available := 1\<rparr>"] by simp
  qed (use step assms(2) in auto)
qed

text \<open>What the bank promises of its credit line.\<close>

definition solvent :: "bank \<Rightarrow> bool" where
  "solvent b \<longleftrightarrow> 0 \<le> bk_cash b \<and> 0 \<le> bk_loan_available b"

definition equity :: "bank \<Rightarrow> rat" where
  "equity b = bk_cash b - bk_loan b"

text \<open>
  A withdrawal takes what is asked for, or all the cash and credit there is; with dollar loans it takes
  something whenever something is asked for.
\<close>

definition withdrawn :: "rat \<Rightarrow> bank \<Rightarrow> rat \<Rightarrow> bank \<Rightarrow> bool" where
  "withdrawn amount b n b' \<longleftrightarrow> solvent b' \<and> bk_dollar_loans b' = bk_dollar_loans b \<and>
     equity b' = equity b - n \<and> 0 \<le> n \<and> n \<le> amount \<and>
     (\<not> bk_dollar_loans b \<longrightarrow> n = min amount (bk_cash b + bk_loan_available b) \<and>
        bk_loan b' + bk_loan_available b' = bk_loan b + bk_loan_available b) \<and>
     (bk_dollar_loans b \<and> 0 < amount \<longrightarrow> 0 < n)"

lemma wp_loan:
  assumes "0 < d" "solvent b"
  shows "wp (loan d) (\<lambda>_ b'. solvent b' \<and> bk_dollar_loans b' = bk_dollar_loans b \<and> equity b' = equity b \<and>
      bk_cash b \<le> bk_cash b' \<and> bk_cash b' \<le> bk_cash b + d \<and>
      (\<not> bk_dollar_loans b \<longrightarrow> bk_cash b' = bk_cash b + min d (bk_loan_available b) \<and>
         bk_loan b' + bk_loan_available b' = bk_loan b + bk_loan_available b) \<and>
      (bk_dollar_loans b \<longrightarrow> bk_cash b < bk_cash b')) (\<lambda>_ _. False) b"
proof -
  have "0 \<le> bk_loan_available b" using assms(2) by (simp add: solvent_def)
  then show ?thesis
    using assms by (auto simp: wp_def loan_def get_loan_positive solvent_def equity_def take_loan_def min_def)
qed

lemma wp_withdraw_cash:
  assumes "0 \<le> amount" "solvent b"
  shows "wp (withdraw_cash amount) (\<lambda>n b'. withdrawn amount b n b') (\<lambda>_ _. False) b"
proof (cases "bk_cash b < amount")
  case True
  have rest: "withdrawn amount b (min amount (bk_cash b')) (b'\<lparr>bk_cash := bk_cash b' - min amount (bk_cash b')\<rparr>)"
    if "solvent b' \<and> bk_dollar_loans b' = bk_dollar_loans b \<and> equity b' = equity b \<and>
      bk_cash b \<le> bk_cash b' \<and> bk_cash b' \<le> bk_cash b + (amount - bk_cash b) \<and>
      (\<not> bk_dollar_loans b \<longrightarrow> bk_cash b' = bk_cash b + min (amount - bk_cash b) (bk_loan_available b) \<and>
         bk_loan b' + bk_loan_available b' = bk_loan b + bk_loan_available b) \<and>
      (bk_dollar_loans b \<longrightarrow> bk_cash b < bk_cash b')" for b'
    using that assms True by (auto simp: withdrawn_def solvent_def equity_def min_def)
  show ?thesis
    using True wp_mono [OF wp_loan [of "amount - bk_cash b" b]] assms(2) rest
    by (simp add: withdraw_cash_def Let_def)
next
  case False
  then show ?thesis
    using assms by (auto simp: withdraw_cash_def Let_def withdrawn_def solvent_def equity_def min_def)
qed

lemma wp_withdraw_enough:
  "0 < a \<Longrightarrow> a \<le> bk_cash b \<Longrightarrow> wp (withdraw_cash a) Q R b = Q a (b\<lparr>bk_cash := bk_cash b - a\<rparr>)"
  by (simp add: withdraw_cash_def Let_def)

section \<open>Properties\<close>

text \<open>A bank as its clients use it: amounts are withdrawn and paid in, the bank answers.\<close>

datatype bank_op = Withdraw rat | PayIn rat

definition bank_step :: "bank_op \<Rightarrow> (bank, rat) prog" where
  "bank_step x = (case x of Withdraw a \<Rightarrow> withdraw_cash a | PayIn a \<Rightarrow> seqE (pay_in_cash a) (returnE (- a)))"

fun bank_run :: "bank_op list \<Rightarrow> (bank, rat list) prog" where
  "bank_run [] = returnE []"
| "bank_run (x # xs) = bindE (bank_step x) (\<lambda>n. bindE (bank_run xs) (\<lambda>ns. returnE (n # ns)))"

fun asked :: "bank_op \<Rightarrow> rat" where
  "asked (Withdraw a) = a"
| "asked (PayIn a) = a"

definition served :: "bool \<Rightarrow> bank_op \<Rightarrow> rat \<Rightarrow> bool" where
  "served dollar_loans x n \<longleftrightarrow>
     (case x of Withdraw a \<Rightarrow> 0 \<le> n \<and> n \<le> a \<and> (dollar_loans \<and> 0 < a \<longrightarrow> 0 < n) | PayIn a \<Rightarrow> n = - a)"

lemma wp_bank_step:
  assumes "solvent b" "0 \<le> asked x"
  shows "wp (bank_step x) (\<lambda>n b'. solvent b' \<and> bk_dollar_loans b' = bk_dollar_loans b \<and>
     equity b' = equity b - n \<and> served (bk_dollar_loans b) x n \<and>
     (\<not> bk_dollar_loans b \<longrightarrow> bk_loan b' + bk_loan_available b' = bk_loan b + bk_loan_available b)) (\<lambda>_ _. False) b"
proof (cases x)
  case (Withdraw a)
  then show ?thesis
    using wp_mono [OF wp_withdraw_cash [of a b]] assms by (simp add: bank_step_def served_def withdrawn_def)
next
  case (PayIn a)
  then show ?thesis
    using assms by (simp add: bank_step_def pay_in_cash_def served_def solvent_def equity_def)
qed

lemma wp_bank_run:
  "solvent b \<Longrightarrow> \<forall>x \<in> set xs. 0 \<le> asked x \<Longrightarrow>
   wp (bank_run xs) (\<lambda>ns b'. solvent b' \<and> bk_dollar_loans b' = bk_dollar_loans b \<and>
     equity b' = equity b - sum_list ns \<and> list_all2 (served (bk_dollar_loans b)) xs ns \<and>
     (\<not> bk_dollar_loans b \<longrightarrow> bk_loan b' + bk_loan_available b' = bk_loan b + bk_loan_available b)) (\<lambda>_ _. False) b"
proof (induction xs arbitrary: b)
  case (Cons x xs)
  show ?case
    unfolding bank_run.simps
  proof (rule wp_bind_rule [OF wp_bank_step [of b x]], goal_cases)
    case (3 n c)
    then have c: "solvent c" and "\<forall>x \<in> set xs. 0 \<le> asked x" using Cons.prems by auto
    from Cons.IH [OF this] show ?case
      unfolding wp_bindE wp_returnE by (rule wp_mono) (use 3 in auto)
  qed (use Cons.prems in auto)
qed simp

text \<open>
  C26: The bank always answers and conserves money.  Whatever sequence of withdrawals and payments of
  non-negative amounts a backtest makes, no call fails or recurses for ever: cash minus loans is the
  starting cash minus what was paid out plus what was paid in, the cash is never negative, no
  withdrawal exceeds what was asked for, with dollar loans none is refused, and without them the
  loans stay within the credit line.
\<close>

theorem bank_conserves_money:
  assumes "0 \<le> starting_cash" "0 \<le> loan_available" "\<forall>x \<in> set xs. 0 \<le> asked x"
  shows "\<exists>ns b. bank_run xs (new_bank starting_cash loan_available dollar_loans) = (Inr ns, b) \<and>
    bk_cash b - bk_loan b = starting_cash - sum_list ns \<and> 0 \<le> bk_cash b \<and>
    list_all2 (served dollar_loans) xs ns \<and> (\<not> dollar_loans \<longrightarrow> bk_loan b \<le> loan_available)"
proof -
  let ?b = "new_bank starting_cash loan_available dollar_loans"
  have "solvent ?b" using assms(1,2) by (simp add: solvent_def new_bank_def)
  from wp_total [OF wp_bank_run [OF this assms(3)]] show ?thesis
    by (auto simp: new_bank_def equity_def solvent_def)
qed

theorem bank_conserves_money_witness:
  "\<exists>ns b. bank_run [Withdraw 100, PayIn 30, Withdraw 50, Withdraw 7] (new_bank 60 10 True) = (Inr ns, b) \<and>
    list_all2 (served True) [Withdraw 100, PayIn 30, Withdraw 50, Withdraw 7] ns \<and> 0 \<le> bk_cash b"
  using bank_conserves_money [of 60 10 "[Withdraw 100, PayIn 30, Withdraw 50, Withdraw 7]" True] by force

end
