(* ===== verification/Candles.thy ===== *)
theory Candles
  imports Prelude
begin

text \<open>
  Candles and the bounded candle history every edge keeps: \<open>LimitedLengthCandlesHistory\<close> of
  \<open>services/edge70-signals/limited-length-candles-history.ts\<close> (wicks, with an emptiness check) and
  of \<open>classes/edges/edge58\<close> and \<open>edge56.ts\<close> (candle bodies).  The lemmas show that the patched
  \<open>push\<close> keeps exactly the most recent candles and that the scans return the extreme value and a
  candle that attains it.
\<close>

section \<open>The data\<close>

record candle =
  c_open :: rat
  c_high :: rat
  c_low :: rat
  c_close :: rat
  c_closeTime :: int

record history =
  h_length :: nat
  h_candles :: "candle list"

section \<open>Operations\<close>

text \<open>The constructor keeps \<open>initial_candles.slice(-length)\<close>.\<close>

definition new_history :: "nat \<Rightarrow> candle list \<Rightarrow> history" where
  "new_history n initial_candles = \<lparr>h_length = n, h_candles = slice_last n initial_candles\<rparr>"

definition current_number_of_stored_candles :: "history \<Rightarrow> nat" where
  "current_number_of_stored_candles h = length (h_candles h)"

definition required_number_of_stored_candles :: "history \<Rightarrow> nat" where
  "required_number_of_stored_candles h = h_length h"

definition full :: "history \<Rightarrow> bool" where
  "full h \<longleftrightarrow> current_number_of_stored_candles h \<ge> required_number_of_stored_candles h"

text \<open>The \<open>push\<close> patched onto the array: drop the oldest candle when it is full, then append.\<close>

definition array_push :: "nat \<Rightarrow> candle \<Rightarrow> candle list \<Rightarrow> candle list" where
  "array_push n c cs = (if length cs \<ge> n then tl cs else cs) @ [c]"

text \<open>\<open>push\<close> of the class: the patched array \<open>push\<close>, then the assertion on the length.\<close>

definition push :: "candle \<Rightarrow> (history, unit) prog" where
  "push c = seqE (modifyE (\<lambda>h. h\<lparr>h_candles := array_push (h_length h) c (h_candles h)\<rparr>))
     (bindE (getE (\<lambda>h. length (h_candles h) \<le> h_length h))
        (\<lambda>ok. assertE ok ''this.candles.length <= this.length''))"

text \<open>
  The scan loops.  \<open>value_of\<close> is the local function of the source (\<open>candle_high_value\<close> and its
  kin); a later candle replaces the best one only when it is strictly better.
\<close>

fun scan_highest :: "(candle \<Rightarrow> rat) \<Rightarrow> rat \<times> candle \<Rightarrow> candle list \<Rightarrow> rat \<times> candle" where
  "scan_highest value_of best [] = best"
| "scan_highest value_of (high, high_candle) (c # cs) =
     (let candle_high_price = value_of c in
      scan_highest value_of (if candle_high_price > high then (candle_high_price, c) else (high, high_candle)) cs)"

fun scan_lowest :: "(candle \<Rightarrow> rat) \<Rightarrow> rat \<times> candle \<Rightarrow> candle list \<Rightarrow> rat \<times> candle" where
  "scan_lowest value_of best [] = best"
| "scan_lowest value_of (low, low_candle) (c # cs) =
     (let candle_low_price = value_of c in
      scan_lowest value_of (if candle_low_price < low then (candle_low_price, c) else (low, low_candle)) cs)"

definition get_highest_value :: "history \<Rightarrow> js_error + (rat \<times> candle)" where
  "get_highest_value h =
     (case h_candles h of
        [] \<Rightarrow> Inl (Err ''Asking for info from an empty LimitedLengthCandlesHistory'')
      | c # _ \<Rightarrow> Inr (scan_highest c_high (c_high c, c) (h_candles h)))"

definition get_lowest_value :: "history \<Rightarrow> js_error + (rat \<times> candle)" where
  "get_lowest_value h =
     (case h_candles h of
        [] \<Rightarrow> Inl (Err ''Asking for info from an empty LimitedLengthCandlesHistory'')
      | c # _ \<Rightarrow> Inr (scan_lowest c_low (c_low c, c) (h_candles h)))"

text \<open>Edges 56 and 58 look at the candle bodies and read \<open>candles[0]\<close> without a check.\<close>

definition candle_high_body_value :: "candle \<Rightarrow> rat" where
  "candle_high_body_value c = max (c_open c) (c_close c)"

definition candle_low_body_value :: "candle \<Rightarrow> rat" where
  "candle_low_body_value c = min (c_open c) (c_close c)"

definition get_highest_body_value :: "history \<Rightarrow> js_error + (rat \<times> candle)" where
  "get_highest_body_value h =
     (case h_candles h of
        [] \<Rightarrow> Inl (Err ''TypeError: Cannot read properties of undefined'')
      | c # _ \<Rightarrow> Inr (scan_highest candle_high_body_value (candle_high_body_value c, c) (h_candles h)))"

definition get_lowest_body_value :: "history \<Rightarrow> js_error + (rat \<times> candle)" where
  "get_lowest_body_value h =
     (case h_candles h of
        [] \<Rightarrow> Inl (Err ''TypeError: Cannot read properties of undefined'')
      | c # _ \<Rightarrow> Inr (scan_lowest candle_low_body_value (candle_low_body_value c, c) (h_candles h)))"

section \<open>The history is a sliding window\<close>

definition bounded :: "history \<Rightarrow> bool" where
  "bounded h \<longleftrightarrow> 0 < h_length h \<and> length (h_candles h) \<le> h_length h"

lemma bounded_new_history: "0 < n \<Longrightarrow> bounded (new_history n cs)"
  by (simp add: bounded_def new_history_def length_slice_last)

lemma length_array_push: "0 < n \<Longrightarrow> length cs \<le> n \<Longrightarrow> length (array_push n c cs) \<le> n"
  by (auto simp: array_push_def)

lemma array_push_slice_last:
  assumes "0 < n"
  shows "array_push n c (slice_last n cs) = slice_last n (cs @ [c])"
proof (cases "n \<le> length cs")
  case True
  then have "slice_last n (cs @ [c]) = drop (Suc (length cs - n)) cs @ [c]"
    using assms by (simp add: slice_last_def Suc_diff_le)
  moreover have "length (slice_last n cs) = n" using assms True by (simp add: length_slice_last)
  ultimately show ?thesis using assms
    by (simp add: array_push_def slice_last_def drop_Suc tl_drop)
next
  case False
  then show ?thesis using assms by (simp add: array_push_def slice_last_def)
qed

text \<open>\<open>push\<close> with the precondition that makes its assertion hold.\<close>

definition pushed :: "candle \<Rightarrow> history \<Rightarrow> history" where
  "pushed c h = h\<lparr>h_candles := array_push (h_length h) c (h_candles h)\<rparr>"

lemma bounded_pushed [simp, intro]: "bounded h \<Longrightarrow> bounded (pushed c h)"
  by (simp add: bounded_def pushed_def length_array_push)

lemma wp_push:
  "bounded h \<Longrightarrow> wp (push c) Q R h = Q () (pushed c h)"
  by (simp add: push_def bounded_def pushed_def length_array_push)

lemma push_bounded: "bounded h \<Longrightarrow> push c h = (Inr (), pushed c h)"
  by (simp add: push_def bounded_def pushed_def length_array_push seqE_def bindE_def modifyE_def
      getE_def assertE_def returnE_def)

lemma pushed_new_history: "0 < n \<Longrightarrow> pushed c (new_history n cs) = new_history n (cs @ [c])"
  by (simp add: pushed_def new_history_def array_push_slice_last)

lemma full_new_history: "0 < n \<Longrightarrow> full (new_history n cs) \<longleftrightarrow> n \<le> length cs"
  by (simp add: full_def new_history_def current_number_of_stored_candles_def
      required_number_of_stored_candles_def length_slice_last)

lemma bounded_new_history_forE:
  "0 < n \<Longrightarrow> forE cs push (new_history n init) = (Inr (), new_history n (init @ cs))"
proof (induction cs arbitrary: init)
  case Nil
  then show ?case by (simp add: returnE_def)
next
  case (Cons c cs)
  then show ?case
    by (simp add: seqE_def bindE_def push_bounded bounded_new_history pushed_new_history)
qed

section \<open>The scans find the extremes\<close>

lemma scan_highest_fst: "fst (scan_highest v (b, c) cs) = fold (\<lambda>x m. max (v x) m) cs b"
  by (induction cs arbitrary: b c) (auto simp: Let_def max_def)

lemma scan_lowest_fst: "fst (scan_lowest v (b, c) cs) = fold (\<lambda>x m. min (v x) m) cs b"
  by (induction cs arbitrary: b c) (auto simp: Let_def min_def)

lemma scan_highest_attained:
  "b = v c \<Longrightarrow> fst (scan_highest v (b, c) cs) = v (snd (scan_highest v (b, c) cs))
    \<and> snd (scan_highest v (b, c) cs) \<in> insert c (set cs)"
proof (induction cs arbitrary: b c)
  case (Cons a cs)
  then show ?case using Cons.IH [of "v a" a] Cons.IH [of b c] by (auto simp: Let_def)
qed simp

lemma scan_lowest_attained:
  "b = v c \<Longrightarrow> fst (scan_lowest v (b, c) cs) = v (snd (scan_lowest v (b, c) cs))
    \<and> snd (scan_lowest v (b, c) cs) \<in> insert c (set cs)"
proof (induction cs arbitrary: b c)
  case (Cons a cs)
  then show ?case using Cons.IH [of "v a" a] Cons.IH [of b c] by (auto simp: Let_def)
qed simp

lemma fold_max_base: "(b::rat) \<le> fold (\<lambda>x m. max (v x) m) cs b"
proof (induction cs arbitrary: b)
  case (Cons a cs)
  show ?case using Cons.IH [of "max (v a) b"] by simp
qed simp

lemma fold_max_ge: "x \<in> set cs \<Longrightarrow> v x \<le> fold (\<lambda>x m. max (v x) m) cs (b::rat)"
  by (induction cs arbitrary: b) (auto intro: order_trans [OF _ fold_max_base])

lemma fold_min_base: "fold (\<lambda>x m. min (v x) m) cs b \<le> (b::rat)"
proof (induction cs arbitrary: b)
  case (Cons a cs)
  show ?case using Cons.IH [of "min (v a) b"] by simp
qed simp

lemma fold_min_le: "x \<in> set cs \<Longrightarrow> fold (\<lambda>x m. min (v x) m) cs (b::rat) \<le> v x"
  by (induction cs arbitrary: b) (auto intro: order_trans [OF fold_min_base])

lemma scan_highest_upper: "x \<in> insert c (set cs) \<Longrightarrow> b = v c \<Longrightarrow> v x \<le> fst (scan_highest v (b, c) cs)"
  using fold_max_ge [of x cs v b] fold_max_base [of b v cs] by (auto simp: scan_highest_fst)

lemma scan_lowest_lower: "x \<in> insert c (set cs) \<Longrightarrow> b = v c \<Longrightarrow> fst (scan_lowest v (b, c) cs) \<le> v x"
  using fold_min_le [of x cs v b] fold_min_base [of v cs b] by (auto simp: scan_lowest_fst)

lemma get_highest_value_Inr:
  assumes "h_candles h \<noteq> []"
  shows "\<exists>c. get_highest_value h = Inr (Max (c_high ` set (h_candles h)), c)
    \<and> c \<in> set (h_candles h) \<and> c_high c = Max (c_high ` set (h_candles h))"
proof -
  obtain a cs where h: "h_candles h = a # cs" using assms by (cases "h_candles h") auto
  let ?r = "scan_highest c_high (c_high a, a) (a # cs)"
  have mem: "snd ?r \<in> set (a # cs)" and eq: "fst ?r = c_high (snd ?r)"
    using scan_highest_attained [of "c_high a" c_high a "a # cs"] by auto
  have ub: "c_high x \<le> fst ?r" if "x \<in> set (a # cs)" for x
    using that by (intro scan_highest_upper) auto
  have "Max (c_high ` set (a # cs)) = fst ?r"
    by (rule Max_eqI) (use mem eq ub in \<open>auto simp del: scan_highest.simps\<close>)
  then show ?thesis using mem eq
    by (intro exI [of _ "snd ?r"]) (simp add: get_highest_value_def h prod_eq_iff del: scan_highest.simps)
qed

lemma get_lowest_value_Inr:
  assumes "h_candles h \<noteq> []"
  shows "\<exists>c. get_lowest_value h = Inr (Min (c_low ` set (h_candles h)), c)
    \<and> c \<in> set (h_candles h) \<and> c_low c = Min (c_low ` set (h_candles h))"
proof -
  obtain a cs where h: "h_candles h = a # cs" using assms by (cases "h_candles h") auto
  let ?r = "scan_lowest c_low (c_low a, a) (a # cs)"
  have mem: "snd ?r \<in> set (a # cs)" and eq: "fst ?r = c_low (snd ?r)"
    using scan_lowest_attained [of "c_low a" c_low a "a # cs"] by auto
  have lb: "fst ?r \<le> c_low x" if "x \<in> set (a # cs)" for x
    using that by (intro scan_lowest_lower) auto
  have "Min (c_low ` set (a # cs)) = fst ?r"
    by (rule Min_eqI) (use mem eq lb in \<open>auto simp del: scan_lowest.simps\<close>)
  then show ?thesis using mem eq
    by (intro exI [of _ "snd ?r"]) (simp add: get_lowest_value_def h prod_eq_iff del: scan_lowest.simps)
qed

end
