(* ===== verification/Edge70.thy ===== *)
theory Edge70
  imports Candles Types
begin

text \<open>
  The edge70 signal generator (\<open>services/edge70-signals\<close>): the persisted market direction behind
  its interface \<open>DirectionPersistence\<close>, with the Redis implementation and the in-memory mock of
  the backtester, the candle handler \<open>Edge70Signals.ingest_new_candle\<close>, and the
  \<open>MarketDirectionInitialiser\<close>.  The interface is a locale; the behaviour of the handler is
  proved once against it and instantiated for both implementations.
\<close>

section \<open>Directions and their persistence\<close>

datatype direction = Long | Short

text \<open>What a lookup yields in JavaScript: \<open>null\<close>, \<open>undefined\<close> or a direction.\<close>

datatype js_dir = JsNull | JsUndefined | JsDir direction

fun direction_string :: "direction \<Rightarrow> string" where
  "direction_string Long = ''long''"
| "direction_string Short = ''short''"

subsection \<open>Redis\<close>

text \<open>The direction keys with their expiry time, and the clock of the server, in seconds.\<close>

record dir_redis =
  dr_prefix :: string
  dr_now :: int
  dr_keys :: "(string \<times> string \<times> int) list"

definition market_to_key :: "string \<Rightarrow> string \<Rightarrow> string" where
  "market_to_key prefix base_asset = prefix @ '':signal_direction:'' @ to_upper base_asset"

definition live_value :: "dir_redis \<Rightarrow> string \<Rightarrow> string option" where
  "live_value d k = (case map_of (dr_keys d) k of
     Some (v, expires) \<Rightarrow> if dr_now d < expires then Some v else None | None \<Rightarrow> None)"

definition redis_get_direction :: "string \<Rightarrow> (dir_redis, js_dir) prog" where
  "redis_get_direction base_asset =
     bindE (getE (\<lambda>d. live_value d (market_to_key (dr_prefix d) base_asset))) (\<lambda>v.
       case v of
         None \<Rightarrow> returnE JsNull
       | Some s \<Rightarrow>
           if s = ''long'' then returnE (JsDir Long)
           else if s = ''short'' then returnE (JsDir Short)
           else throwE (Err (''Direction not recognised: '' @ s)))"

definition direction_expiry_seconds :: int where
  "direction_expiry_seconds = 60 * 60 * 25"

definition redis_set_direction :: "string \<Rightarrow> direction \<Rightarrow> (dir_redis, js_dir) prog" where
  "redis_set_direction base_asset direction =
     bindE (redis_get_direction base_asset) (\<lambda>previous_direction.
     bindE (modifyE (\<lambda>d. d\<lparr>dr_keys :=
         (market_to_key (dr_prefix d) base_asset,
          direction_string direction, dr_now d + direction_expiry_seconds) # dr_keys d\<rparr>)) (\<lambda>_.
     returnE previous_direction))"

subsection \<open>The mock of the backtester\<close>

record dir_mock =
  dm_prefix :: string
  dm_keys :: "(string \<times> direction) list"

text \<open>Reading an absent property of the \<open>keys\<close> object gives \<open>undefined\<close>, not \<open>null\<close>.\<close>

definition mock_get_direction :: "string \<Rightarrow> (dir_mock, js_dir) prog" where
  "mock_get_direction base_asset =
     getE (\<lambda>d. case map_of (dm_keys d) (market_to_key (dm_prefix d) base_asset) of
       None \<Rightarrow> JsUndefined | Some x \<Rightarrow> JsDir x)"

definition mock_set_direction :: "string \<Rightarrow> direction \<Rightarrow> (dir_mock, js_dir) prog" where
  "mock_set_direction base_asset direction =
     bindE (mock_get_direction base_asset) (\<lambda>previous_direction.
     bindE (modifyE (\<lambda>d. d\<lparr>dm_keys := (market_to_key (dm_prefix d) base_asset, direction) # dm_keys d\<rparr>)) (\<lambda>_.
     returnE previous_direction))"

definition get_all_market_stats :: "string list \<Rightarrow> dir_mock \<Rightarrow> nat \<times> nat \<times> nat" where
  "get_all_market_stats base_assets d =
     (let dirs = map (\<lambda>b. case map_of (dm_keys d) (market_to_key (dm_prefix d) b) of
                        None \<Rightarrow> JsUndefined | Some x \<Rightarrow> JsDir x) base_assets
      in (length (filter (\<lambda>x. x = JsDir Long) dirs), length (filter (\<lambda>x. x = JsDir Short) dirs),
          length (filter (\<lambda>x. x = JsNull \<or> x = JsUndefined) dirs)))"

section \<open>The signal generator\<close>

record edge70_parameters =
  candles_long :: nat
  candles_short :: nat

record edge70_signal =
  sig_edge :: string
  sig_market_identifier :: market_identifier
  sig_direction :: direction
  sig_price :: rat
  sig_timestamp_ms :: int
  sig_parameters :: edge70_parameters

record edge70_config =
  cfg_edge :: string
  cfg_market :: market_identifier
  cfg_parameters :: edge70_parameters

datatype signal_out = PublishSignal edge70_signal | CheckManually direction string

record 'd edge70_state =
  sg_long :: history
  sg_short :: history
  sg_healthy :: bool
  sg_dir :: 'd
  sg_out :: "signal_out list"

text \<open>The constructor refuses a partial final candle.\<close>

definition new_edge70 :: "edge70_config \<Rightarrow> candle list \<Rightarrow> int \<Rightarrow> 'd \<Rightarrow> js_error + 'd edge70_state" where
  "new_edge70 cfg initial_candles date_now d =
     (if initial_candles \<noteq> [] \<and> c_closeTime (last initial_candles) > date_now
      then Inl (Err (mi_symbol (cfg_market cfg) @ '' partial final candle in initial_candles''))
      else Inr \<lparr>sg_long = new_history (candles_long (cfg_parameters cfg)) initial_candles,
                sg_short = new_history (candles_short (cfg_parameters cfg)) initial_candles,
                sg_healthy = True, sg_dir = d, sg_out = []\<rparr>)"

definition required_initial_candles :: "edge70_parameters \<Rightarrow> nat" where
  "required_initial_candles p = max (candles_long p) (candles_short p)"

definition edge_full :: "'d edge70_state \<Rightarrow> bool" where
  "edge_full s \<longleftrightarrow> full (sg_long s) \<and> full (sg_short s)"

definition check_for_long_signal :: "candle \<Rightarrow> history \<Rightarrow> js_error + bool" where
  "check_for_long_signal c h =
     (if \<not> full h then Inr False
      else (case get_highest_value h of
              Inl e \<Rightarrow> Inl e
            | Inr (highest_price, _) \<Rightarrow> Inr (c_high c > highest_price)))"

definition check_for_short_signal :: "candle \<Rightarrow> history \<Rightarrow> js_error + bool" where
  "check_for_short_signal c h =
     (if \<not> full h then Inr False
      else (case get_lowest_value h of
              Inl e \<Rightarrow> Inl e
            | Inr (lowest_price, _) \<Rightarrow> Inr (c_low c < lowest_price)))"

text \<open>Running an operation of the persistence or of a history inside the edge's state.\<close>

definition on_dir :: "('d, 'a) prog \<Rightarrow> ('d edge70_state, 'a) prog" where
  "on_dir m = (\<lambda>s. case m (sg_dir s) of (r, d) \<Rightarrow> (r, s\<lparr>sg_dir := d\<rparr>))"

definition on_long :: "(history, 'a) prog \<Rightarrow> ('d edge70_state, 'a) prog" where
  "on_long m = (\<lambda>s. case m (sg_long s) of (r, h) \<Rightarrow> (r, s\<lparr>sg_long := h\<rparr>))"

definition on_short :: "(history, 'a) prog \<Rightarrow> ('d edge70_state, 'a) prog" where
  "on_short m = (\<lambda>s. case m (sg_short s) of (r, h) \<Rightarrow> (r, s\<lparr>sg_short := h\<rparr>))"

definition out :: "signal_out \<Rightarrow> ('d edge70_state, unit) prog" where
  "out x = modifyE (\<lambda>s. s\<lparr>sg_out := x # sg_out s\<rparr>)"

text \<open>\<open>callbacks.publish\<close>: the parameter says whether the publisher throws on this signal.\<close>

definition publish :: "(edge70_signal \<Rightarrow> js_error option) \<Rightarrow> edge70_signal \<Rightarrow> ('d edge70_state, unit) prog" where
  "publish pub x = seqE (out (PublishSignal x))
     (case pub x of None \<Rightarrow> returnE () | Some e \<Rightarrow> throwE e)"

definition ingest_body ::
    "edge70_config \<Rightarrow> (string \<Rightarrow> ('d, js_dir) prog) \<Rightarrow> (string \<Rightarrow> direction \<Rightarrow> ('d, js_dir) prog) \<Rightarrow>
     (edge70_signal \<Rightarrow> js_error option) \<Rightarrow> candle \<Rightarrow> ('d edge70_state, unit) prog" where
  "ingest_body cfg get_direction set_direction pub c =
    (let base_asset = mi_base_asset (cfg_market cfg); signal_timestamp_ms = c_closeTime c + 1 in
     bindE (bindE (getE (\<lambda>s. check_for_long_signal c (sg_long s))) liftE) (\<lambda>signal_long.
     bindE (bindE (getE (\<lambda>s. check_for_short_signal c (sg_short s))) liftE) (\<lambda>signal_short.
     bindE (on_dir (get_direction base_asset)) (\<lambda>stored.
       if signal_long \<and> signal_short then returnE ()
       else
         (case (if signal_long then JsDir Long else if signal_short then JsDir Short else stored) of
            JsNull \<Rightarrow> returnE ()
          | JsUndefined \<Rightarrow> returnE ()
          | JsDir direction \<Rightarrow>
              bindE (on_dir (set_direction base_asset direction)) (\<lambda>previous_direction.
                if previous_direction = JsNull then out (CheckManually direction base_asset)
                else if previous_direction = JsDir direction then returnE ()
                else publish pub
                  \<lparr>sig_edge = cfg_edge cfg, sig_market_identifier = cfg_market cfg,
                   sig_direction = direction, sig_price = c_close c,
                   sig_timestamp_ms = signal_timestamp_ms, sig_parameters = cfg_parameters cfg\<rparr>))))))"

definition ingest_new_candle ::
    "edge70_config \<Rightarrow> (string \<Rightarrow> ('d, js_dir) prog) \<Rightarrow> (string \<Rightarrow> direction \<Rightarrow> ('d, js_dir) prog) \<Rightarrow>
     (edge70_signal \<Rightarrow> js_error option) \<Rightarrow> candle \<Rightarrow> ('d edge70_state, unit) prog" where
  "ingest_new_candle cfg get_direction set_direction pub c =
     finallyE
       (tryE (ingest_body cfg get_direction set_direction pub c)
          (\<lambda>err. seqE (modifyE (\<lambda>s. s\<lparr>sg_healthy := False\<rparr>)) (throwE err)))
       (seqE (on_long (push c)) (on_short (push c)))"

text \<open>The callers catch the exception of one candle and go on with the next one.\<close>

definition ingest_all ::
    "edge70_config \<Rightarrow> (string \<Rightarrow> ('d, js_dir) prog) \<Rightarrow> (string \<Rightarrow> direction \<Rightarrow> ('d, js_dir) prog) \<Rightarrow>
     (edge70_signal \<Rightarrow> js_error option) \<Rightarrow> candle list \<Rightarrow> 'd edge70_state \<Rightarrow> 'd edge70_state" where
  "ingest_all cfg get_direction set_direction pub cs s =
     fold (\<lambda>c s. snd (ingest_new_candle cfg get_direction set_direction pub c s)) cs s"

section \<open>The market direction initialiser\<close>

datatype mdi_result = MdiFailed js_error | MdiResult bool js_dir

text \<open>
  \<open>run\<close> on the candles the collector returned.  The two readings of the clock are the test for a
  partial final candle and the assertion that follows it.
\<close>

definition mdi_run ::
    "edge70_config \<Rightarrow> (string \<Rightarrow> ('d, js_dir) prog) \<Rightarrow> (string \<Rightarrow> direction \<Rightarrow> ('d, js_dir) prog) \<Rightarrow>
     candle list \<Rightarrow> int \<Rightarrow> int \<Rightarrow> 'd \<Rightarrow> mdi_result \<times> 'd" where
  "mdi_run cfg get_direction set_direction candles now1 now2 d =
    (if candles = [] then (MdiFailed (Err (''No candles loaded for '' @ mi_symbol (cfg_market cfg))), d)
     else if c_closeTime (last candles) > now1 \<and> \<not> c_closeTime (last candles) > now2
       then (MdiFailed (Err ''partial_candle.closeTime > Date.now()''), d)
     else
       let cs = (if c_closeTime (last candles) > now1 then butlast candles else candles) in
       (case new_edge70 cfg [] now2 d of
          Inl e \<Rightarrow> (MdiFailed e, d)
        | Inr s \<Rightarrow>
            (case bindE (forE cs (ingest_new_candle cfg get_direction set_direction (\<lambda>_. None)))
                    (\<lambda>_. on_dir (get_direction (mi_base_asset (cfg_market cfg)))) s of
               (Inl e, s') \<Rightarrow> (MdiFailed e, sg_dir s')
             | (Inr direction, s') \<Rightarrow>
                 (MdiResult (direction = JsDir Long \<or> direction = JsDir Short) direction, sg_dir s'))))"

section \<open>Symbolic execution of the handler\<close>

lemma wp_on_dir [simp, wp_simps]:
  "wp (on_dir m) Q R = (\<lambda>s. wp m (\<lambda>x d. Q x (s\<lparr>sg_dir := d\<rparr>)) (\<lambda>e d. R e (s\<lparr>sg_dir := d\<rparr>)) (sg_dir s))"
  by (simp add: fun_eq_iff wp_def on_dir_def split: prod.split sum.split)

lemma wp_on_long [simp, wp_simps]:
  "wp (on_long m) Q R = (\<lambda>s. wp m (\<lambda>x h. Q x (s\<lparr>sg_long := h\<rparr>)) (\<lambda>e h. R e (s\<lparr>sg_long := h\<rparr>)) (sg_long s))"
  by (simp add: fun_eq_iff wp_def on_long_def split: prod.split sum.split)

lemma wp_on_short [simp, wp_simps]:
  "wp (on_short m) Q R = (\<lambda>s. wp m (\<lambda>x h. Q x (s\<lparr>sg_short := h\<rparr>)) (\<lambda>e h. R e (s\<lparr>sg_short := h\<rparr>)) (sg_short s))"
  by (simp add: fun_eq_iff wp_def on_short_def split: prod.split sum.split)

lemma wp_out [simp, wp_simps]: "wp (out x) Q R = (\<lambda>s. Q () (s\<lparr>sg_out := x # sg_out s\<rparr>))"
  by (simp add: out_def)

lemma wp_publish [simp, wp_simps]:
  "wp (publish pub x) Q R = (\<lambda>s. let s' = s\<lparr>sg_out := PublishSignal x # sg_out s\<rparr> in
     case pub x of None \<Rightarrow> Q () s' | Some e \<Rightarrow> R e s')"
  by (simp add: fun_eq_iff publish_def Let_def split: option.split)

section \<open>What a candle means\<close>

definition long_breakout :: "candle \<Rightarrow> history \<Rightarrow> bool" where
  "long_breakout c h \<longleftrightarrow> full h \<and> (\<forall>x \<in> set (h_candles h). c_high x < c_high c)"

definition short_breakout :: "candle \<Rightarrow> history \<Rightarrow> bool" where
  "short_breakout c h \<longleftrightarrow> full h \<and> (\<forall>x \<in> set (h_candles h). c_low c < c_low x)"

lemma full_bounded_nonempty: "bounded h \<Longrightarrow> full h \<Longrightarrow> h_candles h \<noteq> []"
  by (auto simp: bounded_def full_def current_number_of_stored_candles_def
      required_number_of_stored_candles_def)

lemma check_for_long_signal_spec:
  assumes "bounded h"
  shows "check_for_long_signal c h = Inr (long_breakout c h)"
proof (cases "full h")
  case True
  then have ne: "h_candles h \<noteq> []" using assms by (rule full_bounded_nonempty [rotated])
  then obtain x where "get_highest_value h = Inr (Max (c_high ` set (h_candles h)), x)"
    using get_highest_value_Inr by blast
  with True ne show ?thesis
    by (simp add: check_for_long_signal_def long_breakout_def)
qed (simp add: check_for_long_signal_def long_breakout_def)

lemma check_for_short_signal_spec:
  assumes "bounded h"
  shows "check_for_short_signal c h = Inr (short_breakout c h)"
proof (cases "full h")
  case True
  then have ne: "h_candles h \<noteq> []" using assms by (rule full_bounded_nonempty [rotated])
  then obtain x where "get_lowest_value h = Inr (Min (c_low ` set (h_candles h)), x)"
    using get_lowest_value_Inr by blast
  with True ne show ?thesis
    by (simp add: check_for_short_signal_def short_breakout_def)
qed (simp add: check_for_short_signal_def short_breakout_def)

text \<open>The decision the handler takes, as a function of the two breakouts and the stored value.\<close>

datatype action = NoAction | Refresh direction | Initialise direction | Reverse direction

definition decide :: "bool \<Rightarrow> bool \<Rightarrow> js_dir \<Rightarrow> action" where
  "decide long short stored =
     (if long \<and> short then NoAction
      else case (if long then JsDir Long else if short then JsDir Short else stored) of
          JsDir d \<Rightarrow> if stored = JsNull then Initialise d
                      else if stored = JsDir d then Refresh d else Reverse d
        | _ \<Rightarrow> NoAction)"

definition signal_for :: "edge70_config \<Rightarrow> candle \<Rightarrow> direction \<Rightarrow> edge70_signal" where
  "signal_for cfg c d =
     \<lparr>sig_edge = cfg_edge cfg, sig_market_identifier = cfg_market cfg, sig_direction = d,
      sig_price = c_close c, sig_timestamp_ms = c_closeTime c + 1, sig_parameters = cfg_parameters cfg\<rparr>"

definition candle_action :: "candle \<Rightarrow> 'd edge70_state \<Rightarrow> js_dir \<Rightarrow> action" where
  "candle_action c s stored = decide (long_breakout c (sg_long s)) (short_breakout c (sg_short s)) stored"

definition after ::
    "(string \<Rightarrow> direction \<Rightarrow> ('d, js_dir) prog) \<Rightarrow> edge70_config \<Rightarrow> candle \<Rightarrow> action \<Rightarrow>
     'd edge70_state \<Rightarrow> 'd edge70_state" where
  "after set_direction cfg c a s =
     (let b = mi_base_asset (cfg_market cfg);
          stored_as = (\<lambda>d. s\<lparr>sg_dir := snd (set_direction b d (sg_dir s))\<rparr>) in
      case a of
        NoAction \<Rightarrow> s
      | Refresh d \<Rightarrow> stored_as d
      | Initialise d \<Rightarrow> (stored_as d)\<lparr>sg_out := CheckManually d b # sg_out s\<rparr>
      | Reverse d \<Rightarrow> (stored_as d)\<lparr>sg_out := PublishSignal (signal_for cfg c d) # sg_out s\<rparr>)"

lemma after_histories [simp]:
  "sg_long (after st cfg c a s) = sg_long s" "sg_short (after st cfg c a s) = sg_short s"
  "sg_healthy (after st cfg c a s) = sg_healthy s"
  by (simp_all add: after_def Let_def split: action.split)

definition push_both :: "candle \<Rightarrow> 'd edge70_state \<Rightarrow> 'd edge70_state" where
  "push_both c s = s\<lparr>sg_long := pushed c (sg_long s), sg_short := pushed c (sg_short s)\<rparr>"

definition well_formed :: "'d edge70_state \<Rightarrow> bool" where
  "well_formed s \<longleftrightarrow> bounded (sg_long s) \<and> bounded (sg_short s)"

lemma new_edge70_well_formed:
  "0 < candles_long (cfg_parameters cfg) \<Longrightarrow> 0 < candles_short (cfg_parameters cfg) \<Longrightarrow>
   new_edge70 cfg init t d = Inr s \<Longrightarrow> well_formed s"
  by (auto simp: new_edge70_def well_formed_def bounded_new_history split: if_splits)

text \<open>
  Whatever the persistence and the publisher do, the candle ends up in both histories, and an
  exception marks the subsystem unhealthy before it reaches the caller.
\<close>

lemma ingest_body_histories:
  "wp (ingest_body cfg g st pub c)
     (\<lambda>_ t. sg_long t = sg_long s \<and> sg_short t = sg_short s \<and> sg_healthy t = sg_healthy s)
     (\<lambda>_ t. sg_long t = sg_long s \<and> sg_short t = sg_short s \<and> sg_healthy t = sg_healthy s) s"
proof -
  have any: "wp m (\<lambda>x d. P) (\<lambda>e d. P) d \<longleftrightarrow> P" for m :: "('d, js_dir) prog" and P d
    by (auto simp: wp_def split: prod.splits sum.splits)
  have weaken: "wp m Q R d" if "\<And>x d. Q x d" "\<And>e d. R e d" for m :: "('d, js_dir) prog" and Q R d
    using that by (auto simp: wp_def split: prod.splits sum.splits)
  show ?thesis
    by (auto simp: ingest_body_def Let_def split: sum.split js_dir.split option.split
        intro!: weaken)
qed

text \<open>The directions published so far, newest first.\<close>

fun published :: "signal_out list \<Rightarrow> direction list" where
  "published [] = []"
| "published (PublishSignal x # xs) = sig_direction x # published xs"
| "published (CheckManually d b # xs) = published xs"

text \<open>The specification of a whole run: the last unambiguous breakout seen so far.\<close>

definition breaks_high :: "nat \<Rightarrow> candle list \<Rightarrow> candle \<Rightarrow> bool" where
  "breaks_high n seen c \<longleftrightarrow> n \<le> length seen \<and> (\<forall>x \<in> set (slice_last n seen). c_high x < c_high c)"

definition breaks_low :: "nat \<Rightarrow> candle list \<Rightarrow> candle \<Rightarrow> bool" where
  "breaks_low n seen c \<longleftrightarrow> n \<le> length seen \<and> (\<forall>x \<in> set (slice_last n seen). c_low c < c_low x)"

fun trend :: "nat \<Rightarrow> nat \<Rightarrow> candle list \<Rightarrow> candle list \<Rightarrow> js_dir \<Rightarrow> js_dir" where
  "trend nl ns seen [] d = d"
| "trend nl ns seen (c # cs) d =
     trend nl ns (seen @ [c]) cs
       (if breaks_high nl seen c \<and> \<not> breaks_low ns seen c then JsDir Long
        else if breaks_low ns seen c \<and> \<not> breaks_high nl seen c then JsDir Short else d)"

lemma long_breakout_new_history:
  "0 < n \<Longrightarrow> long_breakout c (new_history n seen) \<longleftrightarrow> breaks_high n seen c"
  by (simp add: long_breakout_def breaks_high_def full_new_history) (simp add: new_history_def)

lemma short_breakout_new_history:
  "0 < n \<Longrightarrow> short_breakout c (new_history n seen) \<longleftrightarrow> breaks_low n seen c"
  by (simp add: short_breakout_def breaks_low_def full_new_history) (simp add: new_history_def)

text \<open>Alternation: what has been published last is what is stored.\<close>

definition alternates :: "('d \<Rightarrow> string \<Rightarrow> js_dir) \<Rightarrow> edge70_config \<Rightarrow> 'd edge70_state \<Rightarrow> bool" where
  "alternates stored cfg s \<longleftrightarrow> distinct_adj (published (sg_out s)) \<and>
     (case published (sg_out s) of [] \<Rightarrow> True
      | d # _ \<Rightarrow> stored (sg_dir s) (mi_base_asset (cfg_market cfg)) = JsDir d)"

lemma decide_cases:
  "decide l sh st = Refresh d \<Longrightarrow> st = JsDir d"
  "decide l sh st = Initialise d \<Longrightarrow> st = JsNull"
  "decide l sh st = Reverse d \<Longrightarrow> st \<noteq> JsDir d"
  by (auto simp: decide_def split: if_splits js_dir.splits)

section \<open>The interface and its clients\<close>

text \<open>
  What the handler relies on: a lookup returns the stored value and changes nothing, and
  \<open>set_direction\<close> returns the previous value and stores the new one under the asset's key (the
  key ignores the case of the asset).
\<close>

locale direction_persistence =
  fixes get_direction :: "string \<Rightarrow> ('d, js_dir) prog"
    and set_direction :: "string \<Rightarrow> direction \<Rightarrow> ('d, js_dir) prog"
    and stored :: "'d \<Rightarrow> string \<Rightarrow> js_dir"
    and inv :: "'d \<Rightarrow> bool"
  assumes get_stored: "inv d \<Longrightarrow> get_direction b d = (Inr (stored d b), d)"
    and set_previous: "inv d \<Longrightarrow> fst (set_direction b x d) = Inr (stored d b)"
    and set_inv: "inv d \<Longrightarrow> inv (snd (set_direction b x d))"
    and set_same: "inv d \<Longrightarrow> stored (snd (set_direction b x d)) b = JsDir x"
    and set_other: "inv d \<Longrightarrow> to_upper b' \<noteq> to_upper b \<Longrightarrow> stored (snd (set_direction b x d)) b' = stored d b'"
begin

lemma wp_get: "inv d \<Longrightarrow> wp (get_direction b) Q R d = Q (stored d b) d"
  by (simp add: wp_def get_stored)

lemma wp_set: "inv d \<Longrightarrow> wp (set_direction b x) Q R d = Q (stored d b) (snd (set_direction b x d))"
  using set_previous [of d b x] by (cases "set_direction b x d") (simp add: wp_def)

lemma ingest_body_spec:
  assumes "inv (sg_dir s)" "well_formed s"
  shows "wp (ingest_body cfg get_direction set_direction pub c) Q R s =
    (let a = candle_action c s (stored (sg_dir s) (mi_base_asset (cfg_market cfg))); t = after set_direction cfg c a s in
     case a of
       Reverse d \<Rightarrow> (case pub (signal_for cfg c d) of None \<Rightarrow> Q () t | Some e \<Rightarrow> R e t)
     | _ \<Rightarrow> Q () t)"
  using assms
  by (auto simp: ingest_body_def Let_def candle_action_def decide_def after_def signal_for_def
      well_formed_def check_for_long_signal_spec check_for_short_signal_spec wp_get wp_set
      split: js_dir.split option.split)

theorem ingest_spec:
  assumes "inv (sg_dir s)" "well_formed s"
  shows "ingest_new_candle cfg get_direction set_direction pub c s =
    (let a = candle_action c s (stored (sg_dir s) (mi_base_asset (cfg_market cfg)));
         t = push_both c (after set_direction cfg c a s) in
     case a of
       Reverse d \<Rightarrow> (case pub (signal_for cfg c d) of
           None \<Rightarrow> (Inr (), t) | Some e \<Rightarrow> (Inl e, t\<lparr>sg_healthy := False\<rparr>))
     | _ \<Rightarrow> (Inr (), t))"
(is "_ = ?R")
proof -
  have "ingest_new_candle cfg get_direction set_direction pub c s = (fst ?R, snd ?R)"
    unfolding wp_outcome using assms
    by (auto simp: ingest_new_candle_def ingest_body_spec Let_def wp_push well_formed_def push_both_def
        split: action.split option.split)
  then show ?thesis by simp
qed

lemma after_inv:
  "inv (sg_dir s) \<Longrightarrow> inv (sg_dir (after set_direction cfg c a s))"
  by (simp add: after_def Let_def set_inv split: action.split)

lemma after_stored:
  "inv (sg_dir s) \<Longrightarrow> b = mi_base_asset (cfg_market cfg) \<Longrightarrow>
   stored (sg_dir (after set_direction cfg c a s)) b =
     (case a of NoAction \<Rightarrow> stored (sg_dir s) b
      | Refresh d \<Rightarrow> JsDir d | Initialise d \<Rightarrow> JsDir d | Reverse d \<Rightarrow> JsDir d)"
  by (simp add: after_def Let_def set_same split: action.split)

lemma ingest_state:
  fixes cfg c pub
  assumes "inv (sg_dir s)" "well_formed s"
  defines "t \<equiv> snd (ingest_new_candle cfg get_direction set_direction pub c s)"
    and "a \<equiv> candle_action c s (stored (sg_dir s) (mi_base_asset (cfg_market cfg)))"
  shows "sg_dir t = sg_dir (after set_direction cfg c a s)"
    and "sg_out t = sg_out (after set_direction cfg c a s)"
    and "sg_long t = pushed c (sg_long s)" and "sg_short t = pushed c (sg_short s)"
    and "inv (sg_dir t)" and "well_formed t"
  using assms(1,2) unfolding t_def a_def
  by (auto simp: ingest_spec Let_def push_both_def well_formed_def after_inv
      split: action.split option.split)

lemma ingest_alternates:
  assumes "inv (sg_dir s)" "well_formed s" "alternates stored cfg s"
  shows "alternates stored cfg (snd (ingest_new_candle cfg get_direction set_direction pub c s))"
proof -
  let ?b = "mi_base_asset (cfg_market cfg)"
  let ?a = "candle_action c s (stored (sg_dir s) ?b)"
  have "alternates stored cfg (after set_direction cfg c ?a s)"
  proof (cases ?a)
    case NoAction
    then show ?thesis using assms by (simp add: after_def Let_def)
  next
    case (Refresh d)
    then have "stored (sg_dir s) ?b = JsDir d" by (auto simp: candle_action_def dest: decide_cases)
    then show ?thesis using assms Refresh
      by (auto simp: alternates_def after_stored) (auto simp: after_def Let_def set_same split: list.splits)
  next
    case (Initialise d)
    then have "stored (sg_dir s) ?b = JsNull" by (auto simp: candle_action_def dest: decide_cases)
    then have "published (sg_out s) = []"
      using assms(3) by (auto simp: alternates_def split: list.splits)
    then show ?thesis using Initialise by (simp add: alternates_def after_def Let_def)
  next
    case (Reverse d)
    then have "stored (sg_dir s) ?b \<noteq> JsDir d" by (auto simp: candle_action_def dest: decide_cases)
    then show ?thesis using assms Reverse
      by (auto simp: alternates_def after_stored)
        (auto simp: after_def Let_def signal_for_def set_same distinct_adj_Cons split: list.splits)
  qed
  then show ?thesis
    unfolding alternates_def ingest_state(1,2) [OF assms(1,2)] .
qed

lemma ingest_all_alternates:
  "inv (sg_dir s) \<Longrightarrow> well_formed s \<Longrightarrow> alternates stored cfg s \<Longrightarrow>
   alternates stored cfg (ingest_all cfg get_direction set_direction pub cs s)"
proof (induction cs arbitrary: s)
  case Nil
  then show ?case by (simp add: ingest_all_def)
next
  case (Cons c cs)
  then show ?case
    using ingest_state(5,6) [OF Cons.prems(1,2), of cfg pub c] ingest_alternates [OF Cons.prems]
    by (simp add: ingest_all_def)
qed

lemma decide_trend:
  "(case decide l sh st of NoAction \<Rightarrow> st | Refresh d \<Rightarrow> JsDir d | Initialise d \<Rightarrow> JsDir d | Reverse d \<Rightarrow> JsDir d)
   = (if l \<and> \<not> sh then JsDir Long else if sh \<and> \<not> l then JsDir Short else st)"
  by (auto simp: decide_def split: js_dir.split)

text \<open>Without a publisher that throws, a run stores the trend of the candles.\<close>

lemma ingest_run_trend:
  assumes "0 < nl" "0 < ns" "b = mi_base_asset (cfg_market cfg)"
  shows "inv (sg_dir s) \<Longrightarrow> sg_long s = new_history nl seen \<Longrightarrow> sg_short s = new_history ns seen \<Longrightarrow>
    \<exists>t. forE cs (ingest_new_candle cfg get_direction set_direction (\<lambda>_. None)) s = (Inr (), t) \<and>
        inv (sg_dir t) \<and> stored (sg_dir t) b = trend nl ns seen cs (stored (sg_dir s) b)"
proof (induction cs arbitrary: s seen)
  case Nil
  then show ?case by (simp add: returnE_def)
next
  case (Cons c cs)
  let ?ing = "ingest_new_candle cfg get_direction set_direction (\<lambda>_. None) c s"
  have wf: "well_formed s" using Cons.prems assms by (simp add: well_formed_def bounded_new_history)
  note st = ingest_state [OF Cons.prems(1) wf, of cfg "\<lambda>_. None" c]
  have ok: "fst ?ing = Inr ()"
    using Cons.prems(1) wf by (simp add: ingest_spec Let_def split: action.split)
  have "\<exists>t. forE cs (ingest_new_candle cfg get_direction set_direction (\<lambda>_. None)) (snd ?ing) = (Inr (), t) \<and>
      inv (sg_dir t) \<and> stored (sg_dir t) b = trend nl ns (seen @ [c]) cs (stored (sg_dir (snd ?ing)) b)"
    by (rule Cons.IH) (use st Cons.prems assms in \<open>simp_all add: pushed_new_history\<close>)
  moreover have "stored (sg_dir (snd ?ing)) b =
      (if breaks_high nl seen c \<and> \<not> breaks_low ns seen c then JsDir Long
       else if breaks_low ns seen c \<and> \<not> breaks_high nl seen c then JsDir Short else stored (sg_dir s) b)"
    unfolding st(1) after_stored [OF Cons.prems(1) assms(3)] candle_action_def
      assms(3) [symmetric] decide_trend
    using Cons.prems assms(1,2) by (simp add: long_breakout_new_history short_breakout_new_history)
  ultimately show ?case
    using ok by (cases ?ing) (auto simp: seqE_def bindE_def)
qed

lemma mdi_run_trend:
  assumes "inv d" "candles \<noteq> []" "c_closeTime (last candles) \<le> now1 \<or> now2 < c_closeTime (last candles)"
    and cs: "cs = (if c_closeTime (last candles) \<le> now1 then candles else butlast candles)"
    and "nl = candles_long (cfg_parameters cfg)" "0 < nl"
    and "ns = candles_short (cfg_parameters cfg)" "0 < ns"
    and "b = mi_base_asset (cfg_market cfg)"
  shows "\<exists>d'. mdi_run cfg get_direction set_direction candles now1 now2 d =
      (MdiResult (trend nl ns [] cs (stored d b) \<in> {JsDir Long, JsDir Short})
         (trend nl ns [] cs (stored d b)), d') \<and> stored d' b = trend nl ns [] cs (stored d b)"
proof -
  define s where "s = \<lparr>sg_long = new_history nl [], sg_short = new_history ns [],
    sg_healthy = True, sg_dir = d, sg_out = []\<rparr>"
  have new: "new_edge70 cfg [] now2 d = Inr s" by (simp add: new_edge70_def s_def assms)
  obtain t where t: "forE cs (ingest_new_candle cfg get_direction set_direction (\<lambda>_. None)) s = (Inr (), t)"
      "inv (sg_dir t)" "stored (sg_dir t) b = trend nl ns [] cs (stored (sg_dir s) b)"
    using ingest_run_trend [of nl ns b cfg s "[]" cs] assms by (auto simp: s_def)
  then show ?thesis
    using assms(1-4,9) new t
    by (auto simp: not_less mdi_run_def Let_def bindE_def on_dir_def get_stored s_def)
qed

end

section \<open>The two implementations\<close>

definition stored_redis :: "dir_redis \<Rightarrow> string \<Rightarrow> js_dir" where
  "stored_redis d b = (case live_value d (market_to_key (dr_prefix d) b) of
     None \<Rightarrow> JsNull | Some s \<Rightarrow> if s = ''long'' then JsDir Long else JsDir Short)"

definition redis_dirs_ok :: "dir_redis \<Rightarrow> bool" where
  "redis_dirs_ok d \<longleftrightarrow> (\<forall>(k, v, t) \<in> set (dr_keys d). v = ''long'' \<or> v = ''short'')"

lemma live_value_ok: "redis_dirs_ok d \<Longrightarrow> live_value d k = Some v \<Longrightarrow> v = ''long'' \<or> v = ''short''"
  by (fastforce simp: redis_dirs_ok_def live_value_def split: option.splits if_splits dest: map_of_SomeD)

lemma redis_get_direction_eq:
  "redis_dirs_ok d \<Longrightarrow> redis_get_direction b d = (Inr (stored_redis d b), d)"
  by (auto simp: redis_get_direction_def stored_redis_def bindE_def getE_def returnE_def
      split: option.split dest: live_value_ok)

lemma redis_set_direction_eq:
  "redis_dirs_ok d \<Longrightarrow> redis_set_direction b x d =
    (Inr (stored_redis d b), d\<lparr>dr_keys := (market_to_key (dr_prefix d) b, direction_string x,
       dr_now d + direction_expiry_seconds) # dr_keys d\<rparr>)"
  by (simp add: redis_set_direction_def bindE_def redis_get_direction_eq modifyE_def returnE_def)

lemma market_to_key_eq_iff: "market_to_key p b = market_to_key p b' \<longleftrightarrow> to_upper b = to_upper b'"
  by (simp add: market_to_key_def)

lemma live_value_cons:
  "live_value (d\<lparr>dr_keys := (k, v, t) # ks\<rparr>) k' =
    (if k' = k then (if dr_now d < t then Some v else None) else live_value (d\<lparr>dr_keys := ks\<rparr>) k')"
  by (simp add: live_value_def cong: option.case_cong)

interpretation redis_dir: direction_persistence redis_get_direction redis_set_direction stored_redis redis_dirs_ok
proof unfold_locales
  show "redis_dirs_ok (snd (redis_set_direction b x d))" if "redis_dirs_ok d" for b x d
    using that by (cases x) (auto simp: redis_set_direction_eq, auto simp: redis_dirs_ok_def)
  show "stored_redis (snd (redis_set_direction b x d)) b = JsDir x" if "redis_dirs_ok d" for b x d
    using that by (cases x)
      (simp_all add: redis_set_direction_eq stored_redis_def live_value_cons direction_expiry_seconds_def)
  show "stored_redis (snd (redis_set_direction b x d)) b' = stored_redis d b'"
    if "redis_dirs_ok d" "to_upper b' \<noteq> to_upper b" for b' b x d
    using that by (simp add: redis_set_direction_eq stored_redis_def live_value_cons market_to_key_eq_iff)
qed (simp_all add: redis_get_direction_eq redis_set_direction_eq)

definition stored_mock :: "dir_mock \<Rightarrow> string \<Rightarrow> js_dir" where
  "stored_mock d b = (case map_of (dm_keys d) (market_to_key (dm_prefix d) b) of
     None \<Rightarrow> JsUndefined | Some x \<Rightarrow> JsDir x)"

lemma mock_set_direction_eq:
  "mock_set_direction b x d =
    (Inr (stored_mock d b), d\<lparr>dm_keys := (market_to_key (dm_prefix d) b, x) # dm_keys d\<rparr>)"
  by (simp add: mock_set_direction_def mock_get_direction_def stored_mock_def bindE_def getE_def
      modifyE_def returnE_def)

interpretation mock_dir: direction_persistence mock_get_direction mock_set_direction stored_mock "\<lambda>_. True"
  by unfold_locales
    (auto simp: mock_set_direction_eq mock_get_direction_def stored_mock_def getE_def market_to_key_eq_iff)

section \<open>Live operation: candles arrive over time\<close>

text \<open>
  A live run: each candle is ingested at its own clock reading, at which keys whose expiry has
  passed are gone.
\<close>

definition at_time :: "int \<Rightarrow> dir_redis edge70_state \<Rightarrow> dir_redis edge70_state" where
  "at_time t s = s\<lparr>sg_dir := (sg_dir s)\<lparr>dr_now := t\<rparr>\<rparr>"

lemma at_time_simps [simp]:
  "sg_long (at_time t s) = sg_long s" "sg_short (at_time t s) = sg_short s"
  "sg_out (at_time t s) = sg_out s" "sg_dir (at_time t s) = (sg_dir s)\<lparr>dr_now := t\<rparr>"
  "redis_dirs_ok (d\<lparr>dr_now := t\<rparr>) = redis_dirs_ok d"
  "well_formed (at_time t s) = well_formed s"
  by (simp_all add: at_time_def redis_dirs_ok_def well_formed_def)

definition live_step ::
    "edge70_config \<Rightarrow> (edge70_signal \<Rightarrow> js_error option) \<Rightarrow> int \<times> candle \<Rightarrow>
     dir_redis edge70_state \<Rightarrow> dir_redis edge70_state" where
  "live_step cfg pub x s =
     snd (ingest_new_candle cfg redis_get_direction redis_set_direction pub (snd x) (at_time (fst x) s))"

definition live_run ::
    "edge70_config \<Rightarrow> (edge70_signal \<Rightarrow> js_error option) \<Rightarrow> (int \<times> candle) list \<Rightarrow>
     dir_redis edge70_state \<Rightarrow> dir_redis edge70_state" where
  "live_run cfg pub xs s = fold (live_step cfg pub) xs s"

text \<open>Candles less than 25 hours apart, none of which breaks out in both directions.\<close>

fun timely :: "int \<Rightarrow> (int \<times> candle) list \<Rightarrow> bool" where
  "timely now [] = True"
| "timely now ((t, c) # xs) = (now \<le> t \<and> t < now + direction_expiry_seconds \<and> timely t xs)"

fun unambiguous :: "nat \<Rightarrow> nat \<Rightarrow> candle list \<Rightarrow> candle list \<Rightarrow> bool" where
  "unambiguous nl ns seen [] = True"
| "unambiguous nl ns seen (c # cs) =
     (\<not> (breaks_high nl seen c \<and> breaks_low ns seen c) \<and> unambiguous nl ns (seen @ [c]) cs)"

text \<open>Once something has been published its key has just been refreshed.\<close>

definition fresh :: "edge70_config \<Rightarrow> dir_redis edge70_state \<Rightarrow> bool" where
  "fresh cfg s \<longleftrightarrow> alternates stored_redis cfg s \<and> redis_dirs_ok (sg_dir s) \<and>
     (published (sg_out s) \<noteq> [] \<longrightarrow>
       (\<exists>v. map_of (dr_keys (sg_dir s)) (market_to_key (dr_prefix (sg_dir s)) (mi_base_asset (cfg_market cfg)))
            = Some (v, dr_now (sg_dir s) + direction_expiry_seconds)))"

lemma fresh_at_time:
  assumes "fresh cfg s" "dr_now (sg_dir s) \<le> t" "t < dr_now (sg_dir s) + direction_expiry_seconds"
  shows "alternates stored_redis cfg (at_time t s)"
  using assms
  by (auto simp: fresh_def alternates_def stored_redis_def live_value_def split: list.splits)

lemma fresh_live_step:
  assumes "fresh cfg s" "well_formed s" "dr_now (sg_dir s) \<le> t"
    and "t < dr_now (sg_dir s) + direction_expiry_seconds"
    and "\<not> (long_breakout c (sg_long s) \<and> short_breakout c (sg_short s))"
  shows "fresh cfg (live_step cfg pub (t, c) s)"
proof -
  let ?s = "at_time t s"
  let ?b = "mi_base_asset (cfg_market cfg)"
  let ?a = "candle_action c ?s (stored_redis (sg_dir ?s) ?b)"
  let ?u = "after redis_set_direction cfg c ?a ?s"
  have pre: "redis_dirs_ok (sg_dir ?s)" "well_formed ?s"
    using assms(1,2) by (simp_all add: fresh_def)
  note st = redis_dir.ingest_state [OF pre, of cfg pub c]
  have alt: "alternates stored_redis cfg ?s" by (rule fresh_at_time [OF assms(1,3,4)])
  have "published (sg_out ?u) \<noteq> [] \<Longrightarrow>
      \<exists>v. map_of (dr_keys (sg_dir ?u)) (market_to_key (dr_prefix (sg_dir ?u)) ?b)
          = Some (v, dr_now (sg_dir ?u) + direction_expiry_seconds)"
  proof (cases ?a)
    case NoAction
    then have "stored_redis (sg_dir ?s) ?b \<notin> range JsDir"
      using assms(5) by (auto simp: candle_action_def decide_def split: if_splits js_dir.splits)
    moreover assume "published (sg_out ?u) \<noteq> []"
    ultimately show ?thesis using NoAction alt
      by (auto simp: after_def alternates_def split: list.splits)
  qed (use pre in \<open>simp_all add: after_def Let_def redis_set_direction_eq\<close>)
  then show ?thesis
    using redis_dir.ingest_alternates [OF pre alt, of pub c] st(1,2,5)
    by (simp add: fresh_def live_step_def)
qed

lemma live_step_clock:
  assumes "redis_dirs_ok (sg_dir s)" "well_formed s"
  shows "dr_now (sg_dir (live_step cfg pub (t, c) s)) = t"
    and "sg_long (live_step cfg pub (t, c) s) = pushed c (sg_long s)"
    and "sg_short (live_step cfg pub (t, c) s) = pushed c (sg_short s)"
    and "well_formed (live_step cfg pub (t, c) s)"
proof -
  have pre: "redis_dirs_ok (sg_dir (at_time t s))" "well_formed (at_time t s)" using assms by simp_all
  note st = redis_dir.ingest_state [OF pre, of cfg pub c]
  show "dr_now (sg_dir (live_step cfg pub (t, c) s)) = t"
    using st(1) assms
    by (simp add: live_step_def after_def Let_def redis_set_direction_eq split: action.split)
qed (use assms redis_dir.ingest_state(3,4,6) [of "at_time t s" cfg pub c] in \<open>simp_all add: live_step_def\<close>)

lemma live_run_fresh:
  assumes "0 < nl" "0 < ns"
  shows "fresh cfg s \<Longrightarrow> sg_long s = new_history nl seen \<Longrightarrow> sg_short s = new_history ns seen \<Longrightarrow>
    timely (dr_now (sg_dir s)) xs \<Longrightarrow> unambiguous nl ns seen (map snd xs) \<Longrightarrow> fresh cfg (live_run cfg pub xs s)"
proof (induction xs arbitrary: s seen)
  case Nil
  then show ?case by (simp add: live_run_def)
next
  case (Cons x xs)
  obtain t c where x: "x = (t, c)" by (cases x)
  have wf: "well_formed s" using Cons.prems assms by (simp add: well_formed_def bounded_new_history)
  have ok: "redis_dirs_ok (sg_dir s)" using Cons.prems(1) by (simp add: fresh_def)
  note clock = live_step_clock [OF ok wf, of cfg pub t c]
  have "fresh cfg (live_run cfg pub xs (live_step cfg pub (t, c) s))"
  proof (rule Cons.IH [where seen = "seen @ [c]"])
    show "fresh cfg (live_step cfg pub (t, c) s)"
      using Cons.prems assms
      by (intro fresh_live_step wf)
        (simp_all add: x long_breakout_new_history short_breakout_new_history)
  qed (use Cons.prems assms clock in \<open>simp_all add: x pushed_new_history\<close>)
  then show ?case by (simp add: live_run_def x)
qed

lemma new_edge70_fresh:
  assumes "new_edge70 cfg init t d = Inr s" "redis_dirs_ok d"
  shows "fresh cfg s" and "sg_dir s = d" and "sg_out s = []"
    and "sg_long s = new_history (candles_long (cfg_parameters cfg)) init"
    and "sg_short s = new_history (candles_short (cfg_parameters cfg)) init"
  using assms by (auto simp: new_edge70_def fresh_def alternates_def split: if_splits)

lemma stored_redis_expired:
  "map_of (dr_keys d) (market_to_key (dr_prefix d) b) = Some (v, e) \<Longrightarrow> e \<le> dr_now d \<Longrightarrow>
   stored_redis d b = JsNull"
  by (simp add: stored_redis_def live_value_def)

section \<open>Properties\<close>

text \<open>A configuration and candles the witnesses evaluate.\<close>

definition demo_candle :: "rat \<Rightarrow> int \<Rightarrow> candle" where
  "demo_candle p t = \<lparr>c_open = p, c_high = p + 1, c_low = p - 1, c_close = p, c_closeTime = t\<rparr>"

definition wide_candle :: "rat \<Rightarrow> int \<Rightarrow> candle" where
  "wide_candle p t = \<lparr>c_open = p, c_high = p + 10, c_low = p - 10, c_close = p, c_closeTime = t\<rparr>"

definition demo_market :: market_identifier where
  "demo_market = \<lparr>mi_exchange_identifier = \<lparr>ei_exchange = ''binance'', ei_type = Spot\<rparr>,
     mi_base_asset = ''ETH'', mi_quote_asset = Some ''USDT'', mi_symbol = ''ETHUSDT''\<rparr>"

definition demo_cfg :: edge70_config where
  "demo_cfg = \<lparr>cfg_edge = ''edge70'', cfg_market = demo_market,
     cfg_parameters = \<lparr>candles_long = 1, candles_short = 1\<rparr>\<rparr>"

definition demo_redis :: dir_redis where
  "demo_redis = \<lparr>dr_prefix = ''spot:binance:usdt'', dr_now = 0, dr_keys = []\<rparr>"

definition demo_state :: "'d \<Rightarrow> 'd edge70_state" where
  "demo_state d = \<lparr>sg_long = new_history 1 [demo_candle 100 0], sg_short = new_history 1 [demo_candle 100 0],
     sg_healthy = True, sg_dir = d, sg_out = []\<rparr>"

lemmas demo_defs = demo_cfg_def demo_market_def demo_redis_def demo_state_def demo_candle_def wide_candle_def

lemma demo_state_well_formed [simp]: "well_formed (demo_state d)"
  by (simp add: demo_state_def well_formed_def bounded_new_history)

lemma demo_redis_ok [simp]: "redis_dirs_ok demo_redis"
  by (simp add: demo_redis_def redis_dirs_ok_def)









text \<open>
  A candle that breaks out in both directions does not refresh the direction key: the handler
  returns before it stores anything.  When the key's 25 hours are over at the next candle, the
  generator has forgotten the direction, and a breakout against it is reported for a manual check
  instead of being published.
\<close>

theorem edge70_outside_candle_forgets_direction:
  assumes "redis_dirs_ok (sg_dir s)" "well_formed s"
    and "long_breakout c (sg_long s)" "short_breakout c (sg_short s)"
    and "b = mi_base_asset (cfg_market cfg)"
    and "map_of (dr_keys (sg_dir s)) (market_to_key (dr_prefix (sg_dir s)) b) = Some (v, expires)"
    and "expires \<le> t'"
    and "long_breakout c' (pushed c (sg_long s))" "\<not> short_breakout c' (pushed c (sg_short s))"
  shows "sg_dir (live_step cfg pub (t, c) s) = (sg_dir s)\<lparr>dr_now := t\<rparr> \<and>
    sg_out (live_step cfg pub (t', c') (live_step cfg pub (t, c) s)) = CheckManually Long b # sg_out s"
proof -
  have pre: "redis_dirs_ok (sg_dir (at_time t s))" "well_formed (at_time t s)" using assms by simp_all
  note st = redis_dir.ingest_state [OF pre, of cfg pub c]
  let ?u = "live_step cfg pub (t, c) s"
  have dir: "sg_dir ?u = (sg_dir s)\<lparr>dr_now := t\<rparr>" and out: "sg_out ?u = sg_out s"
    using st(1,2) assms(3,4) by (simp_all add: live_step_def candle_action_def decide_def after_def)
  note clock = live_step_clock [OF assms(1,2), of cfg pub t c]
  have pre': "redis_dirs_ok (sg_dir (at_time t' ?u))" "well_formed (at_time t' ?u)"
    using assms(1) dir clock(4) by simp_all
  have null: "stored_redis (sg_dir (at_time t' ?u)) b = JsNull"
    using assms(6,7) dir by (intro stored_redis_expired [where v = v and e = expires]) simp_all
  have "sg_out (live_step cfg pub (t', c') ?u) = CheckManually Long b # sg_out s"
    unfolding live_step_def [of cfg pub "(t', c')"] prod.sel redis_dir.ingest_state(2) [OF pre']
    using null assms(5,8,9) clock(2,3) out
    by (simp add: candle_action_def decide_def after_def Let_def)
  with dir show ?thesis by simp
qed

text \<open>The witness: a short position, an outside candle the day after, a rise the day after that.\<close>

definition forgetful_state :: "dir_redis edge70_state" where
  "forgetful_state = demo_state
     (demo_redis\<lparr>dr_keys := [(''spot:binance:usdt:signal_direction:ETH'', ''short'', 90000)]\<rparr>)"

lemma forgetful_state_simps:
  "sg_long forgetful_state = new_history 1 [demo_candle 100 0]"
  "sg_short forgetful_state = new_history 1 [demo_candle 100 0]"
  "sg_out forgetful_state = []"
  "redis_dirs_ok (sg_dir forgetful_state)" "well_formed forgetful_state"
  "map_of (dr_keys (sg_dir forgetful_state)) (market_to_key (dr_prefix (sg_dir forgetful_state)) ''ETH'')
     = Some (''short'', 90000)"
  by (simp_all add: forgetful_state_def)
    (simp_all add: demo_state_def demo_redis_def redis_dirs_ok_def market_to_key_def to_upper_def upper_char_def)

lemma breakouts_one:
  "long_breakout c (new_history 1 (cs @ [x])) \<longleftrightarrow> c_high x < c_high c"
  "short_breakout c (new_history 1 (cs @ [x])) \<longleftrightarrow> c_low c < c_low x"
  by (simp_all add: long_breakout_new_history short_breakout_new_history breaks_high_def breaks_low_def
      slice_last_def)

theorem edge70_outside_candle_forgets_direction_witness:
  "sg_out (live_step demo_cfg (\<lambda>_. None) (172800, demo_candle 120 259199)
     (live_step demo_cfg (\<lambda>_. None) (86400, wide_candle 100 172799) forgetful_state))
   = [CheckManually Long ''ETH'']"
proof -
  let ?w = "wide_candle 100 172799" and ?c = "demo_candle 120 259199"
  note one = breakouts_one [of _ "[]", simplified] breakouts_one
  have b: "''ETH'' = mi_base_asset (cfg_market demo_cfg)" by (simp add: demo_cfg_def demo_market_def)
  have w: "long_breakout ?w (sg_long forgetful_state)" "short_breakout ?w (sg_short forgetful_state)"
    by (simp_all add: forgetful_state_simps one, simp_all add: demo_candle_def wide_candle_def)
  have c: "long_breakout ?c (pushed ?w (sg_long forgetful_state))"
      "\<not> short_breakout ?c (pushed ?w (sg_short forgetful_state))"
    by (simp_all add: forgetful_state_simps pushed_new_history breakouts_one [of _ "[y]" for y, simplified],
        simp_all add: demo_candle_def wide_candle_def)
  show ?thesis
    using edge70_outside_candle_forgets_direction
      [OF forgetful_state_simps(4,5) w b forgetful_state_simps(6) _ c, of 172800 "\<lambda>_. None" 86400]
    by (simp add: forgetful_state_simps(3))
qed

text \<open>
  The backtester's mock is not the live persistence: its lookup of an unknown market yields
  \<open>undefined\<close>, which is not \<open>null\<close>.  On the same first long breakout of a market nothing is known
  of, the live generator asks for a manual check and publishes nothing, and the backtest publishes
  a long signal.
\<close>

theorem edge70_first_breakout_live_versus_mock:
  assumes "long_breakout c h" "\<not> short_breakout c h'" "bounded h" "bounded h'"
    and "redis_dirs_ok d" "stored_redis d b = JsNull" "stored_mock m b = JsUndefined"
    and "b = mi_base_asset (cfg_market cfg)"
  shows "sg_out (snd (ingest_new_candle cfg redis_get_direction redis_set_direction pub c
        \<lparr>sg_long = h, sg_short = h', sg_healthy = True, sg_dir = d, sg_out = []\<rparr>)) = [CheckManually Long b]
    \<and> sg_out (snd (ingest_new_candle cfg mock_get_direction mock_set_direction pub c
        \<lparr>sg_long = h, sg_short = h', sg_healthy = True, sg_dir = m, sg_out = []\<rparr>))
      = [PublishSignal (signal_for cfg c Long)]"
  using assms
  by (simp add: redis_dir.ingest_state(2) mock_dir.ingest_state(2) well_formed_def candle_action_def
      decide_def after_def Let_def)

theorem edge70_first_breakout_live_versus_mock_witness:
  "sg_out (snd (ingest_new_candle demo_cfg mock_get_direction mock_set_direction (\<lambda>_. None)
     (demo_candle 103 86399) (demo_state \<lparr>dm_prefix = ''x'', dm_keys = []\<rparr>)))
   = [PublishSignal (signal_for demo_cfg (demo_candle 103 86399) Long)]"
proof -
  let ?h = "new_history 1 [demo_candle 100 0]" and ?c = "demo_candle 103 86399"
  have br: "long_breakout ?c ?h" "\<not> short_breakout ?c ?h" "bounded ?h"
    by (simp_all add: breakouts_one [of _ "[]", simplified] bounded_new_history, simp_all add: demo_candle_def)
  have st: "stored_redis demo_redis b = JsNull" "stored_mock \<lparr>dm_prefix = ''x'', dm_keys = []\<rparr> b = JsUndefined" for b
    by (simp_all add: stored_redis_def live_value_def demo_redis_def stored_mock_def)
  show ?thesis
    using edge70_first_breakout_live_versus_mock [OF br(1,2,3) br(3) demo_redis_ok st refl]
    by (simp add: demo_state_def)
qed

end
