(* ===== verification/Backtest.thy ===== *)
theory Backtest
  imports PositionTracker Bank Edge70
begin

text \<open>
  Trading in the backtester (\<open>backtesting/edge70/portfolio-tracking\<close>): signals become buys with a stop
  and sells, candles hit stops, the filled orders go to the position tracker of the live service over
  a Redis mock and the money to the bank.  Prices are positive numbers here, as those of candles.
\<close>

section \<open>State\<close>

record backtest =
  bt_world :: world
  bt_bank :: bank
  bt_stops :: "string \<rightharpoonup> rat"

record backtest_config =
  bc_edge :: string
  bc_exchange_identifier :: exchange_identifier
  bc_quote_asset :: string
  bc_stop_factor :: rat
  bc_position_size_in_quote_asset :: "bank \<Rightarrow> rat"

definition on_world :: "(world, 'a) prog \<Rightarrow> (backtest, 'a) prog" where
  "on_world m = (\<lambda>s. case m (bt_world s) of (r, w) \<Rightarrow> (r, s\<lparr>bt_world := w\<rparr>))"

definition on_bank :: "(bank, 'a) prog \<Rightarrow> (backtest, 'a) prog" where
  "on_bank m = (\<lambda>s. case m (bt_bank s) of (r, b) \<Rightarrow> (r, s\<lparr>bt_bank := b\<rparr>))"

lemma wp_on_world [simp]:
  "wp (on_world m) Q R s = wp m (\<lambda>x w. Q x (s\<lparr>bt_world := w\<rparr>)) (\<lambda>e w. R e (s\<lparr>bt_world := w\<rparr>)) (bt_world s)"
  by (simp add: wp_def on_world_def split: prod.split sum.split)

lemma wp_on_bank [simp]:
  "wp (on_bank m) Q R s = wp m (\<lambda>x b. Q x (s\<lparr>bt_bank := b\<rparr>)) (\<lambda>e b. R e (s\<lparr>bt_bank := b\<rparr>)) (bt_bank s)"
  by (simp add: wp_def on_bank_def split: prod.split sum.split)

section \<open>The tracker of positions\<close>

text \<open>
  \<open>BacktesterSpotPostionsTracker\<close> is the live tracker with a test of its own for what is too small, and
  with events that are appended to lists in memory, which cannot fail.
\<close>

definition backtest_is_too_small_to_trade :: "string \<Rightarrow> rat \<Rightarrow> rat \<Rightarrow> (world, bool) prog" where
  "backtest_is_too_small_to_trade symbol price volume = returnE (volume = 0)"

definition in_process :: "env \<Rightarrow> env" where
  "in_process E = E\<lparr>env_publish := \<lambda>_. None\<rparr>"

definition backtest_buy_order_filled :: "bignum \<Rightarrow> env \<Rightarrow> generic_order_data \<Rightarrow> (world, unit) prog" where
  "backtest_buy_order_filled B E ord = buy_order_filled B (in_process E) ord"

definition backtest_sell_order_filled :: "bignum \<Rightarrow> env \<Rightarrow> generic_order_data \<Rightarrow> (world, unit) prog" where
  "backtest_sell_order_filled B E ord =
     sell_order_filled_by backtest_is_too_small_to_trade B (in_process E) ord"

definition position_opened_events :: "world \<Rightarrow> string \<Rightarrow> position_opened_event list" where
  "position_opened_events w base_asset =
     List.map_filter (\<lambda>x. case x of PublishOpened ev \<Rightarrow> if ev_base_asset ev = base_asset then Some ev else None
       | _ \<Rightarrow> None) (rev (trace w))"

definition position_closed_events :: "world \<Rightarrow> string \<Rightarrow> position_closed_event list" where
  "position_closed_events w base_asset =
     List.map_filter (\<lambda>x. case x of PublishClosed ev \<Rightarrow> if ev_base_asset ev = base_asset then Some ev else None
       | _ \<Rightarrow> None) (rev (trace w))"

section \<open>BacktestTradeExecution\<close>

definition backtest_position :: "backtest_config \<Rightarrow> string \<Rightarrow> position_identifier" where
  "backtest_position cfg base_asset =
     \<lparr>pi_exchange_identifier = bc_exchange_identifier cfg, pi_edge = Some (bc_edge cfg),
      pi_base_asset = base_asset\<rparr>"

definition market_order :: "backtest_config \<Rightarrow> side \<Rightarrow> market_identifier \<Rightarrow> string \<Rightarrow> int \<Rightarrow> rat \<Rightarrow> rat \<Rightarrow> rat \<Rightarrow> generic_order_data" where
  "market_order cfg sd market_identifier order_id signal_timestamp_ms signal_price base_quantity quote_quantity =
     \<lparr>o_order_id = order_id, o_market_symbol = mi_symbol market_identifier,
      o_baseAsset = mi_base_asset market_identifier, o_quoteAsset = bc_quote_asset cfg, o_side = sd,
      o_orderType = MARKET, o_orderStatus = None, o_orderTime = signal_timestamp_ms,
      o_totalBaseTradeQuantity = base_quantity, o_totalQuoteTradeQuantity = quote_quantity,
      o_averageExecutionPrice = Some signal_price,
      o_exchange_identifier = bc_exchange_identifier cfg\<rparr>"

definition stop_price :: "bignum \<Rightarrow> backtest_config \<Rightarrow> rat \<Rightarrow> rat" where
  "stop_price B cfg signal_price = bn_dp B 8 (signal_price * bc_stop_factor cfg)"

definition add_stop :: "bignum \<Rightarrow> backtest_config \<Rightarrow> market_identifier \<Rightarrow> rat \<Rightarrow> (backtest, unit) prog" where
  "add_stop B cfg market_identifier signal_price =
     modifyE (\<lambda>s. s\<lparr>bt_stops := (bt_stops s)(mi_base_asset market_identifier \<mapsto> stop_price B cfg signal_price)\<rparr>)"

definition buy_order_id :: "market_identifier \<Rightarrow> int \<Rightarrow> string" where
  "buy_order_id market_identifier signal_timestamp_ms =
     mi_symbol market_identifier @ ''-BUY-'' @ int_string signal_timestamp_ms"

definition sell_order_id :: "market_identifier \<Rightarrow> int \<Rightarrow> string" where
  "sell_order_id market_identifier signal_timestamp_ms =
     mi_symbol market_identifier @ ''-SELL-'' @ int_string signal_timestamp_ms"

text \<open>The \<open>assert\<close> of the source is the console's, which only prints.\<close>

definition execute_buy_with_stop ::
    "bignum \<Rightarrow> env \<Rightarrow> backtest_config \<Rightarrow> int \<Rightarrow> rat \<Rightarrow> market_identifier \<Rightarrow> (backtest, unit) prog" where
  "execute_buy_with_stop B E cfg signal_timestamp_ms signal_price market_identifier =
     (let order_id = buy_order_id market_identifier signal_timestamp_ms in
      seqE (on_world (set_order_context_for_order E (bc_exchange_identifier cfg) order_id
              \<lparr>oc_edge = bc_edge cfg, oc_trade_id = Some order_id\<rparr>))
      (bindE (getE (\<lambda>s. bc_position_size_in_quote_asset cfg (bt_bank s))) (\<lambda>position_size.
       bindE (on_bank (withdraw_cash position_size)) (\<lambda>position_size.
         if position_size = 0 then returnE ()
         else
           seqE (add_stop B cfg market_identifier signal_price)
             (on_world (backtest_buy_order_filled B E
               (market_order cfg BUY market_identifier order_id signal_timestamp_ms signal_price
                 (bn_dp B 8 (bn_div B position_size signal_price)) position_size)))))))"

definition execute_sell ::
    "bignum \<Rightarrow> env \<Rightarrow> backtest_config \<Rightarrow> int \<Rightarrow> rat \<Rightarrow> market_identifier \<Rightarrow> rat \<Rightarrow> (backtest, unit) prog" where
  "execute_sell B E cfg signal_timestamp_ms signal_price market_identifier base_amount =
     (let totalQuoteTradeQuantity = bn_dp B 8 (base_amount * signal_price);
          order_id = sell_order_id market_identifier signal_timestamp_ms in
      seqE (on_world (set_order_context_for_order E (bc_exchange_identifier cfg) order_id
              \<lparr>oc_edge = bc_edge cfg, oc_trade_id = Some order_id\<rparr>))
      (seqE (on_bank (pay_in_cash totalQuoteTradeQuantity))
        (on_world (backtest_sell_order_filled B E
          (market_order cfg SELL market_identifier order_id signal_timestamp_ms signal_price base_amount
            totalQuoteTradeQuantity)))))"

text \<open>A candle hits the stop of an open position; a position without a stop makes \<open>BigNumber\<close> throw.\<close>

definition backtest_ingest_new_candle ::
    "bignum \<Rightarrow> env \<Rightarrow> backtest_config \<Rightarrow> market_identifier \<Rightarrow> candle \<Rightarrow> (backtest, unit) prog" where
  "backtest_ingest_new_candle B E cfg market_identifier c =
     (let p = backtest_position cfg (mi_base_asset market_identifier);
          held = on_world (in_position (redis_persistence B E) p) in
      bindE held (\<lambda>found.
        if \<not> found then returnE ()
        else
          bindE (getE (\<lambda>s. bt_stops s (mi_base_asset market_identifier))) (\<lambda>stop.
            case stop of
              None \<Rightarrow> throwE (Err ''[BigNumber Error] Not a number: undefined'')
            | Some price \<Rightarrow>
                if \<not> c_low c \<le> price then returnE ()
                else
                  bindE (on_world (ps_position_size (redis_persistence B E) p)) (\<lambda>base_amount.
                  seqE (execute_sell B E cfg (c_closeTime c) price market_identifier base_amount)
                  (seqE (modifyE (\<lambda>s. s\<lparr>bt_stops := (bt_stops s)(mi_base_asset market_identifier := None)\<rparr>))
                  (bindE held (\<lambda>found.
                     if found
                     then seqE (on_world (ps_position_size (redis_persistence B E) p))
                       (throwE (Err ''Still in position after execute_sell''))
                     else returnE ())))))))"

section \<open>EdgeSignalsToTradeExecution\<close>

definition trade_signal :: "bignum \<Rightarrow> env \<Rightarrow> backtest_config \<Rightarrow> edge70_signal \<Rightarrow> (backtest, unit) prog" where
  "trade_signal B E cfg signal =
     (let market_identifier = sig_market_identifier signal;
          p = backtest_position cfg (mi_base_asset market_identifier) in
      bindE (on_world (in_position (redis_persistence B E) p)) (\<lambda>found.
        case sig_direction signal of
          Long \<Rightarrow>
            if found then returnE ()
            else seqE (execute_buy_with_stop B E cfg (sig_timestamp_ms signal) (sig_price signal) market_identifier)
                   (add_stop B cfg market_identifier (sig_price signal))
        | Short \<Rightarrow>
            if found
            then bindE (on_world (ps_position_size (redis_persistence B E) p)) (\<lambda>base_amount.
              execute_sell B E cfg (sig_timestamp_ms signal) (sig_price signal) market_identifier base_amount)
            else returnE ()))"

section \<open>A stop closes the position\<close>

lemma in_process_ready [simp]: "redis_ready B (in_process E) w = redis_ready B E w"
  by (simp add: redis_ready_def redis_up_def in_process_def)

lemma wp_set_context:
  assumes "redis_ready B E w" "order_id \<noteq> []"
  shows "wp (set_order_context_for_order E ei order_id ctx)
    (\<lambda>_ t. redis_ready B E t \<and> redis_view t = redis_view w \<and>
      map_of (store t) (order_context_key ei order_id) = Some (RContext ctx)) (\<lambda>_ _. False) w"
proof -
  have up: "redis_up E" and ok: "bignum_laws B" "store_ok w" using assms(1) by (simp_all add: redis_ready_def)
  let ?k = "order_context_key ei order_id"
  let ?t = "\<lambda>tr. w\<lparr>trace := tr, store := AList.update ?k (RContext ctx) (store w)\<rparr>"
  have "redis_view (?t tr) = redis_view w" "store_ok (?t tr)" for tr
    using ok(2) by (simp_all add: redis_view_def store_ok_def update_conv' fun_eq_iff)
  then show ?thesis
    using assms(2) up ok(1)
    by (simp add: set_order_context_for_order_def redis_set_def wp_redis_call Let_def redis_ready_def update_conv')
qed

lemma position_of_market_order:
  assumes "map_of (store t) (order_context_key (bc_exchange_identifier cfg) i) = Some (RContext \<lparr>oc_edge = bc_edge cfg, oc_trade_id = x\<rparr>)"
    and "i \<noteq> []"
  shows "position_of t (market_order cfg sd m i ts price b q) = backtest_position cfg (mi_base_asset m)"
  using assms by (simp add: position_of_def edge_stored_def market_order_def backtest_position_def)

lemma order_ids_nonempty [simp]: "sell_order_id m ts \<noteq> []" "buy_order_id m ts \<noteq> []"
  by (simp_all add: sell_order_id_def buy_order_id_def)

text \<open>The sell of everything that is stored, when the amount is below the precision of a double.\<close>

definition full_sell :: "bignum \<Rightarrow> backtest_config \<Rightarrow> market_identifier \<Rightarrow> int \<Rightarrow> rat \<Rightarrow> int \<Rightarrow> generic_order_data" where
  "full_sell B cfg m ts price n =
     (let amount = of_int n / 10 ^ 8 in
      market_order cfg SELL m (sell_order_id m ts) ts price amount (bn_dp B 8 (amount * price)))"

lemma full_sell_closes:
  assumes "bignum_laws B" "0 < n" "n < 2 ^ 53" "0 \<le> price"
    and "stringify_order (full_sell B cfg m ts price n) \<notin> os"
  shows "acceptable_for B (backtest_position cfg (mi_base_asset m)) (full_sell B cfg m ts price n) (n, os)"
    and "fst (apply_fill B (full_sell B cfg m ts price n) (n, os)) = 0"
proof -
  let ?x = "of_int n / 10 ^ 8 :: rat" and ?ord = "full_sell B cfg m ts price n"
  have x: "on_grid 8 ?x" "\<bar>?x * 10 ^ 8\<bar> < 2 ^ 53" "on_grid 8 (- ?x)" "\<bar>- ?x * 10 ^ 8\<bar> < 2 ^ 53"
  proof -
    have "of_int n < (of_int (2 ^ 53) :: rat)" using assms(3) by (simp only: of_int_less_iff)
    then show "\<bar>?x * 10 ^ 8\<bar> < 2 ^ 53" "\<bar>- ?x * 10 ^ 8\<bar> < 2 ^ 53" using assms(2) by simp_all
  qed (simp_all add: on_grid_def)
  note plus = exact_amount_bump [OF assms(1) x(1,2)] and minus = exact_amount_bump [OF assms(1) x(3,4)]
  have inverse: "double_of_int (to_sats B (- ?x)) = - n"
  proof -
    have "of_int (double_of_int (to_sats B (- ?x))) = (of_int (- n) :: rat)" using minus(1) by simp
    then show ?thesis by (simp only: of_int_eq_iff)
  qed
  have sel: "o_side ?ord = SELL" "o_totalBaseTradeQuantity ?ord = ?x" "o_baseAsset ?ord = mi_base_asset m"
      "o_averageExecutionPrice ?ord = Some price" "o_totalQuoteTradeQuantity ?ord = bn_dp B 8 (?x * price)"
    by (simp_all add: full_sell_def market_order_def Let_def)
  show zero: "fst (apply_fill B ?ord (n, os)) = 0"
    using assms(2,5) inverse by (simp add: apply_fill_def apply_order_def sel)
  have "0 \<le> bn_dp B 8 (?x * price)"
    using assms(2,4) by (intro bignum_laws.dp_nonneg [OF assms(1)]) simp
  then show "acceptable_for B (backtest_position cfg (mi_base_asset m)) ?ord (n, os)"
    using plus minus zero
    by (simp add: redis_positions.acceptable_def sel backtest_position_def apply_fill_def int64_def)
qed

text \<open>Selling everything pays the rounded proceeds in and closes the position.\<close>

lemma wp_execute_sell:
  assumes "redis_ready B E (bt_world s)" "p = backtest_position cfg (mi_base_asset m)" "plain_identifier p"
    and "redis_view (bt_world s) p = (n, os)" "0 < n" "n < 2 ^ 53" "0 \<le> price"
    and "stringify_order (full_sell B cfg m ts price n) \<notin> os"
  shows "wp (execute_sell B E cfg ts price m (of_int n / 10 ^ 8))
    (\<lambda>_ t. redis_ready B E (bt_world t) \<and> redis_view (bt_world t) = (redis_view (bt_world s))(p := (0, {})) \<and>
      bt_bank t = (bt_bank s)\<lparr>bk_cash := bk_cash (bt_bank s) + bn_dp B 8 (of_int n / 10 ^ 8 * price)\<rparr> \<and>
      bt_stops t = bt_stops s) (\<lambda>_ _. False) s"
proof -
  let ?ord = "full_sell B cfg m ts price n"
  have B: "bignum_laws B" using assms(1) by (simp add: redis_ready_def)
  note closes = full_sell_closes [OF B assms(5,6,7,8)]
  have sell: "wp (backtest_sell_order_filled B E ?ord)
      (\<lambda>_ t. redis_ready B E t \<and> redis_view t = (redis_view (bt_world s))(p := (0, {}))) (\<lambda>_ _. False) w"
    if "redis_ready B E w" "redis_view w = redis_view (bt_world s)" "position_of w ?ord = p" for w
    unfolding backtest_sell_order_filled_def
  proof (rule wp_mono [OF wp_sell_order_filled_by [where w = w and p = p and small = True and v = "apply_fill B ?ord (n, os)" and price = price]], goal_cases)
    case (7 t)
    then show ?case using closes(2) by (simp add: backtest_is_too_small_to_trade_def size_of_def)
  qed (use that assms closes in \<open>auto simp: closed_if_def full_sell_def market_order_def Let_def\<close>)
  have "execute_sell B E cfg ts price m (of_int n / 10 ^ 8) =
      seqE (on_world (set_order_context_for_order E (bc_exchange_identifier cfg) (sell_order_id m ts)
              \<lparr>oc_edge = bc_edge cfg, oc_trade_id = Some (sell_order_id m ts)\<rparr>))
      (seqE (on_bank (pay_in_cash (bn_dp B 8 (of_int n / 10 ^ 8 * price))))
        (on_world (backtest_sell_order_filled B E ?ord)))"
    by (simp add: execute_sell_def full_sell_def Let_def)
  moreover have "wp \<dots> (\<lambda>_ t. redis_ready B E (bt_world t) \<and> redis_view (bt_world t) = (redis_view (bt_world s))(p := (0, {})) \<and>
      bt_bank t = (bt_bank s)\<lparr>bk_cash := bk_cash (bt_bank s) + bn_dp B 8 (of_int n / 10 ^ 8 * price)\<rparr> \<and>
      bt_stops t = bt_stops s) (\<lambda>_ _. False) s"
    unfolding wp_seqE wp_on_world
  proof (rule wp_mono [OF wp_set_context [OF assms(1)]], simp, goal_cases)
    case (1 x w)
    then have "position_of w ?ord = p"
      using position_of_market_order [of w cfg "sell_order_id m ts"] by (simp add: full_sell_def Let_def assms(2))
    then show ?case
      using 1 by (auto simp: pay_in_cash_def intro!: wp_mono [OF sell])
  qed simp
  ultimately show ?thesis by simp
qed

lemma wp_backtest_size:
  assumes "redis_ready B E (bt_world s)" "plain_identifier p"
  shows "wp (on_world (ps_position_size (redis_persistence B E) p))
      (\<lambda>x t. x = of_int (fst (redis_view (bt_world s) p)) / 10 ^ 8 \<and> redis_ready B E (bt_world t) \<and>
        redis_view (bt_world t) = redis_view (bt_world s) \<and> bt_bank t = bt_bank s \<and> bt_stops t = bt_stops s) (\<lambda>_ _. False) s"
    and "wp (on_world (in_position (redis_persistence B E) p))
      (\<lambda>x t. x = (0 < fst (redis_view (bt_world s) p)) \<and> redis_ready B E (bt_world t) \<and>
        redis_view (bt_world t) = redis_view (bt_world s) \<and> bt_bank t = bt_bank s \<and> bt_stops t = bt_stops s) (\<lambda>_ _. False) s"
  using redis_positions.size_law [OF assms]
  by (auto simp: in_position_def elim!: wp_mono)

section \<open>A long signal buys with a stop\<close>

definition first_buy :: "bignum \<Rightarrow> backtest_config \<Rightarrow> market_identifier \<Rightarrow> int \<Rightarrow> rat \<Rightarrow> rat \<Rightarrow> generic_order_data" where
  "first_buy B cfg m ts price a =
     market_order cfg BUY m (buy_order_id m ts) ts price (bn_dp B 8 (bn_div B a price)) a"

text \<open>What a trade of the amount \<open>a\<close> at \<open>price\<close> needs: cash, and a quantity a double can hold.\<close>

definition affordable :: "bignum \<Rightarrow> backtest \<Rightarrow> rat \<Rightarrow> rat \<Rightarrow> bool" where
  "affordable B s a price \<longleftrightarrow> 0 < a \<and> a \<le> bk_cash (bt_bank s) \<and> 0 < price \<and>
     0 < bn_dp B 8 (bn_div B a price) \<and> bn_dp B 8 (bn_div B a price) * 10 ^ 8 < 2 ^ 53"

lemma first_buy_opens:
  assumes "bignum_laws B" "affordable B s a price"
  shows "acceptable_for B (backtest_position cfg (mi_base_asset m)) (first_buy B cfg m ts price a) (0, {})"
    and "apply_fill B (first_buy B cfg m ts price a) (0, {}) =
      (to_sats B (bn_dp B 8 (bn_div B a price)), {stringify_order (first_buy B cfg m ts price a)})"
    and "of_int (to_sats B (bn_dp B 8 (bn_div B a price))) = bn_dp B 8 (bn_div B a price) * 10 ^ 8"
    and "0 < to_sats B (bn_dp B 8 (bn_div B a price))" "to_sats B (bn_dp B 8 (bn_div B a price)) < 2 ^ 53"
proof -
  let ?x = "bn_dp B 8 (bn_div B a price)"
  have x: "on_grid 8 ?x" "on_grid 8 (- ?x)" "\<bar>?x * 10 ^ 8\<bar> < 2 ^ 53" "\<bar>- ?x * 10 ^ 8\<bar> < 2 ^ 53"
    using assms(2) bignum_laws.dp_grid [OF assms(1)] by (simp_all add: affordable_def on_grid_minus)
  note bump = exact_amount_bump [OF assms(1) x(1,3)] exact_amount_bump [OF assms(1) x(2,4)]
  show "apply_fill B (first_buy B cfg m ts price a) (0, {}) = (to_sats B ?x, {stringify_order (first_buy B cfg m ts price a)})"
    by (simp add: apply_fill_def apply_order_def first_buy_def market_order_def)
  then show "acceptable_for B (backtest_position cfg (mi_base_asset m)) (first_buy B cfg m ts price a) (0, {})"
    using bump assms(2)
    by (simp add: redis_positions.acceptable_def first_buy_def market_order_def backtest_position_def apply_fill_def affordable_def)
  show sats: "of_int (to_sats B ?x) = ?x * 10 ^ 8" by (rule to_sats_exact [OF assms(1) x(1)])
  have "0 < (of_int (to_sats B ?x) :: rat)" "(of_int (to_sats B ?x) :: rat) < of_int (2 ^ 53)"
    using assms(2) unfolding sats by (simp_all add: affordable_def)
  then show "0 < to_sats B ?x" "to_sats B ?x < 2 ^ 53" by (simp_all only: of_int_less_iff of_int_0_less_iff)
qed

lemma wp_execute_buy:
  assumes "redis_ready B E (bt_world s)" "p = backtest_position cfg (mi_base_asset m)" "plain_identifier p"
    and "redis_view (bt_world s) p = (0, {})" "a = bc_position_size_in_quote_asset cfg (bt_bank s)" "affordable B s a price"
  shows "wp (execute_buy_with_stop B E cfg ts price m)
    (\<lambda>_ t. redis_ready B E (bt_world t) \<and>
      redis_view (bt_world t) = (redis_view (bt_world s))(p := apply_fill B (first_buy B cfg m ts price a) (0, {})) \<and>
      bt_bank t = (bt_bank s)\<lparr>bk_cash := bk_cash (bt_bank s) - a\<rparr> \<and>
      bt_stops t = (bt_stops s)(mi_base_asset m \<mapsto> stop_price B cfg price)) (\<lambda>_ _. False) s"
proof -
  let ?ord = "first_buy B cfg m ts price a"
  have B: "bignum_laws B" using assms(1) by (simp add: redis_ready_def)
  have buy: "wp (backtest_buy_order_filled B E ?ord)
      (\<lambda>_ t. redis_ready B E t \<and> redis_view t = (redis_view (bt_world s))(p := apply_fill B ?ord (0, {}))) (\<lambda>_ _. False) w"
    if "redis_ready B E w" "redis_view w = redis_view (bt_world s)" "position_of w ?ord = p" for w
    unfolding backtest_buy_order_filled_def
    by (rule wp_mono [OF wp_buy_order_filled [where w = w and p = p]])
      (use that assms first_buy_opens(1) [OF B assms(6)] in auto)
  have cash: "0 < a" "a \<le> bk_cash (bt_bank s)" using assms(6) by (simp_all add: affordable_def)
  show ?thesis
    unfolding execute_buy_with_stop_def Let_def wp_seqE wp_on_world
  proof (rule wp_mono [OF wp_set_context [OF assms(1)]], simp, goal_cases)
    case (1 x w)
    then have "position_of w ?ord = p"
      using position_of_market_order [of w cfg "buy_order_id m ts"] by (simp add: first_buy_def assms(2))
    note buy = buy [OF _ _ this]
    show ?case
      using 1 cash
      by (simp add: assms(5) [symmetric] wp_withdraw_enough add_stop_def first_buy_def [symmetric])
        (rule wp_mono [OF buy], simp_all)
  qed simp
qed

lemma wp_long_signal:
  assumes "redis_ready B E (bt_world s)" "m = sig_market_identifier x" "p = backtest_position cfg (mi_base_asset m)"
    and "plain_identifier p" "redis_view (bt_world s) p = (0, {})" "sig_direction x = Long"
    and "a = bc_position_size_in_quote_asset cfg (bt_bank s)" "affordable B s a (sig_price x)"
  shows "wp (trade_signal B E cfg x)
    (\<lambda>_ t. redis_ready B E (bt_world t) \<and>
      redis_view (bt_world t) = (redis_view (bt_world s))
        (p := apply_fill B (first_buy B cfg m (sig_timestamp_ms x) (sig_price x) a) (0, {})) \<and>
      bt_bank t = (bt_bank s)\<lparr>bk_cash := bk_cash (bt_bank s) - a\<rparr> \<and>
      bt_stops t = (bt_stops s)(mi_base_asset m \<mapsto> stop_price B cfg (sig_price x))) (\<lambda>_ _. False) s"
  unfolding trade_signal_def Let_def assms(2,3) [symmetric]
proof (rule wp_bind_rule [OF wp_backtest_size(2) [OF assms(1,4)]], goal_cases)
  case (1 found t)
  then have t: "\<not> found" "redis_ready B E (bt_world t)" "redis_view (bt_world t) = redis_view (bt_world s)"
      "bt_bank t = bt_bank s" "bt_stops t = bt_stops s" using assms(5) by simp_all
  show ?case
    unfolding assms(6) direction.case if_not_P [OF t(1)] wp_seqE add_stop_def wp_modifyE
    by (rule wp_mono [OF wp_execute_buy [where s = t and p = p and a = a]])
      (use t assms in \<open>auto simp: affordable_def\<close>)
qed

section \<open>The arithmetic of a stopped trade\<close>

lemma stopped_proceeds:
  assumes "bignum_laws B" "0 \<le> a" "0 < price" "0 \<le> f"
  shows "\<bar>bn_dp B 8 (bn_dp B 8 (bn_div B a price) * bn_dp B 8 (price * f)) - a * f\<bar> \<le> (a / price + price * f + 2) / 10 ^ 8"
proof -
  let ?q = "bn_dp B 8 (bn_div B a price)" and ?st = "bn_dp B 8 (price * f)" and ?h = "1 / 10 ^ 8 :: rat"
  define d e where "d = ?q - a / price" and "e = ?st - price * f"
  have "\<bar>?q - bn_div B a price\<bar> \<le> 1 / (2 * 10 ^ 8)" "\<bar>bn_div B a price - a / price\<bar> \<le> 1 / (2 * 10 ^ 20)"
    using bignum_laws.dp_close [OF assms(1), of 8 "bn_div B a price"] bignum_laws.div_close [OF assms(1), of price a] assms(3)
    by simp_all
  then have "\<bar>d\<bar> \<le> 1 / (2 * 10 ^ 8) + 1 / (2 * 10 ^ 20)" unfolding d_def by (rule order_trans [rotated, OF add_mono]) simp
  also have "\<dots> \<le> ?h" by simp
  finally have d: "\<bar>d\<bar> \<le> ?h" .
  have e: "\<bar>e\<bar> \<le> ?h" and e2: "\<bar>e\<bar> \<le> 1"
    using bignum_laws.dp_close [OF assms(1), of 8 "price * f"] unfolding e_def by simp_all
  have r: "\<bar>bn_dp B 8 (?q * ?st) - ?q * ?st\<bar> \<le> ?h"
    using bignum_laws.dp_close [OF assms(1), of 8 "?q * ?st"] by simp
  have "?q * ?st - a * f = a / price * e + d * (price * f) + d * e"
    using assms(3) unfolding d_def e_def by (simp add: field_simps)
  then have "\<bar>?q * ?st - a * f\<bar> \<le> \<bar>a / price * e\<bar> + \<bar>d * (price * f)\<bar> + \<bar>d * e\<bar>"
    by (simp add: order_trans [OF abs_triangle_ineq] add_mono abs_triangle_ineq)
  also have "\<dots> \<le> a / price * ?h + ?h * (price * f) + ?h * 1"
  proof (intro add_mono)
    show "\<bar>d * e\<bar> \<le> ?h * 1" unfolding abs_mult by (intro mult_mono) (use d e2 in simp_all)
  qed (use d e assms(2-4) in \<open>simp_all add: abs_mult mult_mono del: times_divide_eq_left times_divide_eq_right\<close>)
  finally have "\<bar>bn_dp B 8 (?q * ?st) - a * f\<bar> \<le> ?h + (a / price * ?h + ?h * (price * f) + ?h * 1)"
    using r by linarith
  also have "\<dots> = (a / price + price * f + 2) / 10 ^ 8" by (simp add: field_simps)
  finally show ?thesis .
qed

text \<open>A candle that hits the stop of a position.\<close>

lemma wp_stop_hit:
  assumes "redis_ready B E (bt_world s)" "p = backtest_position cfg (mi_base_asset m)" "plain_identifier p"
    and "redis_view (bt_world s) p = (n, os)" "0 < n" "n < 2 ^ 53"
    and "bt_stops s (mi_base_asset m) = Some price" "0 \<le> price" "c_low c \<le> price"
    and "stringify_order (full_sell B cfg m (c_closeTime c) price n) \<notin> os"
  shows "wp (backtest_ingest_new_candle B E cfg m c) (\<lambda>_ t. redis_view (bt_world t) = (redis_view (bt_world s))(p := (0, {})) \<and>
    bt_bank t = (bt_bank s)\<lparr>bk_cash := bk_cash (bt_bank s) + bn_dp B 8 (of_int n / 10 ^ 8 * price)\<rparr> \<and>
    bt_stops t = (bt_stops s)(mi_base_asset m := None)) (\<lambda>_ _. False) s"
proof -
  let ?held = "on_world (in_position (redis_persistence B E) p)"
  let ?Q = "\<lambda>t. redis_view (bt_world t) = (redis_view (bt_world s))(p := (0, {})) \<and>
    bt_bank t = (bt_bank s)\<lparr>bk_cash := bk_cash (bt_bank s) + bn_dp B 8 (of_int n / 10 ^ 8 * price)\<rparr> \<and>
    bt_stops t = (bt_stops s)(mi_base_asset m := None)"
  have gone: "wp (bindE ?held (\<lambda>found. if found then k else returnE ())) (\<lambda>_. ?Q) (\<lambda>_ _. False) t"
    if "redis_ready B E (bt_world t)" "?Q t" for t k
    by (rule wp_bind_rule [OF wp_backtest_size(2) [OF that(1) assms(3)]]) (use that(2) in simp)
  have sold: "wp (seqE (execute_sell B E cfg (c_closeTime c) price m (of_int n / 10 ^ 8))
      (seqE (modifyE (\<lambda>s. s\<lparr>bt_stops := (bt_stops s)(mi_base_asset m := None)\<rparr>))
        (bindE ?held (\<lambda>found. if found then k else returnE ())))) (\<lambda>_. ?Q) (\<lambda>_ _. False) u"
    if u: "redis_ready B E (bt_world u)" "redis_view (bt_world u) = redis_view (bt_world s)"
      "bt_bank u = bt_bank s" "bt_stops u = bt_stops s" for u k
    unfolding wp_seqE wp_modifyE
  proof (rule wp_mono [OF wp_execute_sell [OF u(1) assms(2,3) _ assms(5,6,8,10)]], goal_cases)
    case (2 x t)
    then show ?case by (intro gone) (use u in simp_all)
  qed (use u assms(4) in simp_all)
  have "wp (backtest_ingest_new_candle B E cfg m c) (\<lambda>_. ?Q) (\<lambda>_ _. False) s"
    unfolding backtest_ingest_new_candle_def Let_def assms(2) [symmetric]
  proof (rule wp_bind_rule [OF wp_backtest_size(2) [OF assms(1,3)]], goal_cases)
    case (1 found t)
    then have t: "found" "redis_ready B E (bt_world t)" "redis_view (bt_world t) = redis_view (bt_world s)"
        "bt_bank t = bt_bank s" "bt_stops t = bt_stops s"
      using assms(4,5) by simp_all
    have "wp (bindE (on_world (ps_position_size (redis_persistence B E) p)) (\<lambda>base_amount.
        seqE (execute_sell B E cfg (c_closeTime c) price m base_amount)
          (seqE (modifyE (\<lambda>s. s\<lparr>bt_stops := (bt_stops s)(mi_base_asset m := None)\<rparr>))
            (bindE ?held (\<lambda>found. if found then k else returnE ()))))) (\<lambda>_. ?Q) (\<lambda>_ _. False) t" for k
    proof (rule wp_bind_rule [OF wp_backtest_size(1) [OF t(2) assms(3)]], goal_cases)
      case (1 x u)
      then have "x = of_int n / 10 ^ 8" using t(3) assms(4) by simp
      then show ?case by (simp only:) (rule sold, use 1 t in simp_all)
    qed
    then show ?case using t(1,5) assms(7,9) by (simp del: wp_bindE wp_seqE add: wp_bindE [of "getE f" for f])
  qed
  then show ?thesis .
qed


section \<open>Properties\<close>

text \<open>
  A stop that is hit sells the whole position.  When a candle's low reaches the stop of a position
  of fewer than two to the 53 satoshis, the candle handler sells exactly the stored size at the stop
  price, not at the candle's: the bank is paid the proceeds rounded to eight decimals, the position
  and its orders are gone, the stop is removed, no other position is touched and the check that
  nothing is left does not throw.
\<close>

theorem stop_hit_sells_everything:
  assumes "redis_ready B E (bt_world s)" "p = backtest_position cfg (mi_base_asset m)" "plain_identifier p"
    and "redis_view (bt_world s) p = (n, os)" "0 < n" "n < 2 ^ 53"
    and "bt_stops s (mi_base_asset m) = Some price" "0 \<le> price" "c_low c \<le> price"
    and "stringify_order (full_sell B cfg m (c_closeTime c) price n) \<notin> os"
  shows "\<exists>t. backtest_ingest_new_candle B E cfg m c s = (Inr (), t) \<and>
    redis_view (bt_world t) = (redis_view (bt_world s))(p := (0, {})) \<and>
    bt_bank t = (bt_bank s)\<lparr>bk_cash := bk_cash (bt_bank s) + bn_dp B 8 (of_int n / 10 ^ 8 * price)\<rparr> \<and>
    bt_stops t = (bt_stops s)(mi_base_asset m := None)"
  using wp_total [OF wp_stop_hit [OF assms]] by auto

text \<open>
  C25: A stopped trade loses what the stop allows.  From a state without the position and with the cash
  for it, let a long signal be traded and the next candle reach the stop: the two handlers succeed, the
  positions are as before, and the cash is the old cash less the stake plus the stake times the stop
  factor, up to the rounding of quantity, stop and proceeds to eight decimals.
\<close>

theorem stopped_trade_loses_the_stop:
  assumes "redis_ready B E (bt_world s)" "m = sig_market_identifier x" "p = backtest_position cfg (mi_base_asset m)"
    and "plain_identifier p" "redis_view (bt_world s) p = (0, {})" "sig_direction x = Long"
    and "a = bc_position_size_in_quote_asset cfg (bt_bank s)" "affordable B s a (sig_price x)"
    and "0 \<le> bc_stop_factor cfg" "c_low c \<le> stop_price B cfg (sig_price x)"
  shows "\<exists>t. seqE (trade_signal B E cfg x) (backtest_ingest_new_candle B E cfg m c) s = (Inr (), t) \<and>
    redis_view (bt_world t) = redis_view (bt_world s) \<and> bk_loan (bt_bank t) = bk_loan (bt_bank s) \<and>
    \<bar>bk_cash (bt_bank t) - (bk_cash (bt_bank s) - a + a * bc_stop_factor cfg)\<bar>
      \<le> (a / sig_price x + sig_price x * bc_stop_factor cfg + 2) / 10 ^ 8"
proof -
  let ?q = "bn_dp B 8 (bn_div B a (sig_price x))" and ?st = "stop_price B cfg (sig_price x)"
  let ?buy = "first_buy B cfg m (sig_timestamp_ms x) (sig_price x) a"
  let ?Q = "\<lambda>t. redis_view (bt_world t) = redis_view (bt_world s) \<and> bk_loan (bt_bank t) = bk_loan (bt_bank s) \<and>
    bk_cash (bt_bank t) = bk_cash (bt_bank s) - a + bn_dp B 8 (?q * ?st)"
  have B: "bignum_laws B" using assms(1) by (simp add: redis_ready_def)
  note opened = first_buy_opens(2) [OF B assms(8)] and sats = first_buy_opens(3-5) [OF B assms(8)]
  have stop: "0 \<le> ?st"
    using assms(8,9) unfolding stop_price_def by (intro bignum_laws.dp_nonneg [OF B]) (simp add: affordable_def)
  have fresh: "stringify_order (full_sell B cfg m ts pr n) \<notin> {stringify_order ?buy}" for ts pr n
    by (simp add: full_sell_def first_buy_def market_order_def Let_def stringify_order_def order_core.defs)
  have hit: "wp (backtest_ingest_new_candle B E cfg m c) (\<lambda>_. ?Q) (\<lambda>_ _. False) u"
    if u: "redis_ready B E (bt_world u)" "redis_view (bt_world u) = (redis_view (bt_world s))(p := apply_fill B ?buy (0, {}))"
      "bt_bank u = (bt_bank s)\<lparr>bk_cash := bk_cash (bt_bank s) - a\<rparr>" "bt_stops u = (bt_stops s)(mi_base_asset m \<mapsto> ?st)" for u
  proof -
    have "of_int (to_sats B ?q) / 10 ^ 8 = ?q" using sats(1) by simp
    moreover have "(redis_view (bt_world s))(p := (0, {})) = redis_view (bt_world s)" using assms(5) by (simp add: fun_upd_idem)
    ultimately show ?thesis
      using wp_stop_hit [OF u(1) assms(3,4) _ sats(2,3) _ stop assms(10) fresh] u opened
      by (simp add: wp_mono)
  qed
  have "wp (seqE (trade_signal B E cfg x) (backtest_ingest_new_candle B E cfg m c)) (\<lambda>_. ?Q) (\<lambda>_ _. False) s"
    unfolding wp_seqE by (rule wp_mono [OF wp_long_signal [OF assms(1-8)]]) (use hit in auto)
  from wp_total [OF this] obtain t where
    "seqE (trade_signal B E cfg x) (backtest_ingest_new_candle B E cfg m c) s = (Inr (), t)" "?Q t" by auto
  moreover have "\<bar>bn_dp B 8 (?q * ?st) - a * bc_stop_factor cfg\<bar>
      \<le> (a / sig_price x + sig_price x * bc_stop_factor cfg + 2) / 10 ^ 8"
    unfolding stop_price_def
    by (rule stopped_proceeds [OF B]) (use assms(8,9) in \<open>simp_all add: affordable_def\<close>)
  ultimately show ?thesis by auto
qed

definition demo_backtest_config :: backtest_config where
  "demo_backtest_config = \<lparr>bc_edge = ''edge70'', bc_exchange_identifier = binance_spot, bc_quote_asset = ''USDT'',
     bc_stop_factor = 17 / 20, bc_position_size_in_quote_asset = \<lambda>_. backtester_fixed_position_size\<rparr>"

definition demo_backtest :: "world \<Rightarrow> backtest" where
  "demo_backtest w = \<lparr>bt_world = w, bt_bank = new_bank 1000 0 True, bt_stops = [''ETH'' \<mapsto> 8]\<rparr>"

definition demo_signal :: edge70_signal where
  "demo_signal = \<lparr>sig_edge = ''edge70'', sig_market_identifier = demo_market, sig_direction = Long, sig_price = 10,
     sig_timestamp_ms = 1, sig_parameters = \<lparr>candles_long = 1, candles_short = 1\<rparr>\<rparr>"

lemma backtest_position_demo [simp]: "backtest_position demo_backtest_config (mi_base_asset demo_market) = demo_position"
  by (simp add: backtest_position_def demo_backtest_config_def demo_position_def demo_market_def binance_spot_def)

theorem stopped_trade_loses_the_stop_witness:
  "\<exists>t. seqE (trade_signal ref_bignum (quiet_env []) demo_backtest_config demo_signal)
      (backtest_ingest_new_candle ref_bignum (quiet_env []) demo_backtest_config demo_market (demo_candle 5 2))
      (demo_backtest empty_world) = (Inr (), t) \<and> redis_view (bt_world t) = redis_view empty_world"
proof -
  have ready: "redis_ready ref_bignum (quiet_env []) (bt_world (demo_backtest empty_world))"
    by (simp add: redis_ready_def ref_bignum_laws demo_backtest_def)
  have market: "demo_market = sig_market_identifier demo_signal" by (simp add: demo_signal_def)
  have stake: "100 = bc_position_size_in_quote_asset demo_backtest_config (bt_bank (demo_backtest empty_world))"
    by (simp add: demo_backtest_config_def backtester_fixed_position_size_def)
  have bought: "bn_dp ref_bignum 8 (bn_div ref_bignum 100 10) = 10"
    by code_simp
  have stop: "stop_price ref_bignum demo_backtest_config 10 = 17 / 2"
    by code_simp
  have "affordable ref_bignum (demo_backtest empty_world) 100 (sig_price demo_signal)"
    using bought by (simp add: affordable_def demo_signal_def demo_backtest_def new_bank_def)
  from stopped_trade_loses_the_stop [OF ready market backtest_position_demo [symmetric] demo_position_plain _ _ stake this,
      of "demo_candle 5 2"]
  show ?thesis
    using stop by (simp add: demo_backtest_def demo_signal_def demo_backtest_config_def demo_candle_def) blast
qed

theorem stop_hit_sells_everything_witness:
  "\<exists>t. backtest_ingest_new_candle ref_bignum (quiet_env []) demo_backtest_config demo_market (demo_candle 5 2)
      (demo_backtest held_world) = (Inr (), t) \<and> bk_cash (bt_bank t) = 1024 \<and> bt_stops t = Map.empty"
proof -
  have ready: "redis_ready ref_bignum (quiet_env []) (bt_world (demo_backtest held_world))"
    by (simp add: demo_backtest_def held_world_ready)
  have view: "redis_view (bt_world (demo_backtest held_world)) demo_position = (300000000, {})"
    by (simp add: demo_backtest_def held_world_view)
  have stop: "bt_stops (demo_backtest held_world) (mi_base_asset demo_market) = Some 8"
    by (simp add: demo_backtest_def demo_market_def)
  have paid: "bn_dp ref_bignum 8 24 = 24" by code_simp
  show ?thesis
    using stop_hit_sells_everything [OF ready backtest_position_demo [symmetric] demo_position_plain view _ _ stop, of "demo_candle 5 2"]
    by (auto simp: demo_candle_def demo_backtest_def new_bank_def paid demo_market_def)
qed

end
