(* ===== verification/Collectors.thy ===== *)
theory Collectors
  imports Candles
begin

text \<open>
  Where the candles of the backtester come from (\<open>classes/candles\<close>): the Binance client behind
  \<open>BinanceCandlesCollector\<close>, the files of \<open>CachingCandlesCollector\<close> and the requests
  \<open>ChunkingCandlesCollector\<close> splits a long history into.  What a collector promises for a window the
  exchange can answer at once is a locale; the chunking is proved against it.
\<close>

section \<open>Collectors\<close>

text \<open>
  A file of candles is named by symbol and timeframe and by the texts of two dates, which show no more
  than seconds.
\<close>

datatype candles_file = CandlesFile string string int "int option"

datatype collector_call = Klines string string int int | ReadClock | WriteFile candles_file

record collector =
  cl_log :: "collector_call list"
  cl_files :: "(candles_file \<times> candle list) list"

record collector_env =
  ce_candles :: "collector_call list \<Rightarrow> js_error + candle list"
  ce_now :: "collector_call list \<Rightarrow> int"
  ce_write :: "collector_call list \<Rightarrow> js_error option"

definition log_call :: "collector_call \<Rightarrow> (collector, unit) prog" where
  "log_call x = modifyE (\<lambda>s. s\<lparr>cl_log := x # cl_log s\<rparr>)"

definition read_clock :: "collector_env \<Rightarrow> (collector, int) prog" where
  "read_clock E = seqE (log_call ReadClock) (getE (\<lambda>s. ce_now E (cl_log s)))"

definition ee_candles :: "collector_env \<Rightarrow> string \<Rightarrow> string \<Rightarrow> int \<Rightarrow> int \<Rightarrow> (collector, candle list) prog" where
  "ee_candles E symbol interval startTime endTime =
     seqE (log_call (Klines symbol interval startTime endTime))
       (bindE (getE (\<lambda>s. ce_candles E (cl_log s))) liftE)"

text \<open>\<open>end_date?.getTime() || new Date().getTime()\<close>: the epoch counts as no end, too.\<close>

definition end_time :: "collector_env \<Rightarrow> int option \<Rightarrow> (collector, int) prog" where
  "end_time E end_date = (case end_date of
     None \<Rightarrow> read_clock E | Some t \<Rightarrow> if t = 0 then read_clock E else returnE t)"

definition get_daily_candles_between ::
    "collector_env \<Rightarrow> string \<Rightarrow> int \<Rightarrow> int option \<Rightarrow> (collector, candle list) prog" where
  "get_daily_candles_between E symbol start_date end_date =
     bindE (end_time E end_date) (ee_candles E symbol ''1d'' start_date)"

definition get_candles_between ::
    "collector_env \<Rightarrow> string \<Rightarrow> int \<Rightarrow> int option \<Rightarrow> string \<Rightarrow> (collector, candle list) prog" where
  "get_candles_between E symbol start_date end_date timeframe =
     (if timeframe = ''1w'' \<or> timeframe = ''1d''
      then bindE (end_time E end_date) (ee_candles E symbol timeframe start_date)
      else throwE (Err ''Interval undefined not implemented''))"

type_synonym 's candles_getter = "string \<Rightarrow> int \<Rightarrow> int option \<Rightarrow> string \<Rightarrow> ('s, candle list) prog"

definition file_name :: "string \<Rightarrow> string \<Rightarrow> int \<Rightarrow> int option \<Rightarrow> candles_file" where
  "file_name symbol timeframe start_date end_date =
     CandlesFile symbol timeframe (start_date div 1000) (map_option (\<lambda>t. t div 1000) end_date)"

definition write_file :: "collector_env \<Rightarrow> candles_file \<Rightarrow> candle list \<Rightarrow> (collector, unit) prog" where
  "write_file E filename cs = seqE (log_call (WriteFile filename))
     (bindE (getE (\<lambda>s. ce_write E (cl_log s))) (\<lambda>r. case r of
        Some err \<Rightarrow> throwE err
      | None \<Rightarrow> modifyE (\<lambda>s. s\<lparr>cl_files := (filename, cs) # cl_files s\<rparr>)))"

definition caching_get_candles_between ::
    "collector_env \<Rightarrow> collector candles_getter \<Rightarrow> collector candles_getter" where
  "caching_get_candles_between E getter symbol start_date end_date timeframe =
     (let filename = file_name symbol timeframe start_date end_date in
      bindE (getE (\<lambda>s. map_of (cl_files s) filename)) (\<lambda>file. case file of
        Some cs \<Rightarrow> returnE cs
      | None \<Rightarrow> bindE (getter symbol start_date end_date timeframe) (\<lambda>cs.
          seqE (write_file E filename cs) (returnE cs))))"

definition day_ms :: int where
  "day_ms = 86400000"

text \<open>
  The chunks, for a given end date, as the backtester always gives one; the calendar is that of a time
  zone without changes of its offset, so that adding days is adding milliseconds.
\<close>

function chunking_get_candles_between ::
    "'s candles_getter \<Rightarrow> string \<Rightarrow> int \<Rightarrow> int \<Rightarrow> string \<Rightarrow> ('s, candle list) prog" where
  "chunking_get_candles_between getter symbol start_date end_date timeframe =
     (if end_date - start_date = 0 then throwE (Err ''days not defined in candles math'')
      else if end_date - start_date > 490 * day_ms then
        (let mid_date = start_date + 489 * day_ms in
         bindE (chunking_get_candles_between getter symbol start_date mid_date timeframe) (\<lambda>a.
         bindE (chunking_get_candles_between getter symbol mid_date end_date timeframe) (\<lambda>b.
         returnE (a @ b))))
      else getter symbol start_date (Some end_date) timeframe)"
  by pat_completeness auto
termination
  by (relation "measure (\<lambda>(_, _, s, e, _). nat (e - s))") (auto simp: day_ms_def)

declare chunking_get_candles_between.simps [simp del]

section \<open>Candles of a window\<close>

definition openTime :: "candle \<Rightarrow> int" where
  "openTime c = c_closeTime c - (day_ms - 1)"

text \<open>Daily candles: a day or more between two openings, and openings on whole seconds.\<close>

definition daily :: "candle list \<Rightarrow> bool" where
  "daily cs \<longleftrightarrow> sorted_wrt (\<lambda>a b. openTime a + day_ms \<le> openTime b) cs \<and> list_all (\<lambda>c. 1000 dvd openTime c) cs"

definition window :: "(string \<Rightarrow> candle list) \<Rightarrow> string \<Rightarrow> int \<Rightarrow> int \<Rightarrow> candle list" where
  "window hist symbol s e = filter (\<lambda>c. s \<le> openTime c \<and> openTime c \<le> e) (hist symbol)"

text \<open>The dates at which one chunk ends and the next one starts.\<close>

definition chunk_boundary :: "int \<Rightarrow> int \<Rightarrow> int \<Rightarrow> bool" where
  "chunk_boundary s e t \<longleftrightarrow> s < t \<and> 489 * day_ms dvd t - s \<and> t + day_ms < e"

definition boundaries_repeated :: "int \<Rightarrow> int \<Rightarrow> candle list \<Rightarrow> candle list" where
  "boundaries_repeated s e cs = concat (map (\<lambda>c. if chunk_boundary s e (openTime c) then [c, c] else [c]) cs)"

lemma set_boundaries_repeated: "set (boundaries_repeated s e cs) = set cs"
  by (induction cs) (auto simp: boundaries_repeated_def)

lemma distinct_boundaries_repeated:
  "distinct cs \<Longrightarrow> distinct (boundaries_repeated s e cs) = list_all (\<lambda>c. \<not> chunk_boundary s e (openTime c)) cs"
proof (induction cs)
  case (Cons c cs)
  have "boundaries_repeated s e (c # cs) =
      (if chunk_boundary s e (openTime c) then [c, c] else [c]) @ boundaries_repeated s e cs"
    by (simp add: boundaries_repeated_def)
  then show ?case using Cons by (simp add: set_boundaries_repeated)
qed (simp add: boundaries_repeated_def)

lemma daily_distinct: "daily cs \<Longrightarrow> distinct cs"
proof -
  have "sorted_wrt (\<lambda>a b. openTime a + day_ms \<le> openTime b) cs \<Longrightarrow> distinct cs"
    by (induction cs) (auto simp: day_ms_def)
  then show "daily cs \<Longrightarrow> distinct cs" by (simp add: daily_def)
qed

text \<open>An ordered history splits at any date.\<close>

lemma filter_split:
  assumes "sorted_wrt (\<lambda>a b. openTime a + day_ms \<le> openTime b) cs"
  shows "filter P cs = filter (\<lambda>c. P c \<and> openTime c < m) cs @ filter (\<lambda>c. P c \<and> m \<le> openTime c) cs"
  using assms
proof (induction cs)
  case (Cons c cs)
  show ?case
  proof (cases "openTime c < m")
    case False
    then have "\<forall>x\<in>set cs. m \<le> openTime x" using Cons.prems by (auto simp: day_ms_def)
    then have "filter (\<lambda>c. P c \<and> openTime c < m) cs = []" "filter (\<lambda>c. P c \<and> m \<le> openTime c) cs = filter P cs"
      by (auto simp: filter_empty_conv intro!: filter_cong)
    then show ?thesis using False by simp
  qed (use Cons in simp)
qed simp

lemma opens_at_once:
  assumes "sorted_wrt (\<lambda>a b. openTime a + day_ms \<le> openTime b) cs"
  shows "length (filter (\<lambda>c. P c \<and> openTime c = m) cs) \<le> 1"
  using assms
proof (induction cs)
  case (Cons c cs)
  have "filter (\<lambda>c. P c \<and> openTime c = m) cs = []" if "openTime c = m"
    using Cons.prems that by (auto simp: filter_empty_conv day_ms_def)
  then show ?case using Cons by auto
qed simp

text \<open>A window of at most 490 days has fewer candles than an answer of the exchange can hold.\<close>

lemma window_fits:
  assumes "daily (hist symbol)" "e - s \<le> 490 * day_ms"
  shows "take 500 (window hist symbol s e) = window hist symbol s e"
proof -
  have *: "int (length cs) * day_ms \<le> e - s + day_ms"
    if "sorted_wrt (\<lambda>a b. openTime a + day_ms \<le> openTime b) cs" "\<forall>c\<in>set cs. s \<le> openTime c \<and> openTime c \<le> e" "cs \<noteq> []" for s cs
    using that
  proof (induction cs arbitrary: s)
    case (Cons c cs)
    show ?case
    proof (cases cs)
      case Nil
      then show ?thesis using Cons.prems(2) by simp
    next
      case (Cons d ds)
      have "int (length cs) * day_ms \<le> e - (openTime c + day_ms) + day_ms"
        using Cons.IH [of "openTime c + day_ms"] Cons.prems Cons by auto
      then show ?thesis using Cons.prems(2) by (simp add: algebra_simps)
    qed
  qed simp
  have "sorted_wrt (\<lambda>a b. openTime a + day_ms \<le> openTime b) (window hist symbol s e)"
    using assms(1) by (simp add: daily_def window_def sorted_wrt_filter)
  from * [OF this, of s] have "window hist symbol s e \<noteq> [] \<Longrightarrow> int (length (window hist symbol s e)) * day_ms \<le> e - s + day_ms"
    by (simp add: window_def)
  then have "window hist symbol s e = [] \<or> int (length (window hist symbol s e)) * day_ms \<le> 491 * day_ms"
    using assms(2) by fastforce
  then have "length (window hist symbol s e) \<le> 491" by (auto simp: day_ms_def)
  then show ?thesis by simp
qed

section \<open>The chunks of any collector\<close>

locale candle_windows =
  fixes getter :: "'s candles_getter" and hist :: "string \<Rightarrow> candle list"
    and ok :: "'s \<Rightarrow> bool" and failure :: "js_error \<Rightarrow> bool"
  assumes daily_law: "ok s \<Longrightarrow> daily (hist symbol)"
    and window_law: "\<lbrakk>ok s; 0 \<le> start; 1000 dvd start; start < e; e - start \<le> 490 * day_ms\<rbrakk> \<Longrightarrow>
      wp (getter symbol start (Some e) ''1d'') (\<lambda>cs t. ok t \<and> cs = window hist symbol start e)
        (\<lambda>err t. ok t \<and> failure err) s"
begin

lemma no_boundary_in:
  assumes "\<And>c. c \<in> set cs \<Longrightarrow> \<not> chunk_boundary s e (openTime c)"
  shows "boundaries_repeated s e cs = cs"
  using assms by (induction cs) (simp_all add: boundaries_repeated_def)

lemma no_boundary:
  assumes "e - s \<le> 490 * day_ms"
  shows "boundaries_repeated s e cs = cs"
proof -
  have "\<not> chunk_boundary s e t" for t
  proof
    assume "chunk_boundary s e t"
    then obtain k where "t - s = 489 * day_ms * k" "s < t" "t + day_ms < e" by (auto simp: chunk_boundary_def dvd_def)
    moreover from this have "1 \<le> k" by (simp add: day_ms_def zero_less_mult_iff flip: int_one_le_iff_zero_less)
    ultimately show False using assms by (simp add: day_ms_def)
  qed
  then show ?thesis by (rule no_boundary_in)
qed

lemma two_chunks:
  assumes "daily (hist symbol)" "490 * day_ms < e - s" "m = s + 489 * day_ms"
  shows "window hist symbol s m @ boundaries_repeated m e (window hist symbol m e) =
    boundaries_repeated s e (window hist symbol s e)"
proof -
  have sorted: "sorted_wrt (\<lambda>a b. openTime a + day_ms \<le> openTime b) (hist symbol)" using assms(1) by (simp add: daily_def)
  let ?sel = "\<lambda>P. filter P (hist symbol)"
  define x y z where "x = ?sel (\<lambda>c. s \<le> openTime c \<and> openTime c < m)" and "y = ?sel (\<lambda>c. openTime c = m)"
    and "z = ?sel (\<lambda>c. m < openTime c \<and> openTime c \<le> e)"
  have m: "s < m" "m + day_ms < e" using assms(2,3) by (simp_all add: day_ms_def)
  have split: "?sel P = ?sel Q @ ?sel R"
    if "\<And>c. (P c \<and> openTime c < t) = Q c" "\<And>c. (P c \<and> t \<le> openTime c) = R c" for P Q R t
    using filter_split [OF sorted, of P t] that by simp
  have yz: "window hist symbol m e = y @ z"
    unfolding window_def y_def z_def by (rule split [where t = "m + 1"]) (use m in \<open>auto simp: day_ms_def\<close>)
  have "window hist symbol s m = x @ y"
    unfolding window_def x_def y_def by (rule split [where t = m]) (use m in auto)
  moreover have "window hist symbol s e = x @ (y @ z)"
    unfolding yz [symmetric] unfolding window_def x_def by (rule split [where t = m]) (use m in \<open>auto simp: day_ms_def\<close>)
  moreover have "boundaries_repeated s e x = x"
    by (rule no_boundary_in) (use assms(3) in \<open>auto simp: x_def chunk_boundary_def dest: zdvd_imp_le\<close>)
  moreover have "boundaries_repeated m e y = y"
    by (rule no_boundary_in) (auto simp: y_def chunk_boundary_def)
  moreover have "boundaries_repeated s e y = y @ y"
  proof -
    have "length y \<le> 1" using opens_at_once [OF sorted, of "\<lambda>_. True"] by (simp add: y_def)
    then obtain c where "y = [] \<or> y = [c]" by (cases y) auto
    moreover have "chunk_boundary s e m" using m assms(3) by (simp add: chunk_boundary_def)
    ultimately show ?thesis using y_def by (auto simp: boundaries_repeated_def filter_eq_Cons_iff)
  qed
  moreover have "boundaries_repeated s e z = boundaries_repeated m e z"
  proof -
    have "chunk_boundary s e t = chunk_boundary m e t" if "m < t" for t
      using that m assms(3) dvd_add_left_iff [of "489 * day_ms" "489 * day_ms" "t - m"]
      by (simp add: chunk_boundary_def algebra_simps)
    then show ?thesis unfolding boundaries_repeated_def z_def by (intro arg_cong [where f = concat] map_cong) auto
  qed
  moreover note yz
  ultimately show ?thesis by (simp add: boundaries_repeated_def)
qed

lemma chunking_law:
  assumes "ok s" "0 \<le> start" "1000 dvd start" "start < e"
  shows "wp (chunking_get_candles_between getter symbol start e ''1d'')
    (\<lambda>cs t. ok t \<and> cs = boundaries_repeated start e (window hist symbol start e)) (\<lambda>err t. ok t \<and> failure err) s"
  using assms
proof (induction "nat (e - start)" arbitrary: s start e rule: less_induct)
  case less
  show ?case
  proof (cases "490 * day_ms < e - start")
    case True
    let ?m = "start + 489 * day_ms"
    have m: "start < ?m" "?m < e" "1000 dvd ?m" "0 \<le> ?m" and small: "?m - start \<le> 490 * day_ms"
      using True less.prems by (simp_all add: day_ms_def)
    have first: "wp (chunking_get_candles_between getter symbol start ?m ''1d'')
        (\<lambda>cs t. ok t \<and> cs = window hist symbol start ?m) (\<lambda>err t. ok t \<and> failure err) s"
      using less.hyps [OF _ less.prems(1-3) m(1)] m by (simp add: no_boundary [OF small])
    have second: "wp (chunking_get_candles_between getter symbol ?m e ''1d'')
        (\<lambda>cs t. ok t \<and> cs = boundaries_repeated ?m e (window hist symbol ?m e)) (\<lambda>err t. ok t \<and> failure err) t" if "ok t" for t
      using less.hyps [OF _ that m(4,3,2)] m(1) less.prems(4) by simp
    show ?thesis
      unfolding chunking_get_candles_between.simps [of getter symbol start e] Let_def
      using True less.prems(4) two_chunks [OF daily_law [OF less.prems(1)] True refl, symmetric]
      by (simp add: day_ms_def [symmetric]) (auto intro!: wp_mono [OF first] wp_mono [OF second])
  next
    case False
    then show ?thesis
      using less.prems window_law [of s start e]
      by (simp add: chunking_get_candles_between.simps [of getter symbol start e] no_boundary)
  qed
qed

end

section \<open>The collectors of the backtester\<close>

text \<open>What the exchange documents of daily candles: those that open in the window, at most 500 of them.\<close>

definition klines_documented :: "collector_env \<Rightarrow> (string \<Rightarrow> candle list) \<Rightarrow> bool" where
  "klines_documented E hist \<longleftrightarrow> (\<forall>log symbol s e. case ce_candles E (Klines symbol ''1d'' s e # log) of
     Inl _ \<Rightarrow> True | Inr cs \<Rightarrow> cs = take 500 (window hist symbol s e))"

definition source_error :: "collector_env \<Rightarrow> js_error \<Rightarrow> bool" where
  "source_error E err \<longleftrightarrow> (\<exists>log. ce_candles E log = Inl err \<or> ce_write E log = Some err)"

text \<open>The files hold what the exchange would answer.\<close>

definition files_agree :: "(string \<Rightarrow> candle list) \<Rightarrow> collector \<Rightarrow> bool" where
  "files_agree hist s \<longleftrightarrow> (\<forall>symbol a b cs. map_of (cl_files s) (CandlesFile symbol ''1d'' a (Some b)) = Some cs \<longrightarrow>
     cs = window hist symbol (a * 1000) (b * 1000))"

definition source_ok :: "collector_env \<Rightarrow> (string \<Rightarrow> candle list) \<Rightarrow> collector \<Rightarrow> bool" where
  "source_ok E hist s \<longleftrightarrow> klines_documented E hist \<and> (\<forall>symbol. daily (hist symbol)) \<and> files_agree hist s"

lemma window_in_seconds:
  assumes "daily (hist symbol)" "1000 dvd start"
  shows "window hist symbol (start div 1000 * 1000) (e div 1000 * 1000) = window hist symbol start e"
proof -
  have "(t \<le> e div 1000 * 1000) = (t \<le> e)" if "1000 dvd t" for t
  proof -
    obtain k where "t = 1000 * k" using \<open>1000 dvd t\<close> by (elim dvdE)
    moreover have "e = e div 1000 * 1000 + e mod 1000" "0 \<le> e mod 1000" "e mod 1000 < 1000" by simp_all
    ultimately show ?thesis by (cases "k \<le> e div 1000") simp_all
  qed
  moreover have "start div 1000 * 1000 = start" using assms(2) by (rule dvd_div_mult_self)
  moreover have "1000 dvd openTime c" if "c \<in> set (hist symbol)" for c
    using assms(1) that by (simp add: daily_def list_all_iff)
  ultimately show ?thesis unfolding window_def by (intro filter_cong) simp_all
qed

lemma binance_window_law:
  assumes "source_ok E hist s" "0 \<le> start" "start < e" "e - start \<le> 490 * day_ms"
  shows "wp (get_candles_between E symbol start (Some e) ''1d'')
    (\<lambda>cs t. source_ok E hist t \<and> cs = window hist symbol start e \<and> cl_files t = cl_files s)
    (\<lambda>err t. source_ok E hist t \<and> source_error E err) s"
proof -
  let ?k = "Klines symbol ''1d'' start e # cl_log s"
  have "cs = window hist symbol start e" if "ce_candles E ?k = Inr cs" for cs
  proof -
    have "case ce_candles E ?k of Inl _ \<Rightarrow> True | Inr cs \<Rightarrow> cs = take 500 (window hist symbol start e)"
      using assms(1) by (simp only: source_ok_def klines_documented_def)
    moreover have "take 500 (window hist symbol start e) = window hist symbol start e"
      using assms(1,4) by (intro window_fits) (simp_all add: source_ok_def)
    ultimately show ?thesis using that by simp
  qed
  moreover have "source_ok E hist (s\<lparr>cl_log := ?k\<rparr>)" using assms(1) by (simp add: source_ok_def files_agree_def)
  ultimately show ?thesis
    using assms(2,3) by (auto simp: get_candles_between_def end_time_def ee_candles_def log_call_def source_error_def split: sum.split)
qed

lemma caching_window_law:
  assumes "source_ok E hist s" "0 \<le> start" "1000 dvd start" "start < e" "e - start \<le> 490 * day_ms"
  shows "wp (caching_get_candles_between E (get_candles_between E) symbol start (Some e) ''1d'')
    (\<lambda>cs t. source_ok E hist t \<and> cs = window hist symbol start e) (\<lambda>err t. source_ok E hist t \<and> source_error E err) s"
proof -
  let ?f = "file_name symbol ''1d'' start (Some e)"
  note seconds = window_in_seconds [of hist symbol start e, OF _ assms(3)]
  have daily: "daily (hist symbol)" using assms(1) by (simp add: source_ok_def)
  have cached: "cs = window hist symbol start e" if "map_of (cl_files s) ?f = Some cs" for cs
    using that assms(1) seconds [OF daily] by (auto simp: source_ok_def files_agree_def file_name_def)
  have written: "wp (write_file E ?f (window hist symbol start e))
      (\<lambda>_ u. source_ok E hist u) (\<lambda>err u. source_ok E hist u \<and> source_error E err) t" if "source_ok E hist t" for t
    using that seconds [OF daily]
    by (auto simp: write_file_def log_call_def source_ok_def files_agree_def source_error_def file_name_def split: option.split)
  show ?thesis
    unfolding caching_get_candles_between_def Let_def
    by (auto simp: assms(1) cached split: option.split
        intro!: wp_mono [OF binance_window_law [OF assms(1,2,4,5)]] wp_mono [OF written])
qed

interpretation binance_candles: candle_windows "get_candles_between E" hist "source_ok E hist" "source_error E"
  for E hist
  by unfold_locales (auto simp: source_ok_def intro: wp_mono [OF binance_window_law])

interpretation cached_candles: candle_windows "caching_get_candles_between E (get_candles_between E)" hist
    "source_ok E hist" "source_error E"
  for E hist
  by unfold_locales (auto simp: source_ok_def intro: wp_mono [OF caching_window_law])

definition backtest_candles :: "collector_env \<Rightarrow> string \<Rightarrow> int \<Rightarrow> int \<Rightarrow> (collector, candle list) prog" where
  "backtest_candles E symbol start_date end_date =
     chunking_get_candles_between (caching_get_candles_between E (get_candles_between E)) symbol start_date end_date ''1d''"

section \<open>Properties\<close>

text \<open>
  C20: A long history is collected whole, but not without repetition.  Whatever the exchange answers in
  time and whatever files of its answers there are, the backtester's collector returns the candles
  that open between the two dates, in order, or throws an error of the exchange or of the disk.  A
  candle that opens at a date at which one request ends and the next one starts comes twice, so the
  candles are distinct exactly when none opens at such a boundary.
\<close>

theorem chunked_history_repeats_boundaries:
  assumes "source_ok E hist s" "0 \<le> start" "1000 dvd start" "start < e"
  shows "case fst (backtest_candles E symbol start e s) of
      Inl err \<Rightarrow> source_error E err
    | Inr cs \<Rightarrow> cs = boundaries_repeated start e (window hist symbol start e) \<and>
        set cs = set (window hist symbol start e) \<and>
        distinct cs = list_all (\<lambda>c. \<not> chunk_boundary start e (openTime c)) (window hist symbol start e)"
proof -
  have "distinct (window hist symbol start e)"
    using assms(1) daily_distinct by (auto simp: source_ok_def window_def)
  then show ?thesis
    using cached_candles.chunking_law [OF assms, of symbol] unfolding backtest_candles_def wp_def
    by (auto simp: set_boundaries_repeated distinct_boundaries_repeated split: sum.splits prod.splits)
qed

definition demo_daily_candle :: "int \<Rightarrow> candle" where
  "demo_daily_candle t = \<lparr>c_open = 1, c_high = 2, c_low = 1, c_close = 2, c_closeTime = t + day_ms - 1\<rparr>"

definition demo_candles :: "string \<Rightarrow> candle list" where
  "demo_candles symbol = [demo_daily_candle 0, demo_daily_candle (489 * day_ms)]"

definition demo_source :: collector_env where
  "demo_source = \<lparr>ce_candles = \<lambda>log. case log of Klines symbol interval s e # _ \<Rightarrow> Inr (window demo_candles symbol s e) | _ \<Rightarrow> Inr [],
     ce_now = \<lambda>_. 0, ce_write = \<lambda>_. None\<rparr>"

theorem chunked_history_repeats_boundaries_witness:
  "case fst (backtest_candles demo_source ''ETHUSDT'' 0 (500 * day_ms) \<lparr>cl_log = [], cl_files = []\<rparr>) of
     Inl _ \<Rightarrow> False | Inr cs \<Rightarrow> cs = [demo_daily_candle 0, demo_daily_candle (489 * day_ms), demo_daily_candle (489 * day_ms)]"
proof -
  have "take 500 (window demo_candles symbol s e) = window demo_candles symbol s e" for symbol s e
    by (simp add: window_def demo_candles_def)
  then have ok: "source_ok demo_source demo_candles \<lparr>cl_log = [], cl_files = []\<rparr>"
    by (simp add: source_ok_def klines_documented_def demo_source_def daily_def demo_candles_def files_agree_def
        openTime_def demo_daily_candle_def day_ms_def)
  have never: "\<not> source_error demo_source err" for err
    by (auto simp: source_error_def demo_source_def split: list.splits collector_call.splits)
  show ?thesis
    using chunked_history_repeats_boundaries [OF ok, of 0 "500 * day_ms" "''ETHUSDT''"]
    by (auto simp: never day_ms_def openTime_def demo_daily_candle_def window_def demo_candles_def
        boundaries_repeated_def chunk_boundary_def split: sum.splits)
qed

end
