(* ===== verification/ExecutionEngine.thy ===== *)
theory ExecutionEngine
  imports PositionTracker
begin

text \<open>
  The execution engine of the spot trade abstraction service
  (\<open>trade-abstraction-v2/execution/execution_engines/binance-spot-execution-engine.ts\<close>) with the
  commands and results of \<open>interfaces/exchanges/spot-execution-engine.ts\<close>: every order gets an id whose
  context is stored in Redis first, exit orders are retried when the exchange limits the rate, and a
  limit buy turns every outcome into a result.  The operations are also collected in a record, the
  interface the executors work against.
\<close>

section \<open>Commands and results\<close>

record trade_context =
  tc_base_asset :: string
  tc_quote_asset :: "string option"
  tc_edge :: string
  tc_trade_id :: string

record spot_limit_buy_command =
  lb_order_context :: order_context
  lb_market_identifier :: market_identifier
  lb_base_amount :: rat
  lb_limit_price :: rat

record spot_stop_market_sell_command =
  sm_order_context :: order_context
  sm_market_identifier :: market_identifier
  sm_trade_context :: trade_context
  sm_base_amount :: rat
  sm_trigger_price :: rat

record spot_stop_market_sell_result =
  sr_order_id :: string
  sr_stop_price :: rat
  sr_trade_context :: trade_context

record spot_market_sell_command =
  ms_order_context :: order_context
  ms_market_identifier :: market_identifier
  ms_base_amount :: rat

record spot_oco_sell_command =
  os_order_context :: order_context
  os_market_identifier :: market_identifier
  os_base_amount :: rat
  os_take_profit_price :: rat
  os_stop_price :: rat
  os_stop_limit_price :: rat
  os_stop_ClientOrderId :: string
  os_take_profit_ClientOrderId :: string
  os_oco_list_ClientOrderId :: string

text \<open>
  \<open>SpotExecutionEngineBuyResult\<close>, one constructor per member of the union.  The market identifier and
  the order or trade context, which echo the command, are left out.
\<close>

datatype ee_buy_result =
    EE_FILLED (ee_executed_quote_quantity: rat) (ee_executed_base_quantity: rat) (ee_executed_price: rat)
      (ee_execution_timestamp_ms: "int option")
  | EE_INSUFFICIENT_BALANCE int
  | EE_INTERNAL_SERVER_ERROR js_error int
  | EE_TOO_MANY_REQUESTS js_error int int
  | EE_ENTRY_FAILED_TO_FILL int

section \<open>Operations\<close>

definition get_market_identifier_for :: "string \<Rightarrow> string \<Rightarrow> market_identifier" where
  "get_market_identifier_for quote_asset base_asset =
     \<lparr>mi_exchange_identifier = binance_spot, mi_base_asset = base_asset, mi_quote_asset = Some quote_asset,
      mi_symbol = to_upper base_asset @ to_upper quote_asset\<rparr>"

definition get_exchange_info :: "env \<Rightarrow> (world, exchange_info) prog" where
  "get_exchange_info E = call_out GetExchangeInfo (env_exchange_info E)"

definition base_asset_for_symbol :: "env \<Rightarrow> string \<Rightarrow> (world, string) prog" where
  "base_asset_for_symbol E symbol =
     bindE (get_exchange_info E) (\<lambda>exchange_info.
       case find (\<lambda>s. s_symbol s = symbol) exchange_info of
         None \<Rightarrow> throwE (Err (''No match for symbol '' @ symbol @ '' in exchange_info symbols''))
       | Some match \<Rightarrow> returnE (s_baseAsset match))"

definition store_order_context_and_generate_clientOrderId :: "env \<Rightarrow> order_context \<Rightarrow> (world, string) prog" where
  "store_order_context_and_generate_clientOrderId E ctx =
     bindE (getE (\<lambda>w. env_uuid E (trace w))) (\<lambda>clientOrderId.
       seqE (set_order_context_for_order E binance_spot clientOrderId ctx) (returnE clientOrderId))"

text \<open>
  \<open>err.message.match(/Too many new orders/ || err.code === -1015)\<close>: the disjunction is inside the
  argument of \<open>match\<close> and its first operand is true, so only the message is looked at.
\<close>

definition too_many_new_orders :: "js_error \<Rightarrow> bool" where
  "too_many_new_orders err \<longleftrightarrow> contains ''Too many new orders'' (err_message err)"

text \<open>The \<open>do ... while\<close> loop of \<open>execute_with_429_retries\<close>, by the retries still allowed.\<close>

fun retry_loop :: "nat \<Rightarrow> (world, 'a) prog \<Rightarrow> (world, 'a) prog" where
  "retry_loop 0 func = throwE (Err ''Should not reach here'')"
| "retry_loop (Suc allowed_retries) func =
     tryE func (\<lambda>err.
       if allowed_retries = 0 then throwE err
       else if too_many_new_orders err then seqE (emit (Sleep (11 * 1000))) (retry_loop allowed_retries func)
       else throwE err)"

definition execute_with_429_retries :: "(world, 'a) prog \<Rightarrow> (world, 'a) prog" where
  "execute_with_429_retries func = retry_loop 3 func"

definition limit_buy :: "bignum \<Rightarrow> env \<Rightarrow> spot_limit_buy_command \<Rightarrow> trade_context \<Rightarrow> (world, ee_buy_result) prog" where
  "limit_buy B E cmd trade_context =
     tryE
       (bindE (store_order_context_and_generate_clientOrderId E
                 ((lb_order_context cmd)\<lparr>oc_trade_id := Some (tc_trade_id trade_context)\<rparr>)) (\<lambda>clientOrderId.
        bindE (get_exchange_info E) (\<lambda>exchange_info.
        bindE (create_limit_buy_order B E exchange_info (mi_symbol (lb_market_identifier cmd))
                 (lb_base_amount cmd) (lb_limit_price cmd) clientOrderId (Some ''IOC'')) (\<lambda>result.
          if r_executedQty result = 0
          then (case r_transactTime result of
                  Some t \<Rightarrow> if t \<noteq> 0 then returnE (EE_ENTRY_FAILED_TO_FILL t)
                             else bindE (now E) (\<lambda>t. returnE (EE_ENTRY_FAILED_TO_FILL t))
                | None \<Rightarrow> bindE (now E) (\<lambda>t. returnE (EE_ENTRY_FAILED_TO_FILL t)))
          else returnE (EE_FILLED (r_cummulativeQuoteQty result) (r_executedQty result)
                  (bn_div B (r_cummulativeQuoteQty result) (r_executedQty result)) (r_transactTime result))))))
       (\<lambda>err. bindE (now E) (\<lambda>t.
          if too_many_new_orders err then returnE (EE_TOO_MANY_REQUESTS err t 11)
          else if contains ''Account has insufficient balance for requested action'' (err_message err)
          then returnE (EE_INSUFFICIENT_BALANCE t)
          else returnE (EE_INTERNAL_SERVER_ERROR err t)))"

definition stop_market_sell ::
    "bignum \<Rightarrow> env \<Rightarrow> spot_stop_market_sell_command \<Rightarrow> (world, spot_stop_market_sell_result) prog" where
  "stop_market_sell B E cmd =
     bindE (store_order_context_and_generate_clientOrderId E
              ((sm_order_context cmd)\<lparr>oc_trade_id := Some (tc_trade_id (sm_trade_context cmd))\<rparr>)) (\<lambda>clientOrderId.
     bindE (get_exchange_info E) (\<lambda>exchange_info.
     bindE (execute_with_429_retries
              (munge_and_create_stop_loss_limit_sell_order B E exchange_info
                 (mi_symbol (sm_market_identifier cmd)) (sm_base_amount cmd) (sm_trigger_price cmd)
                 (sm_trigger_price cmd * (8 / 10)) clientOrderId)) (\<lambda>order.
       if r_clientOrderId order = [] then throwE (Err ''Failed to create stop order'')
       else returnE
         \<lparr>sr_order_id = r_clientOrderId order,
          sr_stop_price = (case r_stopPrice order of Some p \<Rightarrow> p | None \<Rightarrow> sm_trigger_price cmd),
          sr_trade_context = sm_trade_context cmd\<rparr>)))"

definition cancel_order :: "env \<Rightarrow> string \<Rightarrow> string \<Rightarrow> (world, unit) prog" where
  "cancel_order E symbol order_id =
     bindE (call_out (CancelOrder symbol order_id) (env_cancel E)) (\<lambda>status.
       if status = ''CANCELED'' then returnE () else throwE (Err (''Failed to cancel order '' @ order_id)))"

definition cancel_oco_order :: "env \<Rightarrow> string \<Rightarrow> string \<Rightarrow> (world, unit) prog" where
  "cancel_oco_order E symbol order_id =
     bindE (call_out (CancelOco symbol order_id) (env_cancel_oco E)) (\<lambda>listOrderStatus.
       if listOrderStatus = ''ALL_DONE'' then returnE ()
       else throwE (Err (''Failed to cancel oco order '' @ order_id)))"

definition market_sell :: "env \<Rightarrow> spot_market_sell_command \<Rightarrow> (world, order_resp) prog" where
  "market_sell E cmd =
     bindE (store_order_context_and_generate_clientOrderId E (ms_order_context cmd)) (\<lambda>clientOrderId.
     bindE (create_market_sell_order E (ms_base_amount cmd) (mi_symbol (ms_market_identifier cmd)) clientOrderId)
       (\<lambda>order. if r_clientOrderId order \<noteq> [] then returnE order
               else throwE (Err ''Failed to create market sell order'')))"

definition oco_sell_order :: "bignum \<Rightarrow> env \<Rightarrow> spot_oco_sell_command \<Rightarrow> (world, unit) prog" where
  "oco_sell_order B E cmd =
     bindE (get_exchange_info E) (\<lambda>exchange_info.
     bindE (execute_with_429_retries
              (munge_and_create_oco_order B E exchange_info (mi_symbol (os_market_identifier cmd))
                 (os_base_amount cmd) (os_take_profit_price cmd) (os_stop_price cmd) (os_stop_limit_price cmd)
                 (os_stop_ClientOrderId cmd) (os_take_profit_ClientOrderId cmd) (os_oco_list_ClientOrderId cmd)))
       (\<lambda>listClientOrderId. if listClientOrderId \<noteq> [] then returnE ()
                           else throwE (Err ''Failed to create oco sell order'')))"

definition prices :: "env \<Rightarrow> (world, string \<Rightarrow> rat option) prog" where
  "prices E = call_out GetPrices (env_prices E)"

section \<open>The engine as an interface\<close>

text \<open>The operations of \<open>SpotExecutionEngine\<close> the executors and the mapper call.\<close>

record 's engine =
  en_store_order_context :: "order_context \<Rightarrow> ('s, string) prog"
  en_limit_buy :: "spot_limit_buy_command \<Rightarrow> trade_context \<Rightarrow> ('s, ee_buy_result) prog"
  en_stop_market_sell :: "spot_stop_market_sell_command \<Rightarrow> ('s, spot_stop_market_sell_result) prog"
  en_cancel_order :: "string \<Rightarrow> string \<Rightarrow> ('s, unit) prog"
  en_cancel_oco_order :: "string \<Rightarrow> string \<Rightarrow> ('s, unit) prog"
  en_market_sell :: "spot_market_sell_command \<Rightarrow> ('s, order_resp) prog"
  en_oco_sell_order :: "spot_oco_sell_command \<Rightarrow> ('s, unit) prog"

definition binance_engine :: "bignum \<Rightarrow> env \<Rightarrow> world engine" where
  "binance_engine B E =
     \<lparr>en_store_order_context = store_order_context_and_generate_clientOrderId E,
      en_limit_buy = limit_buy B E, en_stop_market_sell = stop_market_sell B E,
      en_cancel_order = cancel_order E, en_cancel_oco_order = cancel_oco_order E,
      en_market_sell = market_sell E, en_oco_sell_order = oco_sell_order B E\<rparr>"

section \<open>What the exchange accepted\<close>

text \<open>
  The deals of a history: the orders the exchange accepted, latest first, whether or not the program
  got to see the reply as a success.
\<close>

datatype deal = Order order_req order_resp | Oco oco_req string

fun deals :: "env \<Rightarrow> effect list \<Rightarrow> deal list" where
  "deals E [] = []"
| "deals E (PlaceOrder q # h) =
     (case env_order E (PlaceOrder q # h) of Inr r \<Rightarrow> Order q r # deals E h | Inl _ \<Rightarrow> deals E h)"
| "deals E (PlaceOco q # h) =
     (case env_oco E (PlaceOco q # h) of Inr r \<Rightarrow> Oco q r # deals E h | Inl _ \<Rightarrow> deals E h)"
| "deals E (_ # h) = deals E h"

definition deals_of :: "env \<Rightarrow> world \<Rightarrow> deal list" where
  "deals_of E w = deals E (trace w)"

definition no_deals :: "env \<Rightarrow> world \<Rightarrow> world \<Rightarrow> bool" where
  "no_deals E w t \<longleftrightarrow> deals_of E t = deals_of E w"

lemma no_deals_refl [simp]: "reflp (no_deals E)" and no_deals_trans [simp]: "transp (no_deals E)"
  by (simp_all add: reflp_def transp_def no_deals_def)

named_theorems quiet_intros

lemmas quiet_basic [quiet_intros] =
  keeps_returnE [OF no_deals_refl] keeps_throwE [OF no_deals_refl] keeps_getE [OF no_deals_refl]
  keeps_liftE [OF no_deals_refl] keeps_assertE [OF no_deals_refl] keeps_forE [OF no_deals_refl no_deals_trans]
  keeps_bindE [OF no_deals_trans] keeps_seqE [OF no_deals_trans] keeps_tryE [OF no_deals_trans] keeps_case

lemma quiet_redis_call [quiet_intros]:
  assumes "keeps (no_deals E) m"
  shows "keeps (no_deals E) (redis_call E' c m)"
proof -
  have "keeps (no_deals E) (emit (Redis c))" by (simp add: keeps_wp no_deals_def deals_of_def)
  then show ?thesis unfolding redis_call_def
    by (intro quiet_intros) (auto split: redis_fault.split intro!: quiet_intros assms)
qed

lemma quiet_store [quiet_intros]: "keeps (no_deals E) (modifyE (\<lambda>w. w\<lparr>store := f w\<rparr>))"
  by (simp add: keeps_wp no_deals_def deals_of_def)

lemma quiet_calls [quiet_intros]:
  "keeps (no_deals E) (get_exchange_info E')" "keeps (no_deals E) (prices E')" "keeps (no_deals E) (now E')"
  "keeps (no_deals E) (alert m)" "keeps (no_deals E) (emit (Sleep n))"
  "keeps (no_deals E) (cancel_order E' s i)" "keeps (no_deals E) (cancel_oco_order E' s i)"
  by (auto simp: keeps_wp no_deals_def deals_of_def get_exchange_info_def prices_def cancel_order_def
      cancel_oco_order_def split: sum.split)

lemma quiet_context [quiet_intros]: "keeps (no_deals E) (store_order_context_and_generate_clientOrderId E' ctx)"
  unfolding store_order_context_and_generate_clientOrderId_def set_order_context_for_order_def redis_set_def
  by (intro quiet_intros)

lemma wp_quiet:
  assumes "keeps (no_deals E) m" "\<And>x t. deals_of E t = deals_of E w \<Longrightarrow> Q x t"
    and "\<And>e t. deals_of E t = deals_of E w \<Longrightarrow> R e t"
  shows "wp m Q R w"
proof -
  have "wp m (\<lambda>_. no_deals E w) (\<lambda>_. no_deals E w) w" using assms(1) by (simp add: keeps_wp)
  then show ?thesis by (rule wp_mono) (simp_all add: assms(2,3) no_deals_def)
qed

text \<open>A program keeps a relation under retries when one attempt and the pause do.\<close>

lemma keeps_retry_loop:
  assumes "reflp K" "transp K" "keeps K func" "keeps K (emit (Sleep (11 * 1000)))"
  shows "keeps K (retry_loop n func)"
proof (induction n)
  case 0
  show ?case by (simp add: keeps_throwE assms(1))
next
  case (Suc n)
  have "keeps K (if n = 0 then throwE err else if too_many_new_orders err
      then seqE (emit (Sleep (11 * 1000))) (retry_loop n func) else throwE err)" for err
    using keeps_seqE [OF assms(2,4) Suc] by (simp add: keeps_throwE assms(1))
  then show ?case using keeps_tryE [OF assms(2,3)] by simp
qed

text \<open>
  Retries, by an invariant \<open>P\<close> of the states in which an attempt starts: an attempt that fails because
  of the rate limit must leave \<open>P\<close> true, any other failure is final.
\<close>

lemma wp_retry_loop:
  assumes "\<And>s. P s \<Longrightarrow> wp func Q (\<lambda>e t. R e t \<and> (too_many_new_orders e \<longrightarrow> P t)) s"
    and "\<And>s. P s \<Longrightarrow> wp (emit (Sleep (11 * 1000))) (\<lambda>_. P) (\<lambda>_ _. False) s"
    and "P s" "0 < n"
  shows "wp (retry_loop n func) Q R s"
  using assms(3,4)
proof (induction n arbitrary: s)
  case (Suc n)
  have "wp (if n = 0 then throwE err else if too_many_new_orders err
      then seqE (emit (Sleep (11 * 1000))) (retry_loop n func) else throwE err) Q R t"
    if "R err t" "too_many_new_orders err \<longrightarrow> P t" for err t
  proof (cases "n = 0 \<or> \<not> too_many_new_orders err")
    case False
    then show ?thesis using Suc.IH that assms(2) [of t] by (auto simp del: wp_emit elim!: wp_mono)
  qed (use that in auto)
  then show ?case using assms(1) [OF Suc.prems(1)] by (auto elim!: wp_mono)
qed simp

lemma wp_retries:
  assumes "\<And>s. deals_of E s = D \<Longrightarrow> wp func Q (\<lambda>e t. R e t \<and> (too_many_new_orders e \<longrightarrow> deals_of E t = D)) s"
    and "deals_of E s = D"
  shows "wp (execute_with_429_retries func) Q R s"
  unfolding execute_with_429_retries_def
  by (rule wp_retry_loop [where P = "\<lambda>t. deals_of E t = D"])
    (use assms in \<open>simp_all add: deals_of_def\<close>)

section \<open>What the operations do to the deals\<close>

text \<open>
  A limit buy is one deal or none, and the result says which: filled or not filled are one accepted
  order; the other results mean no accepted order, or one acknowledged under a foreign id.
\<close>

definition bought :: "string \<Rightarrow> ee_buy_result \<Rightarrow> deal list \<Rightarrow> deal list \<Rightarrow> bool" where
  "bought symbol r D D' =
     (case r of
        EE_FILLED quote base price t \<Rightarrow>
          (\<exists>q rsp. D' = Order q rsp # D \<and> q_side q = BUY \<and> q_symbol q = symbol \<and>
             base = r_executedQty rsp \<and> quote = r_cummulativeQuoteQty rsp \<and> base \<noteq> 0)
      | EE_ENTRY_FAILED_TO_FILL t \<Rightarrow>
          (\<exists>q rsp. D' = Order q rsp # D \<and> q_side q = BUY \<and> q_symbol q = symbol \<and> r_executedQty rsp = 0)
      | _ \<Rightarrow> D' = D \<or>
          (\<exists>q rsp. D' = Order q rsp # D \<and> q_side q = BUY \<and> q_symbol q = symbol \<and>
             r_clientOrderId rsp \<noteq> q_newClientOrderId q))"

text \<open>An exit order that is refused leaves no deal, or one acknowledged under a foreign or empty id.\<close>

definition refused :: "deal list \<Rightarrow> deal list \<Rightarrow> bool" where
  "refused D D' \<longleftrightarrow> D' = D \<or>
     (\<exists>q rsp. D' = Order q rsp # D \<and> q_side q = SELL \<and>
        (r_clientOrderId rsp \<noteq> q_newClientOrderId q \<or> q_newClientOrderId q = [])) \<or>
     (\<exists>o'. D' = Oco o' [] # D)"

text \<open>The amount that is left of a quantity when it is cut to the lots of a symbol.\<close>

definition lots_of :: "bignum \<Rightarrow> string \<Rightarrow> rat \<Rightarrow> rat \<Rightarrow> bool" where
  "lots_of B symbol amount lots \<longleftrightarrow> (\<exists>ei. munge_and_check_quantity B ei symbol amount = Inr lots)"

definition stop_of :: "(string \<Rightarrow> rat \<Rightarrow> rat \<Rightarrow> bool) \<Rightarrow> string \<Rightarrow> rat \<Rightarrow> order_req \<Rightarrow> bool" where
  "stop_of lots symbol amount q \<longleftrightarrow> q_side q = SELL \<and> q_type q = STOP_LOSS_LIMIT \<and> q_symbol q = symbol \<and>
     (\<exists>n. q_quantity q = Some n \<and> lots symbol amount n)"

definition dump_of :: "string \<Rightarrow> rat \<Rightarrow> order_req \<Rightarrow> bool" where
  "dump_of symbol amount q \<longleftrightarrow> q_side q = SELL \<and> q_type q = MARKET \<and> q_symbol q = symbol \<and> q_quantity q = Some amount"

definition oco_of :: "(string \<Rightarrow> rat \<Rightarrow> rat \<Rightarrow> bool) \<Rightarrow> spot_oco_sell_command \<Rightarrow> oco_req \<Rightarrow> bool" where
  "oco_of lots cmd o' \<longleftrightarrow> oco_side o' = SELL \<and> oco_symbol o' = mi_symbol (os_market_identifier cmd) \<and>
     lots (oco_symbol o') (os_base_amount cmd) (oco_quantity o') \<and>
     oco_stopClientOrderId o' = os_stop_ClientOrderId cmd \<and>
     oco_limitClientOrderId o' = os_take_profit_ClientOrderId cmd \<and>
     oco_listClientOrderId o' = os_oco_list_ClientOrderId cmd"

lemma wp_order_deals:
  "wp (order_checked E q) Q R w \<longleftrightarrow>
     (case env_order E (PlaceOrder q # trace w) of
        Inl e \<Rightarrow> R e (w\<lparr>trace := PlaceOrder q # trace w\<rparr>)
      | Inr r \<Rightarrow> if r_clientOrderId r = q_newClientOrderId q then Q r (w\<lparr>trace := PlaceOrder q # trace w\<rparr>)
                 else R (Err ''assert.equal(clientOrderId)'') (w\<lparr>trace := PlaceOrder q # trace w\<rparr>))"
  by (simp add: Let_def)

text \<open>The deals after an order: one more exactly when the exchange accepted it.\<close>

lemma deals_of_order [simp]:
  "env_order E (PlaceOrder q # h) = Inr r \<Longrightarrow> deals_of E (w\<lparr>trace := PlaceOrder q # h\<rparr>) = Order q r # deals E h"
  "env_order E (PlaceOrder q # h) = Inl e \<Longrightarrow> deals_of E (w\<lparr>trace := PlaceOrder q # h\<rparr>) = deals E h"
  "env_oco E (PlaceOco c # h) = Inr i \<Longrightarrow> deals_of E (w\<lparr>trace := PlaceOco c # h\<rparr>) = Oco c i # deals E h"
  "env_oco E (PlaceOco c # h) = Inl e \<Longrightarrow> deals_of E (w\<lparr>trace := PlaceOco c # h\<rparr>) = deals E h"
  by (simp_all add: deals_of_def)

lemma wp_create_limit_buy_order:
  "wp (create_limit_buy_order B E ei pair amount price cid tif)
     (\<lambda>r t. \<exists>q. deals_of E t = Order q r # deals_of E w \<and> q_side q = BUY \<and> q_symbol q = pair)
     (\<lambda>e t. deals_of E t = deals_of E w \<or>
        (\<exists>q r. deals_of E t = Order q r # deals_of E w \<and> q_side q = BUY \<and> q_symbol q = pair \<and>
           r_clientOrderId r \<noteq> q_newClientOrderId q)) w"
  unfolding create_limit_buy_order_def
  by (simp add: Let_def deals_of_def [of E w] split: sum.split)

lemma wp_limit_buy:
  "wp (limit_buy B E cmd tc)
     (\<lambda>r t. bought (mi_symbol (lb_market_identifier cmd)) r (deals_of E w) (deals_of E t)) (\<lambda>_ _. False) w"
  unfolding limit_buy_def wp_tryE wp_bindE
proof (rule wp_quiet [where E = E, OF quiet_context], goal_cases)
  case (1 cid t)
  show ?case
  proof (rule wp_quiet [where E = E, OF quiet_calls(1)], goal_cases)
    case (1 ei u)
    show ?case
      by (rule wp_mono [OF wp_create_limit_buy_order])
        (auto simp: bought_def deals_of_def [of E "u\<lparr>trace := h\<rparr>" for u h] \<open>deals_of E u = _\<close> \<open>deals_of E t = _\<close>
          split: option.split)
  qed (simp add: bought_def \<open>deals_of E t = _\<close>)
qed (simp add: bought_def)

lemma id_mismatch_not_429 [simp]: "\<not> too_many_new_orders (Err ''assert.equal(clientOrderId)'')"
  by (simp add: too_many_new_orders_def)

lemma wp_create_stop:
  assumes "deals_of E s = D"
  shows "wp (munge_and_create_stop_loss_limit_sell_order B E ei pair amount stop limit cid)
     (\<lambda>r t. \<exists>q. deals_of E t = Order q r # D \<and> stop_of (lots_of B) pair amount q \<and> r_clientOrderId r = q_newClientOrderId q)
     (\<lambda>e t. refused D (deals_of E t) \<and> (too_many_new_orders e \<longrightarrow> deals_of E t = D)) s"
  unfolding munge_and_create_stop_loss_limit_sell_order_def
  using assms
  by (auto simp: Let_def deals_of_def [of E s] deals_of_def [of E "s\<lparr>trace := h\<rparr>" for h] refused_def stop_of_def
      lots_of_def munge_amount_and_check_notionals_Inr split: sum.split)

lemma wp_stop_market_sell:
  "wp (stop_market_sell B E cmd)
     (\<lambda>r t. \<exists>q rsp. deals_of E t = Order q rsp # deals_of E w \<and>
        stop_of (lots_of B) (mi_symbol (sm_market_identifier cmd)) (sm_base_amount cmd) q \<and>
        sr_order_id r = q_newClientOrderId q)
     (\<lambda>_ t. refused (deals_of E w) (deals_of E t)) w"
  unfolding stop_market_sell_def wp_bindE
proof (rule wp_quiet [where E = E, OF quiet_context], goal_cases)
  case (1 cid t)
  show ?case
  proof (rule wp_quiet [where E = E, OF quiet_calls(1)], goal_cases)
    case (1 ei u)
    show ?case
      by (rule wp_retries [where E = E and D = "deals_of E w"], rule wp_mono [OF wp_create_stop])
        (auto simp: \<open>deals_of E u = _\<close> \<open>deals_of E t = _\<close> refused_def stop_of_def)
  qed (simp add: refused_def \<open>deals_of E t = _\<close>)
qed (simp add: refused_def)

lemma wp_market_sell:
  "wp (market_sell E cmd)
     (\<lambda>r t. \<exists>q. deals_of E t = Order q r # deals_of E w \<and>
        dump_of (mi_symbol (ms_market_identifier cmd)) (ms_base_amount cmd) q)
     (\<lambda>_ t. refused (deals_of E w) (deals_of E t)) w"
  unfolding market_sell_def wp_bindE
proof (rule wp_quiet [where E = E, OF quiet_context], goal_cases)
  case (1 cid t)
  show ?case
    unfolding create_market_sell_order_def market_order_req_def
    using 1 by (auto simp: Let_def deals_of_def [of E t] deals_of_def [of E "t\<lparr>trace := h\<rparr>" for h] refused_def dump_of_def
      split: sum.split)
qed (simp add: refused_def)

lemma wp_oco_sell_order:
  "wp (oco_sell_order B E cmd)
     (\<lambda>_ t. \<exists>o' i. deals_of E t = Oco o' i # deals_of E w \<and> oco_of (lots_of B) cmd o')
     (\<lambda>_ t. refused (deals_of E w) (deals_of E t)) w"
  unfolding oco_sell_order_def wp_bindE
proof (rule wp_quiet [where E = E, OF quiet_calls(1)], goal_cases)
  case (1 ei u)
  have "wp (munge_and_create_oco_order B E ei (mi_symbol (os_market_identifier cmd)) (os_base_amount cmd)
      (os_take_profit_price cmd) (os_stop_price cmd) (os_stop_limit_price cmd) (os_stop_ClientOrderId cmd)
      (os_take_profit_ClientOrderId cmd) (os_oco_list_ClientOrderId cmd))
      (\<lambda>i t. \<exists>o'. deals_of E t = Oco o' i # deals_of E w \<and> oco_of (lots_of B) cmd o')
      (\<lambda>e t. deals_of E t = deals_of E w) s" if "deals_of E s = deals_of E w" for s
    unfolding munge_and_create_oco_order_def
    using that
    by (auto simp: deals_of_def [of E s] deals_of_def [of E "s\<lparr>trace := h\<rparr>" for h] oco_of_def lots_of_def
        munge_amount_and_check_notionals_Inr split: sum.split)
  note attempt = this
  show ?case
    by (rule wp_retries [where E = E and D = "deals_of E w"], rule wp_mono [OF attempt])
      (use 1 in \<open>auto simp: refused_def\<close>)
qed (simp add: refused_def)

section \<open>The contract of the engine\<close>

text \<open>
  What the executors rely on: the deals of the past are never undone; a limit buy does not reject and
  its result tells its deal; an exit order that resolves is a deal of the right kind and amount, one
  that rejects is refused.
\<close>

locale spot_engine =
  fixes EE :: "'s engine" and log :: "'s \<Rightarrow> deal list" and lots :: "string \<Rightarrow> rat \<Rightarrow> rat \<Rightarrow> bool"
  assumes store_law: "wp (en_store_order_context EE ctx) (\<lambda>_ t. log t = log s) (\<lambda>_ t. log t = log s) s"
    and limit_buy_law: "wp (en_limit_buy EE lcmd tc)
      (\<lambda>r t. bought (mi_symbol (lb_market_identifier lcmd)) r (log s) (log t)) (\<lambda>_ _. False) s"
    and stop_law: "wp (en_stop_market_sell EE scmd)
      (\<lambda>r t. \<exists>q rsp. log t = Order q rsp # log s \<and>
         stop_of lots (mi_symbol (sm_market_identifier scmd)) (sm_base_amount scmd) q \<and>
         sr_order_id r = q_newClientOrderId q)
      (\<lambda>_ t. refused (log s) (log t)) s"
    and dump_law: "wp (en_market_sell EE mcmd)
      (\<lambda>r t. \<exists>q. log t = Order q r # log s \<and> dump_of (mi_symbol (ms_market_identifier mcmd)) (ms_base_amount mcmd) q)
      (\<lambda>_ t. refused (log s) (log t)) s"
    and oco_law: "wp (en_oco_sell_order EE ocmd)
      (\<lambda>_ t. \<exists>o' i. log t = Oco o' i # log s \<and> oco_of lots ocmd o')
      (\<lambda>_ t. refused (log s) (log t)) s"
    and cancel_law: "wp (en_cancel_order EE symbol i) (\<lambda>_ t. log t = log s) (\<lambda>_ t. log t = log s) s"
    and cancel_oco_law: "wp (en_cancel_oco_order EE symbol i) (\<lambda>_ t. log t = log s) (\<lambda>_ t. log t = log s) s"

lemmas binance_engine_sel = binance_engine_def engine.simps

interpretation binance: spot_engine "binance_engine B E" "deals_of E" "lots_of B" for B E
proof unfold_locales
  show "wp (en_limit_buy (binance_engine B E) lcmd tc)
      (\<lambda>r t. bought (mi_symbol (lb_market_identifier lcmd)) r (deals_of E s) (deals_of E t)) (\<lambda>_ _. False) s" for lcmd tc s
    unfolding binance_engine_sel by (rule wp_limit_buy)
  show "wp (en_market_sell (binance_engine B E) mcmd)
      (\<lambda>r t. \<exists>q. deals_of E t = Order q r # deals_of E s \<and>
         dump_of (mi_symbol (ms_market_identifier mcmd)) (ms_base_amount mcmd) q)
      (\<lambda>_ t. refused (deals_of E s) (deals_of E t)) s" for mcmd s
    unfolding binance_engine_sel by (rule wp_market_sell)
qed (unfold binance_engine_sel, (rule wp_stop_market_sell wp_oco_sell_order wp_quiet [where E = E], (rule quiet_intros)?; assumption?)+)

section \<open>Orders are attributed\<close>

text \<open>
  \<open>attributed edge ids w t\<close>: if the ids have a stored context of the edge in \<open>w\<close>, every order placed on
  the way to \<open>t\<close> has one, under each of its ids, and no context of the edge was lost.
\<close>

definition has_context :: "string \<Rightarrow> world \<Rightarrow> string \<Rightarrow> bool" where
  "has_context edge w i \<longleftrightarrow>
     (\<exists>ctx. map_of (store w) (order_context_key binance_spot i) = Some (RContext ctx) \<and> oc_edge ctx = edge)"

fun order_ids :: "effect \<Rightarrow> string set" where
  "order_ids (PlaceOrder q) = {q_newClientOrderId q}"
| "order_ids (PlaceOco c) = {oco_stopClientOrderId c, oco_limitClientOrderId c, oco_listClientOrderId c}"
| "order_ids _ = {}"

definition attributed :: "string \<Rightarrow> string set \<Rightarrow> world \<Rightarrow> world \<Rightarrow> bool" where
  "attributed edge ids w t \<longleftrightarrow> (\<forall>i \<in> ids. has_context edge w i) \<longrightarrow>
     (\<exists>es. trace t = es @ trace w \<and> (\<forall>x \<in> set es. \<forall>i \<in> order_ids x. has_context edge t i)) \<and>
     (\<forall>i. has_context edge w i \<longrightarrow> has_context edge t i)"

lemma attributed_refl [simp]: "reflp (attributed edge ids)"
  by (simp add: reflp_def attributed_def)

lemma attributed_trans [simp]: "transp (attributed edge ids)"
proof (rule transpI)
  fix u v w assume uv: "attributed edge ids u v" and vw: "attributed edge ids v w"
  show "attributed edge ids u w"
    unfolding attributed_def
  proof (intro impI conjI)
    assume ids: "\<forall>i \<in> ids. has_context edge u i"
    then obtain es where es: "trace v = es @ trace u" "\<forall>x \<in> set es. \<forall>i \<in> order_ids x. has_context edge v i"
      and v: "\<forall>i. has_context edge u i \<longrightarrow> has_context edge v i" using uv by (auto simp: attributed_def)
    with ids obtain fs where fs: "trace w = fs @ trace v" "\<forall>x \<in> set fs. \<forall>i \<in> order_ids x. has_context edge w i"
      and w: "\<forall>i. has_context edge v i \<longrightarrow> has_context edge w i" using vw by (auto simp: attributed_def)
    show "\<exists>es. trace w = es @ trace u \<and> (\<forall>x \<in> set es. \<forall>i \<in> order_ids x. has_context edge w i)"
      using es fs w by (intro exI [of _ "fs @ es"]) auto
    show "\<forall>i. has_context edge u i \<longrightarrow> has_context edge w i" using v w by blast
  qed
qed

named_theorems attributed_intros

lemmas attributed_basic [attributed_intros] =
  keeps_returnE [OF attributed_refl] keeps_throwE [OF attributed_refl] keeps_getE [OF attributed_refl]
  keeps_liftE [OF attributed_refl] keeps_assertE [OF attributed_refl] keeps_forE [OF attributed_refl attributed_trans]
  keeps_bindE [OF attributed_trans] keeps_seqE [OF attributed_trans] keeps_tryE [OF attributed_trans] keeps_case

lemma attributed_emit: "order_ids x \<subseteq> ids \<Longrightarrow> keeps (attributed edge ids) (emit x)"
  by (auto simp: keeps_wp attributed_def has_context_def)

lemma attributed_redis_call [attributed_intros]:
  "keeps (attributed edge ids) m \<Longrightarrow> keeps (attributed edge ids) (redis_call E c m)"
  unfolding redis_call_def
  by (intro attributed_intros attributed_emit) (auto split: redis_fault.split intro!: attributed_intros)

lemma attributed_call_out:
  "order_ids x \<subseteq> ids \<Longrightarrow> keeps (attributed edge ids) (call_out x answer)"
  unfolding call_out_def by (intro attributed_intros attributed_emit keeps_bindE [OF attributed_trans])

lemma attributed_calls [attributed_intros]:
  "keeps (attributed edge ids) (get_exchange_info E)" "keeps (attributed edge ids) (prices E)"
  "keeps (attributed edge ids) (now E)" "keeps (attributed edge ids) (alert m)"
  "keeps (attributed edge ids) (emit (Sleep n))"
  "keeps (attributed edge ids) (cancel_order E s i)" "keeps (attributed edge ids) (cancel_oco_order E s i)"
  unfolding get_exchange_info_def prices_def now_def alert_def cancel_order_def cancel_oco_order_def
  by (intro attributed_intros attributed_call_out attributed_emit; simp)+

lemma attributed_order [attributed_intros]:
  "q_newClientOrderId q \<in> ids \<Longrightarrow> keeps (attributed edge ids) (order_checked E q)"
  unfolding order_checked_def ee_order_def by (intro attributed_intros attributed_call_out) simp_all

lemma attributed_set_string_key [attributed_intros]: "keeps (attributed edge ids) (set_string_key E p n v)"
proof (cases "name_to_key p n")
  case (Inr k)
  have "keeps (attributed edge ids) (modifyE (\<lambda>w. w\<lparr>store := AList.update k v (store w)\<rparr>))"
    using key_not_context [OF Inr]
    by (auto simp: keeps_wp attributed_def has_context_def update_conv')
  then show ?thesis unfolding set_string_key_def redis_set_def Inr liftE_Inr_bind by (rule attributed_redis_call)
next
  case (Inl e)
  then show ?thesis by (simp add: set_string_key_def keeps_wp attributed_def)
qed

text \<open>A fresh id is attributed from the moment its context is stored.\<close>

lemma attributed_store_context:
  assumes "oc_edge ctx = edge" "\<And>cid. keeps (attributed edge (insert cid ids)) (m cid)"
  shows "keeps (attributed edge ids) (bindE (store_order_context_and_generate_clientOrderId E ctx) m)"
  unfolding keeps_wp wp_bindE
proof
  fix w
  have distinct: "order_context_key binance_spot i = order_context_key binance_spot j \<longleftrightarrow> i = j" for i j
    by (simp add: order_context_key_def)
  have "wp (store_order_context_and_generate_clientOrderId E ctx)
    (\<lambda>cid t. attributed edge ids w t \<and> has_context edge t cid) (\<lambda>_ t. attributed edge ids w t) w"
    using assms(1)
    by (auto simp: store_order_context_and_generate_clientOrderId_def set_order_context_for_order_def redis_set_def
        wp_redis_call Let_def attributed_def has_context_def update_conv' distinct split: redis_fault.split)
  then show "wp (store_order_context_and_generate_clientOrderId E ctx)
    (\<lambda>cid. wp (m cid) (\<lambda>_. attributed edge ids w) (\<lambda>_. attributed edge ids w)) (\<lambda>_. attributed edge ids w) w"
  proof (rule wp_mono)
    fix cid t assume t: "attributed edge ids w t \<and> has_context edge t cid"
    have "attributed edge (insert cid ids) t (snd (m cid t))" using assms(2) by (rule keepsD)
    with t have "attributed edge ids w (snd (m cid t))"
      using transpD [OF attributed_trans, of edge ids w t "snd (m cid t)"] by (auto simp: attributed_def)
    then show "wp (m cid) (\<lambda>_. attributed edge ids w) (\<lambda>_. attributed edge ids w) t" by (simp add: wp_final_iff)
  qed simp
qed

lemma attributed_retries [attributed_intros]:
  "keeps (attributed edge ids) m \<Longrightarrow> keeps (attributed edge ids) (execute_with_429_retries m)"
  unfolding execute_with_429_retries_def
  by (rule keeps_retry_loop) (simp_all add: attributed_intros)

lemma attributed_limit_buy [attributed_intros]:
  "oc_edge (lb_order_context cmd) = edge \<Longrightarrow> keeps (attributed edge ids) (limit_buy B E cmd tc)"
  unfolding limit_buy_def create_limit_buy_order_def
  by (intro attributed_intros attributed_store_context) (auto intro!: attributed_intros split: option.split)

lemma attributed_stop_market_sell [attributed_intros]:
  "oc_edge (sm_order_context cmd) = edge \<Longrightarrow> keeps (attributed edge ids) (stop_market_sell B E cmd)"
  unfolding stop_market_sell_def munge_and_create_stop_loss_limit_sell_order_def
  by (intro attributed_store_context) (auto intro!: attributed_intros)

lemma attributed_market_sell [attributed_intros]:
  "oc_edge (ms_order_context cmd) = edge \<Longrightarrow> keeps (attributed edge ids) (market_sell E cmd)"
  unfolding market_sell_def create_market_sell_order_def market_order_req_def
  by (intro attributed_store_context) (auto intro!: attributed_intros)

lemma attributed_oco_sell_order [attributed_intros]:
  "{os_stop_ClientOrderId cmd, os_take_profit_ClientOrderId cmd, os_oco_list_ClientOrderId cmd} \<subseteq> ids \<Longrightarrow>
   keeps (attributed edge ids) (oco_sell_order B E cmd)"
  unfolding oco_sell_order_def munge_and_create_oco_order_def
  by (auto intro!: attributed_intros attributed_call_out)

section \<open>Properties\<close>

text \<open>
  A limit buy never rejects, and its result tells the truth about the exchange.  \<open>FILLED\<close> and
  \<open>ENTRY_FAILED_TO_FILL\<close> stand for exactly one accepted buy order of the symbol, with the executed
  amounts the exchange replied, zero in the second case; every other result stands for no accepted
  order, unless the exchange acknowledged it under an id that was not asked for.
\<close>

theorem limit_buy_result_tells_the_deal:
  "\<exists>r t. limit_buy B E cmd tc w = (Inr r, t) \<and>
    bought (mi_symbol (lb_market_identifier cmd)) r (deals_of E w) (deals_of E t)"
  using wp_limit_buy [of B E cmd tc w] by (auto simp: wp_def split: prod.splits sum.splits)

definition tries :: "effect \<Rightarrow> nat \<Rightarrow> world \<Rightarrow> world \<Rightarrow> bool" where
  "tries x n s t \<longleftrightarrow> (\<exists>es. trace t = es @ trace s \<and> set es \<subseteq> {x, Sleep 11000} \<and>
     count_list es x \<le> n \<and> count_list es (Sleep 11000) \<le> n - 1)"

lemma tries_once:
  "x \<noteq> Sleep 11000 \<Longrightarrow> trace t = trace s \<or> trace t = x # trace s \<Longrightarrow> tries x (Suc n) s t"
  by (auto simp: tries_def intro: exI [of _ "[]"] exI [of _ "[x]"])

lemma tries_again:
  assumes "x \<noteq> Sleep 11000" "trace t = trace s \<or> trace t = x # trace s" "0 < n"
    and "tries x n (t\<lparr>trace := Sleep 11000 # trace t\<rparr>) u"
  shows "tries x (Suc n) s u"
proof -
  obtain es where es: "trace u = es @ Sleep 11000 # trace t" "set es \<subseteq> {x, Sleep 11000}"
      "count_list es x \<le> n" "count_list es (Sleep 11000) \<le> n - 1" using assms(4) by (auto simp: tries_def)
  have "\<exists>fs. trace u = es @ Sleep 11000 # fs @ trace s \<and> (fs = [] \<or> fs = [x])"
    using assms(2) es(1) by (elim disjE) (auto intro: exI [of _ "[]"] exI [of _ "[x]"])
  then obtain fs where "trace u = (es @ Sleep 11000 # fs) @ trace s" "fs = [] \<or> fs = [x]" by auto
  then show ?thesis
    unfolding tries_def using es(2-4) assms(1,3) by (intro exI [of _ "es @ Sleep 11000 # fs"]) auto
qed

lemma retry_loop_tries:
  assumes "\<And>s. wp func (\<lambda>_ t. trace t = trace s \<or> trace t = x # trace s)
      (\<lambda>_ t. trace t = trace s \<or> trace t = x # trace s) s" "x \<noteq> Sleep 11000" "0 < n"
  shows "wp (retry_loop n func) (\<lambda>_. tries x n s) (\<lambda>_. tries x n s) s"
  using assms(3)
proof (induction n arbitrary: s)
  case (Suc n)
  have again: "wp (if n = 0 then throwE err else if too_many_new_orders err
      then seqE (emit (Sleep (11 * 1000))) (retry_loop n func) else throwE err)
      (\<lambda>_. tries x (Suc n) s) (\<lambda>_. tries x (Suc n) s) t"
    if t: "trace t = trace s \<or> trace t = x # trace s" for err t
  proof (cases "n = 0 \<or> \<not> too_many_new_orders err")
    case True
    then show ?thesis using tries_once [OF assms(2) t] by auto
  next
    case False
    then have "wp (retry_loop n func) (\<lambda>_. tries x (Suc n) s) (\<lambda>_. tries x (Suc n) s)
        (t\<lparr>trace := Sleep 11000 # trace t\<rparr>)"
      using tries_again [OF assms(2) t] by (intro wp_mono [OF Suc.IH]) auto
    then show ?thesis using False by simp
  qed
  show ?case
    unfolding retry_loop.simps wp_tryE
    by (rule wp_mono [OF assms(1)]) (rule tries_once [OF assms(2)], assumption, rule again)
qed simp

lemma create_stop_one_order:
  "\<exists>q. \<forall>s. wp (munge_and_create_stop_loss_limit_sell_order B E ei pair amount stop limit cid)
     (\<lambda>_ t. trace t = trace s \<or> trace t = PlaceOrder q # trace s)
     (\<lambda>_ t. trace t = trace s \<or> trace t = PlaceOrder q # trace s) s"
  by (rule exI [of _ "\<lparr>q_symbol = pair, q_side = SELL, q_type = STOP_LOSS_LIMIT,
     q_quantity = Some (projr (munge_amount_and_check_notionals B ei pair amount
       (no_prices\<lparr>np_stop_price := Some (projr (munge_and_check_price B ei pair stop))\<rparr>))),
     q_quoteOrderQty = None, q_price = Some (projr (munge_and_check_price B ei pair limit)),
     q_stopPrice = Some (projr (munge_and_check_price B ei pair stop)), q_newClientOrderId = cid,
     q_timeInForce = None, q_newOrderRespType = None\<rparr>"])
    (auto simp: munge_and_create_stop_loss_limit_sell_order_def Let_def split: sum.split)

text \<open>
  A stop order is retried without being doubled.  However the exchange answers, one call places at
  most three orders, all of them the same request under the same client id, so the exchange can
  recognise a repetition, and it pauses for eleven seconds at most twice.
\<close>

theorem stop_order_retries_are_repeats:
  "\<exists>q es. trace (snd (stop_market_sell B E cmd w)) = es @ trace w \<and>
     {q'. PlaceOrder q' \<in> set es} \<subseteq> {q} \<and> count_list es (PlaceOrder q) \<le> 3 \<and> count_list es (Sleep 11000) \<le> 2"
proof -
  let ?P = "\<lambda>t. \<exists>q es. trace t = es @ trace w \<and> {q'. PlaceOrder q' \<in> set es} \<subseteq> {q} \<and>
     count_list es (PlaceOrder q) \<le> 3 \<and> count_list es (Sleep 11000) \<le> 2"
  have none: "?P t" if "trace t = GetExchangeInfo # Redis c # trace w \<or> trace t = Redis c # trace w \<or> trace t = trace w" for t c
    using that by (elim disjE) (auto intro: exI [of _ "[GetExchangeInfo, Redis c]"] exI [of _ "[Redis c]"] exI [of _ "[]"])
  have some: "?P t" if t: "tries (PlaceOrder q) 3 u t" and u: "trace u = GetExchangeInfo # Redis c # trace w" for q c u t
  proof -
    obtain es where "trace t = es @ trace u" "set es \<subseteq> {PlaceOrder q, Sleep 11000}"
        "count_list es (PlaceOrder q) \<le> 3" "count_list es (Sleep 11000) \<le> 2" using t by (auto simp: tries_def)
    then show ?thesis using u
      by (intro exI [of _ q] exI [of _ "es @ [GetExchangeInfo, Redis c]"]) auto
  qed
  have store: "wp (store_order_context_and_generate_clientOrderId E ctx)
    (\<lambda>_ t. \<exists>c. trace t = Redis c # trace w) (\<lambda>_ t. \<exists>c. trace t = Redis c # trace w \<or> trace t = trace w) w" for ctx
    by (auto simp: store_order_context_and_generate_clientOrderId_def set_order_context_for_order_def redis_set_def
        wp_redis_call Let_def split: redis_fault.split)
  have "wp (stop_market_sell B E cmd) (\<lambda>_. ?P) (\<lambda>_. ?P) w"
    unfolding stop_market_sell_def wp_bindE
  proof (rule wp_mono [OF store], goal_cases)
    case (1 cid t)
    then obtain c where t: "trace t = Redis c # trace w" by blast
    show ?case
    proof (cases "env_exchange_info E (GetExchangeInfo # trace t)")
      case (Inl e)
      then show ?thesis using none t by (auto simp: get_exchange_info_def)
    next
      case (Inr ei)
      let ?u = "t\<lparr>trace := GetExchangeInfo # trace t\<rparr>"
      let ?m = "munge_and_create_stop_loss_limit_sell_order B E ei (mi_symbol (sm_market_identifier cmd))
        (sm_base_amount cmd) (sm_trigger_price cmd) (sm_trigger_price cmd * (8 / 10)) cid"
      obtain q where q: "\<And>s. wp ?m (\<lambda>_ t. trace t = trace s \<or> trace t = PlaceOrder q # trace s)
          (\<lambda>_ t. trace t = trace s \<or> trace t = PlaceOrder q # trace s) s"
        using create_stop_one_order by blast
      have "wp (execute_with_429_retries ?m) (\<lambda>_. ?P) (\<lambda>_. ?P) ?u"
        unfolding execute_with_429_retries_def
        by (rule wp_mono [OF retry_loop_tries [OF q]]) (auto intro!: some [of q ?u _ c] simp: t)
      then show ?thesis by (simp add: get_exchange_info_def Inr) (erule wp_mono; simp split: if_splits)
    qed
  next
    case (2 e t)
    then show ?case using none by blast
  qed
  then show ?thesis by (rule wp_final)
qed

text \<open>
  The rate limit is recognised by the text of the message alone.  An attempt refused with the error
  code the source names, -1015, but with another text, is not retried: the error is passed on after
  the first attempt and without a pause.
\<close>

theorem rate_limit_code_is_ignored:
  assumes "func w = (Inl (JsError m (Some (- 1015))), t)" "\<not> contains ''Too many new orders'' m"
  shows "execute_with_429_retries func w = (Inl (JsError m (Some (- 1015))), t)"
  using assms(2) unfolding execute_with_429_retries_def wp_outcome
  by (simp add: eval_nat_numeral wp_of_eq [of func w, OF assms(1)] too_many_new_orders_def)

definition limited_env :: env where
  "limited_env = (quiet_env [])\<lparr>env_order := \<lambda>_. Inl (JsError ''Rate limit reached'' (Some (- 1015)))\<rparr>"

theorem rate_limit_code_is_ignored_witness:
  "\<exists>t. execute_with_429_retries (create_market_sell_order limited_env 1 ''ETHUSDT'' ''id'') empty_world =
     (Inl (JsError ''Rate limit reached'' (Some (- 1015))), t) \<and> length (trace t) = 1"
proof -
  let ?q = "(market_order_req SELL ''ETHUSDT'' ''id'')\<lparr>q_quantity := Some 1, q_newOrderRespType := Some ''RESULT''\<rparr>"
  have "create_market_sell_order limited_env 1 ''ETHUSDT'' ''id'' empty_world =
      (Inl (JsError ''Rate limit reached'' (Some (- 1015))), empty_world\<lparr>trace := [PlaceOrder ?q]\<rparr>)"
    unfolding wp_outcome create_market_sell_order_def by (simp add: limited_env_def empty_world_def)
  from rate_limit_code_is_ignored [of "create_market_sell_order limited_env 1 ''ETHUSDT'' ''id''", OF this]
  show ?thesis by (simp add: empty_world_def)
qed

end
