(* ===== verification/Portfolio.thy ===== *)
theory Portfolio
  imports ExecutionEngine Orders
begin

text \<open>
  Portfolios and their values: \<open>classes/utils/spot-portfolio-utils.ts\<close>, \<open>portfolio-snapshot.ts\<close>, the
  portfolio tracker (\<open>services/binance/spot/portfolio_tracker\<close>), the portfolio publisher
  (\<open>services/binance/spot/portfolio-to-amqp\<close>) and the comparison of the exchange's holdings with the
  positions in Redis (\<open>services/spot-portfolio-vs-positions-checker\<close>).  The icons that open some of the
  messages to the user are left out.
\<close>

section \<open>Numbers that need not be finite\<close>

text \<open>A \<open>BigNumber\<close> that may be the result of a division by zero; \<open>Infinite True\<close> is negative.\<close>

datatype big = Num rat | Infinite bool | NotANumber

fun big_plus :: "big \<Rightarrow> big \<Rightarrow> big" where
  "big_plus (Num x) (Num y) = Num (x + y)"
| "big_plus NotANumber _ = NotANumber"
| "big_plus _ NotANumber = NotANumber"
| "big_plus (Infinite s) (Infinite t) = (if s = t then Infinite s else NotANumber)"
| "big_plus (Infinite s) (Num _) = Infinite s"
| "big_plus (Num _) (Infinite s) = Infinite s"

fun big_div :: "bignum \<Rightarrow> big \<Rightarrow> big \<Rightarrow> big" where
  "big_div B (Num x) (Num y) =
     (if y \<noteq> 0 then Num (bn_div B x y) else if x = 0 then NotANumber else Infinite (x < 0))"
| "big_div B (Num _) (Infinite _) = Num 0"
| "big_div B (Infinite s) (Num y) = Infinite (s \<noteq> (y < 0))"
| "big_div B _ _ = NotANumber"

fun big_times :: "big \<Rightarrow> rat \<Rightarrow> big" where
  "big_times (Num x) y = Num (x * y)"
| "big_times (Infinite s) y = (if y = 0 then NotANumber else Infinite (s \<noteq> (y < 0)))"
| "big_times NotANumber y = NotANumber"

fun big_dp :: "bignum \<Rightarrow> nat \<Rightarrow> big \<Rightarrow> big" where
  "big_dp B n (Num x) = Num (bn_dp B n x)"
| "big_dp B n x = x"

text \<open>\<open>isLessThan\<close> and \<open>isGreaterThanOrEqualTo\<close> a finite number; both fail for what is not a number.\<close>

fun big_less :: "big \<Rightarrow> rat \<Rightarrow> bool" where
  "big_less (Num x) y = (x < y)"
| "big_less (Infinite s) y = s"
| "big_less NotANumber y = False"

fun big_at_least :: "big \<Rightarrow> rat \<Rightarrow> bool" where
  "big_at_least (Num x) y = (y \<le> x)"
| "big_at_least (Infinite s) y = (\<not> s)"
| "big_at_least NotANumber y = False"

text \<open>The text of a number rounded to an integer.\<close>

fun big_text :: "bignum \<Rightarrow> big \<Rightarrow> string" where
  "big_text B (Num x) = int_string \<lfloor>bn_dp B 0 x\<rfloor>"
| "big_text B (Infinite s) = (if s then ''-Infinity'' else ''Infinity'')"
| "big_text B NotANumber = ''NaN''"

fun join_with :: "string \<Rightarrow> string list \<Rightarrow> string" where
  "join_with sep [] = []"
| "join_with sep [x] = x"
| "join_with sep (x # xs) = x @ sep @ join_with sep xs"

section \<open>SpotPortfolioUtils\<close>

type_synonym price_table = "string \<rightharpoonup> rat"

text \<open>\<open>Balance\<close>; \<open>quote_equivalents\<close> may be undefined.\<close>

record balance = asset_balance +
  b_quote_equivalents :: "(string \<rightharpoonup> big) option"

record spot_portfolio =
  sp_usd_value :: "string option"
  sp_balances :: "balance list"
  sp_prices :: "price_table option"
  sp_quote_values_added :: "string list option"

definition convert_base_to_quote_currency :: "bignum \<Rightarrow> price_table \<Rightarrow> rat \<Rightarrow> string \<Rightarrow> string \<Rightarrow> js_error + big" where
  "convert_base_to_quote_currency B ps base_quantity base_currency quote_currency =
     (if base_currency = quote_currency then Inr (Num base_quantity)
      else if base_quantity = 0 then Inr (Num 0)
      else
        case ps (base_currency @ quote_currency) of
          Some price \<Rightarrow> Inr (Num (base_quantity * price))
        | None \<Rightarrow>
            (case ps (quote_currency @ base_currency) of
               Some price \<Rightarrow> Inr (big_div B (Num base_quantity) (Num price))
             | None \<Rightarrow> Inl (Err (''Pair '' @ base_currency @ quote_currency @ '' not available when converting '' @
                 base_currency @ '' to '' @ quote_currency))))"

definition total_balance :: "bignum \<Rightarrow> 'a asset_balance_scheme \<Rightarrow> rat" where
  "total_balance B b = bn_dp B 8 (b_free b + b_locked b)"

definition total_balance_bignum :: "'a asset_balance_scheme \<Rightarrow> rat" where
  "total_balance_bignum b = b_free b + b_locked b"

definition get_total_value_of_balance_in_quote_currency ::
    "bignum \<Rightarrow> price_table \<Rightarrow> string \<Rightarrow> 'a asset_balance_scheme \<Rightarrow> js_error + big" where
  "get_total_value_of_balance_in_quote_currency B ps quote_currency b =
     (let base_quantity = b_free b + b_locked b in
      if b_asset b = quote_currency then Inr (Num base_quantity)
      else convert_base_to_quote_currency B ps base_quantity (b_asset b) quote_currency)"

definition get_free_balance_in_quote_currency ::
    "bignum \<Rightarrow> price_table \<Rightarrow> string \<Rightarrow> 'a asset_balance_scheme \<Rightarrow> js_error + big" where
  "get_free_balance_in_quote_currency B ps quote_currency b =
     (let base_quantity = b_free b in
      if b_asset b = quote_currency then Inr (Num base_quantity)
      else if base_quantity = 0 then Inr (Num base_quantity)
      else convert_base_to_quote_currency B ps base_quantity (b_asset b) quote_currency)"

definition get_balances_with_free_greater_than ::
    "bignum \<Rightarrow> spot_portfolio \<Rightarrow> string \<Rightarrow> rat \<Rightarrow> price_table \<Rightarrow> string list \<Rightarrow> (string \<times> big) list" where
  "get_balances_with_free_greater_than B portfolio quote_currency quote_amount ps base_assets_to_ignore =
     (let mapper = (\<lambda>b. (b_asset b, case get_free_balance_in_quote_currency B ps quote_currency b of
            Inr x \<Rightarrow> Some x | Inl _ \<Rightarrow> None));
          everything = map mapper (filter (\<lambda>b. b_asset b \<notin> set base_assets_to_ignore) (sp_balances portfolio))
      in List.map_filter (\<lambda>(asset, q). case q of
           Some x \<Rightarrow> if big_at_least x quote_amount then Some (asset, x) else None
         | None \<Rightarrow> None) everything)"

text \<open>
  The portfolio object is the state.  A call returns its argument itself or a copy of it; the objects
  \<open>quote_equivalents\<close> of the balances that have one are shared with the copy, and written.
\<close>

datatype returned = Argument | Copy spot_portfolio

definition quote_equivalent_added :: "bignum \<Rightarrow> price_table \<Rightarrow> string \<Rightarrow> balance \<Rightarrow> balance" where
  "quote_equivalent_added B ps quote_currency b =
     (case get_total_value_of_balance_in_quote_currency B ps quote_currency b of
        Inl _ \<Rightarrow> b
      | Inr quote_value \<Rightarrow>
          b\<lparr>b_quote_equivalents := Some ((case b_quote_equivalents b of Some m \<Rightarrow> m | None \<Rightarrow> Map.empty)
              (quote_currency \<mapsto> big_dp B 8 quote_value))\<rparr>)"

definition quote_equivalent_shared :: "bignum \<Rightarrow> price_table \<Rightarrow> string \<Rightarrow> balance \<Rightarrow> balance" where
  "quote_equivalent_shared B ps quote_currency b =
     (case b_quote_equivalents b of None \<Rightarrow> b | Some _ \<Rightarrow> quote_equivalent_added B ps quote_currency b)"

definition unprocessed :: "bignum \<Rightarrow> price_table \<Rightarrow> string \<Rightarrow> balance list \<Rightarrow> string list" where
  "unprocessed B ps quote_currency bs =
     map b_asset (filter (\<lambda>b. case get_total_value_of_balance_in_quote_currency B ps quote_currency b of
       Inl _ \<Rightarrow> True | Inr _ \<Rightarrow> False) bs)"

definition add_quote_value_to_portfolio_balances ::
    "bignum \<Rightarrow> string \<Rightarrow> (spot_portfolio, returned \<times> string list) prog" where
  "add_quote_value_to_portfolio_balances B quote_currency =
     bindE (getE sp_quote_values_added) (\<lambda>added.
       let added = (case added of Some l \<Rightarrow> l | None \<Rightarrow> []) in
       if quote_currency \<in> set added then returnE (Argument, [])
       else
         seqE (modifyE (\<lambda>p. p\<lparr>sp_quote_values_added := Some (added @ [quote_currency])\<rparr>))
         (bindE (getE (\<lambda>p. p)) (\<lambda>portfolio.
            case sp_prices portfolio of
              None \<Rightarrow> throwE (Err ''Cannot add_quote_value_to_portfolio_balances when portfolio has no prices'')
            | Some ps \<Rightarrow>
                seqE (modifyE (\<lambda>p. p\<lparr>sp_balances := map (quote_equivalent_shared B ps quote_currency) (sp_balances p)\<rparr>))
                  (returnE
                    (Copy (portfolio\<lparr>sp_balances := map (quote_equivalent_added B ps quote_currency) (sp_balances portfolio)\<rparr>),
                     unprocessed B ps quote_currency (sp_balances portfolio))))))"

definition returned_portfolio :: "returned \<Rightarrow> (spot_portfolio, spot_portfolio) prog" where
  "returned_portfolio r = (case r of Argument \<Rightarrow> getE (\<lambda>p. p) | Copy p \<Rightarrow> returnE p)"

definition quote_equivalent :: "string \<Rightarrow> balance \<Rightarrow> big option" where
  "quote_equivalent quote_currency b =
     (case b_quote_equivalents b of None \<Rightarrow> None | Some m \<Rightarrow> m quote_currency)"

definition total_of :: "string \<Rightarrow> balance list \<Rightarrow> big" where
  "total_of quote_currency bs =
     fold (\<lambda>b total. big_plus total (case quote_equivalent quote_currency b of Some x \<Rightarrow> x | None \<Rightarrow> Num 0)) bs (Num 0)"

definition calculate_portfolio_value_in_quote_currency ::
    "bignum \<Rightarrow> string \<Rightarrow> (spot_portfolio, big \<times> string list) prog" where
  "calculate_portfolio_value_in_quote_currency B quote_currency =
     bindE (add_quote_value_to_portfolio_balances B quote_currency) (\<lambda>(r, unprocessed_balances).
     bindE (returned_portfolio r) (\<lambda>portfolio.
       case sp_prices portfolio of
         None \<Rightarrow> throwE (Err ''Cannot calculate_portfolio_value_in_quote_currency when portfolio has no prices'')
       | Some _ \<Rightarrow> returnE (total_of quote_currency (sp_balances portfolio), unprocessed_balances)))"

text \<open>The comparison function sorts the largest values first and keeps the order of equal ones.\<close>

definition largest_first :: "string \<Rightarrow> balance list \<Rightarrow> balance list" where
  "largest_first quote_currency bs =
     filter (\<lambda>b. quote_equivalent quote_currency b = Some (Infinite False)) bs @
     sort_key (\<lambda>b. case quote_equivalent quote_currency b of Some (Num x) \<Rightarrow> - x | _ \<Rightarrow> 0)
       (filter (\<lambda>b. case quote_equivalent quote_currency b of Some (Num _) \<Rightarrow> True | _ \<Rightarrow> False) bs) @
     filter (\<lambda>b. quote_equivalent quote_currency b = Some (Infinite True)) bs"

definition balance_snippet :: "bignum \<Rightarrow> string \<Rightarrow> big \<Rightarrow> balance \<Rightarrow> string option" where
  "balance_snippet B quote_currency quote_total b =
     (if b_asset b = quote_currency
      then Some (quote_currency @ '' ('' @
        big_text B (big_times (big_div B (Num (total_balance B b)) quote_total) 100) @ ''%)'')
      else
        case quote_equivalent quote_currency b of
          None \<Rightarrow> None
        | Some x \<Rightarrow>
            if total_balance_bignum b = 0 then None
            else
              let percentage = big_times (big_div B x quote_total) 100 in
              if big_less percentage (3 / 10) then None
              else Some (b_asset b @ '' ('' @ big_text B percentage @ ''%)''))"

definition balances_to_string :: "bignum \<Rightarrow> string \<Rightarrow> (spot_portfolio, string) prog" where
  "balances_to_string B quote_currency =
     bindE (calculate_portfolio_value_in_quote_currency B quote_currency) (\<lambda>(quote_total, _).
     bindE (add_quote_value_to_portfolio_balances B quote_currency) (\<lambda>(r, _).
     bindE (returned_portfolio r) (\<lambda>portfolio.
       returnE (join_with '', ''
         (List.map_filter (balance_snippet B quote_currency quote_total)
           (largest_first quote_currency
             (filter (\<lambda>b. quote_equivalent quote_currency b \<noteq> None) (sp_balances portfolio))))))))"

definition balance_for_asset :: "string \<Rightarrow> spot_portfolio \<Rightarrow> balance option" where
  "balance_for_asset asset portfolio = List.find (\<lambda>b. b_asset b = asset) (sp_balances portfolio)"

section \<open>PortfolioSnapshot\<close>

fun mapE :: "('x \<Rightarrow> ('s, 'a) prog) \<Rightarrow> 'x list \<Rightarrow> ('s, 'a list) prog" where
  "mapE f [] = returnE []"
| "mapE f (x # xs) = bindE (f x) (\<lambda>y. bindE (mapE f xs) (\<lambda>ys. returnE (y # ys)))"

definition portfolio_base_assets_to_ignore :: "string list" where
  "portfolio_base_assets_to_ignore = [''AGI'']"

text \<open>
  With prices given, the source filters once more with a predicate that returns a promise.  A promise is
  truthy, so nothing is removed.
\<close>

definition take_snapshot :: "env \<Rightarrow> (world, asset_balance list) prog" where
  "take_snapshot E =
     bindE (get_exchange_info E) (\<lambda>ei.
     bindE (call_out GetAccountInfo (env_account_info E)) (\<lambda>bs.
       let symbols = filter s_isSpotTradingAllowed ei;
           bs = filter (\<lambda>b. List.find (\<lambda>s. s_baseAsset s = b_asset b) symbols \<noteq> None) bs;
           bs = filter (\<lambda>b. b_asset b \<notin> set portfolio_base_assets_to_ignore) bs
       in returnE bs))"

definition to_symbol :: "env \<Rightarrow> string \<Rightarrow> string \<Rightarrow> (world, string option) prog" where
  "to_symbol E base_asset quote_asset =
     bindE (get_exchange_info E) (\<lambda>ei.
       returnE (map_option s_symbol (List.find (\<lambda>s. s_baseAsset s = base_asset \<and> s_quoteAsset s = quote_asset) ei)))"

record balance_with_quote_value = asset_balance +
  b_quote_asset :: string
  b_total_quote_asset_value :: "rat option"

text \<open>The value of an amount of the base asset; \<open>BigNumber\<close> throws on the price \<open>undefined\<close>.\<close>

definition value_at_price :: "price_table \<Rightarrow> string option \<Rightarrow> rat \<Rightarrow> js_error + rat" where
  "value_at_price ps symbol amount =
     (case symbol of
        None \<Rightarrow> Inl (Err ''No symbol'')
      | Some s \<Rightarrow> (case ps s of
          None \<Rightarrow> Inl (Err ''[BigNumber Error] Not a number: undefined'')
        | Some price \<Rightarrow> Inr (price * amount)))"

definition with_quote_value ::
    "env \<Rightarrow> asset_balance list option \<Rightarrow> string \<Rightarrow> price_table \<Rightarrow> (world, balance_with_quote_value list) prog" where
  "with_quote_value E bs quote_asset ps =
     (case bs of
        None \<Rightarrow> returnE []
      | Some bs \<Rightarrow> mapE (\<lambda>b.
          let position_size = b_free b + b_locked b in
          bindE
            (if position_size = 0 then returnE (Some 0)
             else tryE
               (bindE (to_symbol E (b_asset b) quote_asset) (\<lambda>symbol.
                bindE (liftE (value_at_price ps symbol position_size)) (\<lambda>x. returnE (Some x))))
               (\<lambda>_. returnE None))
            (\<lambda>quote_value. returnE \<lparr>b_asset = b_asset b, b_free = b_free b, b_locked = b_locked b,
               b_quote_asset = quote_asset, b_total_quote_asset_value = quote_value\<rparr>)) bs)"

section \<open>The reports of a portfolio\<close>

text \<open>
  \<open>decorate_portfolio\<close> of both services.  The total is read off after the quote currency has been added,
  which changes the portfolio no more.
\<close>

definition decorate_portfolio :: "bignum \<Rightarrow> string \<Rightarrow> (spot_portfolio, returned) prog" where
  "decorate_portfolio B quote_currency =
     bindE (add_quote_value_to_portfolio_balances B quote_currency) (\<lambda>(r, _).
     bindE (returned_portfolio r) (\<lambda>portfolio.
       case sp_prices portfolio of
         None \<Rightarrow> throwE (Err ''No prices'')
       | Some _ \<Rightarrow>
           bindE (liftE (fst (calculate_portfolio_value_in_quote_currency B quote_currency portfolio))) (\<lambda>(total, _).
             let usd_value = Some (big_text B total) in
             case r of
               Argument \<Rightarrow> seqE (modifyE (\<lambda>p. p\<lparr>sp_usd_value := usd_value\<rparr>)) (returnE Argument)
             | Copy p \<Rightarrow> returnE (Copy (p\<lparr>sp_usd_value := usd_value\<rparr>)))))"

definition portfolio_quote :: string where
  "portfolio_quote = ''BUSD''"

definition portfolio_message :: "bignum \<Rightarrow> spot_portfolio \<Rightarrow> string" where
  "portfolio_message B portfolio =
     ''U: '' @ (case sp_usd_value portfolio of Some v \<Rightarrow> v | None \<Rightarrow> ''undefined'') @
     '', #'' @ nat_string (length (sp_balances portfolio)) @
     (case fst (balances_to_string B portfolio_quote portfolio) of Inr s \<Rightarrow> '' as '' @ s | Inl _ \<Rightarrow> []) @
     (case sp_prices portfolio of
        None \<Rightarrow> []
      | Some ps \<Rightarrow> (case ps ''BTCUSDT'' of Some price \<Rightarrow> '' BTCUSDT: '' @ big_text B (Num price) | None \<Rightarrow> []))"

definition check_bnb_balance :: "bignum \<Rightarrow> string \<Rightarrow> spot_portfolio \<Rightarrow> price_table \<Rightarrow> (world, unit) prog" where
  "check_bnb_balance B quote_currency portfolio ps =
     (let trigger = 50;
          bnb_balance = (case balance_for_asset ''BNB'' portfolio of Some b \<Rightarrow> b_free b | None \<Rightarrow> 0) in
      case convert_base_to_quote_currency B ps bnb_balance ''BNB'' quote_currency of
        Inl _ \<Rightarrow> returnE ()
      | Inr bnb_balance_in_usd \<Rightarrow>
          if big_less bnb_balance_in_usd trigger
          then alert (''Free BNB balance in '' @ quote_currency @ '' fell below 50'') else returnE ())"

definition check_free_balances :: "bignum \<Rightarrow> spot_portfolio \<Rightarrow> price_table \<Rightarrow> (world, unit) prog" where
  "check_free_balances B portfolio ps =
     (let free_balances = get_balances_with_free_greater_than B portfolio portfolio_quote 10 ps
            [portfolio_quote, ''BNB'', ''DNT''] in
      if free_balances \<noteq> []
      then alert (''Unexpected assets with free balances gt 10 BUSD: ['' @
        join_with '', '' (map (\<lambda>(asset, x). asset @ '': '' @ big_text B x) free_balances) @ '']'')
      else alert ''no unexpected free balance.'')"

definition check_balances :: "bignum \<Rightarrow> string \<Rightarrow> spot_portfolio \<Rightarrow> (world, unit) prog" where
  "check_balances B bnb_quote portfolio =
     (case sp_prices portfolio of
        None \<Rightarrow> returnE ()
      | Some ps \<Rightarrow> seqE (check_bnb_balance B bnb_quote portfolio ps) (check_free_balances B portfolio ps))"

section \<open>The portfolio tracker\<close>

text \<open>
  \<open>BinancePortfolioTracker\<close> keeps one portfolio object for its lifetime and hands it to its master
  \<open>PortfolioTracker\<close> on each update; \<open>tr_registered\<close> tells whether the master has it.
\<close>

record portfolio_tracker =
  tr_world :: world
  tr_portfolio :: spot_portfolio
  tr_registered :: bool

definition new_portfolio_tracker :: "world \<Rightarrow> portfolio_tracker" where
  "new_portfolio_tracker w =
     \<lparr>tr_world = w,
      tr_portfolio = \<lparr>sp_usd_value = None, sp_balances = [], sp_prices = None, sp_quote_values_added = None\<rparr>,
      tr_registered = False\<rparr>"

definition on_tracker_world :: "(world, 'a) prog \<Rightarrow> (portfolio_tracker, 'a) prog" where
  "on_tracker_world m = (\<lambda>s. case m (tr_world s) of (r, w) \<Rightarrow> (r, s\<lparr>tr_world := w\<rparr>))"

definition on_portfolio :: "(spot_portfolio, 'a) prog \<Rightarrow> (portfolio_tracker, 'a) prog" where
  "on_portfolio m = (\<lambda>s. case m (tr_portfolio s) of (r, p) \<Rightarrow> (r, s\<lparr>tr_portfolio := p\<rparr>))"

lemma wp_on_tracker_world [simp]:
  "wp (on_tracker_world m) Q R s = wp m (\<lambda>x w. Q x (s\<lparr>tr_world := w\<rparr>)) (\<lambda>e w. R e (s\<lparr>tr_world := w\<rparr>)) (tr_world s)"
  by (simp add: wp_def on_tracker_world_def split: prod.split sum.split)

lemma wp_on_portfolio [simp]:
  "wp (on_portfolio m) Q R s = wp m (\<lambda>x p. Q x (s\<lparr>tr_portfolio := p\<rparr>)) (\<lambda>e p. R e (s\<lparr>tr_portfolio := p\<rparr>)) (tr_portfolio s)"
  by (simp add: wp_def on_portfolio_def split: prod.split sum.split)

definition collapse_and_decorate_exchange_balances :: "bignum \<Rightarrow> (portfolio_tracker, returned) prog" where
  "collapse_and_decorate_exchange_balances B =
     bindE (getE tr_registered) (\<lambda>registered.
       if registered then on_portfolio (decorate_portfolio B portfolio_quote)
       else throwE (Err ''TypeError: Cannot read properties of undefined''))"

definition report_current_portfolio :: "bignum \<Rightarrow> (portfolio_tracker, unit) prog" where
  "report_current_portfolio B =
     tryE
       (bindE (collapse_and_decorate_exchange_balances B) (\<lambda>r.
        bindE (on_portfolio (returned_portfolio r)) (\<lambda>portfolio.
        on_tracker_world
          (seqE (alert (portfolio_message B portfolio)) (check_balances B ''USDT'' portfolio)))))
       (\<lambda>_. returnE ())"

definition set_portfolio_for_exchange :: "bignum \<Rightarrow> (portfolio_tracker, unit) prog" where
  "set_portfolio_for_exchange B = seqE (modifyE (\<lambda>s. s\<lparr>tr_registered := True\<rparr>)) (report_current_portfolio B)"

definition balance_of_account :: "asset_balance \<Rightarrow> balance" where
  "balance_of_account b =
     \<lparr>b_asset = b_asset b, b_free = b_free b, b_locked = b_locked b, b_quote_equivalents = None\<rparr>"

definition tracker_update_portfolio_from_exchange :: "bignum \<Rightarrow> env \<Rightarrow> (portfolio_tracker, unit) prog" where
  "tracker_update_portfolio_from_exchange B E =
     bindE (on_tracker_world (call_out GetPrices (env_prices E))) (\<lambda>ps.
     seqE (modifyE (\<lambda>s. s\<lparr>tr_portfolio := (tr_portfolio s)\<lparr>sp_prices := Some ps\<rparr>\<rparr>))
     (bindE (on_tracker_world (take_snapshot E)) (\<lambda>bs.
      seqE (modifyE (\<lambda>s. s\<lparr>tr_portfolio := (tr_portfolio s)\<lparr>sp_balances := map balance_of_account bs\<rparr>\<rparr>))
        (set_portfolio_for_exchange B))))"

text \<open>The table of exchanges to update is never filled, so the periodic update is a report.\<close>

definition update_and_report_portfolio :: "bignum \<Rightarrow> (portfolio_tracker, unit) prog" where
  "update_and_report_portfolio B = seqE (forE [] (\<lambda>exchange. exchange)) (report_current_portfolio B)"

section \<open>The portfolio publisher\<close>

record portfolio_publisher =
  ap_world :: world
  ap_published :: "spot_portfolio list"

definition on_publisher_world :: "(world, 'a) prog \<Rightarrow> (portfolio_publisher, 'a) prog" where
  "on_publisher_world m = (\<lambda>s. case m (ap_world s) of (r, w) \<Rightarrow> (r, s\<lparr>ap_world := w\<rparr>))"

lemma wp_on_publisher_world [simp]:
  "wp (on_publisher_world m) Q R s = wp m (\<lambda>x w. Q x (s\<lparr>ap_world := w\<rparr>)) (\<lambda>e w. R e (s\<lparr>ap_world := w\<rparr>)) (ap_world s)"
  by (simp add: wp_def on_publisher_world_def split: prod.split sum.split)

definition publish_portfolio :: "env \<Rightarrow> spot_portfolio \<Rightarrow> (portfolio_publisher, unit) prog" where
  "publish_portfolio E portfolio =
     bindE (getE (\<lambda>s. env_publish E (trace (ap_world s)))) (\<lambda>failure.
       case failure of
         Some e \<Rightarrow> throwE e
       | None \<Rightarrow> modifyE (\<lambda>s. s\<lparr>ap_published := ap_published s @ [portfolio\<lparr>sp_quote_values_added := None\<rparr>]\<rparr>))"

definition report_portfolio :: "bignum \<Rightarrow> env \<Rightarrow> spot_portfolio \<Rightarrow> (portfolio_publisher, unit) prog" where
  "report_portfolio B E portfolio =
     tryE
       (bindE (liftE (case decorate_portfolio B portfolio_quote portfolio of
            (Inl e, _) \<Rightarrow> Inl e | (Inr Argument, p) \<Rightarrow> Inr p | (Inr (Copy p), _) \<Rightarrow> Inr p)) (\<lambda>portfolio.
        seqE (tryE (publish_portfolio E portfolio) (\<lambda>_. returnE ()))
          (on_publisher_world (check_balances B ''BUSD'' portfolio))))
       (\<lambda>_. returnE ())"

definition publisher_update_portfolio_from_exchange :: "bignum \<Rightarrow> env \<Rightarrow> (portfolio_publisher, unit) prog" where
  "publisher_update_portfolio_from_exchange B E =
     bindE (on_publisher_world (prices E)) (\<lambda>ps.
     bindE (on_publisher_world (take_snapshot E)) (\<lambda>bs.
       report_portfolio B E \<lparr>sp_usd_value = None, sp_balances = map balance_of_account bs,
         sp_prices = Some ps, sp_quote_values_added = None\<rparr>))"

section \<open>Holdings against positions\<close>

text \<open>The positions in Redis, each with its base asset.\<close>

definition take_positions_snapshot :: "bignum \<Rightarrow> env \<Rightarrow> (world, (position_identifier \<times> position_object) list) prog" where
  "take_positions_snapshot B E =
     bindE (open_positions E) (\<lambda>open_position_identifiers.
       mapE (\<lambda>p. bindE (describe_position B E p) (\<lambda>po.
         if po_position_size po = 0 then throwE (Err ''Positions with size 0 in PositionsSnapshot'')
         else returnE (p, po))) open_position_identifiers)"

definition get_positions_quote_values ::
    "env \<Rightarrow> (position_identifier \<times> position_object) list \<Rightarrow> string \<Rightarrow> price_table \<Rightarrow>
     (world, ((position_identifier \<times> position_object) \<times> rat) list) prog" where
  "get_positions_quote_values E positions quote_asset ps =
     mapE (\<lambda>(p, po).
       bindE (to_symbol E (pi_base_asset p) quote_asset) (\<lambda>symbol.
       bindE (liftE (value_at_price ps symbol (po_position_size po))) (\<lambda>quote_value.
         returnE ((p, po), quote_value)))) positions"

record pvp_config =
  pvp_quote_asset :: string
  pvp_max_quote_amount_drift_allowed :: rat
  pvp_base_asset_ignore_list :: "string list"

text \<open>The configuration of the service.\<close>

definition pvp_service_config :: pvp_config where
  "pvp_service_config = \<lparr>pvp_quote_asset = ''BUSD'', pvp_max_quote_amount_drift_allowed = 1,
     pvp_base_asset_ignore_list = [''BNB'', ''AGI'']\<rparr>"

text \<open>The sum over an asset's positions; the last balance reported for an asset.\<close>

definition expected_total_holdings :: "(position_identifier \<times> position_object) list \<Rightarrow> string \<Rightarrow> rat" where
  "expected_total_holdings positions base_asset =
     sum_list (map (\<lambda>(p, po). po_position_size po) (filter (\<lambda>(p, po). pi_base_asset p = base_asset) positions))"

definition actual_holdings :: "asset_balance list \<Rightarrow> string \<Rightarrow> rat" where
  "actual_holdings bs base_asset =
     (case List.find (\<lambda>b. b_asset b = base_asset) (rev bs) of Some b \<Rightarrow> b_free b + b_locked b | None \<Rightarrow> 0)"

text \<open>The elements of a \<open>Set\<close> in the order of their insertion.\<close>

definition insertion_order :: "'a list \<Rightarrow> 'a list" where
  "insertion_order xs = rev (remdups (rev xs))"

definition higher_message :: "string \<Rightarrow> string" where
  "higher_message base_asset = base_asset @ '' balance higher than expected''"

definition lower_message :: "(position_identifier \<times> position_object) list \<Rightarrow> rat \<Rightarrow> string \<Rightarrow> string" where
  "lower_message positions actual base_asset =
     (if actual = 0
      then ''Zero '' @ base_asset @ '' held; the following positions have zero corresponding balance: '' @
        join_with '', '' (map (\<lambda>(p, po). po_edge po @ '':'' @ pi_base_asset p)
          (filter (\<lambda>(p, po). pi_base_asset p = base_asset) positions))
      else base_asset @ '' balance lower than expected'')"

definition all_checks_passed :: string where
  "all_checks_passed = ''All checks passed: spot holdings on exchange match expected positions.''"

text \<open>The bodies of the two loops answer whether there was a problem.\<close>

definition check_higher ::
    "bignum \<Rightarrow> pvp_config \<Rightarrow> string \<Rightarrow> price_table \<Rightarrow> (string \<Rightarrow> rat) \<Rightarrow> (string \<Rightarrow> rat) \<Rightarrow> string \<Rightarrow> (world, bool) prog" where
  "check_higher B cfg quote_asset ps expected actual base_asset =
     (if base_asset = pvp_quote_asset cfg then returnE False
      else if base_asset \<in> set (pvp_base_asset_ignore_list cfg) then returnE False
      else
        let diff_base_amount = \<bar>expected base_asset - actual base_asset\<bar> in
        case convert_base_to_quote_currency B ps diff_base_amount base_asset quote_asset of
          Inr diff_quote_amount \<Rightarrow>
            if big_at_least diff_quote_amount (pvp_max_quote_amount_drift_allowed cfg)
            then seqE (alert (higher_message base_asset)) (returnE True) else returnE False
        | Inl _ \<Rightarrow> seqE (alert (higher_message base_asset)) (returnE True))"

definition check_lower ::
    "(position_identifier \<times> position_object) list \<Rightarrow> (string \<Rightarrow> rat) \<Rightarrow> string \<Rightarrow> (world, bool) prog" where
  "check_lower positions actual base_asset =
     seqE (alert (lower_message positions (actual base_asset) base_asset)) (returnE True)"

definition run_once :: "bignum \<Rightarrow> env \<Rightarrow> pvp_config \<Rightarrow> string \<Rightarrow> (world, unit) prog" where
  "run_once B E cfg quote_asset =
     bindE (take_positions_snapshot B E) (\<lambda>positions.
     bindE (prices E) (\<lambda>ps.
     bindE (take_snapshot E) (\<lambda>bs.
       let expected = expected_total_holdings positions;
           actual = actual_holdings bs;
           combined_base_assets = insertion_order (map b_asset bs @ map (\<lambda>(p, po). pi_base_asset p) positions);
           more = filter (\<lambda>a. expected a < actual a) combined_base_assets;
           less = filter (\<lambda>a. actual a < expected a) combined_base_assets in
       bindE (mapE (check_higher B cfg quote_asset ps expected actual) more) (\<lambda>higher.
       bindE (mapE (check_lower positions actual) less) (\<lambda>lower.
         if True \<in> set higher \<or> True \<in> set lower then returnE () else alert all_checks_passed)))))"

section \<open>What the comparison reports\<close>

text \<open>The message an asset deserves: the specification of \<open>run_once\<close>.\<close>

definition deserved_message ::
    "bignum \<Rightarrow> pvp_config \<Rightarrow> string \<Rightarrow> price_table \<Rightarrow> (position_identifier \<times> position_object) list \<Rightarrow> asset_balance list \<Rightarrow>
     string \<Rightarrow> string option" where
  "deserved_message B cfg quote_asset ps positions bs a =
     (let expected = expected_total_holdings positions a; actual = actual_holdings bs a in
      if actual < expected then Some (lower_message positions actual a)
      else if actual = expected \<or> a = pvp_quote_asset cfg \<or> a \<in> set (pvp_base_asset_ignore_list cfg) then None
      else
        case convert_base_to_quote_currency B ps (actual - expected) a quote_asset of
          Inl _ \<Rightarrow> Some (higher_message a)
        | Inr drift \<Rightarrow> if big_at_least drift (pvp_max_quote_amount_drift_allowed cfg) then Some (higher_message a) else None)"

lemma wp_mapE_alerts:
  assumes "\<And>a s. a \<in> set xs \<Longrightarrow> f a s = (Inr (msg a \<noteq> None), s\<lparr>trace := (case msg a of Some m \<Rightarrow> [Alert m] | None \<Rightarrow> []) @ trace s\<rparr>)"
  shows "mapE f xs s = (Inr (map (\<lambda>a. msg a \<noteq> None) xs), s\<lparr>trace := map Alert (rev (List.map_filter msg xs)) @ trace s\<rparr>)"
  using assms
proof (induction xs arbitrary: s)
  case (Cons x xs)
  have "f x s = (Inr (msg x \<noteq> None), s\<lparr>trace := (case msg x of Some m \<Rightarrow> [Alert m] | None \<Rightarrow> []) @ trace s\<rparr>)"
    using Cons.prems by simp
  moreover have "mapE f xs t = (Inr (map (\<lambda>a. msg a \<noteq> None) xs), t\<lparr>trace := map Alert (rev (List.map_filter msg xs)) @ trace t\<rparr>)" for t
    using Cons by simp
  ultimately show ?case
    by (auto simp: bindE_def returnE_def List.map_filter_simps split: option.split)
qed (simp add: returnE_def List.map_filter_simps)

lemma check_higher_message:
  assumes "expected_total_holdings positions a < actual_holdings bs a"
  shows "check_higher B cfg q ps (expected_total_holdings positions) (actual_holdings bs) a s =
    (let m = deserved_message B cfg q ps positions bs a in
     (Inr (m \<noteq> None), s\<lparr>trace := (case m of Some m \<Rightarrow> [Alert m] | None \<Rightarrow> []) @ trace s\<rparr>))"
proof -
  have "\<bar>expected_total_holdings positions a - actual_holdings bs a\<bar> = actual_holdings bs a - expected_total_holdings positions a"
    using assms by simp
  then show ?thesis
    using assms by (auto simp: check_higher_def deserved_message_def Let_def alert_def emit_def seqE_def bindE_def
        modifyE_def returnE_def split: sum.split)
qed

lemma check_lower_message:
  assumes "actual_holdings bs a < expected_total_holdings positions a"
  shows "check_lower positions (actual_holdings bs) a s =
    (let m = deserved_message B cfg q ps positions bs a in
     (Inr (m \<noteq> None), s\<lparr>trace := (case m of Some m \<Rightarrow> [Alert m] | None \<Rightarrow> []) @ trace s\<rparr>))"
  using assms by (simp add: check_lower_def deserved_message_def Let_def alert_def emit_def seqE_def bindE_def
      modifyE_def returnE_def)

text \<open>An asset that is neither held nor expected deserves no message.\<close>

lemma deserved_message_known:
  assumes "deserved_message B cfg q ps positions bs a = Some m"
  shows "a \<in> set (insertion_order (map b_asset bs @ map (\<lambda>(p, po). pi_base_asset p) positions))"
proof (rule ccontr)
  assume "\<not> ?thesis"
  then have "\<forall>b \<in> set bs. b_asset b \<noteq> a" "\<forall>x \<in> set positions. pi_base_asset (fst x) \<noteq> a"
    by (auto simp: insertion_order_def image_iff)
  then have "List.find (\<lambda>b. b_asset b = a) (rev bs) = None" "filter (\<lambda>(p, po). pi_base_asset p = a) positions = []"
    by (auto simp: find_None_iff filter_empty_conv)
  then have "actual_holdings bs a = 0" "expected_total_holdings positions a = 0"
    by (simp_all add: actual_holdings_def expected_total_holdings_def)
  then show False using assms by (simp add: deserved_message_def)
qed

lemma set_map_filter: "set (List.map_filter f xs) = {y. \<exists>x \<in> set xs. f x = Some y}"
  by (induction xs) (auto simp: List.map_filter_simps split: option.splits)

lemma deserved_messages:
  fixes positions bs
  defines "known \<equiv> insertion_order (map b_asset bs @ map (\<lambda>(p, po). pi_base_asset p) positions)"
    and "expected \<equiv> expected_total_holdings positions" and "actual \<equiv> actual_holdings bs"
  shows "set (List.map_filter (deserved_message B cfg q ps positions bs) (filter (\<lambda>a. expected a < actual a) known)) \<union>
    set (List.map_filter (deserved_message B cfg q ps positions bs) (filter (\<lambda>a. actual a < expected a) known)) =
    {m. \<exists>a. deserved_message B cfg q ps positions bs a = Some m}"
proof -
  have "deserved_message B cfg q ps positions bs a = Some m \<Longrightarrow> a \<in> set known \<and> (expected a < actual a \<or> actual a < expected a)" for a m
    using deserved_message_known [of B cfg q ps positions bs a m]
    by (auto simp: known_def expected_def actual_def deserved_message_def Let_def split: if_splits)
  then show ?thesis by (fastforce simp: set_map_filter)
qed

lemma map_filter_Nil: "List.map_filter f xs = [] \<longleftrightarrow> (\<forall>x \<in> set xs. f x = None)"
  by (induction xs) (auto simp: List.map_filter_simps split: option.splits)

lemma no_messages: "{m. \<exists>a. f a = Some m} = {} \<longleftrightarrow> (\<forall>a. f a = None)"
  by (auto intro: option.exhaust)

lemma run_checks:
  assumes "\<And>s. mapE f xs s = (Inr (map (\<lambda>a. msg a \<noteq> None) xs), s\<lparr>trace := map Alert (rev (List.map_filter msg xs)) @ trace s\<rparr>)"
    and "\<And>s. mapE g ys s = (Inr (map (\<lambda>a. msg a \<noteq> None) ys), s\<lparr>trace := map Alert (rev (List.map_filter msg ys)) @ trace s\<rparr>)"
  shows "bindE (mapE f xs) (\<lambda>higher. bindE (mapE g ys) (\<lambda>lower.
      if True \<in> set higher \<or> True \<in> set lower then returnE () else alert m)) s =
    (let msgs = List.map_filter msg xs @ List.map_filter msg ys in
     (Inr (), s\<lparr>trace := map Alert (rev (if msgs = [] then [m] else msgs)) @ trace s\<rparr>))"
  by (auto simp: bindE_def assms Let_def returnE_def alert_def emit_def modifyE_def map_filter_Nil image_iff
      split: option.splits)


text \<open>No positions, two coins in the account, one of which is ignored.\<close>

definition idle_holdings_env :: env where
  "idle_holdings_env = (quiet_env demo_exchange_info)\<lparr>env_account_info := (\<lambda>_. Inr
     [\<lparr>b_asset = ''ETH'', b_free = 1, b_locked = 1\<rparr>, \<lparr>b_asset = ''XYZ'', b_free = 9, b_locked = 0\<rparr>])\<rparr>"

definition after_effects :: "effect list \<Rightarrow> world" where
  "after_effects es = \<lparr>store = [], trace = es\<rparr>"

lemma idle_positions:
  "take_positions_snapshot ref_bignum idle_holdings_env empty_world =
    (Inr [], after_effects [Redis (KEYS (key_base @ '':*:sats_position_size''))])"
  by (simp add: take_positions_snapshot_def open_positions_def redis_keys_def redis_call_def idle_holdings_env_def
      quiet_env_def empty_world_def after_effects_def emit_def modifyE_def getE_def bindE_def liftE_def returnE_def)

lemma idle_prices: "prices idle_holdings_env (after_effects es) = (Inr (\<lambda>_. Some 100), after_effects (GetPrices # es))"
  by (simp add: prices_def call_out_def idle_holdings_env_def quiet_env_def after_effects_def emit_def modifyE_def
      getE_def bindE_def liftE_def)

lemma idle_snapshot:
  "take_snapshot idle_holdings_env (after_effects es) =
    (Inr [\<lparr>b_asset = ''ETH'', b_free = 1, b_locked = 1\<rparr>], after_effects (GetAccountInfo # GetExchangeInfo # es))"
  by (simp add: take_snapshot_def get_exchange_info_def call_out_def idle_holdings_env_def quiet_env_def
      after_effects_def emit_def modifyE_def getE_def bindE_def liftE_def returnE_def demo_exchange_info_def
      portfolio_base_assets_to_ignore_def Let_def)


section \<open>What the tracker reports\<close>

text \<open>The value of balances: each at eight decimals, those that cannot be converted at nothing.\<close>

definition value_of_balances :: "bignum \<Rightarrow> price_table \<Rightarrow> asset_balance list \<Rightarrow> big" where
  "value_of_balances B ps bs =
     fold (\<lambda>b total. big_plus total
       (case get_total_value_of_balance_in_quote_currency B ps portfolio_quote b of
          Inr x \<Rightarrow> big_dp B 8 x | Inl _ \<Rightarrow> Num 0)) bs (Num 0)"

definition portfolio_reports :: "world \<Rightarrow> string list" where
  "portfolio_reports w =
     List.map_filter (\<lambda>x. case x of Alert m \<Rightarrow> if is_prefix_of ''U: '' m then Some m else None | _ \<Rightarrow> None) (rev (trace w))"

lemma portfolio_reports_add [simp]:
  "portfolio_reports (w\<lparr>trace := x # es\<rparr>) = portfolio_reports (w\<lparr>trace := es\<rparr>) @
     (case x of Alert m \<Rightarrow> if is_prefix_of ''U: '' m then [m] else [] | _ \<Rightarrow> [])"
  by (auto simp: portfolio_reports_def List.map_filter_def split: effect.split)

lemma total_of_undecorated: "total_of q (map balance_of_account bs) = Num 0"
proof -
  have "fold (\<lambda>b total. big_plus total (case quote_equivalent q b of Some x \<Rightarrow> x | None \<Rightarrow> Num 0))
      (map balance_of_account bs) (Num x) = Num x" for x
    by (induction bs) (simp_all add: balance_of_account_def quote_equivalent_def)
  then show ?thesis by (simp add: total_of_def)
qed

lemma total_of_decorated:
  "total_of portfolio_quote (map (quote_equivalent_added B ps portfolio_quote) (map balance_of_account bs)) =
     value_of_balances B ps bs"
proof -
  have "get_total_value_of_balance_in_quote_currency B ps q (balance_of_account b) =
      get_total_value_of_balance_in_quote_currency B ps q b" for q b
    by (simp add: get_total_value_of_balance_in_quote_currency_def balance_of_account_def Let_def)
  then have "(case quote_equivalent q (quote_equivalent_added B ps q (balance_of_account b)) of Some x \<Rightarrow> x | None \<Rightarrow> Num 0) =
      (case get_total_value_of_balance_in_quote_currency B ps q b of Inr x \<Rightarrow> big_dp B 8 x | Inl _ \<Rightarrow> Num 0)" for q b
    by (simp add: quote_equivalent_def quote_equivalent_added_def balance_of_account_def split: sum.split)
  then show ?thesis by (simp add: total_of_def value_of_balances_def fold_map comp_def)
qed

text \<open>The portfolio that an update decorates for the first time, and from then on.\<close>

lemma decorate_first:
  assumes "sp_quote_values_added p = None" "sp_prices p = Some ps" "sp_balances p = map balance_of_account bs"
  shows "\<exists>q p'. decorate_portfolio B portfolio_quote p = (Inr (Copy q), p') \<and>
    sp_quote_values_added p' = Some [portfolio_quote] \<and>
    sp_usd_value q = Some (big_text B (value_of_balances B ps bs)) \<and> length (sp_balances q) = length bs"
  using assms total_of_decorated [of B ps bs]
  by (simp add: decorate_portfolio_def add_quote_value_to_portfolio_balances_def returned_portfolio_def
      calculate_portfolio_value_in_quote_currency_def bindE_def seqE_def getE_def modifyE_def returnE_def liftE_def Let_def)

lemma decorate_again:
  assumes "sp_quote_values_added p = Some [portfolio_quote]" "sp_prices p = Some ps" "sp_balances p = map balance_of_account bs"
  shows "decorate_portfolio B portfolio_quote p = (Inr Argument, p\<lparr>sp_usd_value := Some (big_text B (Num 0))\<rparr>)"
  using assms total_of_undecorated [of portfolio_quote bs]
  by (simp add: decorate_portfolio_def add_quote_value_to_portfolio_balances_def returned_portfolio_def
      calculate_portfolio_value_in_quote_currency_def bindE_def seqE_def getE_def modifyE_def returnE_def liftE_def Let_def)

lemma portfolio_message_prefix:
  "sp_usd_value p = Some v \<Longrightarrow> length (sp_balances p) = n \<Longrightarrow>
   is_prefix_of (''U: '' @ v @ '', #'' @ nat_string n) (portfolio_message B p)"
  by (auto simp: portfolio_message_def is_prefix_of_iff)

lemma portfolio_message_report [simp]: "is_prefix_of ''U: '' (portfolio_message B p)"
  by (simp add: portfolio_message_def)

lemma wp_check_balances:
  "wp (check_balances B q p) (\<lambda>_ t. portfolio_reports t = portfolio_reports w) (\<lambda>_ _. False) w"
  by (auto simp: check_balances_def check_bnb_balance_def check_free_balances_def Let_def split: option.split sum.split)

lemma wp_report_current_portfolio:
  assumes "tr_registered s" "decorate_portfolio B portfolio_quote (tr_portfolio s) = (Inr r, p)"
  shows "wp (report_current_portfolio B) (\<lambda>_ t. tr_portfolio t = p \<and> tr_registered t \<and>
      portfolio_reports (tr_world t) = portfolio_reports (tr_world s) @
        [portfolio_message B (case r of Argument \<Rightarrow> p | Copy q \<Rightarrow> q)]) (\<lambda>_ _. False) s"
  using assms wp_of_eq [where m = "decorate_portfolio B portfolio_quote", OF assms(2)]
  by (auto simp: report_current_portfolio_def collapse_and_decorate_exchange_balances_def returned_portfolio_def
      intro!: wp_mono [OF wp_check_balances] split: returned.split)

text \<open>An exchange that always answers.\<close>

definition exchange_answers :: "env \<Rightarrow> bool" where
  "exchange_answers E \<longleftrightarrow> (\<forall>h. (\<exists>x. env_prices E h = Inr x) \<and> (\<exists>x. env_exchange_info E h = Inr x) \<and>
     (\<exists>x. env_account_info E h = Inr x))"

text \<open>What the exchange says when an update runs in a world.\<close>

definition prices_seen :: "env \<Rightarrow> world \<Rightarrow> price_table" where
  "prices_seen E w = (case env_prices E (GetPrices # trace w) of Inr ps \<Rightarrow> ps | Inl _ \<Rightarrow> Map.empty)"

definition balances_seen :: "env \<Rightarrow> world \<Rightarrow> asset_balance list" where
  "balances_seen E w = (case fst (take_snapshot E (w\<lparr>trace := GetPrices # trace w\<rparr>)) of Inr bs \<Rightarrow> bs | Inl _ \<Rightarrow> [])"

lemma take_snapshot_answers:
  assumes "exchange_answers E"
  shows "\<exists>t. take_snapshot E w = (Inr (case fst (take_snapshot E w) of Inr bs \<Rightarrow> bs | Inl _ \<Rightarrow> []), t) \<and>
    portfolio_reports t = portfolio_reports w"
proof -
  obtain ei where "env_exchange_info E (GetExchangeInfo # trace w) = Inr ei"
    using assms by (auto simp: exchange_answers_def)
  moreover obtain bs where "env_account_info E (GetAccountInfo # GetExchangeInfo # trace w) = Inr bs"
    using assms by (auto simp: exchange_answers_def)
  ultimately show ?thesis
    by (simp add: take_snapshot_def get_exchange_info_def call_out_def emit_def modifyE_def getE_def bindE_def liftE_def
        returnE_def Let_def)
qed

lemma wp_tracker_update:
  fixes s E
  defines "w \<equiv> tr_world s"
  defines "p \<equiv> (tr_portfolio s)\<lparr>sp_prices := Some (prices_seen E w), sp_balances := map balance_of_account (balances_seen E w)\<rparr>"
  assumes "exchange_answers E" "decorate_portfolio B portfolio_quote p = (Inr r, p')"
  shows "wp (tracker_update_portfolio_from_exchange B E) (\<lambda>_ t. tr_portfolio t = p' \<and>
      portfolio_reports (tr_world t) = portfolio_reports w @
        [portfolio_message B (case r of Argument \<Rightarrow> p' | Copy q \<Rightarrow> q)]) (\<lambda>_ _. False) s"
proof -
  obtain ps where ps: "env_prices E (GetPrices # trace w) = Inr ps" "prices_seen E w = ps"
    using assms(3) by (auto simp: exchange_answers_def prices_seen_def split: sum.splits)
  obtain t where t: "take_snapshot E (w\<lparr>trace := GetPrices # trace w\<rparr>) = (Inr (balances_seen E w), t)"
      "portfolio_reports t = portfolio_reports w"
    using take_snapshot_answers [OF assms(3), of "w\<lparr>trace := GetPrices # trace w\<rparr>"] unfolding balances_seen_def by auto
  let ?s = "s\<lparr>tr_world := t, tr_portfolio := p, tr_registered := True\<rparr>"
  have "wp (report_current_portfolio B) (\<lambda>_ t. tr_portfolio t = p' \<and>
      portfolio_reports (tr_world t) = portfolio_reports w @
        [portfolio_message B (case r of Argument \<Rightarrow> p' | Copy q \<Rightarrow> q)]) (\<lambda>_ _. False) ?s"
    using wp_report_current_portfolio [of ?s B r p'] assms(4) t(2) by (auto intro: wp_mono)
  then show ?thesis
    using ps by (simp add: tracker_update_portfolio_from_exchange_def set_portfolio_for_exchange_def wp_of_eq [where m = "take_snapshot E", OF t(1)]
        p_def flip: w_def)
qed

fun tracker_updates :: "bignum \<Rightarrow> env \<Rightarrow> nat \<Rightarrow> (portfolio_tracker, unit) prog" where
  "tracker_updates B E 0 = returnE ()"
| "tracker_updates B E (Suc n) = seqE (tracker_update_portfolio_from_exchange B E) (tracker_updates B E n)"

lemma big_text_zero: "bignum_laws B \<Longrightarrow> big_text B (Num 0) = ''0''"
proof -
  have "char_of (48 :: nat) = CHR ''0''" by code_simp
  then show "bignum_laws B \<Longrightarrow> ?thesis" by (simp add: bignum_laws.dp_exact int_string_def nat_string.simps)
qed

lemma wp_tracker_updates_again:
  assumes "bignum_laws B" "exchange_answers E"
  shows "sp_quote_values_added (tr_portfolio s) = Some [portfolio_quote] \<Longrightarrow>
    wp (tracker_updates B E n) (\<lambda>_ t. \<exists>msgs. portfolio_reports (tr_world t) = portfolio_reports (tr_world s) @ msgs \<and>
      length msgs = n \<and> list_all (is_prefix_of ''U: 0, #'') msgs) (\<lambda>_ _. False) s"
proof (induction n arbitrary: s)
  case (Suc n)
  let ?w = "tr_world s"
  let ?p = "(tr_portfolio s)\<lparr>sp_prices := Some (prices_seen E ?w), sp_balances := map balance_of_account (balances_seen E ?w)\<rparr>"
  let ?p' = "?p\<lparr>sp_usd_value := Some (big_text B (Num 0))\<rparr>"
  have "decorate_portfolio B portfolio_quote ?p = (Inr Argument, ?p')"
    using Suc.prems by (intro decorate_again) simp_all
  from wp_tracker_update [OF assms(2) this] have step: "wp (tracker_update_portfolio_from_exchange B E)
      (\<lambda>_ t. tr_portfolio t = ?p' \<and> portfolio_reports (tr_world t) = portfolio_reports ?w @ [portfolio_message B ?p'])
      (\<lambda>_ _. False) s" by simp
  have msg: "is_prefix_of ''U: 0, #'' (portfolio_message B ?p')"
    using portfolio_message_prefix [of ?p' "''0''", OF _ refl, of B] big_text_zero [OF assms(1)]
    by (auto simp: is_prefix_of_iff)
  show ?case
    unfolding tracker_updates.simps wp_seqE
  proof (rule wp_mono [OF step])
    fix x and t :: portfolio_tracker
    assume t: "tr_portfolio t = ?p' \<and> portfolio_reports (tr_world t) = portfolio_reports ?w @ [portfolio_message B ?p']"
    then have "sp_quote_values_added (tr_portfolio t) = Some [portfolio_quote]" using Suc.prems by simp
    from Suc.IH [OF this] show "wp (tracker_updates B E n) (\<lambda>_ u. \<exists>msgs. portfolio_reports (tr_world u) =
        portfolio_reports ?w @ msgs \<and> length msgs = Suc n \<and> list_all (is_prefix_of ''U: 0, #'') msgs) (\<lambda>_ _. False) t"
      by (rule wp_mono) (use t msg in auto)
  qed simp
qed simp

text \<open>
  C27: The portfolio tracker values the account once.  When the exchange always answers, the first report
  after the start tells the value of the account, the sum of what its balances are worth.  The tracker
  keeps its portfolio object, whose mark that the quote values have been added stays set while its
  balances are replaced, so that every later report says that the account is worth nothing.
\<close>

theorem portfolio_tracker_values_once:
  assumes "bignum_laws B" "exchange_answers E"
  shows "\<exists>msg msgs t. tracker_updates B E (Suc n) (new_portfolio_tracker w) = (Inr (), t) \<and>
    portfolio_reports (tr_world t) = portfolio_reports w @ msg # msgs \<and>
    is_prefix_of (''U: '' @ big_text B (value_of_balances B (prices_seen E w) (balances_seen E w)) @ '', #'') msg \<and>
    length msgs = n \<and> list_all (is_prefix_of ''U: 0, #'') msgs"
proof -
  let ?s = "new_portfolio_tracker w"
  let ?v = "big_text B (value_of_balances B (prices_seen E w) (balances_seen E w))"
  let ?p = "(tr_portfolio ?s)\<lparr>sp_prices := Some (prices_seen E w), sp_balances := map balance_of_account (balances_seen E w)\<rparr>"
  have w: "tr_world ?s = w" and "sp_quote_values_added ?p = None" by (simp_all add: new_portfolio_tracker_def)
  then obtain q p' where d: "decorate_portfolio B portfolio_quote ?p = (Inr (Copy q), p')"
      and p': "sp_quote_values_added p' = Some [portfolio_quote]" and q: "sp_usd_value q = Some ?v"
    using decorate_first [of ?p "prices_seen E w" "balances_seen E w" B] by auto
  have msg: "is_prefix_of (''U: '' @ ?v @ '', #'') (portfolio_message B q)"
    using portfolio_message_prefix [OF q refl, of B] by (auto simp: is_prefix_of_iff)
  have "wp (tracker_update_portfolio_from_exchange B E)
      (\<lambda>_ t. tr_portfolio t = p' \<and> portfolio_reports (tr_world t) = portfolio_reports w @ [portfolio_message B q]) (\<lambda>_ _. False) ?s"
    using wp_tracker_update [OF assms(2), of B ?s "Copy q" p'] d by (simp add: w)
  then have "wp (tracker_updates B E (Suc n)) (\<lambda>_ t. \<exists>msgs. portfolio_reports (tr_world t) =
      portfolio_reports w @ portfolio_message B q # msgs \<and> length msgs = n \<and> list_all (is_prefix_of ''U: 0, #'') msgs)
      (\<lambda>_ _. False) ?s"
    unfolding tracker_updates.simps wp_seqE
    by (rule wp_mono) (use p' in \<open>auto intro!: wp_mono [OF wp_tracker_updates_again [OF assms]]\<close>)
  from wp_total [OF this] obtain t msgs where
      "tracker_updates B E (Suc n) ?s = (Inr (), t)"
      "portfolio_reports (tr_world t) = portfolio_reports w @ portfolio_message B q # msgs \<and> length msgs = n \<and>
        list_all (is_prefix_of ''U: 0, #'') msgs"
    by auto
  with msg show ?thesis by blast
qed

theorem portfolio_tracker_values_once_witness:
  "\<exists>msg msg' t. tracker_updates ref_bignum idle_holdings_env 2 (new_portfolio_tracker empty_world) = (Inr (), t) \<and>
    portfolio_reports (tr_world t) = [msg, msg'] \<and>
    is_prefix_of ''U: 200, #'' msg \<and> is_prefix_of ''U: 0, #'' msg'"
proof -
  let ?E = idle_holdings_env
  have answers: "exchange_answers ?E"
    by (simp add: exchange_answers_def idle_holdings_env_def quiet_env_def)
  have "empty_world\<lparr>trace := GetPrices # trace empty_world\<rparr> = after_effects [GetPrices]"
    by (simp add: empty_world_def after_effects_def)
  then have bs: "balances_seen ?E empty_world = [\<lparr>b_asset = ''ETH'', b_free = 1, b_locked = 1\<rparr>]"
    by (simp only: balances_seen_def idle_snapshot) simp
  have ps: "prices_seen ?E empty_world = (\<lambda>_. Some 100)"
    by (simp add: prices_seen_def idle_holdings_env_def quiet_env_def)
  have v: "big_text ref_bignum (value_of_balances ref_bignum (\<lambda>_. Some 100) [\<lparr>b_asset = ''ETH'', b_free = 1, b_locked = 1\<rparr>]) = ''200''"
    by code_simp
  have "portfolio_reports empty_world = []" by (simp add: portfolio_reports_def empty_world_def List.map_filter_simps)
  with portfolio_tracker_values_once [OF ref_bignum_laws answers, of 1 empty_world]
  show ?thesis unfolding bs ps v by (auto simp: numeral_2_eq_2 length_Suc_conv)
qed

end
