(* ===== verification/Executors.thy ===== *)
theory Executors
  imports ExecutionEngine
begin

text \<open>
  The executors of the spot trade abstraction service (\<open>trade-abstraction-v2/execution\<close>): the limit-buy
  entry, the exit by a stop-limit order and the exit by an OCO order, with the fixed position sizer
  of \<open>edges/position-sizer\<close>.  They are written against the engine, the persistence of exit orders and a
  small runtime (clock, alerts, prices, sizes); their safety is proved in the locale of the engine's
  contract and holds for the Binance engine by its interpretation.
\<close>

section \<open>Commands and results\<close>

text \<open>
  The open-long command as the mapper hands it to an executor, with the percentages of the edge; an
  OCO exit has two more.  A timestamp that is not a number is \<open>None\<close>.
\<close>

record open_args =
  oa_base_asset :: string
  oa_quote_asset :: string
  oa_edge :: string
  oa_trigger_price :: "string option"
  oa_signal_timestamp_ms :: "rat option"
  oa_trade_id :: string
  oa_edge_percentage_stop :: rat
  oa_edge_percentage_buy_limit :: rat

record oco_args = open_args +
  oa_edge_percentage_stop_limit :: rat
  oa_edge_percentage_take_profit :: rat

datatype tas_status = SUCCESS | BAD_INPUTS | UNAUTHORISED | TRADING_IN_ASSET_PROHIBITED
  | ALREADY_IN_POSITION | INSUFFICIENT_BALANCE | ENTRY_FAILED_TO_FILL | TOO_MANY_REQUESTS
  | ABORTED_FAILED_TO_CREATE_EXIT_ORDERS | INTERNAL_SERVER_ERROR | NOT_FOUND

text \<open>
  \<open>TradeAbstractionOpenLongResult\<close>, the union as one record with absent fields \<open>None\<close>; \<open>msg\<close> is left out.
\<close>

record open_long_result =
  lr_base_asset :: "string option"
  lr_quote_asset :: "string option"
  lr_edge :: "string option"
  lr_trade_id :: "string option"
  lr_status :: tas_status
  lr_http_status :: nat
  lr_err :: "js_error option"
  lr_execution_timestamp_ms :: "int option"
  lr_signal_to_execution_slippage_ms :: "rat option"
  lr_executed_quote_quantity :: "rat option"
  lr_executed_base_quantity :: "rat option"
  lr_executed_price :: "rat option"
  lr_created_stop_order :: "bool option"
  lr_stop_order_id :: "string option"
  lr_stop_price :: "rat option"
  lr_created_take_profit_order :: "bool option"
  lr_take_profit_order_id :: "string option"
  lr_take_profit_price :: "rat option"
  lr_oco_order_id :: "string option"
  lr_retry_after_seconds :: "int option"

definition open_result :: "string \<Rightarrow> string option \<Rightarrow> string \<Rightarrow> string \<Rightarrow> tas_status \<Rightarrow> nat \<Rightarrow> open_long_result" where
  "open_result base_asset quote_asset edge trade_id status http_status =
     \<lparr>lr_base_asset = Some base_asset, lr_quote_asset = quote_asset, lr_edge = Some edge,
      lr_trade_id = Some trade_id, lr_status = status, lr_http_status = http_status, lr_err = None,
      lr_execution_timestamp_ms = None, lr_signal_to_execution_slippage_ms = None,
      lr_executed_quote_quantity = None, lr_executed_base_quantity = None, lr_executed_price = None,
      lr_created_stop_order = None, lr_stop_order_id = None, lr_stop_price = None,
      lr_created_take_profit_order = None, lr_take_profit_order_id = None, lr_take_profit_price = None,
      lr_oco_order_id = None, lr_retry_after_seconds = None\<rparr>"

definition args_result :: "'x open_args_scheme \<Rightarrow> tas_status \<Rightarrow> nat \<Rightarrow> open_long_result" where
  "args_result args =
     open_result (oa_base_asset args) (Some (oa_quote_asset args)) (oa_edge args) (oa_trade_id args)"

section \<open>What the executors are given\<close>

text \<open>The clock, the message sender, the price getter and the position sizer.\<close>

record 's runtime =
  rt_now :: "('s, int) prog"
  rt_send_message :: "string \<Rightarrow> ('s, unit) prog"
  rt_current_price :: "string \<Rightarrow> ('s, rat) prog"
  rt_position_size :: "string \<Rightarrow> string \<Rightarrow> string \<Rightarrow> ('s, rat) prog"

text \<open>The part of \<open>SpotPositionsPersistence\<close> that remembers exit orders.\<close>

record 's exit_store =
  xs_set_stop_order :: "position_identifier \<Rightarrow> string \<Rightarrow> ('s, unit) prog"
  xs_get_stop_order :: "position_identifier \<Rightarrow> ('s, string option) prog"
  xs_set_stop_price :: "position_identifier \<Rightarrow> rat \<Rightarrow> ('s, unit) prog"
  xs_set_oco_order :: "position_identifier \<Rightarrow> string \<Rightarrow> ('s, unit) prog"
  xs_get_oco_order :: "position_identifier \<Rightarrow> ('s, string option) prog"

definition redis_exit_store :: "env \<Rightarrow> world exit_store" where
  "redis_exit_store E =
     \<lparr>xs_set_stop_order = set_stop_order E, xs_get_stop_order = get_stop_order E,
      xs_set_stop_price = set_stop_price E, xs_set_oco_order = set_oco_order E,
      xs_get_oco_order = get_oco_order E\<rparr>"

text \<open>\<open>FixedPositionSizer.position_size_in_quote_asset\<close>; the spot service always asks for a long.\<close>

datatype trade_direction = LongTrade | ShortTrade

definition fixed_position_size :: "string \<Rightarrow> trade_direction \<Rightarrow> rat" where
  "fixed_position_size edge direction =
     (if edge = ''edge62'' then (case direction of ShortTrade \<Rightarrow> 600 | LongTrade \<Rightarrow> 50)
      else if edge = ''edge60'' then 30
      else if edge = ''edge70'' then 100
      else 20)"

text \<open>
  \<open>BinancePriceGetter.get_current_price\<close> without its cache of 400 ms: the oracle of the prices may
  answer two calls alike.  A symbol without a price makes the \<open>BigNumber\<close> constructor throw.
\<close>

definition get_current_price :: "env \<Rightarrow> string \<Rightarrow> (world, rat) prog" where
  "get_current_price E market_symbol =
     bindE (prices E) (\<lambda>ps. case ps market_symbol of
       Some p \<Rightarrow> returnE p | None \<Rightarrow> throwE (Err ''[BigNumber Error] Not a number: undefined''))"

definition live_runtime :: "env \<Rightarrow> world runtime" where
  "live_runtime E =
     \<lparr>rt_now = now E, rt_send_message = alert, rt_current_price = get_current_price E,
      rt_position_size = (\<lambda>base_asset quote_asset edge. returnE (fixed_position_size edge LongTrade))\<rparr>"

section \<open>The limit-buy entry\<close>

definition trigger_price_of :: "bignum \<Rightarrow> 's runtime \<Rightarrow> 'x open_args_scheme \<Rightarrow> ('s, rat) prog" where
  "trigger_price_of B RT args =
     (case oa_trigger_price args of
        Some s \<Rightarrow>
          if s \<noteq> []
          then (case bn_parse B s of Some p \<Rightarrow> returnE p | None \<Rightarrow> throwE (Err ''[BigNumber Error] Not a number''))
          else rt_current_price RT (mi_symbol (get_market_identifier_for (oa_quote_asset args) (oa_base_asset args)))
      | None \<Rightarrow>
          rt_current_price RT (mi_symbol (get_market_identifier_for (oa_quote_asset args) (oa_base_asset args))))"

definition entry_result :: "'x open_args_scheme \<Rightarrow> ee_buy_result \<Rightarrow> open_long_result" where
  "entry_result args buy_result =
     (case buy_result of
        EE_FILLED executed_quote_quantity executed_base_quantity executed_price execution_timestamp_ms \<Rightarrow>
          (args_result args SUCCESS 201)
            \<lparr>lr_executed_quote_quantity := Some executed_quote_quantity,
             lr_executed_price := Some executed_price,
             lr_executed_base_quantity := Some executed_base_quantity,
             lr_execution_timestamp_ms := execution_timestamp_ms,
             lr_created_stop_order := Some False, lr_created_take_profit_order := Some False\<rparr>
      | EE_INSUFFICIENT_BALANCE t \<Rightarrow>
          (args_result args INSUFFICIENT_BALANCE 402)\<lparr>lr_execution_timestamp_ms := Some t\<rparr>
      | EE_INTERNAL_SERVER_ERROR err t \<Rightarrow>
          (args_result args INTERNAL_SERVER_ERROR 500)\<lparr>lr_err := Some err, lr_execution_timestamp_ms := Some t\<rparr>
      | EE_TOO_MANY_REQUESTS err t retry_after_seconds \<Rightarrow>
          (args_result args TOO_MANY_REQUESTS 429)
            \<lparr>lr_err := Some err, lr_execution_timestamp_ms := Some t,
             lr_retry_after_seconds := Some retry_after_seconds\<rparr>
      | EE_ENTRY_FAILED_TO_FILL t \<Rightarrow>
          (args_result args ENTRY_FAILED_TO_FILL 200)\<lparr>lr_execution_timestamp_ms := Some t\<rparr>)"

text \<open>
  A limit price of zero, for which \<open>dividedBy\<close> yields an infinite amount, is refused by the price
  filter before the amount is looked at.
\<close>

definition buy_limit_entry ::
    "bignum \<Rightarrow> 's engine \<Rightarrow> 's runtime \<Rightarrow> 'x open_args_scheme \<Rightarrow> ('s, open_long_result) prog" where
  "buy_limit_entry B EE RT args =
     tryE
       (bindE (trigger_price_of B RT args) (\<lambda>trigger_price.
        bindE (rt_position_size RT (oa_base_asset args) (oa_quote_asset args) (oa_edge args)) (\<lambda>quote_amount.
        let limit_price_factor = bn_div B (100 + oa_edge_percentage_buy_limit args) 100;
            buy_limit_price = trigger_price * limit_price_factor;
            base_amount = bn_div B quote_amount buy_limit_price in
        bindE (en_limit_buy EE
                 \<lparr>lb_order_context = \<lparr>oc_edge = oa_edge args, oc_trade_id = None\<rparr>,
                  lb_market_identifier = get_market_identifier_for (oa_quote_asset args) (oa_base_asset args),
                  lb_base_amount = base_amount, lb_limit_price = buy_limit_price\<rparr>
                 \<lparr>tc_base_asset = oa_base_asset args, tc_quote_asset = Some (oa_quote_asset args),
                  tc_edge = oa_edge args, tc_trade_id = oa_trade_id args\<rparr>)
          (\<lambda>buy_result. returnE (entry_result args buy_result)))))
       (\<lambda>err. bindE (rt_now RT) (\<lambda>t.
          seqE (rt_send_message RT ''INTERNAL_SERVER_ERROR opening spot position'')
            (returnE ((args_result args INTERNAL_SERVER_ERROR 500)
               \<lparr>lr_err := Some err, lr_execution_timestamp_ms := Some t\<rparr>))))"

section \<open>The stop-limit exit\<close>

definition position_for :: "'x open_args_scheme \<Rightarrow> position_identifier" where
  "position_for args = \<lparr>pi_exchange_identifier = binance_spot, pi_edge = Some (oa_edge args),
     pi_base_asset = oa_base_asset args\<rparr>"

definition aborted :: "'x open_args_scheme \<Rightarrow> open_long_result" where
  "aborted args = (args_result args ABORTED_FAILED_TO_CREATE_EXIT_ORDERS 200)
     \<lparr>lr_executed_base_quantity := Some 0, lr_executed_quote_quantity := Some 0,
      lr_created_stop_order := Some False, lr_created_take_profit_order := Some False\<rparr>"

text \<open>The exit orders of an entry that was filled.\<close>

definition stop_limit_exit ::
    "bignum \<Rightarrow> 's engine \<Rightarrow> 's exit_store \<Rightarrow> 's runtime \<Rightarrow> 'x open_args_scheme \<Rightarrow> open_long_result \<Rightarrow>
     rat \<Rightarrow> rat \<Rightarrow> rat \<Rightarrow> ('s, open_long_result) prog" where
  "stop_limit_exit B EE XS RT args buy_result executed_price executed_base_quantity executed_quote_quantity =
     (let market_identifier = get_market_identifier_for (oa_quote_asset args) (oa_base_asset args);
          order_context = \<lparr>oc_edge = oa_edge args, oc_trade_id = None\<rparr>;
          stop_price_factor = bn_div B (100 - oa_edge_percentage_stop args) 100;
          stop_price = executed_price * stop_price_factor in
      tryE
        (bindE (en_stop_market_sell EE
                  \<lparr>sm_order_context = order_context, sm_market_identifier = market_identifier,
                   sm_trade_context =
                     \<lparr>tc_base_asset = oa_base_asset args, tc_quote_asset = Some (oa_quote_asset args),
                      tc_edge = oa_edge args, tc_trade_id = oa_trade_id args\<rparr>,
                   sm_base_amount = executed_base_quantity, sm_trigger_price = stop_price\<rparr>) (\<lambda>stop_result.
         seqE (xs_set_stop_order XS (position_for args) (sr_order_id stop_result))
         (seqE (xs_set_stop_price XS (position_for args) (sr_stop_price stop_result))
           (returnE ((args_result args SUCCESS 201)
              \<lparr>lr_executed_quote_quantity := Some executed_quote_quantity,
               lr_executed_base_quantity := Some executed_base_quantity,
               lr_stop_order_id := Some (sr_order_id stop_result),
               lr_executed_price := Some executed_price, lr_stop_price := Some (sr_stop_price stop_result),
               lr_execution_timestamp_ms := lr_execution_timestamp_ms buy_result,
               lr_created_take_profit_order := Some False, lr_created_stop_order := Some True\<rparr>)))))
        (\<lambda>err. seqE (rt_send_message RT ''Failed to create stop limit order'')
           (bindE (en_market_sell EE
                     \<lparr>ms_order_context = order_context, ms_market_identifier = market_identifier,
                      ms_base_amount = executed_base_quantity\<rparr>)
              (\<lambda>_. returnE (aborted args)))))"

definition stop_limit_open_position ::
    "bignum \<Rightarrow> 's engine \<Rightarrow> 's exit_store \<Rightarrow> 's runtime \<Rightarrow> 'x open_args_scheme \<Rightarrow> ('s, open_long_result) prog" where
  "stop_limit_open_position B EE XS RT args =
     bindE (trigger_price_of B RT args) (\<lambda>_.
     bindE (buy_limit_entry B EE RT args) (\<lambda>buy_result.
       if lr_status buy_result \<noteq> SUCCESS then returnE buy_result
       else
         (case (lr_executed_price buy_result, lr_executed_base_quantity buy_result, lr_executed_quote_quantity buy_result) of
            (Some executed_price, Some executed_base_quantity, Some executed_quote_quantity) \<Rightarrow>
              stop_limit_exit B EE XS RT args buy_result executed_price executed_base_quantity executed_quote_quantity
          | _ \<Rightarrow> throwE (Err ''[BigNumber Error] Not a number: undefined''))))"

section \<open>The OCO exit\<close>

definition oco_exit ::
    "bignum \<Rightarrow> 's engine \<Rightarrow> 's exit_store \<Rightarrow> 'x oco_args_scheme \<Rightarrow> open_long_result \<Rightarrow> rat \<Rightarrow> rat \<Rightarrow>
     ('s, open_long_result) prog" where
  "oco_exit B EE XS args buy_result trigger_price base_amount =
     (let market_identifier = get_market_identifier_for (oa_quote_asset args) (oa_base_asset args);
          order_context = \<lparr>oc_edge = oa_edge args, oc_trade_id = Some (oa_trade_id args)\<rparr>;
          stop_price = trigger_price * bn_div B (100 - oa_edge_percentage_stop args) 100;
          stop_limit_price = trigger_price * bn_div B (100 - oa_edge_percentage_stop_limit args) 100;
          take_profit_price = trigger_price * bn_div B (100 + oa_edge_percentage_take_profit args) 100 in
      bindE (en_store_order_context EE order_context) (\<lambda>stop_ClientOrderId.
      bindE (en_store_order_context EE order_context) (\<lambda>take_profit_ClientOrderId.
      bindE (en_store_order_context EE order_context) (\<lambda>oco_list_ClientOrderId.
      seqE (xs_set_oco_order XS (position_for args) oco_list_ClientOrderId)
        (tryE
          (seqE (en_oco_sell_order EE
                   \<lparr>os_order_context = order_context, os_market_identifier = market_identifier,
                    os_base_amount = base_amount, os_take_profit_price = take_profit_price,
                    os_stop_price = stop_price, os_stop_limit_price = stop_limit_price,
                    os_stop_ClientOrderId = stop_ClientOrderId,
                    os_take_profit_ClientOrderId = take_profit_ClientOrderId,
                    os_oco_list_ClientOrderId = oco_list_ClientOrderId\<rparr>)
            (returnE ((args_result args SUCCESS 201)
               \<lparr>lr_executed_quote_quantity := lr_executed_quote_quantity buy_result,
                lr_executed_base_quantity := lr_executed_base_quantity buy_result,
                lr_oco_order_id := Some oco_list_ClientOrderId,
                lr_created_stop_order := Some True, lr_stop_order_id := Some stop_ClientOrderId,
                lr_created_take_profit_order := Some True,
                lr_take_profit_order_id := Some take_profit_ClientOrderId,
                lr_executed_price := lr_executed_price buy_result, lr_stop_price := Some stop_price,
                lr_take_profit_price := Some take_profit_price,
                lr_execution_timestamp_ms := lr_execution_timestamp_ms buy_result\<rparr>)))
          (\<lambda>err. bindE (en_market_sell EE
                     \<lparr>ms_order_context = order_context, ms_market_identifier = market_identifier,
                      ms_base_amount = base_amount\<rparr>)
              (\<lambda>_. returnE (aborted args))))))))"

definition oco_open_position ::
    "bignum \<Rightarrow> 's engine \<Rightarrow> 's exit_store \<Rightarrow> 's runtime \<Rightarrow> 'x oco_args_scheme \<Rightarrow> ('s, open_long_result) prog" where
  "oco_open_position B EE XS RT args =
     tryE
       (bindE (trigger_price_of B RT args) (\<lambda>trigger_price.
        bindE (buy_limit_entry B EE RT args) (\<lambda>buy_result.
          if lr_status buy_result \<noteq> SUCCESS then returnE buy_result
          else
            (case lr_executed_base_quantity buy_result of
               Some base_amount \<Rightarrow> oco_exit B EE XS args buy_result trigger_price base_amount
             | None \<Rightarrow> throwE (Err ''[BigNumber Error] Not a number: undefined'')))))
       (\<lambda>err. bindE (rt_now RT) (\<lambda>t.
          seqE (rt_send_message RT ''FAILED opening spot position'')
            (returnE ((open_result (oa_base_asset args) None (oa_edge args) (oa_trade_id args)
                INTERNAL_SERVER_ERROR 500)\<lparr>lr_err := Some err, lr_execution_timestamp_ms := Some t\<rparr>))))"

section \<open>No entry without an exit\<close>

definition symbol_of :: "'x open_args_scheme \<Rightarrow> string" where
  "symbol_of args = mi_symbol (get_market_identifier_for (oa_quote_asset args) (oa_base_asset args))"

definition is_entry :: "string \<Rightarrow> order_req \<Rightarrow> bool" where
  "is_entry symbol q \<longleftrightarrow> q_side q = BUY \<and> q_symbol q = symbol"

definition exit_for :: "(string \<Rightarrow> rat \<Rightarrow> rat \<Rightarrow> bool) \<Rightarrow> string \<Rightarrow> rat \<Rightarrow> deal \<Rightarrow> bool" where
  "exit_for lots symbol amount d \<longleftrightarrow>
     (case d of
        Order q rsp \<Rightarrow> stop_of lots symbol amount q
      | Oco o' i \<Rightarrow> oco_side o' = SELL \<and> oco_symbol o' = symbol \<and> lots symbol amount (oco_quantity o'))"

text \<open>
  What a result of opening a position says about the deals: success is a filled entry followed by an
  exit order for the amount bought; an abort is a filled entry that was sold again at the market; an
  internal error leaves it open; any other result bought nothing.
\<close>

definition settled ::
    "(string \<Rightarrow> rat \<Rightarrow> rat \<Rightarrow> bool) \<Rightarrow> string \<Rightarrow> open_long_result \<Rightarrow> deal list \<Rightarrow> deal list \<Rightarrow> bool" where
  "settled lots symbol r D D' \<longleftrightarrow>
     (if lr_status r = SUCCESS then
        \<exists>buy rsp exit. D' = exit # Order buy rsp # D \<and> is_entry symbol buy \<and> r_executedQty rsp \<noteq> 0 \<and>
          lr_executed_base_quantity r = Some (r_executedQty rsp) \<and> exit_for lots symbol (r_executedQty rsp) exit
      else if lr_status r = ABORTED_FAILED_TO_CREATE_EXIT_ORDERS then
        \<exists>buy rsp ds dump rsp'. D' = Order dump rsp' # ds @ Order buy rsp # D \<and> is_entry symbol buy \<and>
          r_executedQty rsp \<noteq> 0 \<and> length ds \<le> 1 \<and> dump_of symbol (r_executedQty rsp) dump
      else if lr_status r = INTERNAL_SERVER_ERROR then \<exists>ds. D' = ds @ D
      else D' = D \<or> (\<exists>buy rsp. D' = Order buy rsp # D \<and> is_entry symbol buy \<and>
             (r_executedQty rsp = 0 \<or> r_clientOrderId rsp \<noteq> q_newClientOrderId buy)))"

locale executors = spot_engine EE log lots
  for EE :: "'s engine" and log :: "'s \<Rightarrow> deal list" and lots +
  fixes RT :: "'s runtime" and XS :: "'s exit_store"
  assumes clock_law: "wp (rt_now RT) (\<lambda>_ t. log t = log s) (\<lambda>_ _. False) s"
    and message_law: "wp (rt_send_message RT m) (\<lambda>_ t. log t = log s) (\<lambda>_ _. False) s"
    and price_law: "wp (rt_current_price RT symbol) (\<lambda>_ t. log t = log s) (\<lambda>_ t. log t = log s) s"
    and size_law: "wp (rt_position_size RT base_asset quote_asset edge) (\<lambda>_ t. log t = log s) (\<lambda>_ t. log t = log s) s"
    and set_stop_law: "wp (xs_set_stop_order XS p i) (\<lambda>_ t. log t = log s) (\<lambda>_ t. log t = log s) s"
    and set_price_law: "wp (xs_set_stop_price XS p x) (\<lambda>_ t. log t = log s) (\<lambda>_ t. log t = log s) s"
    and set_oco_law: "wp (xs_set_oco_order XS p i) (\<lambda>_ t. log t = log s) (\<lambda>_ t. log t = log s) s"
begin

lemma trigger_law: "wp (trigger_price_of B RT args) (\<lambda>_ t. log t = log s) (\<lambda>_ t. log t = log s) s"
  by (auto simp: trigger_price_of_def price_law split: option.split)

definition entered :: "'x open_args_scheme \<Rightarrow> open_long_result \<Rightarrow> deal list \<Rightarrow> deal list \<Rightarrow> bool" where
  "entered args r D D' \<longleftrightarrow>
     (if lr_status r = SUCCESS then
        \<exists>buy rsp. D' = Order buy rsp # D \<and> is_entry (symbol_of args) buy \<and> r_executedQty rsp \<noteq> 0 \<and>
          lr_executed_base_quantity r = Some (r_executedQty rsp) \<and>
          lr_executed_price r \<noteq> None \<and> lr_executed_quote_quantity r \<noteq> None
      else settled lots (symbol_of args) r D D' \<and> lr_status r \<noteq> ABORTED_FAILED_TO_CREATE_EXIT_ORDERS)"

lemma entry_result_entered: "bought (symbol_of args) br D D' \<Longrightarrow> entered args (entry_result args br) D D'"
  by (cases br) (auto simp: entered_def entry_result_def bought_def args_result_def open_result_def settled_def is_entry_def)

lemma entry_law: "wp (buy_limit_entry B EE RT args) (\<lambda>r t. entered args r (log s) (log t)) (\<lambda>_ _. False) s"
proof -
  have failed: "wp (bindE (rt_now RT) (\<lambda>t. seqE (rt_send_message RT m)
      (returnE ((args_result args INTERNAL_SERVER_ERROR 500)\<lparr>lr_err := Some err, lr_execution_timestamp_ms := Some t\<rparr>))))
      (\<lambda>r t. entered args r (log s) (log t)) (\<lambda>_ _. False) u" if "log u = log s" for u err m
    by (simp, rule wp_mono [OF clock_law], rule wp_mono [OF message_law])
      (auto simp: entered_def args_result_def open_result_def settled_def that)
  show ?thesis
    unfolding buy_limit_entry_def Let_def wp_tryE wp_bindE [of "trigger_price_of B RT args"]
      wp_bindE [of "rt_position_size RT a b c" for a b c] wp_bindE [of "en_limit_buy EE x y" for x y]
  proof (rule wp_mono [OF trigger_law], goal_cases)
    case (1 p t)
    show ?case
    proof (rule wp_mono [OF size_law], goal_cases)
      case (1 n u)
      show ?case
        by (rule wp_mono [OF limit_buy_law])
          (use \<open>log t = log s\<close> \<open>log u = log t\<close> in \<open>auto simp: symbol_of_def intro!: entry_result_entered\<close>)
    next
      case (2 e u)
      then show ?case using 1 failed by simp
    qed
  next
    case (2 e t)
    then show ?case using failed by simp
  qed
qed

text \<open>From a filled entry: selling it again settles the result, and a failure to do so only adds deals.\<close>

definition after_entry :: "'x open_args_scheme \<Rightarrow> rat \<Rightarrow> deal list \<Rightarrow> deal list \<Rightarrow> deal list \<Rightarrow> bool" where
  "after_entry args n D ds D' \<longleftrightarrow> n \<noteq> 0 \<and> (\<exists>buy rsp. D' = ds @ Order buy rsp # D \<and> is_entry (symbol_of args) buy \<and> r_executedQty rsp = n)"

lemma refused_cases:
  assumes "refused E E'" obtains "E' = E" | d where "E' = d # E"
  using assms by (auto simp: refused_def)

lemma dump_settles:
  assumes "after_entry args n D ds (log s)" "length ds \<le> 1"
  shows "wp (bindE (en_market_sell EE
       \<lparr>ms_order_context = ctx, ms_market_identifier = get_market_identifier_for (oa_quote_asset args) (oa_base_asset args),
        ms_base_amount = n\<rparr>) (\<lambda>_. returnE (aborted args)))
     (\<lambda>r t. settled lots (symbol_of args) r D (log t)) (\<lambda>_ t. \<exists>ds. log t = ds @ D) s"
proof -
  have sold: "settled lots (symbol_of args) (aborted args) D (Order q r # log s)"
    if "dump_of (symbol_of args) n q" for q r
    using that assms by (auto simp: settled_def aborted_def args_result_def open_result_def after_entry_def)
  have failed: "\<exists>ds. E' = ds @ D" if "refused (log s) E'" for E'
    using that assms(1) by (elim refused_cases) (auto simp: after_entry_def)
  show ?thesis
    by (simp, rule wp_mono [OF dump_law]) (auto simp: symbol_of_def intro: sold [unfolded symbol_of_def] failed)
qed

lemma stop_limit_exit_settles:
  assumes "after_entry args n D [] (log s)"
  shows "wp (stop_limit_exit B EE XS RT args br px n quote)
     (\<lambda>r t. settled lots (symbol_of args) r D (log t)) (\<lambda>_ t. \<exists>ds. log t = ds @ D) s"
proof -
  let ?ok = "\<lambda>r t. settled lots (symbol_of args) r D (log t)" and ?err = "\<lambda>(_::js_error) t. \<exists>ds. log t = ds @ D"
  have dump: "wp (seqE (rt_send_message RT m) (bindE (en_market_sell EE
       \<lparr>ms_order_context = ctx, ms_market_identifier = get_market_identifier_for (oa_quote_asset args) (oa_base_asset args),
        ms_base_amount = n\<rparr>) (\<lambda>_. returnE (aborted args)))) ?ok ?err t"
    if t: "log t = log s \<or> (\<exists>d. log t = d # log s)" for t m ctx
  proof -
    have "\<exists>ds. after_entry args n D ds (log t) \<and> length ds \<le> 1"
      using t assms by (auto simp: after_entry_def intro: exI [of _ "[]"] exI [of _ "[d]" for d])
    then obtain ds where ds: "after_entry args n D ds (log t)" "length ds \<le> 1" by blast
    show ?thesis
      unfolding wp_seqE by (rule wp_mono [OF message_law]) (rule dump_settles [where ds = ds], use ds in auto)
  qed
  have ok: "settled lots (symbol_of args) r D (Order q rsp # log s)"
    if "lr_status r = SUCCESS" "lr_executed_base_quantity r = Some n" "stop_of lots (symbol_of args) n q" for r q rsp
    using that assms by (auto simp: settled_def after_entry_def exit_for_def)
  show ?thesis
    unfolding stop_limit_exit_def Let_def wp_tryE wp_bindE [of "en_stop_market_sell EE c" for c]
  proof (rule wp_mono [OF stop_law], goal_cases)
    case (1 sr t)
    then obtain q rsp where t: "log t = Order q rsp # log s" "stop_of lots (symbol_of args) n q"
      by (auto simp: symbol_of_def)
    show ?case
      unfolding wp_seqE
    proof (rule wp_mono [OF set_stop_law], goal_cases)
      case (1 _ u)
      show ?case
      proof (rule wp_mono [OF set_price_law], goal_cases)
        case (1 _ v)
        then show ?case using t \<open>log u = log t\<close> by (simp add: args_result_def open_result_def ok)
      next
        case (2 e v)
        show ?case by (rule dump [unfolded wp_seqE]) (use t \<open>log u = log t\<close> \<open>log v = log u\<close> in auto)
      qed
    next
      case (2 e u)
      show ?case by (rule dump [unfolded wp_seqE]) (use t \<open>log u = log t\<close> in auto)
    qed
  next
    case (2 e t)
    show ?case by (rule dump) (use \<open>refused _ _\<close> in \<open>auto elim: refused_cases\<close>)
  qed
qed

theorem stop_limit_settles:
  "wp (stop_limit_open_position B EE XS RT args)
     (\<lambda>r t. settled lots (symbol_of args) r (log s) (log t)) (\<lambda>_ t. \<exists>ds. log t = ds @ log s) s"
  unfolding stop_limit_open_position_def wp_bindE
proof (rule wp_mono [OF trigger_law], goal_cases)
  case (1 _ t)
  show ?case
  proof (rule wp_mono [OF entry_law], goal_cases)
    case (1 br u)
    then have br: "entered args br (log s) (log u)" using \<open>log t = log s\<close> by simp
    show ?case
    proof (cases "lr_status br = SUCCESS")
      case True
      then obtain px n quote where fields: "lr_executed_price br = Some px" "lr_executed_base_quantity br = Some n"
          "lr_executed_quote_quantity br = Some quote" and "after_entry args n (log s) [] (log u)"
        using br by (auto simp: entered_def after_entry_def)
      then show ?thesis using True by (simp add: fields stop_limit_exit_settles)
    qed (use br in \<open>simp add: entered_def\<close>)
  qed simp
qed simp

lemma oco_exit_settles:
  assumes "after_entry args n D [] (log s)" "lr_executed_base_quantity br = Some n"
  shows "wp (oco_exit B EE XS args br trigger n)
     (\<lambda>r t. settled lots (symbol_of args) r D (log t)) (\<lambda>_ t. \<exists>ds. log t = ds @ D) s"
proof -
  have err: "\<exists>ds. log t = ds @ D" if "log t = log s" for t using that assms by (auto simp: after_entry_def)
  have ok: "settled lots (symbol_of args) r D (Oco o' i # log s)"
    if "lr_status r = SUCCESS" "lr_executed_base_quantity r = Some n" "oco_of lots cmd o'"
      "os_base_amount cmd = n" "mi_symbol (os_market_identifier cmd) = symbol_of args" for r o' i cmd
    using that assms by (auto simp: settled_def after_entry_def exit_for_def oco_of_def)
  have dump: "wp (bindE (en_market_sell EE
       \<lparr>ms_order_context = ctx, ms_market_identifier = get_market_identifier_for (oa_quote_asset args) (oa_base_asset args),
        ms_base_amount = n\<rparr>) (\<lambda>_. returnE (aborted args)))
      (\<lambda>r t. settled lots (symbol_of args) r D (log t)) (\<lambda>_ t. \<exists>ds. log t = ds @ D) t"
    if t: "refused (log s) (log t)" for t ctx
  proof -
    have "\<exists>ds. after_entry args n D ds (log t) \<and> length ds \<le> 1"
      using t assms by (elim refused_cases) (auto simp: after_entry_def intro: exI [of _ "[]"] exI [of _ "[d]" for d])
    then obtain ds where "after_entry args n D ds (log t)" "length ds \<le> 1" by blast
    then show ?thesis by (rule dump_settles)
  qed
  have store: "wp (bindE (en_store_order_context EE ctx) f) Q (\<lambda>_ t. \<exists>ds. log t = ds @ D) t"
    if "log t = log s" "\<And>i u. log u = log s \<Longrightarrow> wp (f i) Q (\<lambda>_ t. \<exists>ds. log t = ds @ D) u" for ctx f Q t
    unfolding wp_bindE by (rule wp_mono [OF store_law]) (use that err in auto)
  show ?thesis
    unfolding oco_exit_def Let_def
  proof (rule store, rule refl, rule store, assumption, rule store, assumption, goal_cases)
    case (1 i t j u k v)
    show ?case
      unfolding wp_seqE [of "xs_set_oco_order XS p x" for p x]
    proof (rule wp_mono [OF set_oco_law], goal_cases)
      case (1 _ z)
      then have z: "log z = log s" using \<open>log v = log s\<close> by simp
      show ?case
        unfolding wp_tryE wp_seqE
      proof (rule wp_mono [OF oco_law], goal_cases)
        case (1 _ y)
        then obtain o' c where y: "log y = Oco o' c # log s" and o': "oco_of lots
            \<lparr>os_order_context = \<lparr>oc_edge = oa_edge args, oc_trade_id = Some (oa_trade_id args)\<rparr>,
             os_market_identifier = get_market_identifier_for (oa_quote_asset args) (oa_base_asset args),
             os_base_amount = n, os_take_profit_price = trigger * bn_div B (100 + oa_edge_percentage_take_profit args) 100,
             os_stop_price = trigger * bn_div B (100 - oa_edge_percentage_stop args) 100,
             os_stop_limit_price = trigger * bn_div B (100 - oa_edge_percentage_stop_limit args) 100,
             os_stop_ClientOrderId = i, os_take_profit_ClientOrderId = j, os_oco_list_ClientOrderId = k\<rparr> o'"
          using z by auto
        then show ?case
          unfolding wp_returnE y by (intro ok [OF _ _ o']) (simp_all add: args_result_def open_result_def assms(2) symbol_of_def)
      next
        case (2 e y)
        then show ?case using z by (intro dump) simp
      qed
    next
      case (2 e z)
      then show ?case using err \<open>log v = log s\<close> by simp
    qed
  qed
qed

theorem oco_settles:
  "wp (oco_open_position B EE XS RT args)
     (\<lambda>r t. settled lots (symbol_of args) r (log s) (log t)) (\<lambda>_ _. False) s"
proof -
  have failed: "wp (bindE (rt_now RT) (\<lambda>t. seqE (rt_send_message RT m)
      (returnE ((open_result (oa_base_asset args) None (oa_edge args) (oa_trade_id args) INTERNAL_SERVER_ERROR 500)
        \<lparr>lr_err := Some err, lr_execution_timestamp_ms := Some t\<rparr>))))
      (\<lambda>r t. settled lots (symbol_of args) r (log s) (log t)) (\<lambda>_ _. False) u" if "\<exists>ds. log u = ds @ log s" for u err m
    by (simp, rule wp_mono [OF clock_law], rule wp_mono [OF message_law])
      (use that in \<open>auto simp: args_result_def open_result_def settled_def\<close>)
  have "wp (bindE (trigger_price_of B RT args) (\<lambda>trigger_price.
        bindE (buy_limit_entry B EE RT args) (\<lambda>buy_result.
          if lr_status buy_result \<noteq> SUCCESS then returnE buy_result
          else
            (case lr_executed_base_quantity buy_result of
               Some base_amount \<Rightarrow> oco_exit B EE XS args buy_result trigger_price base_amount
             | None \<Rightarrow> throwE (Err ''[BigNumber Error] Not a number: undefined'')))))
      (\<lambda>r t. settled lots (symbol_of args) r (log s) (log t)) (\<lambda>_ t. \<exists>ds. log t = ds @ log s) s"
    unfolding wp_bindE
  proof (rule wp_mono [OF trigger_law], goal_cases)
    case (1 trigger t)
    show ?case
    proof (rule wp_mono [OF entry_law], goal_cases)
      case (1 br u)
      then have br: "entered args br (log s) (log u)" using \<open>log t = log s\<close> by simp
      show ?case
      proof (cases "lr_status br = SUCCESS")
        case True
        then obtain n where n: "lr_executed_base_quantity br = Some n" and "after_entry args n (log s) [] (log u)"
          using br by (auto simp: entered_def after_entry_def)
        then show ?thesis using True by (simp add: oco_exit_settles)
      qed (use br in \<open>simp add: entered_def\<close>)
    qed simp
  qed simp
  then show ?thesis unfolding oco_open_position_def wp_tryE by (rule wp_mono) (use failed in auto)
qed

end

section \<open>The Binance engine and Redis\<close>

lemma quiet_exit_store [quiet_intros]: "keeps (no_deals E) (set_string_key E' p n v)"
proof (cases "name_to_key p n")
  case (Inr k)
  have "keeps (no_deals E) (redis_set E' k v)" unfolding redis_set_def by (intro quiet_intros)
  then show ?thesis by (simp add: set_string_key_def Inr liftE_Inr_bind)
qed (simp add: set_string_key_def keeps_wp no_deals_def)

lemma quiet_current_price [quiet_intros]: "keeps (no_deals E) (get_current_price E' symbol)"
  unfolding get_current_price_def by (intro quiet_intros)

lemmas live_sel = live_runtime_def runtime.simps redis_exit_store_def exit_store.simps
  set_stop_order_def set_stop_price_def set_oco_order_def

interpretation live: executors "binance_engine B E" "deals_of E" "lots_of B" "live_runtime E" "redis_exit_store E" for B E
proof unfold_locales
  show "wp (rt_now (live_runtime E)) (\<lambda>_ t. deals_of E t = deals_of E s) (\<lambda>_ _. False) s" for s
    by (simp add: live_sel)
  show "wp (rt_send_message (live_runtime E) m) (\<lambda>_ t. deals_of E t = deals_of E s) (\<lambda>_ _. False) s" for m s
    by (simp add: live_sel deals_of_def)
  show "wp (rt_position_size (live_runtime E) b q e) (\<lambda>_ t. deals_of E t = deals_of E s) (\<lambda>_ t. deals_of E t = deals_of E s) s"
    for b q e s by (simp add: live_sel)
  show "wp (rt_current_price (live_runtime E) symbol) (\<lambda>_ t. deals_of E t = deals_of E s) (\<lambda>_ t. deals_of E t = deals_of E s) s"
    for symbol s unfolding live_sel by (rule wp_quiet [where E = E]) (rule quiet_current_price)
qed (unfold live_sel, (rule wp_quiet [where E = E], rule quiet_exit_store, assumption, assumption)+)

section \<open>Properties\<close>

abbreviation open_stop_limit :: "bignum \<Rightarrow> env \<Rightarrow> open_args \<Rightarrow> (world, open_long_result) prog" where
  "open_stop_limit B E \<equiv> stop_limit_open_position B (binance_engine B E) (redis_exit_store E) (live_runtime E)"

abbreviation open_oco :: "bignum \<Rightarrow> env \<Rightarrow> oco_args \<Rightarrow> (world, open_long_result) prog" where
  "open_oco B E \<equiv> oco_open_position B (binance_engine B E) (redis_exit_store E) (live_runtime E)"



text \<open>A run in which Redis fails to remember the stop order it has just been asked to protect with.\<close>

definition demo_args :: open_args where
  "demo_args = \<lparr>oa_base_asset = ''ETH'', oa_quote_asset = ''USDT'', oa_edge = ''edge70'',
     oa_trigger_price = Some ''10'', oa_signal_timestamp_ms = Some 5, oa_trade_id = ''t'',
     oa_edge_percentage_stop = 15, oa_edge_percentage_buy_limit = 1 / 2\<rparr>"

definition forgetful_env :: env where
  "forgetful_env = demo_env\<lparr>env_redis := \<lambda>h. case h of
     Redis (SET k) # PlaceOrder q # _ \<Rightarrow> if q_side q = SELL then RedisFailed (Err ''LOADING'') else RedisOk
   | _ \<Rightarrow> RedisOk\<rparr>"

definition deal_summary :: "deal \<Rightarrow> side \<times> order_type \<times> rat option" where
  "deal_summary d = (case d of Order q _ \<Rightarrow> (q_side q, q_type q, q_quantity q)
     | Oco o' _ \<Rightarrow> (oco_side o', LIMIT_MAKER, Some (oco_quantity o')))"

fun is_cancel :: "effect \<Rightarrow> bool" where
  "is_cancel (CancelOrder s i) = True"
| "is_cancel (CancelOco s i) = True"
| "is_cancel _ = False"

text \<open>
  An exit order that cannot be remembered is left behind.  When the exchange accepts the stop order
  but Redis refuses to store its id, the executor sells the position at the market and reports an
  abort, and never cancels the stop: two sell orders of the full amount face one entry.
\<close>

theorem unsaved_stop_is_left_behind:
  "(case open_stop_limit ref_bignum forgetful_env demo_args empty_world of
      (Inr r, t) \<Rightarrow> Some (lr_status r, map deal_summary (deals_of forgetful_env t), filter is_cancel (trace t))
    | (Inl _, _) \<Rightarrow> None) =
   Some (ABORTED_FAILED_TO_CREATE_EXIT_ORDERS,
     [(SELL, MARKET, Some 9), (SELL, STOP_LOSS_LIMIT, Some 9), (BUY, LIMIT, Some 9)], [])"
  by code_simp

end
