(* ===== verification/TradeAbstraction.thy ===== *)
theory TradeAbstraction
  imports Executors
begin

text \<open>
  The spot trade abstraction service (\<open>services/binance/spot/trade-abstraction-v2\<close>): the mapper from
  edges to executors (\<open>edge-to-executor-mapper.ts\<close>), the service that guards it
  (\<open>trade-abstraction-service.ts\<close>), the reading of query parameters
  (\<open>query-params-to-cmd-mapper.ts\<close>) and the HTTP handlers (\<open>tas.ts\<close>).
\<close>

section \<open>Commands and results\<close>

record open_long_command =
  cl_base_asset :: string
  cl_quote_asset :: "string option"
  cl_edge :: string
  cl_direction :: string
  cl_action :: string
  cl_trigger_price :: "string option"
  cl_signal_timestamp_ms :: "rat option"
  cl_trade_id :: string

record close_command =
  cc_base_asset :: string
  cc_edge :: string
  cc_action :: string
  cc_signal_timestamp_ms :: "rat option"
  cc_trigger_price :: "string option"

text \<open>\<open>TradeContext_with_optional_trade_id\<close>.\<close>

record move_context =
  mc_base_asset :: string
  mc_quote_asset :: "string option"
  mc_edge :: string
  mc_trade_id :: "string option"

record move_stop_command =
  mv_trade_context :: move_context
  mv_action :: string
  mv_new_stop_price :: string
  mv_signal_timestamp_ms :: "rat option"

record close_result =
  clr_base_asset :: "string option"
  clr_quote_asset :: "string option"
  clr_edge :: "string option"
  clr_status :: tas_status
  clr_http_status :: nat
  clr_err :: "js_error option"
  clr_execution_timestamp_ms :: "int option"
  clr_signal_to_execution_slippage_ms :: "rat option"

record move_stop_result =
  mvr_trade_context :: "move_context option"
  mvr_status :: tas_status
  mvr_http_status :: nat
  mvr_err :: "js_error option"
  mvr_execution_timestamp_ms :: "int option"
  mvr_signal_to_execution_slippage_ms :: "rat option"
  mvr_created_stop_order :: "bool option"
  mvr_stop_order_id :: "string option"

definition slippage :: "int \<Rightarrow> rat option \<Rightarrow> rat option" where
  "slippage execution_timestamp_ms signal_timestamp_ms =
     map_option (\<lambda>s. of_int execution_timestamp_ms - s) signal_timestamp_ms"

text \<open>A string that is absent or empty is falsy.\<close>

definition truthy :: "string option \<Rightarrow> bool" where
  "truthy s \<longleftrightarrow> s \<noteq> None \<and> s \<noteq> Some []"

definition spot_position :: "string \<Rightarrow> string \<Rightarrow> position_identifier" where
  "spot_position edge base_asset =
     \<lparr>pi_exchange_identifier = binance_spot, pi_edge = Some edge, pi_base_asset = base_asset\<rparr>"

section \<open>From edges to executors\<close>

definition stop_limit_args :: "open_long_command \<Rightarrow> string \<Rightarrow> string \<Rightarrow> rat \<Rightarrow> rat \<Rightarrow> open_args" where
  "stop_limit_args cmd edge quote_asset stop buy_limit =
     \<lparr>oa_base_asset = cl_base_asset cmd, oa_quote_asset = quote_asset, oa_edge = edge,
      oa_trigger_price = cl_trigger_price cmd, oa_signal_timestamp_ms = cl_signal_timestamp_ms cmd,
      oa_trade_id = cl_trade_id cmd, oa_edge_percentage_stop = stop,
      oa_edge_percentage_buy_limit = buy_limit\<rparr>"

definition oco_args_for :: "open_long_command \<Rightarrow> string \<Rightarrow> string \<Rightarrow> rat \<Rightarrow> rat \<Rightarrow> rat \<Rightarrow> rat \<Rightarrow> oco_args" where
  "oco_args_for cmd edge quote_asset stop stop_limit take_profit buy_limit =
     open_args.extend (stop_limit_args cmd edge quote_asset stop buy_limit)
       \<lparr>oa_edge_percentage_stop_limit = stop_limit, oa_edge_percentage_take_profit = take_profit\<rparr>"

definition mapper_open_position ::
    "bignum \<Rightarrow> 's persistence \<Rightarrow> 's engine \<Rightarrow> 's exit_store \<Rightarrow> 's runtime \<Rightarrow> open_long_command \<Rightarrow>
     ('s, open_long_result) prog" where
  "mapper_open_position B P EE XS RT args =
     tryE
       (bindE (liftE (check_edge (Some (cl_edge args)))) (\<lambda>edge.
          case cl_quote_asset args of
            None \<Rightarrow> throwE (Err ''quote_asset not defined'')
          | Some quote_asset \<Rightarrow>
              if quote_asset = [] then throwE (Err ''quote_asset not defined'')
              else bindE (in_position P (spot_position edge (cl_base_asset args))) (\<lambda>already.
                if already
                then seqE (rt_send_message RT ''Already in position'') (throwE (Err ''Already in position''))
                else if edge = ''edge60''
                then stop_limit_open_position B EE XS RT (stop_limit_args args edge quote_asset 7 (1 / 2))
                else if edge = ''edge70''
                then stop_limit_open_position B EE XS RT (stop_limit_args args edge quote_asset 15 (1 / 2))
                else if edge = ''edge61''
                then oco_open_position B EE XS RT (oco_args_for args edge quote_asset 5 15 5 (1 / 2))
                else if edge = ''edge62''
                then oco_open_position B EE XS RT (oco_args_for args edge quote_asset 7 15 7 (1 / 2))
                else seqE (rt_send_message RT ''Opening positions on edge not permitted at the moment'')
                       (throwE (Err ''Opening positions on edge not permitted at the moment'')))))
       (\<lambda>err. bindE (rt_now RT) (\<lambda>t.
          returnE ((open_result (cl_base_asset args) (cl_quote_asset args) (cl_edge args) (cl_trade_id args)
            INTERNAL_SERVER_ERROR 500)\<lparr>lr_err := Some err, lr_execution_timestamp_ms := Some t\<rparr>)))"

text \<open>The stop and the OCO order are cancelled one after the other, each failure only reported.\<close>

definition cancel_exit_orders ::
    "'s engine \<Rightarrow> 's exit_store \<Rightarrow> 's runtime \<Rightarrow> position_identifier \<Rightarrow> string \<Rightarrow> ('s, unit) prog" where
  "cancel_exit_orders EE XS RT p symbol =
     seqE
       (tryE (bindE (xs_get_stop_order XS p) (\<lambda>stop_order_id.
                case stop_order_id of
                  Some i \<Rightarrow> if i \<noteq> [] then en_cancel_order EE symbol i else returnE ()
                | None \<Rightarrow> returnE ()))
          (\<lambda>err. rt_send_message RT ''Failed to cancel stop order''))
       (tryE (bindE (xs_get_oco_order XS p) (\<lambda>oco_order_id.
                case oco_order_id of
                  Some i \<Rightarrow> if i \<noteq> [] then en_cancel_oco_order EE symbol i else returnE ()
                | None \<Rightarrow> returnE ()))
          (\<lambda>err. rt_send_message RT ''Failed to cancel oco order''))"

definition close_result_for :: "close_command \<Rightarrow> int \<Rightarrow> tas_status \<Rightarrow> nat \<Rightarrow> close_result" where
  "close_result_for cmd execution_timestamp_ms status http_status =
     \<lparr>clr_base_asset = Some (cc_base_asset cmd), clr_quote_asset = None, clr_edge = Some (cc_edge cmd),
      clr_status = status, clr_http_status = http_status, clr_err = None,
      clr_execution_timestamp_ms = Some execution_timestamp_ms,
      clr_signal_to_execution_slippage_ms = slippage execution_timestamp_ms (cc_signal_timestamp_ms cmd)\<rparr>"

definition mapper_close_position ::
    "'s persistence \<Rightarrow> 's engine \<Rightarrow> 's exit_store \<Rightarrow> 's runtime \<Rightarrow> close_command \<Rightarrow> string \<Rightarrow>
     ('s, close_result) prog" where
  "mapper_close_position P EE XS RT cmd quote_asset =
     (let p = spot_position (cc_edge cmd) (cc_base_asset cmd);
          market_identifier = get_market_identifier_for quote_asset (cc_base_asset cmd) in
      bindE (rt_now RT) (\<lambda>execution_timestamp_ms.
      bindE (in_position P p) (\<lambda>found.
        if \<not> found then returnE (close_result_for cmd execution_timestamp_ms NOT_FOUND 404)
        else
          seqE (cancel_exit_orders EE XS RT p (mi_symbol market_identifier))
            (tryE
              (bindE (ps_position_size P p) (\<lambda>base_amount.
               bindE (en_market_sell EE
                        \<lparr>ms_order_context = \<lparr>oc_edge = cc_edge cmd, oc_trade_id = None\<rparr>,
                         ms_market_identifier = market_identifier, ms_base_amount = base_amount\<rparr>) (\<lambda>_.
               returnE ((close_result_for cmd execution_timestamp_ms SUCCESS 200)
                 \<lparr>clr_quote_asset := Some quote_asset\<rparr>))))
              (\<lambda>err. seqE (rt_send_message RT ''Exception, failed to exit position'')
                 (returnE ((close_result_for cmd execution_timestamp_ms INTERNAL_SERVER_ERROR 500)
                    \<lparr>clr_err := Some err\<rparr>)))))))"

text \<open>
  The trade id of a stop to be moved: the one of the command, else the one in the context of the old
  stop order, which is then cancelled.  Any failure is reported and thrown on.
\<close>

definition cancel_old_stop ::
    "'s engine \<Rightarrow> 's exit_store \<Rightarrow> 's runtime \<Rightarrow> (string \<Rightarrow> ('s, order_context) prog) \<Rightarrow>
     position_identifier \<Rightarrow> string \<Rightarrow> string option \<Rightarrow> ('s, string option) prog" where
  "cancel_old_stop EE XS RT get_order_context p symbol trade_id =
     tryE
       (bindE (xs_get_stop_order XS p) (\<lambda>stop_order_id.
          if \<not> truthy stop_order_id then returnE trade_id
          else
            bindE (if truthy trade_id then returnE trade_id
                   else bindE (get_order_context (the stop_order_id)) (\<lambda>ctx. returnE (oc_trade_id ctx))) (\<lambda>trade_id.
              if \<not> truthy trade_id then throwE (Err ''Aborting move_stop as unable to determine trade_id'')
              else seqE (en_cancel_order EE symbol (the stop_order_id)) (returnE trade_id))))
       (\<lambda>err. seqE (rt_send_message RT ''Exception trying to cancel existing stop order'') (throwE err))"

definition move_result :: "move_stop_command \<Rightarrow> move_context \<Rightarrow> int \<Rightarrow> tas_status \<Rightarrow> nat \<Rightarrow> move_stop_result" where
  "move_result cmd trade_context t status http_status =
     \<lparr>mvr_trade_context = Some trade_context, mvr_status = status, mvr_http_status = http_status,
      mvr_err = None, mvr_execution_timestamp_ms = Some t,
      mvr_signal_to_execution_slippage_ms = slippage t (mv_signal_timestamp_ms cmd),
      mvr_created_stop_order = None, mvr_stop_order_id = None\<rparr>"

definition mapper_move_stop ::
    "bignum \<Rightarrow> 's persistence \<Rightarrow> 's engine \<Rightarrow> 's exit_store \<Rightarrow> 's runtime \<Rightarrow> (string \<Rightarrow> ('s, order_context) prog) \<Rightarrow>
     move_stop_command \<Rightarrow> string \<Rightarrow> ('s, move_stop_result) prog" where
  "mapper_move_stop B P EE XS RT get_order_context cmd quote_asset =
     (let ctx = mv_trade_context cmd; edge = mc_edge ctx; base_asset = mc_base_asset ctx;
          p = spot_position edge base_asset;
          market_identifier = get_market_identifier_for quote_asset base_asset in
      tryE
        (bindE (in_position P p) (\<lambda>found.
          if \<not> found then bindE (rt_now RT) (\<lambda>t. returnE (move_result cmd
            \<lparr>mc_base_asset = base_asset, mc_quote_asset = Some quote_asset, mc_edge = edge, mc_trade_id = None\<rparr>
            t NOT_FOUND 404))
          else
            bindE (xs_get_oco_order XS p) (\<lambda>oco_order_id.
            if truthy oco_order_id then throwE (Err ''Not implemented to move stop when it is an OCO order'')
            else
              bindE (cancel_old_stop EE XS RT get_order_context p (mi_symbol market_identifier) (mc_trade_id ctx)) (\<lambda>trade_id.
              if \<not> truthy trade_id then throwE (Err ''Aborting move_stop as unable to determine trade_id'')
              else
                bindE (ps_position_size P p) (\<lambda>base_amount.
                bindE (liftE (case bn_parse B (mv_new_stop_price cmd) of
                          Some x \<Rightarrow> Inr x | None \<Rightarrow> Inl (Err ''[BigNumber Error] Not a number''))) (\<lambda>trigger_price.
                bindE (en_stop_market_sell EE
                         \<lparr>sm_order_context = \<lparr>oc_edge = edge, oc_trade_id = None\<rparr>,
                          sm_market_identifier = market_identifier,
                          sm_trade_context = \<lparr>tc_base_asset = base_asset, tc_quote_asset = Some quote_asset,
                             tc_edge = edge, tc_trade_id = the trade_id\<rparr>,
                          sm_base_amount = base_amount, sm_trigger_price = trigger_price\<rparr>) (\<lambda>stop_result.
                seqE (xs_set_stop_order XS p (sr_order_id stop_result))
                (seqE (xs_set_stop_price XS p (sr_stop_price stop_result))
                (bindE (rt_now RT) (\<lambda>t.
                  returnE ((move_result cmd
                    \<lparr>mc_base_asset = base_asset, mc_quote_asset = Some quote_asset, mc_edge = edge,
                     mc_trade_id = trade_id\<rparr> t SUCCESS 200)\<lparr>mvr_created_stop_order := Some True\<rparr>)))))))))))
        (\<lambda>err. seqE (rt_send_message RT ''Move Stop INTERNAL_SERVER_ERROR'')
           (bindE (rt_now RT) (\<lambda>t.
              returnE ((move_result cmd ctx t INTERNAL_SERVER_ERROR 500)\<lparr>mvr_err := Some err\<rparr>)))))"

section \<open>The service\<close>

text \<open>\<open>lib/stable-coins.ts\<close>.\<close>

definition stable_coins :: "string list" where
  "stable_coins =
   [''UST'', ''TUSD'', ''USDP'', ''USDC'', ''BUSD'', ''USDT'', ''PAXG'']"

definition fiat :: "string list" where
  "fiat =
   [''EUR'', ''USD'', ''GBP'', ''JPY'', ''CHF'', ''CAD'', ''AUD'', ''NZD'', ''ZAR'']"

definition non_volatile_coins :: "string list" where
  "non_volatile_coins =
   [''EGLD'']"

definition delisted_coins :: "string list" where
  "delisted_coins =
   [''EZ'', ''QSP'', ''BRD'', ''NXS'', ''NAV'', ''MDA'', ''SPARTA'', ''API3'', ''BLZ'',
     ''GHST'', ''NEXO'', ''STPT'', ''WIN'']"

definition mehran :: "string list" where
  "mehran =
   [''USDC'', ''UST'', ''BUSD'', ''DAI'', ''TUSD'', ''USDN'', ''USDP'', ''FEI'', ''TRIBE'',
     ''FRAX'', ''LUSD'', ''HUSD'', ''GUSD'', ''RSR'', ''USDX'', ''XSGD'', ''EURS'', ''SUSD'',
     ''OUSD'', ''CUSD'', ''QC'', ''VAI'', ''SBD'', ''MUSD'', ''DGD'', ''RSV'', ''USDK'',
     ''IDRT'', ''BITCNY'', ''EOSDT'', ''XCHF'', ''XAUR'', ''NuBits'', ''USNBT'', ''ITL'',
     ''MIM'', ''EURT'', ''TOR'', ''XIDR'', ''ALUSD'', ''TRYB'', ''CEUR'', ''USDs'', ''MTR'',
     ''1GOLD'', ''XUSD'', ''ZUSD'', ''COFFIN'', ''DPT'', ''PAR'', ''BRCP'', ''MDO'', ''USDB'',
     ''MDS'']"

definition disallowed_base_assets_for_entry :: "string list" where
  "disallowed_base_assets_for_entry = stable_coins @ fiat @ non_volatile_coins @ mehran @ delisted_coins"

text \<open>
  What the service adds to a result of the mapper: the flags are recomputed from the ids, for the
  statuses that carry them, and the slippage from the timestamps.
\<close>

definition annotate_long :: "open_long_command \<Rightarrow> open_long_result \<Rightarrow> open_long_result" where
  "annotate_long cmd result =
     (let flagged =
        (if lr_status result \<notin> {INTERNAL_SERVER_ERROR, ENTRY_FAILED_TO_FILL, UNAUTHORISED, ALREADY_IN_POSITION,
              TRADING_IN_ASSET_PROHIBITED, INSUFFICIENT_BALANCE, BAD_INPUTS, TOO_MANY_REQUESTS}
         then result\<lparr>lr_created_stop_order := Some (truthy (lr_stop_order_id result)),
                lr_created_take_profit_order := Some (truthy (lr_take_profit_order_id result))\<rparr>
         else result) in
      flagged\<lparr>lr_signal_to_execution_slippage_ms :=
        (case lr_execution_timestamp_ms result of
           Some t \<Rightarrow> if t \<noteq> 0 then slippage t (cl_signal_timestamp_ms cmd) else None
         | None \<Rightarrow> None)\<rparr>)"

definition tas_long ::
    "bignum \<Rightarrow> 's persistence \<Rightarrow> 's engine \<Rightarrow> 's exit_store \<Rightarrow> 's runtime \<Rightarrow> string \<Rightarrow> open_long_command \<Rightarrow>
     ('s, open_long_result) prog" where
  "tas_long B P EE XS RT service_quote_asset cmd0 =
     (let cmd = cmd0\<lparr>cl_quote_asset := Some service_quote_asset\<rparr>;
          res = open_result (cl_base_asset cmd) (Some service_quote_asset) (cl_edge cmd) (cl_trade_id cmd) in
      tryE
        (seqE (assertE (cl_direction cmd = ''long'') ''assert.equal(cmd.direction, long)'')
        (seqE (assertE (cl_action cmd = ''open'') ''assert.equal(cmd.action, open)'')
          (if \<not> is_authorised_edge (cl_edge cmd)
           then returnE ((res UNAUTHORISED 403)\<lparr>lr_err := Some (Err (''UnauthorisedEdge '' @ cl_edge cmd))\<rparr>)
           else if cl_base_asset cmd \<in> set disallowed_base_assets_for_entry
           then returnE ((res UNAUTHORISED 403)\<lparr>lr_err := Some (Err ''Opening position is explicity disallowed'')\<rparr>)
           else
             bindE (liftE (check_edge (Some (cl_edge cmd)))) (\<lambda>edge.
             bindE (ps_position_size P (spot_position edge (cl_base_asset cmd))) (\<lambda>existing_spot_position_size.
               if existing_spot_position_size > 0 then returnE (res ALREADY_IN_POSITION 409)
               else bindE (mapper_open_position B P EE XS RT cmd) (\<lambda>result. returnE (annotate_long cmd result)))))))
        (\<lambda>err. bindE (rt_now RT) (\<lambda>t.
           returnE ((res INTERNAL_SERVER_ERROR 500)\<lparr>lr_err := Some err, lr_execution_timestamp_ms := Some t\<rparr>))))"

text \<open>\<open>close\<close> asserts the action outside of its \<open>try\<close>, which only logs and throws on.\<close>

definition tas_close ::
    "'s persistence \<Rightarrow> 's engine \<Rightarrow> 's exit_store \<Rightarrow> 's runtime \<Rightarrow> string \<Rightarrow> close_command \<Rightarrow>
     ('s, close_result) prog" where
  "tas_close P EE XS RT service_quote_asset cmd =
     seqE (assertE (cc_action cmd = ''close'') ''assert.equal(cmd.action, close)'')
       (mapper_close_position P EE XS RT cmd service_quote_asset)"

definition annotate_move :: "move_stop_command \<Rightarrow> move_stop_result \<Rightarrow> move_stop_result" where
  "annotate_move cmd result =
     (let flagged =
        (if mvr_status result \<notin> {INTERNAL_SERVER_ERROR, UNAUTHORISED, NOT_FOUND, BAD_INPUTS, TOO_MANY_REQUESTS}
         then result\<lparr>mvr_created_stop_order := Some (truthy (mvr_stop_order_id result))\<rparr>
         else result) in
      flagged\<lparr>mvr_signal_to_execution_slippage_ms :=
        (case mvr_execution_timestamp_ms result of
           Some t \<Rightarrow> if t \<noteq> 0 then slippage t (mv_signal_timestamp_ms cmd) else None
         | None \<Rightarrow> None)\<rparr>)"

definition tas_move_stop ::
    "bignum \<Rightarrow> 's persistence \<Rightarrow> 's engine \<Rightarrow> 's exit_store \<Rightarrow> 's runtime \<Rightarrow> (string \<Rightarrow> ('s, order_context) prog) \<Rightarrow>
     string \<Rightarrow> move_stop_command \<Rightarrow> ('s, move_stop_result) prog" where
  "tas_move_stop B P EE XS RT get_order_context service_quote_asset cmd0 =
     (let ctx = (mv_trade_context cmd0)\<lparr>mc_quote_asset := Some service_quote_asset\<rparr>;
          cmd = cmd0\<lparr>mv_trade_context := ctx\<rparr> in
      if \<not> truthy (mc_trade_id ctx)
      then throwE (Err ''trade_id not defined in TradeAbstractionMoveStopCommand.trade_context'')
      else
        tryE
          (seqE (assertE (mv_action cmd = ''move_stop'') ''assert.equal(cmd.action, move_stop)'')
            (bindE (mapper_move_stop B P EE XS RT get_order_context cmd service_quote_asset) (\<lambda>result.
             returnE (annotate_move cmd result))))
          (\<lambda>err. bindE (rt_now RT) (\<lambda>t.
             returnE \<lparr>mvr_trade_context = Some ctx, mvr_status = INTERNAL_SERVER_ERROR, mvr_http_status = 500,
               mvr_err = Some err, mvr_execution_timestamp_ms = Some t,
               mvr_signal_to_execution_slippage_ms = None, mvr_created_stop_order = None,
               mvr_stop_order_id = None\<rparr>)))"

section \<open>Query parameters\<close>

text \<open>
  A parameter of the query: absent, a string with what \<open>JSON.parse\<close> finds in it (an object's edge, base
  asset and trade id), or an array or object.
\<close>

record json_context =
  jc_base_asset :: "string option"
  jc_edge :: "string option"
  jc_trade_id :: "string option"

datatype param = PMissing | PString string "json_context option" | POther

type_synonym request = "string \<Rightarrow> param"

definition get_param_must_be_non_empty_string_OR_THROW :: "request \<Rightarrow> string \<Rightarrow> js_error + string" where
  "get_param_must_be_non_empty_string_OR_THROW req param_name =
     (case req param_name of
        PString value _ \<Rightarrow>
          if value \<noteq> [] then Inr value else Inl (Err (''InputChecking: '' @ param_name @ '' is the empty string''))
      | _ \<Rightarrow> Inl (Err (''InputChecking: typeof '' @ param_name @ '' unexpected'')))"

definition get_OPTIONAL_param_must_be_non_empty_string :: "request \<Rightarrow> string \<Rightarrow> js_error + string option" where
  "get_OPTIONAL_param_must_be_non_empty_string req param_name =
     (case req param_name of
        PMissing \<Rightarrow> Inr None
      | PString value _ \<Rightarrow> Inr (if value = [] then None else Some value)
      | POther \<Rightarrow> Inl (Err (''InputChecking: typeof '' @ param_name @ '' unexpected'')))"

text \<open>
  \<open>Date.now()\<close> when the timestamp is absent, else \<open>Number(...)\<close> of the string; only plain decimal
  notation is read here, any other string counts as not a number.
\<close>

definition get_signal_timestamp_ms :: "int \<Rightarrow> request \<Rightarrow> js_error + rat option" where
  "get_signal_timestamp_ms date_now req =
     (case get_OPTIONAL_param_must_be_non_empty_string req ''signal_timestamp_ms'' of
        Inl e \<Rightarrow> Inl e
      | Inr None \<Rightarrow> Inr (Some (of_int date_now))
      | Inr (Some s) \<Rightarrow> Inr (js_number s))"

text \<open>Sequencing of the checks.\<close>

definition checked :: "js_error + 'a \<Rightarrow> ('a \<Rightarrow> js_error + 'b) \<Rightarrow> js_error + 'b" where
  "checked r f = (case r of Inl e \<Rightarrow> Inl e | Inr x \<Rightarrow> f x)"

definition get_trade_context :: "request \<Rightarrow> js_error + move_context" where
  "get_trade_context req =
     (let top_level =
        checked (get_param_must_be_non_empty_string_OR_THROW req ''base_asset'') (\<lambda>base_asset.
        checked (get_param_must_be_non_empty_string_OR_THROW req ''edge'') (\<lambda>edge.
        checked (get_OPTIONAL_param_must_be_non_empty_string req ''trade_id'') (\<lambda>trade_id.
          Inr \<lparr>mc_base_asset = base_asset, mc_quote_asset = None, mc_edge = edge, mc_trade_id = trade_id\<rparr>))) in
      case req ''trade_context'' of
        PMissing \<Rightarrow> top_level
      | POther \<Rightarrow> Inl (Err ''SyntaxError'')
      | PString value json \<Rightarrow>
          if value = [] then top_level
          else (case json of
              None \<Rightarrow> Inl (Err ''SyntaxError'')
            | Some c \<Rightarrow>
                if \<not> truthy (jc_edge c) then Inl (Err ''edge missing in trade_context'')
                else if \<not> truthy (jc_base_asset c) then Inl (Err ''base_asset missing in trade_context'')
                else Inr \<lparr>mc_base_asset = the (jc_base_asset c), mc_quote_asset = None,
                         mc_edge = the (jc_edge c), mc_trade_id = jc_trade_id c\<rparr>))"

text \<open>A rejected request is answered at once, an accepted one becomes a command.\<close>

definition query_close :: "request \<Rightarrow> int \<Rightarrow> string \<Rightarrow> int \<Rightarrow> close_result + close_command" where
  "query_close req cmd_received_timestamp_ms quote_asset date_now =
     (case checked (get_param_must_be_non_empty_string_OR_THROW req ''edge'') (\<lambda>edge.
           checked (get_param_must_be_non_empty_string_OR_THROW req ''base_asset'') (\<lambda>base_asset.
           checked (get_signal_timestamp_ms date_now req) (\<lambda>signal_timestamp_ms.
           checked (get_OPTIONAL_param_must_be_non_empty_string req ''trigger_price'') (\<lambda>trigger_price.
             Inr \<lparr>cc_base_asset = base_asset, cc_edge = edge, cc_action = ''close'',
                  cc_signal_timestamp_ms = signal_timestamp_ms, cc_trigger_price = trigger_price\<rparr>)))) of
        Inr cmd \<Rightarrow> Inr cmd
      | Inl err \<Rightarrow> Inl \<lparr>clr_base_asset = None, clr_quote_asset = Some quote_asset, clr_edge = None,
          clr_status = BAD_INPUTS, clr_http_status = 400, clr_err = Some err,
          clr_execution_timestamp_ms = Some cmd_received_timestamp_ms,
          clr_signal_to_execution_slippage_ms = None\<rparr>)"

text \<open>The assertion that the trade id is there stands outside of the \<open>try\<close>.\<close>

definition query_long ::
    "request \<Rightarrow> int \<Rightarrow> string \<Rightarrow> int \<Rightarrow> js_error + (open_long_result + open_long_command)" where
  "query_long req cmd_received_timestamp_ms quote_asset date_now =
     (case checked (get_param_must_be_non_empty_string_OR_THROW req ''edge'') (\<lambda>edge.
           checked (get_param_must_be_non_empty_string_OR_THROW req ''base_asset'') (\<lambda>base_asset.
           checked (get_signal_timestamp_ms date_now req) (\<lambda>signal_timestamp_ms.
           checked (get_OPTIONAL_param_must_be_non_empty_string req ''trigger_price'') (\<lambda>trigger_price.
           checked (get_OPTIONAL_param_must_be_non_empty_string req ''trade_id'') (\<lambda>trade_id.
             Inr (edge, base_asset, signal_timestamp_ms, trigger_price, trade_id)))))) of
        Inl err \<Rightarrow> Inr (Inl ((open_result [] (Some quote_asset) [] [] BAD_INPUTS 400)
          \<lparr>lr_base_asset := None, lr_edge := None, lr_trade_id := None, lr_err := Some err,
           lr_execution_timestamp_ms := Some cmd_received_timestamp_ms\<rparr>))
      | Inr (edge, base_asset, signal_timestamp_ms, trigger_price, trade_id) \<Rightarrow>
          (case trade_id of
             None \<Rightarrow> Inl (Err ''InputChecking: typeof trade_id unexpected'')
           | Some trade_id \<Rightarrow> Inr (Inr
               \<lparr>cl_base_asset = base_asset, cl_quote_asset = None, cl_edge = edge, cl_direction = ''long'',
                cl_action = ''open'', cl_trigger_price = trigger_price,
                cl_signal_timestamp_ms = signal_timestamp_ms, cl_trade_id = trade_id\<rparr>)))"

definition query_move_stop :: "request \<Rightarrow> int \<Rightarrow> int \<Rightarrow> move_stop_result + move_stop_command" where
  "query_move_stop req cmd_received_timestamp_ms date_now =
     (case checked (get_signal_timestamp_ms date_now req) (\<lambda>signal_timestamp_ms.
           checked (get_param_must_be_non_empty_string_OR_THROW req ''new_stop_price'') (\<lambda>new_stop_price.
           checked (get_trade_context req) (\<lambda>trade_context.
             Inr \<lparr>mv_trade_context = trade_context, mv_action = ''move_stop'', mv_new_stop_price = new_stop_price,
                  mv_signal_timestamp_ms = signal_timestamp_ms\<rparr>))) of
        Inr cmd \<Rightarrow> Inr cmd
      | Inl err \<Rightarrow> Inl \<lparr>mvr_trade_context = None, mvr_status = BAD_INPUTS, mvr_http_status = 400,
          mvr_err = Some err, mvr_execution_timestamp_ms = Some cmd_received_timestamp_ms,
          mvr_signal_to_execution_slippage_ms = None, mvr_created_stop_order = None, mvr_stop_order_id = None\<rparr>)"

section \<open>The HTTP handlers\<close>

text \<open>A reply with its status, body and \<open>Retry-After\<close> header, or the catch-all error.\<close>

datatype 'r reply = Reply nat 'r "int option" | InternalServerError

definition http_close ::
    "'s persistence \<Rightarrow> 's engine \<Rightarrow> 's exit_store \<Rightarrow> 's runtime \<Rightarrow> string \<Rightarrow> request \<Rightarrow>
     ('s, close_result reply) prog" where
  "http_close P EE XS RT quote_asset req =
     tryE
       (bindE (rt_now RT) (\<lambda>cmd_received_timestamp_ms.
        bindE (rt_now RT) (\<lambda>date_now.
          case query_close req cmd_received_timestamp_ms quote_asset date_now of
            Inl result \<Rightarrow> returnE (Reply (clr_http_status result) result None)
          | Inr cmd \<Rightarrow>
              bindE (tas_close P EE XS RT quote_asset cmd) (\<lambda>cmd_result.
              seqE (rt_send_message RT ''close'')
                (returnE (Reply (clr_http_status cmd_result) cmd_result None))))))
       (\<lambda>err. returnE InternalServerError)"

definition http_long ::
    "bignum \<Rightarrow> 's persistence \<Rightarrow> 's engine \<Rightarrow> 's exit_store \<Rightarrow> 's runtime \<Rightarrow> string \<Rightarrow> request \<Rightarrow>
     ('s, open_long_result reply) prog" where
  "http_long B P EE XS RT quote_asset req =
     tryE
       (bindE (rt_now RT) (\<lambda>cmd_received_timestamp_ms.
        bindE (rt_now RT) (\<lambda>date_now.
        bindE (liftE (query_long req cmd_received_timestamp_ms quote_asset date_now)) (\<lambda>mapper_result.
          case mapper_result of
            Inl result \<Rightarrow> returnE (Reply (lr_http_status result) result None)
          | Inr cmd \<Rightarrow>
              bindE (tas_long B P EE XS RT quote_asset cmd) (\<lambda>cmd_result.
              seqE (rt_send_message RT ''long'')
                (returnE (Reply (lr_http_status cmd_result) cmd_result
                   (if lr_http_status cmd_result = 429 then lr_retry_after_seconds cmd_result else None))))))))
       (\<lambda>err. returnE InternalServerError)"

text \<open>A moved stop never carries \<open>retry_after_seconds\<close>: no path of the mapper answers 429.\<close>

definition http_move_stop ::
    "bignum \<Rightarrow> 's persistence \<Rightarrow> 's engine \<Rightarrow> 's exit_store \<Rightarrow> 's runtime \<Rightarrow> (string \<Rightarrow> ('s, order_context) prog) \<Rightarrow>
     string \<Rightarrow> request \<Rightarrow> ('s, move_stop_result reply) prog" where
  "http_move_stop B P EE XS RT get_order_context quote_asset req =
     tryE
       (bindE (rt_now RT) (\<lambda>cmd_received_timestamp_ms.
        bindE (rt_now RT) (\<lambda>date_now.
          case query_move_stop req cmd_received_timestamp_ms date_now of
            Inl result \<Rightarrow> returnE (Reply (mvr_http_status result) result None)
          | Inr cmd \<Rightarrow>
              bindE (tas_move_stop B P EE XS RT get_order_context quote_asset cmd) (\<lambda>cmd_result.
              seqE (rt_send_message RT ''move_stop'')
                (returnE (Reply (mvr_http_status cmd_result) cmd_result None))))))
       (\<lambda>err. returnE InternalServerError)"

section \<open>Statuses and their codes\<close>

text \<open>The code the result interfaces fix for each status of an opening.\<close>

fun status_code :: "tas_status \<Rightarrow> nat" where
  "status_code SUCCESS = 201"
| "status_code BAD_INPUTS = 400"
| "status_code UNAUTHORISED = 403"
| "status_code TRADING_IN_ASSET_PROHIBITED = 403"
| "status_code ALREADY_IN_POSITION = 409"
| "status_code INSUFFICIENT_BALANCE = 402"
| "status_code ENTRY_FAILED_TO_FILL = 200"
| "status_code TOO_MANY_REQUESTS = 429"
| "status_code ABORTED_FAILED_TO_CREATE_EXIT_ORDERS = 200"
| "status_code INTERNAL_SERVER_ERROR = 500"
| "status_code NOT_FOUND = 404"

definition coded :: "open_long_result \<Rightarrow> bool" where
  "coded r \<longleftrightarrow> lr_http_status r = status_code (lr_status r) \<and>
     (lr_status r = TOO_MANY_REQUESTS \<longleftrightarrow> lr_retry_after_seconds r \<noteq> None)"

definition yields :: "('a \<Rightarrow> bool) \<Rightarrow> ('s, 'a) prog \<Rightarrow> bool" where
  "yields P m \<longleftrightarrow> (\<forall>s x t. m s = (Inr x, t) \<longrightarrow> P x)"

named_theorems yields_intros

lemma yields_intro [yields_intros]:
  "P x \<Longrightarrow> yields P (returnE x)"
  "yields P (throwE e)"
  "(\<And>x. yields P (f x)) \<Longrightarrow> yields P (bindE m f)"
  "yields P k \<Longrightarrow> yields P (seqE n k)"
  "yields P a \<Longrightarrow> (\<And>e. yields P (h e)) \<Longrightarrow> yields P (tryE a h)"
  "yields P a \<Longrightarrow> yields P k \<Longrightarrow> yields P (if b then a else k)"
  "yields P k \<Longrightarrow> (\<And>x. yields P (g x)) \<Longrightarrow> yields P (case ov of None \<Rightarrow> k | Some x \<Rightarrow> g x)"
  by (auto simp: yields_def returnE_def throwE_def bindE_def seqE_def tryE_def
      split: prod.splits sum.splits option.splits if_splits)

lemma yields_bind_result: "yields P m \<Longrightarrow> (\<And>x. P x \<Longrightarrow> yields Q (f x)) \<Longrightarrow> yields Q (bindE m f)"
  by (force simp: yields_def bindE_def split: prod.splits sum.splits)

lemma coded_open_result [simp]:
  "coded (open_result b q e i st h) \<longleftrightarrow> h = status_code st \<and> st \<noteq> TOO_MANY_REQUESTS"
  by (simp add: coded_def open_result_def)

lemma coded_update [simp]:
  "coded (r\<lparr>lr_err := x\<rparr>) = coded r" "coded (r\<lparr>lr_execution_timestamp_ms := t\<rparr>) = coded r"
  "coded (r\<lparr>lr_executed_quote_quantity := y\<rparr>) = coded r" "coded (r\<lparr>lr_executed_base_quantity := y\<rparr>) = coded r"
  "coded (r\<lparr>lr_executed_price := y\<rparr>) = coded r" "coded (r\<lparr>lr_created_stop_order := b\<rparr>) = coded r"
  "coded (r\<lparr>lr_stop_order_id := i\<rparr>) = coded r" "coded (r\<lparr>lr_stop_price := y\<rparr>) = coded r"
  "coded (r\<lparr>lr_created_take_profit_order := b\<rparr>) = coded r" "coded (r\<lparr>lr_take_profit_order_id := i\<rparr>) = coded r"
  "coded (r\<lparr>lr_take_profit_price := y\<rparr>) = coded r" "coded (r\<lparr>lr_oco_order_id := i\<rparr>) = coded r"
  "coded (r\<lparr>lr_signal_to_execution_slippage_ms := y\<rparr>) = coded r"
  by (simp_all add: coded_def)

lemma coded_entry_result: "coded (entry_result args br)"
  by (cases br) (simp_all add: entry_result_def args_result_def, simp add: coded_def open_result_def)

lemma coded_buy_limit_entry: "yields coded (buy_limit_entry B EE RT args)"
  unfolding buy_limit_entry_def Let_def by (intro yields_intros) (simp_all add: coded_entry_result args_result_def)

lemma coded_aborted: "coded (aborted args)"
  by (simp add: aborted_def args_result_def)

lemma coded_stop_limit: "yields coded (stop_limit_open_position B EE XS RT args)"
  unfolding stop_limit_open_position_def stop_limit_exit_def Let_def
  by (rule yields_intros(3), rule yields_bind_result [OF coded_buy_limit_entry])
    (auto intro!: yields_intros simp: coded_aborted args_result_def split: option.split)

lemma coded_oco: "yields coded (oco_open_position B EE XS RT args)"
  unfolding oco_open_position_def oco_exit_def Let_def
  by (rule yields_intros(5), rule yields_intros(3), rule yields_bind_result [OF coded_buy_limit_entry])
    (auto intro!: yields_intros simp: coded_aborted args_result_def split: option.split)

lemma coded_mapper_open_position: "yields coded (mapper_open_position B P EE XS RT cmd)"
  unfolding mapper_open_position_def
  by (intro yields_intros coded_stop_limit coded_oco) simp_all

lemma coded_tas_long: "yields coded (tas_long B P EE XS RT q cmd)"
proof -
  have annotate: "coded r \<Longrightarrow> coded (annotate_long c r)" for c r
    by (simp add: annotate_long_def Let_def)
  show ?thesis
    unfolding tas_long_def Let_def
    by (intro yields_intros yields_bind_result [OF coded_mapper_open_position]) (simp_all add: annotate)
qed

section \<open>The service settles every entry\<close>

text \<open>Reading the persistence is no deal.\<close>

locale trade_service = executors EE log lots RT XS
  for EE :: "'s engine" and log :: "'s \<Rightarrow> deal list" and lots and RT :: "'s runtime" and XS :: "'s exit_store" +
  fixes P :: "'s persistence"
  assumes position_size_law: "wp (ps_position_size P p) (\<lambda>_ t. log t = log s) (\<lambda>_ t. log t = log s) s"
    and get_stop_law: "wp (xs_get_stop_order XS p) (\<lambda>_ t. log t = log s) (\<lambda>_ t. log t = log s) s"
    and get_oco_law: "wp (xs_get_oco_order XS p) (\<lambda>_ t. log t = log s) (\<lambda>_ t. log t = log s) s"
begin

lemma open_position_settles:
  assumes "cl_quote_asset cmd = Some q"
  shows "wp (mapper_open_position B P EE XS RT cmd)
     (\<lambda>r t. settled lots (mi_symbol (get_market_identifier_for q (cl_base_asset cmd))) r (log s) (log t)) (\<lambda>_ _. False) s"
proof -
  let ?symbol = "mi_symbol (get_market_identifier_for q (cl_base_asset cmd))"
  have symbols: "symbol_of (stop_limit_args cmd e q x y) = ?symbol" "symbol_of (oco_args_for cmd e q x u v y) = ?symbol"
    for e x y u v by (simp_all add: symbol_of_def stop_limit_args_def oco_args_for_def open_args.defs)
  let ?ok = "\<lambda>r t. settled lots ?symbol r (log s) (log t)" and ?err = "\<lambda>_ t. \<exists>ds. log t = ds @ log s"
  have failed: "wp (bindE (rt_now RT) (\<lambda>t. returnE ((open_result b q' e i INTERNAL_SERVER_ERROR 500)
      \<lparr>lr_err := Some err, lr_execution_timestamp_ms := Some t\<rparr>))) ?ok (\<lambda>_ _. False) u"
    if "\<exists>ds. log u = ds @ log s" for u err b q' e i
    by (simp, rule wp_mono [OF clock_law]) (use that in \<open>auto simp: settled_def open_result_def\<close>)
  have stop: "wp (stop_limit_open_position B EE XS RT (stop_limit_args cmd e q x y)) ?ok ?err u"
    if "log u = log s" for u e x y
    using stop_limit_settles [of B "stop_limit_args cmd e q x y" u] that by (simp add: symbols)
  have oco: "wp (oco_open_position B EE XS RT (oco_args_for cmd e q x u v y)) ?ok ?err t"
    if "log t = log s" for t e x y u v
    using oco_settles [of B "oco_args_for cmd e q x u v y" t] that by (auto simp: symbols elim: wp_mono)
  have refuse: "wp (seqE (rt_send_message RT m) (throwE e)) ?ok ?err u" if "log u = log s" for m e u
    unfolding wp_seqE wp_throwE by (rule wp_mono [OF message_law]) (use that in auto)
  show ?thesis
    unfolding mapper_open_position_def wp_tryE
  proof (rule wp_mono [where R = ?err and Q = ?ok], goal_cases)
    case 1
    have body: "wp (if b then seqE (rt_send_message RT m) (throwE e1)
         else if edge = ''edge60'' then stop_limit_open_position B EE XS RT (stop_limit_args cmd edge q 7 (1 / 2))
         else if edge = ''edge70'' then stop_limit_open_position B EE XS RT (stop_limit_args cmd edge q 15 (1 / 2))
         else if edge = ''edge61'' then oco_open_position B EE XS RT (oco_args_for cmd edge q 5 15 5 (1 / 2))
         else if edge = ''edge62'' then oco_open_position B EE XS RT (oco_args_for cmd edge q 7 15 7 (1 / 2))
         else seqE (rt_send_message RT m') (throwE e2)) ?ok ?err u" if "log u = log s" for b m m' e1 e2 edge u
      using stop oco refuse that by (simp del: wp_seqE)
    have found: "wp (bindE (in_position P p) f) ?ok ?err s" if "\<And>b u. log u = log s \<Longrightarrow> wp (f b) ?ok ?err u" for p f
      unfolding wp_bindE in_position_def by (rule wp_mono [OF position_size_law]) (use that in auto)
    show ?case
    proof (cases "check_edge (Some (cl_edge cmd))")
      case (Inr edge)
      show ?thesis
        unfolding Inr liftE_Inr_bind assms option.simps
        by (cases "q = []") (simp, simp only: if_False, rule found, rule body)
    qed simp
  qed (use failed in auto)
qed

lemma annotate_settled: "settled lots symbol (annotate_long cmd r) D D' = settled lots symbol r D D'"
  by (simp add: annotate_long_def settled_def Let_def)

lemma long_settles:
  "wp (tas_long B P EE XS RT q cmd)
     (\<lambda>r t. settled lots (mi_symbol (get_market_identifier_for q (cl_base_asset cmd))) r (log s) (log t)) (\<lambda>_ _. False) s"
proof -
  let ?symbol = "mi_symbol (get_market_identifier_for q (cl_base_asset cmd))"
  let ?ok = "\<lambda>r t. settled lots ?symbol r (log s) (log t)"
  have failed: "wp (bindE (rt_now RT) (\<lambda>t. returnE ((open_result b q' e i INTERNAL_SERVER_ERROR 500)
      \<lparr>lr_err := Some err, lr_execution_timestamp_ms := Some t\<rparr>))) ?ok (\<lambda>_ _. False) u"
    if "log u = log s" for u err b q' e i
    by (simp, rule wp_mono [OF clock_law]) (use that in \<open>auto simp: settled_def open_result_def\<close>)
  have quiet: "?ok (open_result b q' e i st h) t" "?ok ((open_result b q' e i st h)\<lparr>lr_err := x\<rparr>) t"
    if "log t = log s" "st \<notin> {SUCCESS, ABORTED_FAILED_TO_CREATE_EXIT_ORDERS}" for t b q' e i st h x
    using that by (auto simp: settled_def open_result_def)
  have "wp (mapper_open_position B P EE XS RT (cmd\<lparr>cl_quote_asset := Some q\<rparr>))
      (\<lambda>r t. settled lots ?symbol (annotate_long c r) (log s) (log t)) (\<lambda>_ t. log t = log s) u" if "log u = log s" for u c
    using open_position_settles [of "cmd\<lparr>cl_quote_asset := Some q\<rparr>" q B u] that
    by (auto simp: annotate_settled elim!: wp_mono)
  note opened = this
  show ?thesis
    unfolding tas_long_def Let_def wp_tryE
  proof (rule wp_mono [where R = "\<lambda>_ t. log t = log s" and Q = ?ok], goal_cases)
    case 1
    show ?case
      by (auto intro!: wp_mono [OF position_size_law] opened quiet split: sum.split)
  qed (use failed in auto)
qed

text \<open>Closing sells the size that is stored, whatever becomes of the exit orders.\<close>

lemma cancel_exit_orders_law: "wp (cancel_exit_orders EE XS RT p symbol) (\<lambda>_ t. log t = log s) (\<lambda>_ _. False) s"
proof -
  have one: "wp (tryE (bindE get (\<lambda>i. case i of Some i \<Rightarrow> if i \<noteq> [] then cancel i else returnE () | None \<Rightarrow> returnE ()))
      (\<lambda>err. rt_send_message RT m)) (\<lambda>_ t. log t = log s) (\<lambda>_ _. False) u"
    if "log u = log s" "\<And>t. wp get (\<lambda>_ u. log u = log t) (\<lambda>_ u. log u = log t) t"
      "\<And>i t. wp (cancel i) (\<lambda>_ u. log u = log t) (\<lambda>_ u. log u = log t) t" for u get cancel m
  proof -
    have msg: "wp (rt_send_message RT m) (\<lambda>_ t. log t = log s) (\<lambda>_ _. False) v" if "log v = log s" for v
      using message_law [of m v] that by simp
    show ?thesis
      unfolding wp_tryE wp_bindE
    proof (rule wp_mono [OF that(2)], goal_cases)
      case (1 i v)
      then have v: "log v = log s" using that(1) by simp
      have "wp (cancel a) (\<lambda>_ t. log t = log s) (\<lambda>e. wp (rt_send_message RT m) (\<lambda>_ t. log t = log s) (\<lambda>_ _. False)) v" for a
        by (rule wp_mono [OF that(3)]) (use v msg in auto)
      then show ?case using v by (cases i) auto
    qed (use that(1) msg in simp)
  qed
  show ?thesis
    unfolding cancel_exit_orders_def wp_seqE
    by (rule wp_mono [OF one], rule refl, rule get_stop_law, rule cancel_law, rule one, assumption,
        rule get_oco_law, rule cancel_oco_law, simp)
qed

text \<open>Moving a stop cancels the old one quietly, and sets one new stop or fails with at most one refused order.\<close>

lemma cancel_old_stop_law:
  assumes "\<And>i s. wp (get_ctx i) (\<lambda>_ t. log t = log s) (\<lambda>_ t. log t = log s) s" and "log u = log s"
  shows "wp (cancel_old_stop EE XS RT get_ctx p symbol tid) (\<lambda>_ t. log t = log s) (\<lambda>_ t. log t = log s) u"
proof -
  let ?q = "\<lambda>_ t. log t = log s"
  have rethrow: "wp (seqE (rt_send_message RT m) (throwE e)) Q ?q v" if "log v = log s" for m e v Q
    by (simp, rule wp_mono [OF message_law]) (use that in simp_all)
  have cancel: "wp (if \<not> truthy t' then throwE e else seqE (en_cancel_order EE symbol i) (returnE t')) ?q ?q v"
    if "log v = log s" for t' e i v
    using that by (auto intro!: wp_mono [OF cancel_law])
  have trade_id: "wp (if b then returnE tid else bindE (get_ctx i) (\<lambda>ctx. returnE (oc_trade_id ctx))) ?q ?q v"
    if "log v = log s" for b i v
    using that by (auto intro!: wp_mono [OF assms(1)])
  have found: "wp (bindE (if b then returnE tid else bindE (get_ctx i) (\<lambda>ctx. returnE (oc_trade_id ctx)))
      (\<lambda>t'. if \<not> truthy t' then throwE e else seqE (en_cancel_order EE symbol i) (returnE t'))) ?q ?q v"
    if "log v = log s" for b e i v
    unfolding wp_bindE [of "if b then m else k" for m k]
    by (rule wp_mono [OF trade_id [OF that]]) (simp_all del: wp_seqE add: cancel)
  show ?thesis
    unfolding cancel_old_stop_def wp_tryE wp_bindE [of "xs_get_stop_order XS p"]
  proof (rule wp_mono [OF get_stop_law], goal_cases)
    case (1 i v)
    then have v: "log v = log s" using assms(2) by simp
    show ?case
    proof (cases "truthy i")
      case True
      show ?thesis
        unfolding eqTrueI [OF True] not_True_eq_False if_False
        by (rule wp_mono [OF found [OF v]], assumption) (rule rethrow)
    qed (use v in simp)
  next
    case (2 e v)
    then show ?case using assms(2) rethrow by simp
  qed
qed

abbreviation stop_moved :: "'s \<Rightarrow> string \<Rightarrow> move_stop_result \<Rightarrow> 's \<Rightarrow> bool" where
  "stop_moved s symbol r t \<equiv> mvr_stop_order_id r = None \<and>
     (if mvr_status r = SUCCESS
      then \<exists>ord rsp n. log t = Order ord rsp # log s \<and> stop_of lots symbol n ord
      else \<exists>ds. log t = ds @ log s \<and> length ds \<le> 1)"

abbreviation one_more :: "'s \<Rightarrow> 's \<Rightarrow> bool" where
  "one_more s t \<equiv> \<exists>ds. log t = ds @ log s \<and> length ds \<le> 1"

lemma new_stop_law:
  assumes "log u = log s" "mi_symbol (sm_market_identifier sc) = symbol"
  shows "wp (bindE (en_stop_market_sell EE sc) (\<lambda>r. seqE (xs_set_stop_order XS p (sr_order_id r))
      (seqE (xs_set_stop_price XS p (sr_stop_price r))
      (bindE (rt_now RT) (\<lambda>t. returnE ((move_result cmd c t SUCCESS 200)\<lparr>mvr_created_stop_order := Some True\<rparr>))))))
    (stop_moved s symbol) (\<lambda>_. one_more s) u"
proof -
  have set: "wp (seqE (xs_set_stop_order XS p (sr_order_id r)) (seqE (xs_set_stop_price XS p (sr_stop_price r))
      (bindE (rt_now RT) (\<lambda>t. returnE ((move_result cmd c t SUCCESS 200)\<lparr>mvr_created_stop_order := Some True\<rparr>)))))
      (stop_moved s symbol) (\<lambda>_. one_more s) v"
    if "log v = Order ord rsp # log s" "stop_of lots symbol n ord" for r v ord rsp n
    unfolding wp_seqE wp_bindE
    by (rule wp_mono [OF set_stop_law], rule wp_mono [OF set_price_law], rule wp_mono [OF clock_law])
      (use that in \<open>auto simp: move_result_def intro: exI [of _ "[Order ord rsp]"]\<close>)
  show ?thesis
    unfolding wp_bindE [of "en_stop_market_sell EE sc"]
  proof (rule wp_mono [OF stop_law], goal_cases)
    case (1 r t)
    then show ?case unfolding assms by (elim exE conjE) (rule set)
  next
    case (2 e t)
    then show ?case using assms(1) by (auto elim!: refused_cases intro: exI [of _ "[]"] exI [of _ "[d]" for d])
  qed
qed

lemma move_stop_law:
  assumes "\<And>i s. wp (get_ctx i) (\<lambda>_ t. log t = log s) (\<lambda>_ t. log t = log s) s"
  shows "wp (mapper_move_stop B P EE XS RT get_ctx cmd q)
     (stop_moved s (mi_symbol (get_market_identifier_for q (mc_base_asset (mv_trade_context cmd))))) (\<lambda>_ _. False) s"
proof -
  let ?symbol = "mi_symbol (get_market_identifier_for q (mc_base_asset (mv_trade_context cmd)))"
  have quiet: "one_more s t" if "log t = log s" for t using that by (intro exI [of _ "[]"]) simp
  have failed: "wp (seqE (rt_send_message RT m) (bindE (rt_now RT) (\<lambda>t.
      returnE ((move_result cmd c t INTERNAL_SERVER_ERROR 500)\<lparr>mvr_err := Some err\<rparr>)))) (stop_moved s ?symbol) (\<lambda>_ _. False) u"
    if "one_more s u" for u err m c
    by (simp, rule wp_mono [OF message_law], rule wp_mono [OF clock_law]) (use that in \<open>simp_all add: move_result_def\<close>)
  have sell: "wp (bindE (ps_position_size P p) (\<lambda>n. bindE (liftE x) (\<lambda>price. f n price))) Q R u"
    if "log u = log s" "\<And>n price v. log v = log s \<Longrightarrow> wp (f n price) Q R v" "\<And>e v. log v = log s \<Longrightarrow> R e v" for p x f u Q R
    unfolding wp_bindE wp_liftE
    by (rule wp_mono [OF position_size_law]) (use that in \<open>auto split: sum.split\<close>)
  have moved: "wp (bindE (xs_get_oco_order XS p) (\<lambda>oco_order_id. if truthy oco_order_id then throwE e1
      else bindE (cancel_old_stop EE XS RT get_ctx p ?symbol tid) (\<lambda>trade_id. if \<not> truthy trade_id then throwE e2 else f trade_id))) Q R u"
    if "log u = log s" "\<And>i v. log v = log s \<Longrightarrow> wp (f i) Q R v" "\<And>e v. log v = log s \<Longrightarrow> R e v" for p e1 e2 tid f u Q R
    unfolding wp_bindE
  proof (rule wp_mono [OF get_oco_law], goal_cases)
    case (1 x v)
    then have v: "log v = log s" using that(1) by simp
    have "wp (cancel_old_stop EE XS RT get_ctx p ?symbol tid) (\<lambda>i. wp (if \<not> truthy i then throwE e2 else f i) Q R) R v"
      by (rule wp_mono [OF cancel_old_stop_law [OF assms v]]) (use that(2,3) in auto)
    then show ?case using that(3) [OF v] by simp
  qed (use that in simp)
  have found: "wp (bindE (in_position P p) f) Q R s"
    if "\<And>b v. log v = log s \<Longrightarrow> wp (f b) Q R v" "\<And>e v. log v = log s \<Longrightarrow> R e v" for p f Q R
    unfolding in_position_def wp_bindE wp_returnE by (rule wp_mono [OF position_size_law]) (use that in auto)
  show ?thesis
    unfolding mapper_move_stop_def Let_def wp_tryE
  proof (rule wp_mono [where Q = "stop_moved s ?symbol" and R = "\<lambda>_. one_more s"], rule found, goal_cases)
    case (1 b v)
    have "wp (bindE (rt_now RT) (\<lambda>t. returnE (move_result cmd c t NOT_FOUND 404))) (stop_moved s ?symbol) (\<lambda>_. one_more s) v" for c
      unfolding wp_bindE by (rule wp_mono [OF clock_law]) (use 1 in \<open>auto simp: move_result_def intro: exI [of _ "[]"]\<close>)
    then show ?case
      by (cases b) (simp_all only: not_True_eq_False not_False_eq_True if_True if_False,
          rule moved [OF 1 _ quiet], rule sell [OF _ _ quiet], assumption, rule new_stop_law, simp_all)
  next
    case 2
    then show ?case by (rule quiet)
  qed (use failed in auto)
qed

end

section \<open>Reading positions is quiet\<close>

lemmas key_reads = get_key_def get_key_no_null_def get_sats_key_def get_string_key_null_allowed_def
  get_position_size_def get_stop_order_def get_oco_order_def get_order_context_for_order_def redis_get_def

lemma quiet_read [quiet_intros]: "keeps (no_deals E) (redis_get E' k)"
  unfolding redis_get_def
  by (intro quiet_intros) (auto intro!: quiet_intros split: option.split redis_value.split)

lemma attributed_read [attributed_intros]: "keeps (attributed edge ids) (redis_get E' k)"
  unfolding redis_get_def
  by (intro attributed_intros) (auto intro!: attributed_intros split: option.split redis_value.split)

lemma quiet_reads [quiet_intros]:
  "keeps (no_deals E) (get_position_size B E' p)" "keeps (no_deals E) (get_stop_order E' p)"
  "keeps (no_deals E) (get_oco_order E' p)"
  unfolding key_reads(1-7) by (intro quiet_intros)+

lemma attributed_reads [attributed_intros]:
  "keeps (attributed edge ids) (get_position_size B E' p)" "keeps (attributed edge ids) (get_stop_order E' p)"
  "keeps (attributed edge ids) (get_oco_order E' p)"
  unfolding key_reads(1-7) by (intro attributed_intros)+

lemma attributed_context [attributed_intros]:
  "keeps (attributed edge ids) (get_order_context_for_order E' ei i)"
  unfolding get_order_context_for_order_def
  by (auto intro!: attributed_intros split: option.split redis_value.split)

interpretation svc: trade_service "binance_engine B E" "deals_of E" "lots_of B" "live_runtime E" "redis_exit_store E"
  "redis_persistence B E" for B E
proof unfold_locales
  show "wp (ps_position_size (redis_persistence B E) p) (\<lambda>_ t. deals_of E t = deals_of E s)
      (\<lambda>_ t. deals_of E t = deals_of E s) s" for p s
    unfolding redis_persistence_sel by (rule wp_quiet [where E = E]) (rule quiet_reads)
qed (unfold redis_exit_store_def exit_store.simps, (rule wp_quiet [where E = E], rule quiet_reads, assumption, assumption)+)

section \<open>Every order is attributed\<close>

lemma attributed_live [attributed_intros]:
  "keeps (attributed edge ids) (rt_now (live_runtime E))"
  "keeps (attributed edge ids) (rt_send_message (live_runtime E) m)"
  "keeps (attributed edge ids) (rt_current_price (live_runtime E) symbol)"
  "keeps (attributed edge ids) (rt_position_size (live_runtime E) b q e)"
  "keeps (attributed edge ids) (xs_set_stop_order (redis_exit_store E) p i)"
  "keeps (attributed edge ids) (xs_set_stop_price (redis_exit_store E) p x)"
  "keeps (attributed edge ids) (xs_set_oco_order (redis_exit_store E) p i)"
  "keeps (attributed edge ids) (xs_get_stop_order (redis_exit_store E) p)"
  "keeps (attributed edge ids) (xs_get_oco_order (redis_exit_store E) p)"
  "keeps (attributed edge ids) (ps_position_size (redis_persistence B E) p)"
  unfolding live_sel redis_persistence_sel get_current_price_def
  by (intro attributed_intros)+

lemma attributed_engine [attributed_intros]:
  "oc_edge (lb_order_context lc) = edge \<Longrightarrow> keeps (attributed edge ids) (en_limit_buy (binance_engine B E) lc tc)"
  "oc_edge (sm_order_context sc) = edge \<Longrightarrow> keeps (attributed edge ids) (en_stop_market_sell (binance_engine B E) sc)"
  "oc_edge (ms_order_context mc) = edge \<Longrightarrow> keeps (attributed edge ids) (en_market_sell (binance_engine B E) mc)"
  "keeps (attributed edge ids) (en_cancel_order (binance_engine B E) s i)"
  "keeps (attributed edge ids) (en_cancel_oco_order (binance_engine B E) s i)"
  unfolding binance_engine_sel by (intro attributed_intros; simp)+

lemma attributed_trigger [attributed_intros]: "keeps (attributed edge ids) (trigger_price_of B (live_runtime E) args)"
  unfolding trigger_price_of_def by (auto intro!: attributed_intros split: option.split)

lemma attributed_entry [attributed_intros]:
  "oa_edge args = edge \<Longrightarrow>
   keeps (attributed edge ids) (buy_limit_entry B (binance_engine B E) (live_runtime E) args)"
  unfolding buy_limit_entry_def Let_def by (intro attributed_intros) simp

lemma attributed_stop_limit [attributed_intros]:
  "oa_edge args = edge \<Longrightarrow> keeps (attributed edge ids)
     (stop_limit_open_position B (binance_engine B E) (redis_exit_store E) (live_runtime E) args)"
  unfolding stop_limit_open_position_def stop_limit_exit_def Let_def
  by (auto intro!: attributed_intros split: option.split)

lemma attributed_oco [attributed_intros]:
  "oa_edge args = edge \<Longrightarrow> keeps (attributed edge ids)
     (oco_open_position B (binance_engine B E) (redis_exit_store E) (live_runtime E) args)"
proof -
  assume edge: "oa_edge args = edge"
  have exit: "keeps (attributed edge ids) (oco_exit B (binance_engine B E) (redis_exit_store E) args br x n)" for br x n
    unfolding oco_exit_def Let_def binance_engine_sel
    by (intro attributed_store_context attributed_intros) (simp_all add: edge)
  show ?thesis
    unfolding oco_open_position_def
    by (intro attributed_intros exit edge)
qed

lemma attributed_check_edge:
  "(\<And>e. e = edge \<Longrightarrow> keeps K (f e)) \<Longrightarrow> reflp K \<Longrightarrow> keeps K (bindE (liftE (check_edge (Some edge))) f)"
proof (cases "check_edge (Some edge)")
  case (Inr e)
  assume "\<And>e. e = edge \<Longrightarrow> keeps K (f e)"
  moreover from Inr have "e = edge" by (simp add: check_edge_Inr_iff)
  ultimately show ?thesis by (simp add: Inr liftE_Inr_bind)
qed (simp add: keeps_wp reflpD)

lemma attributed_open_position:
  "keeps (attributed (cl_edge cmd) {})
     (mapper_open_position B (redis_persistence B E) (binance_engine B E) (redis_exit_store E) (live_runtime E) cmd)"
  unfolding mapper_open_position_def in_position_def
  by (intro attributed_intros attributed_check_edge attributed_refl)
    (simp_all add: stop_limit_args_def oco_args_for_def open_args.defs)

lemma attributed_long:
  "keeps (attributed (cl_edge cmd) {})
     (tas_long B (redis_persistence B E) (binance_engine B E) (redis_exit_store E) (live_runtime E) q cmd)"
  unfolding tas_long_def Let_def
  by (intro attributed_intros attributed_check_edge attributed_refl
      attributed_open_position [of "cmd\<lparr>cl_quote_asset := Some q\<rparr>", simplified]
      | simp)+

lemma attributed_cancel_exits [attributed_intros]:
  "keeps (attributed edge ids) (cancel_exit_orders (binance_engine B E) (redis_exit_store E) (live_runtime E) p symbol)"
  unfolding cancel_exit_orders_def by (intro attributed_intros)

lemma attributed_close:
  "keeps (attributed (cc_edge cmd) {})
     (tas_close (redis_persistence B E) (binance_engine B E) (redis_exit_store E) (live_runtime E) q cmd)"
  unfolding tas_close_def mapper_close_position_def Let_def in_position_def
  by (intro attributed_intros) simp

lemma attributed_move:
  "keeps (attributed (mc_edge (mv_trade_context cmd)) {})
     (tas_move_stop B (redis_persistence B E) (binance_engine B E) (redis_exit_store E) (live_runtime E)
        (get_order_context_for_order E binance_spot) q cmd)"
  unfolding tas_move_stop_def mapper_move_stop_def cancel_old_stop_def Let_def in_position_def
  by (intro attributed_intros) simp_all

section \<open>Properties\<close>

abbreviation live_long :: "bignum \<Rightarrow> env \<Rightarrow> string \<Rightarrow> open_long_command \<Rightarrow> (world, open_long_result) prog" where
  "live_long B E \<equiv> tas_long B (redis_persistence B E) (binance_engine B E) (redis_exit_store E) (live_runtime E)"

abbreviation live_close :: "bignum \<Rightarrow> env \<Rightarrow> string \<Rightarrow> close_command \<Rightarrow> (world, close_result) prog" where
  "live_close B E \<equiv> tas_close (redis_persistence B E) (binance_engine B E) (redis_exit_store E) (live_runtime E)"

abbreviation live_move_stop :: "bignum \<Rightarrow> env \<Rightarrow> string \<Rightarrow> move_stop_command \<Rightarrow> (world, move_stop_result) prog" where
  "live_move_stop B E \<equiv> tas_move_stop B (redis_persistence B E) (binance_engine B E) (redis_exit_store E)
     (live_runtime E) (get_order_context_for_order E binance_spot)"

lemma wp_live_long:
  "wp (live_long B E q cmd) (\<lambda>r t. coded r \<and>
     settled (lots_of B) (to_upper (cl_base_asset cmd) @ to_upper q) r (deals_of E w) (deals_of E t)) (\<lambda>_ _. False) w"
proof -
  have "wp (live_long B E q cmd) (\<lambda>r _. coded r) (\<lambda>_ _. True) w"
    using coded_tas_long [of B "redis_persistence B E" "binance_engine B E" "redis_exit_store E" "live_runtime E" q cmd]
    by (simp add: yields_def wp_def split: prod.split sum.split)
  moreover have "wp (live_long B E q cmd)
    (\<lambda>r t. settled (lots_of B) (mi_symbol (get_market_identifier_for q (cl_base_asset cmd))) r (deals_of E w) (deals_of E t))
    (\<lambda>_ _. False) w"
    by (rule svc.long_settles)
  ultimately show ?thesis by (auto simp: get_market_identifier_for_def dest: wp_conj)
qed

text \<open>
  C5: \<open>long\<close> always answers, and its answer accounts for the deals.  For every command and every
  behaviour of the exchange, Redis and the clock the service resolves to a result whose HTTP status
  is the one the interface fixes for its status, with a retry delay exactly on 429; success means a
  filled entry followed by an exit order for the amount bought, an abort a filled entry sold again
  at the market, and any other result but an internal error that nothing was bought.
\<close>

theorem long_answers_and_settles:
  "\<exists>r t. live_long B E q cmd w = (Inr r, t) \<and> coded r \<and>
     settled (lots_of B) (to_upper (cl_base_asset cmd) @ to_upper q) r (deals_of E w) (deals_of E t)"
  using wp_total [OF wp_live_long] by simp

text \<open>
  C10: Every order can be attributed.  On the way from any state, each order that opening, closing or
  moving a stop places, under each of its client ids, has a stored order context that names the edge
  of the command, and no stored context of that edge is lost.
\<close>

theorem orders_are_attributed:
  "attributed (cl_edge lcmd) {} w (snd (live_long B E q lcmd w)) \<and>
   attributed (cc_edge ccmd) {} w (snd (live_close B E q ccmd w)) \<and>
   attributed (mc_edge (mv_trade_context mcmd)) {} w (snd (live_move_stop B E q mcmd w))"
  by (intro conjI keepsD [OF attributed_long] keepsD [OF attributed_close] keepsD [OF attributed_move])


text \<open>
  What \<open>/move_stop\<close> trades and reports.  It throws, before doing anything, exactly when the command
  names no trade; otherwise it answers, and with success there is exactly one new deal, a stop order
  on the position's symbol, while any other answer leaves at most one refused order behind.  The
  success does not say so: the service recomputes \<open>created_stop_order\<close> from an id the mapper never
  sets, so it is always false.
\<close>

theorem moved_stop_is_reported_missing:
  "case live_move_stop B E q cmd w of
     (Inl _, t) \<Rightarrow> \<not> truthy (mc_trade_id (mv_trade_context cmd)) \<and> t = w
   | (Inr r, t) \<Rightarrow>
       if mvr_status r = SUCCESS
       then mvr_created_stop_order r = Some False \<and>
         (\<exists>ord rsp n. deals_of E t = Order ord rsp # deals_of E w \<and>
           stop_of (lots_of B) (to_upper (mc_base_asset (mv_trade_context cmd)) @ to_upper q) n ord)
       else \<exists>ds. deals_of E t = ds @ deals_of E w \<and> length ds \<le> 1"
proof -
  let ?symbol = "mi_symbol (get_market_identifier_for q (mc_base_asset (mv_trade_context cmd)))"
  let ?cmd = "cmd\<lparr>mv_trade_context := (mv_trade_context cmd)\<lparr>mc_quote_asset := Some q\<rparr>\<rparr>"
  have reads: "wp (get_order_context_for_order E binance_spot i) (\<lambda>_ t. deals_of E t = deals_of E s)
      (\<lambda>_ t. deals_of E t = deals_of E s) s" for i s
    unfolding get_order_context_for_order_def
    by (rule wp_quiet [where E = E], intro quiet_intros)
      (auto intro!: quiet_intros split: option.split redis_value.split)
  have moved: "wp (mapper_move_stop B (redis_persistence B E) (binance_engine B E) (redis_exit_store E) (live_runtime E)
      (get_order_context_for_order E binance_spot) ?cmd q)
      (\<lambda>r t. mvr_stop_order_id r = None \<and>
        (if mvr_status r = SUCCESS
         then \<exists>ord rsp n. deals_of E t = Order ord rsp # deals_of E w \<and> stop_of (lots_of B) ?symbol n ord
         else \<exists>ds. deals_of E t = ds @ deals_of E w \<and> length ds \<le> 1)) (\<lambda>_ _. False) w"
    by (rule wp_mono [OF svc.move_stop_law [OF reads]]) (simp_all split: if_splits)
  show ?thesis
  proof (cases "truthy (mc_trade_id (mv_trade_context cmd))")
    case True
    have annotated: "mvr_status (annotate_move c r) = mvr_status r"
        "mvr_status r = SUCCESS \<Longrightarrow> mvr_stop_order_id r = None \<Longrightarrow> mvr_created_stop_order (annotate_move c r) = Some False" for c r
      by (simp_all add: annotate_move_def Let_def truthy_def)
    define post where "post = (\<lambda>(r :: move_stop_result) t. if mvr_status r = SUCCESS
       then mvr_created_stop_order r = Some False \<and>
         (\<exists>ord rsp n. deals_of E t = Order ord rsp # deals_of E w \<and> stop_of (lots_of B) ?symbol n ord)
       else \<exists>ds. deals_of E t = ds @ deals_of E w \<and> length ds \<le> 1)"
    have answer: "wp (bindE (mapper_move_stop B (redis_persistence B E) (binance_engine B E) (redis_exit_store E) (live_runtime E)
        (get_order_context_for_order E binance_spot) ?cmd q) (\<lambda>r. returnE (annotate_move ?cmd r))) post R w" for R
      unfolding wp_bindE wp_returnE by (rule wp_mono [OF moved]) (auto simp: annotated post_def)
    have "wp (live_move_stop B E q cmd) post (\<lambda>_ _. False) w"
    proof (cases "mv_action cmd = ''move_stop''")
      case True
      then show ?thesis
        using \<open>truthy _\<close> unfolding tas_move_stop_def Let_def by (simp del: wp_bindE) (rule answer)
    qed (use True in \<open>auto simp: tas_move_stop_def Let_def live_sel post_def intro: exI [of _ "[]"]\<close>)
    from wp_total [OF this] show ?thesis by (auto simp: get_market_identifier_for_def post_def)
  qed (simp add: tas_move_stop_def Let_def throwE_def)
qed

end
