(* ===== verification/SignalService.thy ===== *)
theory SignalService
  imports Edge70 Collectors Portfolio TradeAbstraction
begin

text \<open>
  The service around the edge70 signal generator (\<open>edge70-service.ts\<close>, \<open>base-assets-list.ts\<close>,
  \<open>publisher.ts\<close>): which markets are followed, how each market's edge is filled with candles and its
  direction initialised, and how the candles of one websocket are handed to the edges.  The markets
  share one persistence of directions.
\<close>

section \<open>The markets\<close>

definition quote_symbol :: string where
  "quote_symbol = ''USDT''"

definition market_symbol :: "string \<Rightarrow> string" where
  "market_symbol base_asset = to_upper base_asset @ quote_symbol"

definition spot_tradeable :: "symbol_info \<Rightarrow> bool" where
  "spot_tradeable s \<longleftrightarrow> s_isSpotTradingAllowed s \<and> s_status s = ''TRADING'' \<and>
     s_baseAssetPrecision s = 8 \<and> s_quoteAssetPrecision s = 8"

definition get_base_assets_list :: "exchange_info \<Rightarrow> string \<Rightarrow> string \<Rightarrow> string list" where
  "get_base_assets_list exchange_info signals_quote_asset tas_quote_asset =
     (let symbols = filter (\<lambda>s. s_baseAssetPrecision s = 8 \<and> s_quoteAssetPrecision s = 8)
            (filter (\<lambda>s. s_isSpotTradingAllowed s \<and> s_status s = ''TRADING'') exchange_info);
          signal_assets = insertion_order (map s_baseAsset
            (filter (\<lambda>s. s_quoteAsset s = to_upper signals_quote_asset) symbols));
          tas_assets = insertion_order (map s_baseAsset
            (filter (\<lambda>s. s_quoteAsset s = to_upper tas_quote_asset) symbols));
          targets = filter (\<lambda>x. x \<in> set tas_assets) signal_assets in
      filter (\<lambda>x. x \<notin> set disallowed_base_assets_for_entry) targets)"

lemma insertion_order [simp]: "set (insertion_order xs) = set xs" "distinct (insertion_order xs)"
  by (simp_all add: insertion_order_def)

lemma base_assets:
  "set (get_base_assets_list ei q q') = {b. b \<notin> set disallowed_base_assets_for_entry \<and>
     (\<exists>s\<in>set ei. spot_tradeable s \<and> s_baseAsset s = b \<and> s_quoteAsset s = to_upper q) \<and>
     (\<exists>s\<in>set ei. spot_tradeable s \<and> s_baseAsset s = b \<and> s_quoteAsset s = to_upper q')}"
  "distinct (get_base_assets_list ei q q')"
proof -
  have "set (map s_baseAsset (filter (\<lambda>s. s_quoteAsset s = q)
        (filter (\<lambda>s. s_baseAssetPrecision s = 8 \<and> s_quoteAssetPrecision s = 8)
          (filter (\<lambda>s. s_isSpotTradingAllowed s \<and> s_status s = ''TRADING'') ei)))) =
      {b. \<exists>s\<in>set ei. spot_tradeable s \<and> s_baseAsset s = b \<and> s_quoteAsset s = q}" for q
    by (auto simp: spot_tradeable_def)
  then show "set (get_base_assets_list ei q q') = {b. b \<notin> set disallowed_base_assets_for_entry \<and>
     (\<exists>s\<in>set ei. spot_tradeable s \<and> s_baseAsset s = b \<and> s_quoteAsset s = to_upper q) \<and>
     (\<exists>s\<in>set ei. spot_tradeable s \<and> s_baseAsset s = b \<and> s_quoteAsset s = to_upper q')}"
    by (simp only: get_base_assets_list_def Let_def set_filter insertion_order) auto
qed (simp add: get_base_assets_list_def Let_def)

section \<open>The publisher\<close>

text \<open>
  \<open>Edge70AMQPSignalPublisher.publish\<close>: telegram is not waited for, and neither publisher's failure keeps
  the other from being tried or reaches the caller.  There is never market data to decorate a signal
  with: loading it is commented out.
\<close>

definition publish_signal ::
    "(edge70_signal \<Rightarrow> ('s, unit) prog) \<Rightarrow> (edge70_signal \<Rightarrow> ('s, unit) prog) \<Rightarrow> (edge70_signal \<Rightarrow> ('s, unit) prog) \<Rightarrow>
     edge70_signal \<Rightarrow> ('s, unit) prog" where
  "publish_signal send_message signal_publisher direction_publisher signal =
     seqE (tryE (send_message signal) (\<lambda>_. returnE ()))
     (seqE (tryE (signal_publisher signal) (\<lambda>_. returnE ()))
       (tryE (direction_publisher signal) (\<lambda>_. returnE ())))"

lemma publish_never_throws: "\<exists>t. publish_signal m p d x s = (Inr (), t)"
  by (auto simp: publish_signal_def seqE_def bindE_def tryE_def returnE_def split: prod.split sum.split)

section \<open>The service\<close>

record 'd signal_service =
  sv_source :: collector
  sv_dir :: 'd
  sv_edges :: "(string \<times> edge70_config \<times> 'd edge70_state) list"
  sv_uninitialised :: "string list"
  sv_ingestion_healthy :: bool
  sv_ingestion_initialised :: bool

definition on_source :: "(collector, 'a) prog \<Rightarrow> ('d signal_service, 'a) prog" where
  "on_source m = (\<lambda>s. case m (sv_source s) of (r, c) \<Rightarrow> (r, s\<lparr>sv_source := c\<rparr>))"

definition on_directions :: "('d, 'a) prog \<Rightarrow> ('d signal_service, 'a) prog" where
  "on_directions m = (\<lambda>s. case m (sv_dir s) of (r, d) \<Rightarrow> (r, s\<lparr>sv_dir := d\<rparr>))"

lemma wp_on_source [simp, wp_simps]:
  "wp (on_source m) Q R s = wp m (\<lambda>x c. Q x (s\<lparr>sv_source := c\<rparr>)) (\<lambda>e c. R e (s\<lparr>sv_source := c\<rparr>)) (sv_source s)"
  by (simp add: wp_def on_source_def split: prod.split sum.split)

lemma wp_on_directions [simp, wp_simps]:
  "wp (on_directions m) Q R s = wp m (\<lambda>x d. Q x (s\<lparr>sv_dir := d\<rparr>)) (\<lambda>e d. R e (s\<lparr>sv_dir := d\<rparr>)) (sv_dir s)"
  by (simp add: wp_def on_directions_def split: prod.split sum.split)

definition set_edge :: "string \<Rightarrow> edge70_config \<Rightarrow> 'd edge70_state \<Rightarrow> 'd signal_service \<Rightarrow> 'd signal_service" where
  "set_edge symbol cfg e s = s\<lparr>sv_edges := AList.update symbol (cfg, e) (sv_edges s)\<rparr>"

definition num_candles_history_to_check :: int where
  "num_candles_history_to_check = 200"

text \<open>\<open>MarketDirectionInitialiser.run\<close> logs its failures.\<close>

definition initialise_direction ::
    "collector_env \<Rightarrow> (string \<Rightarrow> ('d, js_dir) prog) \<Rightarrow> (string \<Rightarrow> direction \<Rightarrow> ('d, js_dir) prog) \<Rightarrow>
     edge70_config \<Rightarrow> ('d signal_service, unit) prog" where
  "initialise_direction E get_direction set_direction cfg =
     tryE
       (bindE (on_source (read_clock E)) (\<lambda>end_date.
        bindE (on_source (get_candles_between E (mi_symbol (cfg_market cfg))
          (end_date - num_candles_history_to_check * day_ms) (Some end_date) ''1d'')) (\<lambda>candles.
        bindE (on_source (read_clock E)) (\<lambda>now1.
        bindE (on_source (read_clock E)) (\<lambda>now2.
          modifyE (\<lambda>s. s\<lparr>sv_dir := snd (mdi_run cfg get_direction set_direction candles now1 now2 (sv_dir s))\<rparr>))))))
       (\<lambda>_. returnE ())"

text \<open>The last candle is dropped when it is not closed yet; the clock is read for the test and for the assertion.\<close>

definition without_partial_candle :: "collector_env \<Rightarrow> candle list \<Rightarrow> (collector, candle list) prog" where
  "without_partial_candle E candles =
     bindE (read_clock E) (\<lambda>now1.
       if c_closeTime (last candles) > now1
       then bindE (read_clock E) (\<lambda>now2.
         seqE (assertE (c_closeTime (last candles) > now2) ''partial_candle.closeTime > Date.now()'')
           (returnE (butlast candles)))
       else returnE candles)"

definition market_config :: "edge70_parameters \<Rightarrow> string \<Rightarrow> edge70_config" where
  "market_config parameters base_asset = \<lparr>cfg_edge = ''edge70'',
     cfg_market = \<lparr>mi_exchange_identifier = binance_spot, mi_base_asset = base_asset,
       mi_quote_asset = None, mi_symbol = market_symbol base_asset\<rparr>, cfg_parameters = parameters\<rparr>"

definition initialise_market ::
    "collector_env \<Rightarrow> (string \<Rightarrow> ('d, js_dir) prog) \<Rightarrow> (string \<Rightarrow> direction \<Rightarrow> ('d, js_dir) prog) \<Rightarrow>
     edge70_parameters \<Rightarrow> string \<Rightarrow> ('d signal_service, unit) prog" where
  "initialise_market E get_direction set_direction parameters base_asset =
     (let symbol = market_symbol base_asset; cfg = market_config parameters base_asset in
      bindE (on_source (read_clock E)) (\<lambda>start_date.
      bindE (on_source (get_candles_between E symbol
        (start_date - (int (required_initial_candles parameters) + 1) * day_ms) (Some start_date) ''1d'')) (\<lambda>candles.
      if candles = [] then throwE (Err (''No candles loaded for '' @ symbol))
      else
        bindE (on_source (without_partial_candle E candles)) (\<lambda>initial_candles.
        bindE (on_source (read_clock E)) (\<lambda>date_now.
        bindE (getE sv_dir) (\<lambda>d.
        bindE (liftE (new_edge70 cfg initial_candles date_now d)) (\<lambda>e.
        seqE (modifyE (set_edge symbol cfg e))
          (if edge_full e
           then bindE (on_directions (get_direction base_asset)) (\<lambda>current_market_direction.
             if current_market_direction = JsNull
             then seqE (modifyE (\<lambda>s. s\<lparr>sv_uninitialised := sv_uninitialised s @ [symbol]\<rparr>))
                    (initialise_direction E get_direction set_direction cfg)
             else returnE ())
           else returnE ()))))))))"

text \<open>
  \<open>run\<close>, from the list of base assets on: the failure of one market is logged and the next one is
  tried.  The pauses between the requests are left out.
\<close>

definition run_service ::
    "collector_env \<Rightarrow> (string \<Rightarrow> ('d, js_dir) prog) \<Rightarrow> (string \<Rightarrow> direction \<Rightarrow> ('d, js_dir) prog) \<Rightarrow>
     edge70_parameters \<Rightarrow> string list \<Rightarrow> ('d signal_service, unit) prog" where
  "run_service E get_direction set_direction parameters base_assets =
     seqE (forE base_assets (\<lambda>base_asset.
         tryE (initialise_market E get_direction set_direction parameters base_asset) (\<lambda>_. returnE ())))
       (modifyE (\<lambda>s. s\<lparr>sv_ingestion_initialised := True\<rparr>))"

text \<open>
  The callback of the candle websocket.  The handlers of candles that arrive together run one after the
  other here.
\<close>

definition candle_arrives ::
    "(string \<Rightarrow> ('d, js_dir) prog) \<Rightarrow> (string \<Rightarrow> direction \<Rightarrow> ('d, js_dir) prog) \<Rightarrow> (edge70_signal \<Rightarrow> js_error option) \<Rightarrow>
     string \<Rightarrow> bool \<Rightarrow> candle \<Rightarrow> 'd signal_service \<Rightarrow> 'd signal_service" where
  "candle_arrives get_direction set_direction pub symbol isFinal c s =
     (case map_of (sv_edges s) symbol of
        None \<Rightarrow> s
      | Some (cfg, e) \<Rightarrow>
          if isFinal
          then (case ingest_new_candle cfg get_direction set_direction pub c (e\<lparr>sg_dir := sv_dir s\<rparr>) of (r, e') \<Rightarrow>
            (set_edge symbol cfg e' s)\<lparr>sv_dir := sg_dir e',
               sv_ingestion_healthy := (sv_ingestion_healthy s \<and> r = Inr ())\<rparr>)
          else s)"

section \<open>Markets do not interfere\<close>

text \<open>Candles with the time they arrive at, at which directions whose expiry has passed are gone.\<close>

definition live_service_step ::
    "(edge70_signal \<Rightarrow> js_error option) \<Rightarrow> int \<times> string \<times> bool \<times> candle \<Rightarrow> dir_redis signal_service \<Rightarrow> dir_redis signal_service" where
  "live_service_step pub x s = (case x of (t, symbol, isFinal, c) \<Rightarrow>
     candle_arrives redis_get_direction redis_set_direction pub symbol isFinal c (s\<lparr>sv_dir := (sv_dir s)\<lparr>dr_now := t\<rparr>\<rparr>))"

definition live_service ::
    "(edge70_signal \<Rightarrow> js_error option) \<Rightarrow> (int \<times> string \<times> bool \<times> candle) list \<Rightarrow> dir_redis signal_service \<Rightarrow> dir_redis signal_service" where
  "live_service pub xs s = fold (live_service_step pub) xs s"

definition final_candles :: "string \<Rightarrow> (int \<times> string \<times> bool \<times> candle) list \<Rightarrow> (int \<times> candle) list" where
  "final_candles symbol xs = map (\<lambda>(t, _, _, c). (t, c)) (filter (\<lambda>(_, sy, isFinal, _). sy = symbol \<and> isFinal) xs)"

text \<open>Every edge is filed under the symbol of its market.\<close>

definition service_ok :: "dir_redis signal_service \<Rightarrow> bool" where
  "service_ok s \<longleftrightarrow> redis_dirs_ok (sv_dir s) \<and>
     (\<forall>symbol cfg e. map_of (sv_edges s) symbol = Some (cfg, e) \<longrightarrow>
       symbol = market_symbol (mi_base_asset (cfg_market cfg)) \<and> well_formed e)"

definition same_direction :: "string \<Rightarrow> dir_redis \<Rightarrow> dir_redis \<Rightarrow> bool" where
  "same_direction b d d' \<longleftrightarrow> dr_prefix d' = dr_prefix d \<and>
     map_of (dr_keys d') (market_to_key (dr_prefix d) b) = map_of (dr_keys d) (market_to_key (dr_prefix d) b)"

definition same_edge :: "edge70_config \<Rightarrow> dir_redis edge70_state \<Rightarrow> dir_redis edge70_state \<Rightarrow> bool" where
  "same_edge cfg e e' \<longleftrightarrow> sg_long e = sg_long e' \<and> sg_short e = sg_short e' \<and> sg_out e = sg_out e' \<and>
     sg_healthy e = sg_healthy e' \<and> same_direction (mi_base_asset (cfg_market cfg)) (sg_dir e) (sg_dir e')"

lemma stored_at_time:
  "same_direction b d d' \<Longrightarrow> stored_redis (d\<lparr>dr_now := t\<rparr>) b = stored_redis (d'\<lparr>dr_now := t\<rparr>) b"
  by (simp add: same_direction_def stored_redis_def live_value_def split: option.split)

text \<open>An edge acts on what is stored of its own market only.\<close>

lemma live_step_same_edge:
  assumes "same_edge cfg e e'" "well_formed e" "redis_dirs_ok (sg_dir e)" "redis_dirs_ok (sg_dir e')"
  shows "same_edge cfg (live_step cfg pub (t, c) e) (live_step cfg pub (t, c) e')"
proof -
  let ?b = "mi_base_asset (cfg_market cfg)"
  have pre: "redis_dirs_ok (sg_dir (at_time t e))" "well_formed (at_time t e)"
      "redis_dirs_ok (sg_dir (at_time t e'))" "well_formed (at_time t e')"
    using assms by (simp_all add: same_edge_def well_formed_def)
  define a where "a = candle_action c (at_time t e) (stored_redis (sg_dir (at_time t e)) ?b)"
  have a: "candle_action c (at_time t e') (stored_redis (sg_dir (at_time t e')) ?b) = a"
    using assms(1) stored_at_time [of ?b "sg_dir e" "sg_dir e'" t] by (simp add: a_def candle_action_def same_edge_def)
  have dirs: "same_direction ?b (snd (redis_set_direction ?b x ((sg_dir e)\<lparr>dr_now := t\<rparr>)))
      (snd (redis_set_direction ?b x ((sg_dir e')\<lparr>dr_now := t\<rparr>)))" for x
    using assms pre by (simp add: same_edge_def same_direction_def redis_set_direction_eq)
  have now: "same_direction ?b ((sg_dir e)\<lparr>dr_now := t\<rparr>) ((sg_dir e')\<lparr>dr_now := t\<rparr>)"
    using assms(1) by (simp add: same_edge_def same_direction_def)
  have healthy: "sg_healthy (at_time t e) = sg_healthy e" "sg_healthy (at_time t e') = sg_healthy e'"
    by (simp_all add: at_time_def)
  show ?thesis
    using assms(1) dirs now healthy
    unfolding live_step_def fst_conv snd_conv redis_dir.ingest_spec [OF pre(1,2)] redis_dir.ingest_spec [OF pre(3,4)]
      a a_def [symmetric]
    by (cases a) (auto simp: same_edge_def Let_def after_def push_both_def signal_for_def split: option.split)
qed

lemma live_step_ok:
  assumes "well_formed e" "redis_dirs_ok (sg_dir e)"
  shows "well_formed (live_step cfg pub (t, c) e)" "redis_dirs_ok (sg_dir (live_step cfg pub (t, c) e))"
  using redis_dir.ingest_state(5,6) [of "at_time t e" cfg pub c] assms by (simp_all add: live_step_def)

text \<open>And leaves what is stored of the others.\<close>

lemma live_step_other:
  assumes "well_formed e" "redis_dirs_ok (sg_dir e)" "to_upper b \<noteq> to_upper (mi_base_asset (cfg_market cfg))"
    and "same_direction b d (sg_dir e)"
  shows "same_direction b d (sg_dir (live_step cfg pub (t, c) e))"
proof -
  have "redis_dirs_ok (sg_dir (at_time t e))" "well_formed (at_time t e)" using assms by simp_all
  note dir = redis_dir.ingest_state(1) [OF this, of cfg pub c]
  have key: "market_to_key (dr_prefix d) b \<noteq> market_to_key (dr_prefix d) (mi_base_asset (cfg_market cfg))"
    using assms(3) by (simp add: market_to_key_eq_iff)
  show ?thesis
    unfolding live_step_def fst_conv snd_conv dir
    using assms(2,4) key
    by (auto simp: after_def Let_def redis_set_direction_eq same_direction_def split: action.split)
qed

lemma market_symbol_eq: "market_symbol b = market_symbol b' \<longleftrightarrow> to_upper b = to_upper b'"
  by (simp add: market_symbol_def)

text \<open>One arrival, from the point of view of a market.\<close>

lemma live_service_step_cases:
  "live_service_step pub (t, symbol, isFinal, c) s = (case map_of (sv_edges s) symbol of
     Some (cfg, e) \<Rightarrow>
       if isFinal
       then let e' = live_step cfg pub (t, c) (e\<lparr>sg_dir := sv_dir s\<rparr>) in
         (set_edge symbol cfg e' s)\<lparr>sv_dir := sg_dir e', sv_ingestion_healthy := (sv_ingestion_healthy s \<and>
           fst (ingest_new_candle cfg redis_get_direction redis_set_direction pub c
             (at_time t (e\<lparr>sg_dir := sv_dir s\<rparr>))) = Inr ())\<rparr>
       else s\<lparr>sv_dir := (sv_dir s)\<lparr>dr_now := t\<rparr>\<rparr>
   | None \<Rightarrow> s\<lparr>sv_dir := (sv_dir s)\<lparr>dr_now := t\<rparr>\<rparr>)"
  by (auto simp: live_service_step_def candle_arrives_def live_step_def at_time_def set_edge_def Let_def
      split: option.split prod.split)

definition follows :: "string \<Rightarrow> edge70_config \<Rightarrow> dir_redis signal_service \<Rightarrow> dir_redis edge70_state \<Rightarrow> bool" where
  "follows symbol cfg s u \<longleftrightarrow> service_ok s \<and> redis_dirs_ok (sg_dir u) \<and>
     (case map_of (sv_edges s) symbol of
        None \<Rightarrow> False
      | Some (cfg', e) \<Rightarrow> cfg' = cfg \<and> same_edge cfg (e\<lparr>sg_dir := sv_dir s\<rparr>) u)"

lemma service_ok_edge:
  "service_ok s \<Longrightarrow> map_of (sv_edges s) symbol = Some (cfg, e) \<Longrightarrow>
   symbol = market_symbol (mi_base_asset (cfg_market cfg)) \<and> well_formed e \<and> redis_dirs_ok (sv_dir s)"
  by (auto simp: service_ok_def)

lemma well_formed_dir [simp]: "well_formed (e\<lparr>sg_dir := d\<rparr>) = well_formed e"
  by (simp add: well_formed_def)

lemma service_ok_set_edge:
  "service_ok s \<Longrightarrow> symbol = market_symbol (mi_base_asset (cfg_market cfg)) \<Longrightarrow> well_formed e \<Longrightarrow> redis_dirs_ok d \<Longrightarrow>
   service_ok ((set_edge symbol cfg e s)\<lparr>sv_dir := d, sv_ingestion_healthy := h\<rparr>)"
  by (simp add: service_ok_def set_edge_def update_conv')

lemma service_ok_clock: "service_ok (s\<lparr>sv_dir := (sv_dir s)\<lparr>dr_now := t\<rparr>\<rparr>) = service_ok s"
  by (simp add: service_ok_def)

lemma service_ok_step:
  assumes "service_ok s"
  shows "service_ok (live_service_step pub x s)"
proof -
  obtain t sy isFinal c where x: "x = (t, sy, isFinal, c)" by (cases x)
  show ?thesis
  proof (cases "map_of (sv_edges s) sy")
    case None
    then show ?thesis using assms by (simp add: x live_service_step_cases service_ok_clock)
  next
    case (Some y)
    obtain cfg e where y: "y = (cfg, e)" by (cases y)
    note ok = service_ok_edge [OF assms Some [unfolded y]]
    have "well_formed (e\<lparr>sg_dir := sv_dir s\<rparr>)" "redis_dirs_ok (sg_dir (e\<lparr>sg_dir := sv_dir s\<rparr>))" using ok by simp_all
    note step = live_step_ok [OF this, of cfg pub t c]
    show ?thesis
      unfolding x live_service_step_cases Some y Let_def option.case prod.case
      using assms ok step by (simp add: service_ok_clock service_ok_set_edge)
  qed
qed

text \<open>What an arrival does to the edge that a single run would have.\<close>

lemma follows_step:
  assumes "follows symbol cfg s u"
  shows "follows symbol cfg (live_service_step pub (t, sy, isFinal, c) s)
    (if sy = symbol \<and> isFinal then live_step cfg pub (t, c) u else u)"
proof -
  obtain e where e: "map_of (sv_edges s) symbol = Some (cfg, e)" "same_edge cfg (e\<lparr>sg_dir := sv_dir s\<rparr>) u"
      and ok: "service_ok s" "redis_dirs_ok (sg_dir u)"
    using assms by (auto simp: follows_def split: option.splits)
  note edge = service_ok_edge [OF ok(1) e(1)]
  note step_ok = service_ok_step [OF ok(1), of pub "(t, sy, isFinal, c)"]
  have u: "well_formed u" using edge e(2) by (simp add: same_edge_def well_formed_def)
  have clock: "same_edge cfg (e\<lparr>sg_dir := (sv_dir s)\<lparr>dr_now := t\<rparr>\<rparr>) u"
    using e(2) by (simp add: same_edge_def same_direction_def)
  show ?thesis
  proof (cases "map_of (sv_edges s) sy = None \<or> \<not> isFinal")
    case True
    then have "live_service_step pub (t, sy, isFinal, c) s = s\<lparr>sv_dir := (sv_dir s)\<lparr>dr_now := t\<rparr>\<rparr>"
      by (auto simp: live_service_step_cases split: option.split)
    moreover have "\<not> (sy = symbol \<and> isFinal)" using True e(1) by auto
    ultimately show ?thesis using step_ok ok(2) e(1) clock by (auto simp: follows_def)
  next
    case False
    then obtain cfg' e' where e': "map_of (sv_edges s) sy = Some (cfg', e')" and final: "isFinal" by auto
    note edge' = service_ok_edge [OF ok(1) e']
    define v where "v = live_step cfg' pub (t, c) (e'\<lparr>sg_dir := sv_dir s\<rparr>)"
    have step: "sv_edges (live_service_step pub (t, sy, isFinal, c) s) = AList.update sy (cfg', v) (sv_edges s)"
        "sv_dir (live_service_step pub (t, sy, isFinal, c) s) = sg_dir v"
      using final by (simp_all add: live_service_step_cases e' v_def Let_def set_edge_def)
    show ?thesis
    proof (cases "sy = symbol")
      case True
      then have "cfg' = cfg" "e' = e" using e(1) e' by simp_all
      moreover have "same_edge cfg (live_step cfg pub (t, c) (e\<lparr>sg_dir := sv_dir s\<rparr>)) (live_step cfg pub (t, c) u)"
        using e(2) edge ok(2) by (intro live_step_same_edge) simp_all
      ultimately show ?thesis
        using step_ok True final live_step_ok [OF u ok(2)] step
        by (simp add: follows_def update_conv' v_def same_edge_def)
    next
      case other: False
      have "to_upper (mi_base_asset (cfg_market cfg)) \<noteq> to_upper (mi_base_asset (cfg_market cfg'))"
        using other edge edge' by (auto simp: market_symbol_eq)
      then have "same_direction (mi_base_asset (cfg_market cfg)) (sg_dir u) (sg_dir v)"
        unfolding v_def using edge' e(2)
        by (intro live_step_other) (simp_all add: same_edge_def same_direction_def)
      then have "same_edge cfg (e\<lparr>sg_dir := sg_dir v\<rparr>) u" using e(2) by (simp add: same_edge_def same_direction_def)
      then show ?thesis using step_ok other ok(2) e(1) step by (simp add: follows_def update_conv')
    qed
  qed
qed

lemma follows_run:
  "follows symbol cfg s u \<Longrightarrow> follows symbol cfg (live_service pub xs s) (live_run cfg pub (final_candles symbol xs) u)"
proof (induction xs arbitrary: s u)
  case (Cons x xs)
  obtain t sy isFinal c where x: "x = (t, sy, isFinal, c)" by (cases x)
  show ?case
    using Cons.IH [OF follows_step [OF Cons.prems, of pub t sy isFinal c]]
    by (cases "sy = symbol \<and> isFinal") (auto simp: x live_service_def live_run_def final_candles_def)
qed (simp add: live_service_def live_run_def final_candles_def)

section \<open>A market starts with its history\<close>

text \<open>A market with a candle for each of the last \<open>n\<close> days and for the current one.\<close>

definition listed_for :: "(string \<Rightarrow> candle list) \<Rightarrow> string \<Rightarrow> nat \<Rightarrow> int \<Rightarrow> bool" where
  "listed_for hist symbol n today \<longleftrightarrow> list_all (\<lambda>c. day_ms dvd openTime c) (hist symbol) \<and>
     (\<forall>k. today - int n \<le> k \<and> k \<le> today \<longrightarrow> k * day_ms \<in> openTime ` set (hist symbol))"

definition closed_candles :: "(string \<Rightarrow> candle list) \<Rightarrow> string \<Rightarrow> int \<Rightarrow> candle list" where
  "closed_candles hist symbol today = filter (\<lambda>c. c_closeTime c < today * day_ms) (hist symbol)"

definition within_day :: "collector_env \<Rightarrow> int \<Rightarrow> bool" where
  "within_day E today \<longleftrightarrow> (\<forall>log. today * day_ms \<le> ce_now E log \<and> ce_now E log < (today + 1) * day_ms - 1)"

lemma closed_iff:
  assumes "day_ms dvd openTime c"
  shows "c_closeTime c < today * day_ms \<longleftrightarrow> openTime c < today * day_ms"
proof -
  obtain k where k: "openTime c = day_ms * k" using assms by (elim dvdE)
  then have "c_closeTime c = day_ms * k + day_ms - 1" by (simp add: openTime_def)
  then show ?thesis using k by (cases "k < today") (auto simp: day_ms_def)
qed

text \<open>The window that is loaded: as many closed candles as are asked for, then the current one.\<close>

lemma initial_window:
  assumes "daily (hist symbol)" "listed_for hist symbol n today"
    and "today * day_ms \<le> start" "start < (today + 1) * day_ms - 1"
  shows "\<exists>pre ws c. window hist symbol (start - (int n + 1) * day_ms) start = ws @ [c] \<and>
    closed_candles hist symbol today = pre @ ws \<and> n \<le> length ws \<and> openTime c = today * day_ms"
proof -
  let ?m = "start - (int n + 1) * day_ms" and ?H = "hist symbol"
  have sorted: "sorted_wrt (\<lambda>a b. openTime a + day_ms \<le> openTime b) ?H" using assms(1) by (simp add: daily_def)
  have dvd: "day_ms dvd openTime c" if "c \<in> set ?H" for c
    using assms(2) that by (simp add: listed_for_def list_all_iff)
  define ws where "ws = filter (\<lambda>c. ?m \<le> openTime c \<and> openTime c < today * day_ms) ?H"
  have now: "?m \<le> (today - int n) * day_ms" using assms(4) by (simp add: algebra_simps)
  have current: "openTime c = today * day_ms" if "c \<in> set ?H" "openTime c \<le> start" "today * day_ms \<le> openTime c" for c
  proof -
    have "day_ms dvd openTime c" by (rule dvd [OF that(1)])
    then obtain k where "openTime c = day_ms * k" by (elim dvdE)
    then show ?thesis using that(2,3) assms(4) by (cases "k = today") (auto simp: day_ms_def)
  qed
  have "filter (\<lambda>c. ?m \<le> openTime c \<and> openTime c \<le> start) ?H = ws @ filter (\<lambda>c. openTime c = today * day_ms) ?H"
    unfolding filter_split [OF sorted, of "\<lambda>c. ?m \<le> openTime c \<and> openTime c \<le> start" "today * day_ms"] ws_def
    using assms(3) now current
    by (intro arg_cong2 [where f = append] filter_cong) (auto simp: algebra_simps day_ms_def)
  moreover obtain c where c: "filter (\<lambda>c. openTime c = today * day_ms) ?H = [c]"
  proof -
    have "today * day_ms \<in> openTime ` set ?H" using assms(2) by (simp add: listed_for_def)
    then have "filter (\<lambda>c. openTime c = today * day_ms) ?H \<noteq> []" by (auto simp: filter_empty_conv)
    moreover have "length (filter (\<lambda>c. openTime c = today * day_ms) ?H) \<le> 1"
      using opens_at_once [OF sorted, of "\<lambda>_. True"] by simp
    ultimately show ?thesis using that by (cases "filter (\<lambda>c. openTime c = today * day_ms) ?H") auto
  qed
  moreover from this have "openTime c = today * day_ms" by (auto simp: filter_eq_Cons_iff)
  moreover define pre where "pre = filter (\<lambda>c. openTime c < today * day_ms \<and> openTime c < ?m) ?H"
  have "closed_candles hist symbol today = pre @ ws"
    using filter_split [OF sorted, of "\<lambda>c. openTime c < today * day_ms" ?m] dvd
    by (simp add: closed_candles_def closed_iff ws_def pre_def conj_commute cong: filter_cong)
  moreover have "n \<le> length ws"
  proof -
    have "(\<lambda>i. (today - 1 - int i) * day_ms) ` {..<n} \<subseteq> openTime ` set ws"
    proof safe
      fix i assume "i < n"
      then have "(today - 1 - int i) * day_ms \<in> openTime ` set ?H" using assms(2) by (simp add: listed_for_def)
      then obtain c where "c \<in> set ?H" "openTime c = (today - 1 - int i) * day_ms" by auto
      moreover have "(today - int n) * day_ms \<le> (today - 1 - int i) * day_ms"
        using \<open>i < n\<close> by (intro mult_right_mono) (simp_all add: day_ms_def)
      ultimately show "(today - 1 - int i) * day_ms \<in> openTime ` set ws"
        using now by (intro image_eqI [of _ _ c]) (auto simp: ws_def day_ms_def)
    qed
    then have "card ((\<lambda>i. (today - 1 - int i) * day_ms) ` {..<n}) \<le> card (openTime ` set ws)" by (intro card_mono) simp_all
    moreover have "inj_on (\<lambda>i. (today - 1 - int i) * day_ms) {..<n}" by (rule inj_onI) (simp add: day_ms_def)
    ultimately have "n \<le> card (openTime ` set ws)" by (simp add: card_image)
    also have "\<dots> \<le> length ws" using card_image_le [of "set ws" openTime] card_length [of ws] by simp
    finally show ?thesis .
  qed
  ultimately show ?thesis unfolding window_def by (intro exI [of _ pre] exI [of _ ws] exI [of _ c]) simp
qed

lemma slice_last_append: "0 < n \<Longrightarrow> n \<le> length ys \<Longrightarrow> slice_last n (xs @ ys) = slice_last n ys"
  by (simp add: slice_last_def)

lemma wp_read_clock: "wp (read_clock E) Q R s = Q (ce_now E (ReadClock # cl_log s)) (s\<lparr>cl_log := ReadClock # cl_log s\<rparr>)"
  by (simp add: read_clock_def log_call_def)

lemma source_ok_log [simp]: "source_ok E hist (s\<lparr>cl_log := l\<rparr>) = source_ok E hist s"
  by (simp add: source_ok_def files_agree_def)

lemma keeps_on_source:
  "keeps (\<lambda>s t. sv_edges t = sv_edges s \<and> sv_uninitialised t = sv_uninitialised s) (on_source m)"
  by (simp add: keeps_def on_source_def split: prod.split)

lemma wp_initialise_direction:
  "wp (initialise_direction E g st cfg) (\<lambda>_ t. sv_edges t = sv_edges s \<and> sv_uninitialised t = sv_uninitialised s) (\<lambda>_ _. False) s"
proof -
  let ?K = "\<lambda>s t. sv_edges t = sv_edges s \<and> sv_uninitialised t = sv_uninitialised s"
  have K: "reflp ?K" "transp ?K" by (auto intro: reflpI transpI)
  have direction: "keeps ?K (modifyE (\<lambda>s. s\<lparr>sv_dir := f s\<rparr>))" for f
    by (simp add: keeps_def modifyE_def)
  have "keeps ?K (initialise_direction E g st cfg)"
    unfolding initialise_direction_def
    by (intro keeps_tryE keeps_bindE K keeps_on_source direction keeps_returnE)
  moreover have "wp (initialise_direction E g st cfg) (\<lambda>_ _. True) (\<lambda>_ _. False) s"
    by (simp add: initialise_direction_def wp_true del: wp_bindE)
  ultimately show ?thesis
    using wp_conj [of "initialise_direction E g st cfg" "\<lambda>_. ?K s" "\<lambda>_. ?K s" s "\<lambda>_ _. True" "\<lambda>_ _. False"]
    by (simp add: keeps_wp)
qed

definition starts_full :: "(string \<Rightarrow> candle list) \<Rightarrow> int \<Rightarrow> edge70_parameters \<Rightarrow> string \<Rightarrow> dir_redis signal_service \<Rightarrow> bool" where
  "starts_full hist today parameters base_asset t \<longleftrightarrow>
     (case map_of (sv_edges t) (market_symbol base_asset) of
        None \<Rightarrow> False
      | Some (cfg, e) \<Rightarrow> cfg = market_config parameters base_asset \<and> edge_full e \<and>
          h_candles (sg_long e) = slice_last (candles_long parameters) (closed_candles hist (market_symbol base_asset) today) \<and>
          h_candles (sg_short e) = slice_last (candles_short parameters) (closed_candles hist (market_symbol base_asset) today))"

lemma wp_initialise_market:
  assumes "source_ok E hist (sv_source s)" "redis_dirs_ok (sv_dir s)" "within_day E today"
    and "n = required_initial_candles parameters" "n < 490" "0 < candles_long parameters" "0 < candles_short parameters"
    and "listed_for hist (market_symbol base_asset) n today" "490 \<le> today"
  shows "wp (initialise_market E redis_get_direction redis_set_direction parameters base_asset)
    (\<lambda>_ t. starts_full hist today parameters base_asset t) (\<lambda>err t. source_error E err \<and> sv_edges t = sv_edges s) s"
proof -
  let ?symbol = "market_symbol base_asset" and ?cfg = "market_config parameters base_asset"
  have clock: "today * day_ms \<le> ce_now E log" "ce_now E log < (today + 1) * day_ms - 1" for log
    using assms(3) by (simp_all add: within_day_def)
  define k where "k e = (if edge_full e
           then bindE (on_directions (redis_get_direction base_asset)) (\<lambda>current_market_direction.
             if current_market_direction = JsNull
             then seqE (modifyE (\<lambda>s. s\<lparr>sv_uninitialised := sv_uninitialised s @ [?symbol]\<rparr>))
                    (initialise_direction E redis_get_direction redis_set_direction ?cfg)
             else returnE ())
           else returnE ())" for e :: "dir_redis edge70_state"
  have tail: "wp (k e) (\<lambda>_ t. starts_full hist today parameters base_asset t) R u"
    if "starts_full hist today parameters base_asset u" "redis_dirs_ok (sv_dir u)" for e u R
    using that
    by (auto simp: k_def redis_dir.wp_get starts_full_def intro!: wp_mono [OF wp_initialise_direction])
  have rest: "wp (bindE (on_source (without_partial_candle E (ws @ [c]))) (\<lambda>initial_candles.
        bindE (on_source (read_clock E)) (\<lambda>date_now.
        bindE (getE sv_dir) (\<lambda>d.
        bindE (liftE (new_edge70 ?cfg initial_candles date_now d)) (\<lambda>e.
        seqE (modifyE (set_edge ?symbol ?cfg e))
          (k e))))))
      (\<lambda>_ t. starts_full hist today parameters base_asset t) R u"
    if c: "openTime c = today * day_ms" and ws: "closed_candles hist ?symbol today = pre @ ws" "n \<le> length ws"
      and u: "redis_dirs_ok (sv_dir u)" for pre ws c u R
  proof -
    have partial: "c_closeTime c > ce_now E log" for log
      using c clock [of log] by (simp add: openTime_def algebra_simps)
    have "c_closeTime (last ws) < today * day_ms" if "ws \<noteq> []"
    proof -
      have "last ws \<in> set (closed_candles hist ?symbol today)" using that ws(1) by simp
      then show ?thesis by (simp add: closed_candles_def)
    qed
    then have closed: "\<not> c_closeTime (last ws) > ce_now E log" if "ws \<noteq> []" for log
      using that clock(1) [of log] by force
    define e where "e = \<lparr>sg_long = new_history (candles_long parameters) ws, sg_short = new_history (candles_short parameters) ws,
      sg_healthy = True, sg_dir = sv_dir u, sg_out = []\<rparr>"
    have new: "new_edge70 ?cfg ws (ce_now E log) (sv_dir u) = Inr e" for log
      using closed by (auto simp: new_edge70_def market_config_def e_def)
    have "candles_long parameters \<le> length ws" "candles_short parameters \<le> length ws"
      using assms(4) ws(2) by (simp_all add: required_initial_candles_def)
    then have "starts_full hist today parameters base_asset (set_edge ?symbol ?cfg e v)" for v
      using assms(6,7) ws(1)
      by (simp add: starts_full_def set_edge_def update_conv' e_def edge_full_def full_new_history slice_last_append)
        (simp add: new_history_def)
    moreover have "sv_dir (set_edge ?symbol ?cfg e v) = sv_dir v" for v by (simp add: set_edge_def)
    ultimately show ?thesis
      by (simp add: without_partial_candle_def wp_read_clock partial new tail u)
  qed
  define start where "start = ce_now E (ReadClock # cl_log (sv_source s))"
  have start: "today * day_ms \<le> start" "start < (today + 1) * day_ms - 1" using clock by (simp_all add: start_def)
  have "(int n + 1) * day_ms \<le> 490 * day_ms" "490 * day_ms \<le> today * day_ms"
    using assms(5,9) by (auto intro!: mult_right_mono simp: day_ms_def)
  then have range: "0 \<le> start - (int n + 1) * day_ms" "start - (int n + 1) * day_ms < start"
      "start - (start - (int n + 1) * day_ms) \<le> 490 * day_ms"
    using start(1) by (simp_all add: day_ms_def)
  have "daily (hist ?symbol)" using assms(1) by (simp add: source_ok_def)
  from initial_window [OF this assms(8) start] obtain pre ws c where
    window: "window hist ?symbol (start - (int n + 1) * day_ms) start = ws @ [c]"
    "closed_candles hist ?symbol today = pre @ ws" "n \<le> length ws" "openTime c = today * day_ms" by blast
  note loaded = binance_window_law [where E = E and hist = hist and symbol = ?symbol, OF _ range, unfolded window(1)]
  show ?thesis
    unfolding initialise_market_def Let_def wp_bindE [of "on_source _"] wp_on_source wp_read_clock
      assms(4) [symmetric] start_def [symmetric]
  proof (rule wp_mono [OF loaded], goal_cases)
    case (2 cs t)
    then have "cs = ws @ [c]" by simp
    then show ?case using rest [OF window(4,2,3), unfolded k_def] assms(2) by (simp del: wp_bindE wp_seqE)
  qed (use assms(1) in simp_all)
qed

section \<open>Properties\<close>


text \<open>
  C16: A market starts with a full history.  When the exchange has a candle for each of the days that the
  edge looks back on and for the current one, setting a market up either fails with an error of the
  exchange and leaves the edges alone, or files an edge whose two histories are full and hold exactly
  the most recent closed candles: the window loaded is neither too short nor includes the candle of the
  current day.
\<close>

theorem market_starts_full:
  assumes "source_ok E hist (sv_source s)" "redis_dirs_ok (sv_dir s)" "within_day E today"
    and "n = required_initial_candles parameters" "n < 490" "0 < candles_long parameters" "0 < candles_short parameters"
    and "listed_for hist (market_symbol base_asset) n today" "490 \<le> today"
  shows "case initialise_market E redis_get_direction redis_set_direction parameters base_asset s of
      (Inl err, t) \<Rightarrow> source_error E err \<and> sv_edges t = sv_edges s
    | (Inr _, t) \<Rightarrow> starts_full hist today parameters base_asset t"
  using wp_initialise_market [OF assms] unfolding wp_def by (auto split: prod.splits sum.splits)

definition demo_parameters :: edge70_parameters where
  "demo_parameters = \<lparr>candles_long = 1, candles_short = 1\<rparr>"

definition demo_service :: "dir_redis signal_service" where
  "demo_service = \<lparr>sv_source = \<lparr>cl_log = [], cl_files = []\<rparr>, sv_dir = \<lparr>dr_prefix = ''edge70'', dr_now = 0, dr_keys = []\<rparr>,
     sv_edges = map (\<lambda>b. (market_symbol b, market_config demo_parameters b,
       \<lparr>sg_long = new_history 1 [], sg_short = new_history 1 [], sg_healthy = True,
        sg_dir = \<lparr>dr_prefix = [], dr_now = 0, dr_keys = []\<rparr>, sg_out = []\<rparr>)) [''ETH'', ''BTC''],
     sv_uninitialised = [], sv_ingestion_healthy = True, sv_ingestion_initialised = True\<rparr>"


definition two_days :: "string \<Rightarrow> candle list" where
  "two_days symbol = [demo_daily_candle (499 * day_ms), demo_daily_candle (500 * day_ms)]"

definition two_days_source :: collector_env where
  "two_days_source = \<lparr>ce_candles = \<lambda>log. case log of Klines symbol interval s e # _ \<Rightarrow> Inr (window two_days symbol s e) | _ \<Rightarrow> Inr [],
     ce_now = \<lambda>_. 500 * day_ms + 5, ce_write = \<lambda>_. None\<rparr>"

theorem market_starts_full_witness:
  "starts_full two_days 500 demo_parameters ''ETH''
    (snd (initialise_market two_days_source redis_get_direction redis_set_direction demo_parameters ''ETH'' demo_service))"
proof -
  have source: "source_ok two_days_source two_days (sv_source demo_service)"
    by (simp add: source_ok_def klines_documented_def two_days_source_def daily_def two_days_def files_agree_def
        openTime_def demo_daily_candle_def day_ms_def demo_service_def window_def)
  have dirs: "redis_dirs_ok (sv_dir demo_service)" by (simp add: demo_service_def redis_dirs_ok_def)
  have clock: "within_day two_days_source 500" by (simp add: within_day_def two_days_source_def day_ms_def)
  have n: "1 = required_initial_candles demo_parameters" by (simp add: required_initial_candles_def demo_parameters_def)
  have listed: "listed_for two_days symbol 1 500" for symbol
  proof -
    have "k = 499 \<or> k = 500" if "500 - int 1 \<le> k" "k \<le> 500" for k :: int using that by auto
    then show ?thesis by (auto simp: listed_for_def two_days_def demo_daily_candle_def openTime_def)
  qed
  have never: "\<not> source_error two_days_source err" for err
    by (auto simp: source_error_def two_days_source_def split: list.splits collector_call.splits)
  show ?thesis
    using market_starts_full [OF source dirs clock n _ _ _ listed, of "''ETH''"] never
    by (auto simp: demo_parameters_def split: prod.splits sum.splits)
qed

end
