(* ===== verification/BacktestRun.thy ===== *)
theory BacktestRun
  imports Backtest SignalService
begin

text \<open>
  The run of the edge70 backtester (\<open>edge70-mega-backtester.ts\<close>, \<open>backtest-portfolio-tracker.ts\<close>,
  \<open>portfolio-summary.ts\<close>): the histories of the markets, of which only the longest are kept, the loop
  that takes one candle of each at a time to the stops and then to the edges, and the figures that are
  kept at the end of each day.
\<close>

section \<open>State\<close>

text \<open>What \<open>CaptainHooksBacktesterStats\<close> keeps of a day.\<close>

record figures =
  fg_timestamp :: int
  fg_cash :: rat
  fg_loan :: rat
  fg_investments :: rat
  fg_total_assets_inc_cash :: rat
  fg_net_worth :: rat
  fg_pct_portfolio_invested :: big
  fg_pct_cash :: big
  fg_open_positions_count :: nat
  fg_directions :: "nat \<times> nat \<times> nat"

record backtester =
  bx_source :: collector
  bx_trading :: backtest
  bx_dir :: dir_mock
  bx_base_assets :: "string list option"
  bx_candles :: "(string \<times> candle list) list"
  bx_edges :: "(string \<times> edge70_config \<times> dir_mock edge70_state) list"
  bx_prices :: "(string \<times> rat) list"
  bx_stats :: "figures list option"

definition on_backtest_source :: "(collector, 'a) prog \<Rightarrow> (backtester, 'a) prog" where
  "on_backtest_source m = (\<lambda>s. case m (bx_source s) of (r, c) \<Rightarrow> (r, s\<lparr>bx_source := c\<rparr>))"

definition on_trading :: "(backtest, 'a) prog \<Rightarrow> (backtester, 'a) prog" where
  "on_trading m = (\<lambda>s. case m (bx_trading s) of (r, b) \<Rightarrow> (r, s\<lparr>bx_trading := b\<rparr>))"

lemma wp_on_backtest_source [simp]:
  "wp (on_backtest_source m) Q R s = wp m (\<lambda>x c. Q x (s\<lparr>bx_source := c\<rparr>)) (\<lambda>e c. R e (s\<lparr>bx_source := c\<rparr>)) (bx_source s)"
  by (simp add: wp_def on_backtest_source_def split: prod.split sum.split)

lemma wp_on_trading [simp]:
  "wp (on_trading m) Q R s = wp m (\<lambda>x b. Q x (s\<lparr>bx_trading := b\<rparr>)) (\<lambda>e b. R e (s\<lparr>bx_trading := b\<rparr>)) (bx_trading s)"
  by (simp add: wp_def on_trading_def split: prod.split sum.split)

section \<open>The figures of a day\<close>

text \<open>\<open>PositionsSnapshot\<close> of \<open>classes/spot/abstractions\<close>.\<close>

definition snapshot_positions :: "bignum \<Rightarrow> env \<Rightarrow> (world, (position_identifier \<times> position_object) list) prog" where
  "snapshot_positions B E =
     bindE (open_positions E) (\<lambda>open_position_identifiers.
       mapE (\<lambda>position_identifier. bindE (describe_position B E position_identifier) (\<lambda>p.
         if po_position_size p = 0 then throwE (Err ''Positions with size 0 in PositionsSnapshot'')
         else returnE (position_identifier, p))) open_position_identifiers)"

definition get_total_value_in_quote_asset ::
    "env \<Rightarrow> (position_identifier \<times> position_object) list \<Rightarrow> string \<Rightarrow> price_table \<Rightarrow> (world, rat) prog" where
  "get_total_value_in_quote_asset E positions quote_asset ps =
     bindE (mapE (\<lambda>(p, po).
         bindE (to_symbol E (pi_base_asset p) quote_asset) (\<lambda>symbol.
           liftE (value_at_price ps symbol (po_position_size po)))) positions)
       (\<lambda>values. returnE (sum_list values))"

definition portfolio_summary :: "bignum \<Rightarrow> int \<Rightarrow> rat \<Rightarrow> rat \<Rightarrow> rat \<Rightarrow> nat \<Rightarrow> nat \<times> nat \<times> nat \<Rightarrow> figures" where
  "portfolio_summary B timestamp cash debt investments open_positions_count directions =
     (let total = cash + investments in
      \<lparr>fg_timestamp = timestamp, fg_cash = cash, fg_loan = debt, fg_investments = investments,
       fg_total_assets_inc_cash = total, fg_net_worth = cash + (investments - debt),
       fg_pct_portfolio_invested = big_times (big_div B (Num investments) (Num total)) 100,
       fg_pct_cash = big_times (big_div B (Num cash) (Num total)) 100,
       fg_open_positions_count = open_positions_count, fg_directions = directions\<rparr>)"

text \<open>The hooks of the run's statistics, once they are there.\<close>

definition figures_at_candle_close :: "figures \<Rightarrow> (backtester, unit) prog" where
  "figures_at_candle_close f = modifyE (\<lambda>s. s\<lparr>bx_stats := map_option (\<lambda>kept. kept @ [f]) (bx_stats s)\<rparr>)"

text \<open>
  The end of a day.  The snapshot is taken even without hooks; the figures are uploaded and kept by the
  hooks, and uploading is taken to succeed.
\<close>

definition all_new_candles_ingested :: "bignum \<Rightarrow> env \<Rightarrow> string \<Rightarrow> int \<Rightarrow> (backtester, unit) prog" where
  "all_new_candles_ingested B E quote_asset timestamp =
     bindE (getE (\<lambda>s. map_of (bx_prices s))) (\<lambda>ps.
     bindE (on_trading (on_world (snapshot_positions B E))) (\<lambda>positions.
     bindE (getE (\<lambda>s. balances (bt_bank (bx_trading s)))) (\<lambda>(cash, debt).
     bindE (getE bx_stats) (\<lambda>hooks. case hooks of
       None \<Rightarrow> returnE ()
     | Some _ \<Rightarrow>
         bindE (on_trading (on_world (get_total_value_in_quote_asset E positions quote_asset ps))) (\<lambda>investments.
         bindE (getE (\<lambda>s. (bx_base_assets s, bx_dir s))) (\<lambda>(base_assets, d). case base_assets of
           None \<Rightarrow> throwE (Err ''base_assets not initialised'')
         | Some base_assets \<Rightarrow>
             figures_at_candle_close (portfolio_summary B timestamp cash debt investments
               (length positions) (get_all_market_stats base_assets d))))))))"

section \<open>One candle of one market\<close>

definition to_base_asset :: "string \<Rightarrow> string" where
  "to_base_asset symbol = (let s = to_upper symbol in
     if drop (length s - 4) s = ''USDT'' then take (length s - 4) s else s)"

definition market_identifier_of :: "string \<Rightarrow> market_identifier" where
  "market_identifier_of symbol = \<lparr>mi_exchange_identifier = binance_spot, mi_base_asset = to_base_asset symbol,
     mi_quote_asset = None, mi_symbol = symbol\<rparr>"

text \<open>
  The edge's candle handler with the trades of \<open>EdgeSignalsToTradeExecution\<close> as its callback.  The
  callback is the last call of the handler's body, so its effect on the trades is added afterwards: a
  signal that is published trades, and its exception is the publisher's.
\<close>

definition new_signals :: "'d edge70_state \<Rightarrow> 'd edge70_state \<Rightarrow> edge70_signal list" where
  "new_signals e e' = List.map_filter (\<lambda>x. case x of PublishSignal y \<Rightarrow> Some y | CheckManually _ _ \<Rightarrow> None)
     (rev (take (length (sg_out e') - length (sg_out e)) (sg_out e')))"

definition edge_ingest_new_candle ::
    "bignum \<Rightarrow> env \<Rightarrow> backtest_config \<Rightarrow> string \<Rightarrow> candle \<Rightarrow> (backtester, unit) prog" where
  "edge_ingest_new_candle B E cfg symbol c = (\<lambda>s. case map_of (bx_edges s) symbol of
     None \<Rightarrow> (Inl (Err ''TypeError: Cannot read properties of undefined (reading ingest_new_candle)''), s)
   | Some (ecfg, e) \<Rightarrow>
       (let b = bx_trading s;
            pub = (\<lambda>x. case fst (trade_signal B E cfg x b) of Inl err \<Rightarrow> Some err | Inr _ \<Rightarrow> None) in
        case ingest_new_candle ecfg mock_get_direction mock_set_direction pub c (e\<lparr>sg_dir := bx_dir s\<rparr>) of
          (r, e') \<Rightarrow> (r, s\<lparr>bx_dir := sg_dir e', bx_edges := AList.update symbol (ecfg, e') (bx_edges s),
            bx_trading := fold (\<lambda>x b. snd (trade_signal B E cfg x b)) (new_signals e e') b\<rparr>)))"

definition ingest_market_candle :: "bignum \<Rightarrow> env \<Rightarrow> backtest_config \<Rightarrow> string \<times> candle \<Rightarrow> (backtester, unit) prog" where
  "ingest_market_candle B E cfg x = (case x of (symbol, c) \<Rightarrow>
     seqE (on_trading (backtest_ingest_new_candle B E cfg (market_identifier_of symbol) c))
       (edge_ingest_new_candle B E cfg symbol c))"

section \<open>The run\<close>

text \<open>
  Taking a candle of each market.  The loop is left at the first market that has none, and the candles
  taken by then are gone.
\<close>

fun shift_candles :: "(string \<times> candle list) list \<Rightarrow> (string \<times> candle) list option \<times> (string \<times> candle list) list" where
  "shift_candles [] = (Some [], [])"
| "shift_candles ((symbol, []) # rest) = (None, (symbol, []) # rest)"
| "shift_candles ((symbol, c # cs) # rest) = (case shift_candles rest of (m, rest') \<Rightarrow>
     (map_option ((#) (symbol, c)) m, (symbol, cs) # rest'))"

text \<open>The timestamp is that of the last market; a timestamp of zero counts as none.\<close>

definition set_prices_from_candles :: "(string \<times> candle) list \<Rightarrow> (backtester, unit) prog" where
  "set_prices_from_candles candles_map =
     modifyE (\<lambda>s. s\<lparr>bx_prices := map (\<lambda>(symbol, c). (symbol, c_close c)) candles_map\<rparr>)"

definition backtest_day :: "bignum \<Rightarrow> env \<Rightarrow> backtest_config \<Rightarrow> (string \<times> candle) list \<Rightarrow> (backtester, unit) prog" where
  "backtest_day B E cfg candles_map =
     seqE (set_prices_from_candles candles_map)
     (seqE (forE candles_map (ingest_market_candle B E cfg))
       (if candles_map = [] \<or> c_closeTime (snd (last candles_map)) = 0 then throwE (Err ''timestamp not set'')
        else all_new_candles_ingested B E (bc_quote_asset cfg) (c_closeTime (snd (last candles_map)))))"

lemma shift_candles_shrinks:
  "shift_candles cs = (Some m, rest) \<Longrightarrow>
   length rest = length cs \<and> sum_list (map (length \<circ> snd) cs) = length cs + sum_list (map (length \<circ> snd) rest)"
  by (induction cs arbitrary: m rest rule: shift_candles.induct) (auto split: prod.splits)

text \<open>Without any market the first day throws, whatever is done on it.\<close>

function run_loop :: "((string \<times> candle) list \<Rightarrow> ('s, unit) prog) \<Rightarrow> (string \<times> candle list) list \<Rightarrow> nat \<Rightarrow> ('s, nat) prog" where
  "run_loop day candles count =
     (case shift_candles candles of
        (None, _) \<Rightarrow> returnE count
      | (Some candles_map, rest) \<Rightarrow>
          if candles = [] then seqE (day []) (throwE (Err ''timestamp not set''))
          else seqE (day candles_map) (run_loop day rest (count + 1)))"
  by pat_completeness auto
termination
  by (relation "measure (\<lambda>(_, candles, _). sum_list (map (length \<circ> snd) candles))")
    (auto dest!: shift_candles_shrinks [OF sym])

declare run_loop.simps [simp del]

text \<open>The histories are consumed by the run; what is left of them is not looked at again.\<close>

definition backtest_run :: "bignum \<Rightarrow> env \<Rightarrow> backtest_config \<Rightarrow> (backtester, nat) prog" where
  "backtest_run B E cfg =
     seqE (modifyE (\<lambda>s. s\<lparr>bx_stats := Some []\<rparr>))
       (bindE (getE bx_candles) (\<lambda>candles. run_loop (backtest_day B E cfg) candles 0))"

section \<open>The histories\<close>

record backtest_parameters =
  bp_symbols_to_run :: nat
  bp_whitelist :: "string list option"
  bp_start_date :: int
  bp_end_date :: int
  bp_tas_quote_asset :: string
  bp_edge70_parameters :: edge70_parameters

definition load_market ::
    "env \<Rightarrow> collector_env \<Rightarrow> backtest_config \<Rightarrow> backtest_parameters \<Rightarrow> string \<Rightarrow> (backtester, unit) prog" where
  "load_market E C cfg bp base_asset =
     bindE (on_trading (on_world (to_symbol E base_asset (bc_quote_asset cfg)))) (\<lambda>found. case found of
       None \<Rightarrow> throwE (Err ''Symbol not found'')
     | Some symbol \<Rightarrow>
         bindE (on_backtest_source (backtest_candles C symbol (bp_start_date bp) (bp_end_date bp))) (\<lambda>loaded.
           if loaded = [] then returnE ()
           else
             bindE (on_backtest_source (without_partial_candle C loaded)) (\<lambda>cs.
             seqE (modifyE (\<lambda>s. s\<lparr>bx_candles := AList.update symbol cs (bx_candles s)\<rparr>))
             (let ecfg = \<lparr>cfg_edge = ''edge70'', cfg_market = \<lparr>mi_exchange_identifier = binance_spot,
                    mi_base_asset = base_asset, mi_quote_asset = None, mi_symbol = symbol\<rparr>,
                    cfg_parameters = bp_edge70_parameters bp\<rparr> in
              bindE (getE bx_dir) (\<lambda>d.
              bindE (liftE (new_edge70 ecfg [] 0 d)) (\<lambda>e.
                modifyE (\<lambda>s. s\<lparr>bx_edges := AList.update symbol (ecfg, e) (bx_edges s)\<rparr>)))))))"

text \<open>The assertion that all histories start with the same candle; a time of zero counts as not set.\<close>

fun check_starts :: "int option \<Rightarrow> (string \<times> candle list) list \<Rightarrow> js_error + unit" where
  "check_starts first [] = Inr ()"
| "check_starts first ((symbol, []) # rest) = Inl (Err ''TypeError: Cannot read properties of undefined (reading closeTime)'')"
| "check_starts first ((symbol, c # cs) # rest) =
     (let expected = (case first of None \<Rightarrow> c_closeTime c | Some t \<Rightarrow> if t = 0 then c_closeTime c else t) in
      if c_closeTime c = expected then check_starts (Some expected) rest
      else Inl (Err ''candles[symbol][0].closeTime === expected_first_candle_closeTime''))"

definition init_candles ::
    "env \<Rightarrow> collector_env \<Rightarrow> backtest_config \<Rightarrow> backtest_parameters \<Rightarrow> (backtester, string list) prog" where
  "init_candles E C cfg bp =
     bindE (on_trading (on_world (call_out GetExchangeInfo (env_exchange_info E)))) (\<lambda>exchange_info.
       let base_assets = get_base_assets_list exchange_info (bc_quote_asset cfg) (bp_tas_quote_asset bp);
           base_assets = (case bp_whitelist bp of None \<Rightarrow> base_assets | Some ws \<Rightarrow> filter (\<lambda>n. n \<in> set ws) base_assets);
           base_assets = take (bp_symbols_to_run bp) base_assets in
       seqE (forE base_assets (load_market E C cfg bp))
       (bindE (getE bx_candles) (\<lambda>candles.
          let expected = Max (set (map (length \<circ> snd) candles));
              short = filter (\<lambda>(symbol, cs). length cs < expected) candles;
              kept = filter (\<lambda>(symbol, cs). \<not> length cs < expected) candles in
          seqE (liftE (check_starts None kept))
          (seqE (modifyE (\<lambda>s. s\<lparr>bx_candles := kept,
               bx_edges := filter (\<lambda>(symbol, _). symbol \<notin> set (map fst short)) (bx_edges s)\<rparr>))
            (getE (\<lambda>s. map fst (bx_edges s)))))))"

text \<open>\<open>main\<close>: the tracker's first end of a day, without hooks, the histories, and the run.\<close>

definition backtest_main ::
    "bignum \<Rightarrow> env \<Rightarrow> collector_env \<Rightarrow> backtest_config \<Rightarrow> backtest_parameters \<Rightarrow> (backtester, nat) prog" where
  "backtest_main B E C cfg bp =
     seqE (all_new_candles_ingested B E (bc_quote_asset cfg) (bp_start_date bp))
     (bindE (init_candles E C cfg bp) (\<lambda>symbols.
      seqE (modifyE (\<lambda>s. s\<lparr>bx_base_assets := Some (map to_base_asset symbols)\<rparr>))
        (backtest_run B E cfg)))"

section \<open>The run is in lockstep\<close>

definition cross_section :: "(string \<times> candle list) list \<Rightarrow> nat \<Rightarrow> (string \<times> candle) list" where
  "cross_section candles i = map (\<lambda>(symbol, cs). (symbol, cs ! i)) candles"

definition histories_of_length :: "nat \<Rightarrow> (string \<times> candle list) list \<Rightarrow> bool" where
  "histories_of_length n candles \<longleftrightarrow> candles \<noteq> [] \<and> list_all (\<lambda>(_, cs). length cs = n) candles"

lemma shift_all:
  "list_all (\<lambda>(_, cs). cs \<noteq> []) candles \<Longrightarrow>
   shift_candles candles = (Some (cross_section candles 0), map (\<lambda>(symbol, cs). (symbol, tl cs)) candles)"
  by (induction candles rule: shift_candles.induct) (auto simp: cross_section_def)

lemma seqE_assoc: "seqE (seqE a b) c = seqE a (seqE b c)"
  by (auto simp: seqE_def bindE_def fun_eq_iff split: prod.split sum.split)

lemma run_loop_days:
  "histories_of_length n candles \<Longrightarrow>
   run_loop day candles k = seqE (forE (map (cross_section candles) [0..<n]) day) (returnE (k + n))"
proof (induction n arbitrary: candles k)
  case 0
  then obtain symbol rest where "candles = (symbol, []) # rest"
    by (cases candles) (auto simp: histories_of_length_def)
  then show ?case by (simp add: run_loop.simps seqE_def bindE_def returnE_def fun_eq_iff)
next
  case (Suc n)
  let ?rest = "map (\<lambda>(symbol, cs). (symbol, tl cs)) candles"
  have "list_all (\<lambda>(_, cs). cs \<noteq> []) candles" "candles \<noteq> []" and rest: "histories_of_length n ?rest"
    using Suc.prems by (auto simp: histories_of_length_def list_all_iff)
  then have "run_loop day candles k = seqE (day (cross_section candles 0)) (run_loop day ?rest (k + 1))"
    by (simp add: run_loop.simps [of day candles] shift_all)
  moreover have "cross_section ?rest i = cross_section candles (Suc i)" for i
  proof -
    have "tl cs ! i = cs ! Suc i" if "(symbol, cs) \<in> set candles" for symbol cs
      using Suc.prems that by (cases cs) (auto simp: histories_of_length_def list_all_iff)
    then show ?thesis by (auto simp: cross_section_def)
  qed
  then have "map (cross_section candles) [0..<Suc n] = cross_section candles 0 # map (cross_section ?rest) [0..<n]"
    by (simp add: upt_conv_Cons map_Suc_upt [symmetric] comp_def del: upt_Suc)
  ultimately show ?case by (simp add: Suc.IH [OF rest] seqE_assoc del: upt_Suc)
qed

section \<open>The histories that are kept\<close>

text \<open>Candles and edges are filed under the same symbols.\<close>

definition same_symbols :: "backtester \<Rightarrow> bool" where
  "same_symbols s \<longleftrightarrow> map fst (bx_candles s) = map fst (bx_edges s) \<and> distinct (map fst (bx_edges s))"

lemma keeps_outside:
  "keeps (\<lambda>s t. same_symbols s \<longrightarrow> same_symbols t) (on_trading m)"
  "keeps (\<lambda>s t. same_symbols s \<longrightarrow> same_symbols t) (on_backtest_source m')"
  by (simp_all add: keeps_def on_trading_def on_backtest_source_def same_symbols_def split: prod.split)

lemma same_symbols_update:
  assumes "same_symbols s"
  shows "same_symbols (s\<lparr>bx_candles := AList.update symbol cs (bx_candles s), bx_edges := AList.update symbol e (bx_edges s)\<rparr>)"
proof -
  have "map fst (AList.update symbol cs (bx_candles s)) = map fst (AList.update symbol e (bx_edges s))"
    using assms by (simp only: same_symbols_def update_keys)
  moreover have "distinct (map fst (AList.update symbol e (bx_edges s)))"
    using assms by (intro distinct_update) (simp add: same_symbols_def)
  ultimately show ?thesis by (simp add: same_symbols_def)
qed

lemma keeps_load_market: "keeps (\<lambda>s t. same_symbols s \<longrightarrow> same_symbols t) (load_market E C cfg bp base_asset)"
proof -
  let ?K = "\<lambda>s t. same_symbols s \<longrightarrow> same_symbols t"
  have K: "reflp ?K" "transp ?K" by (auto intro: reflpI transpI)
  have filed: "keeps ?K (seqE (modifyE (\<lambda>s. s\<lparr>bx_candles := AList.update symbol cs (bx_candles s)\<rparr>))
      (bindE (getE bx_dir) (\<lambda>d. bindE (liftE (new_edge70 ecfg [] 0 d)) (\<lambda>e.
        modifyE (\<lambda>s. s\<lparr>bx_edges := AList.update symbol (ecfg, e) (bx_edges s)\<rparr>)))))" for symbol cs ecfg
    by (simp add: keeps_wp new_edge70_def same_symbols_update)
  show ?thesis
    unfolding load_market_def Let_def
    by (auto intro!: keeps_bindE keeps_throwE keeps_returnE K keeps_outside filed split: option.split)
qed

lemma check_starts_Inr:
  "check_starts first candles = Inr () \<Longrightarrow> \<exists>t. (first = None \<or> first = Some 0 \<or> first = Some t) \<and>
     list_all (\<lambda>(_, cs). cs \<noteq> [] \<and> (c_closeTime (hd cs) = t \<or> c_closeTime (hd cs) = 0)) candles"
proof (induction first candles rule: check_starts.induct)
  case (3 first symbol c cs rest)
  define e where "e = (case first of None \<Rightarrow> c_closeTime c | Some t \<Rightarrow> if t = 0 then c_closeTime c else t)"
  have c: "c_closeTime c = e" "check_starts (Some e) rest = Inr ()" using 3(2) by (auto simp: e_def Let_def split: if_splits)
  obtain t where t: "e = 0 \<or> e = t"
      "list_all (\<lambda>(_, cs). cs \<noteq> [] \<and> (c_closeTime (hd cs) = t \<or> c_closeTime (hd cs) = 0)) rest"
    using 3(1) [OF e_def] c by auto
  show ?case
  proof (cases "e = 0")
    case True
    then have "first = None \<or> first = Some 0" using c(1) by (auto simp: e_def split: option.splits if_splits)
    then show ?thesis using t c(1) True by auto
  next
    case False
    then have "first = None \<or> first = Some 0 \<or> first = Some t" using t(1) by (auto simp: e_def split: option.splits if_splits)
    then show ?thesis using t c(1) False by auto
  qed
qed auto

lemma filter_keys:
  assumes "map fst xs = map fst ys" "distinct (map fst ys)"
  shows "map fst (filter (\<lambda>(k, _). k \<notin> set (map fst (filter P xs))) ys) = map fst (filter (\<lambda>x. \<not> P x) xs)"
proof -
  have "map fst (filter (\<lambda>(k, _). k \<notin> S) ys) = filter (\<lambda>k. k \<notin> S) (map fst ys)" for S
    by (induction ys) auto
  moreover have "filter (\<lambda>k. k \<notin> set (map fst (filter P xs))) (map fst xs) = map fst (filter (\<lambda>x. \<not> P x) xs)"
  proof -
    have "fst x \<in> fst ` set (filter P xs) \<longleftrightarrow> P x" if "x \<in> set xs" for x
    proof -
      have "distinct (map fst xs)" using assms by simp
      then have "b = snd x" if "(fst x, b) \<in> set xs" for b
        using that \<open>x \<in> set xs\<close> by (intro eq_key_imp_eq_value [of xs "fst x"]) simp_all
      then show ?thesis using that by (force intro: rev_image_eqI)
    qed
    then show ?thesis by (simp add: filter_map comp_def cong: filter_cong)
  qed
  ultimately show ?thesis using assms(1) by simp
qed

lemma init_candles_result:
  assumes "init_candles E C cfg bp s = (Inr symbols, t)" "same_symbols s" "symbols \<noteq> []"
  shows "\<exists>n first. 0 < n \<and> histories_of_length n (bx_candles t) \<and> map fst (bx_candles t) = symbols \<and> distinct symbols \<and>
    list_all (\<lambda>(_, cs). c_closeTime (hd cs) = first \<or> c_closeTime (hd cs) = 0) (bx_candles t)"
proof -
  let ?Q = "\<lambda>symbols (t :: backtester). map fst (bx_candles t) = symbols \<and> distinct symbols \<and>
    (\<exists>n. list_all (\<lambda>(_, cs). length cs = n) (bx_candles t)) \<and> check_starts None (bx_candles t) = Inr ()"
  have load: "wp (forE base_assets (load_market E C cfg bp)) (\<lambda>_. same_symbols) (\<lambda>_ _. True) u" if "same_symbols u" for base_assets u
  proof -
    have "keeps (\<lambda>s t. same_symbols s \<longrightarrow> same_symbols t) (forE base_assets (load_market E C cfg bp))"
      by (intro keeps_forE keeps_load_market) (auto intro: reflpI transpI)
    then have "wp (forE base_assets (load_market E C cfg bp)) (\<lambda>_ t. same_symbols u \<longrightarrow> same_symbols t)
        (\<lambda>_ t. same_symbols u \<longrightarrow> same_symbols t) u" by (simp add: keeps_wp)
    then show ?thesis by (rule wp_mono) (use that in auto)
  qed
  have lengths: "list_all (\<lambda>(_, cs). length cs = n) (filter (\<lambda>(_, cs). \<not> length cs < n) candles)"
    if "n = Max (set (map (length \<circ> snd) candles))" for n and candles :: "(string \<times> candle list) list"
  proof -
    have "length cs \<le> n" if "(symbol, cs) \<in> set candles" for symbol cs
      unfolding \<open>n = _\<close> using that by (intro Max_ge) (auto intro!: image_eqI [of _ _ "(symbol, cs)"])
    then show ?thesis by (auto simp: list_all_iff not_less intro: le_antisym)
  qed
  have rest: "wp (bindE (getE bx_candles) (\<lambda>candles.
      seqE (liftE (check_starts None (filter (\<lambda>(symbol, cs). \<not> length cs < Max (set (map (length \<circ> snd) candles))) candles)))
          (seqE (modifyE (\<lambda>s. s\<lparr>bx_candles := filter (\<lambda>(symbol, cs). \<not> length cs < Max (set (map (length \<circ> snd) candles))) candles,
               bx_edges := filter (\<lambda>(symbol, _). symbol \<notin> set (map fst (filter (\<lambda>(symbol, cs). length cs < Max (set (map (length \<circ> snd) candles))) candles))) (bx_edges s)\<rparr>))
            (getE (\<lambda>s. map fst (bx_edges s)))))) ?Q (\<lambda>_ _. True) u" if "same_symbols u" for u
  proof -
    have keys: "map fst (bx_candles u) = map fst (bx_edges u)" "distinct (map fst (bx_edges u))"
      using that by (simp_all add: same_symbols_def)
    note kept = filter_keys [OF keys, of "\<lambda>(symbol, cs). length cs < Max (set (map (length \<circ> snd) (bx_candles u)))"]
    have "distinct (map fst (filter Q (bx_candles u)))" for Q
      using keys by (intro distinct_map_filter) simp
    with kept lengths [OF refl, of "bx_candles u"] show ?thesis
      by (auto simp: case_prod_beta' simp del: set_map split: sum.split)
  qed
  have "wp (init_candles E C cfg bp) ?Q (\<lambda>_ _. True) s"
    unfolding init_candles_def Let_def wp_bindE [of "on_trading _"] wp_on_trading wp_seqE [of "forE _ _"]
  proof (rule wp_mono [OF wp_true], goal_cases)
    case (1 x b)
    show ?case by (rule wp_mono [OF load rest]) (use assms(2) in \<open>simp_all add: same_symbols_def\<close>)
  qed simp
  with assms(1) have Q: "?Q symbols t" by (rule wp_result)
  then obtain n where "histories_of_length n (bx_candles t)" using assms(3) by (auto simp: histories_of_length_def)
  moreover from check_starts_Inr [of None "bx_candles t"] Q obtain first where
    "list_all (\<lambda>(_, cs). cs \<noteq> [] \<and> (c_closeTime (hd cs) = first \<or> c_closeTime (hd cs) = 0)) (bx_candles t)" by auto
  ultimately show ?thesis using Q
    by (intro exI [of _ n] exI [of _ first]) (cases "bx_candles t", auto simp: histories_of_length_def list_all_iff)
qed

section \<open>A signal of the backtester\<close>

lemma new_signals_one: "sg_out e' = PublishSignal x # sg_out e \<Longrightarrow> new_signals e e' = [x]"
  by (simp add: new_signals_def map_filter_simps)

lemma reverse_long:
  assumes "long_breakout c (sg_long e)" "\<not> short_breakout c (sg_short e)" "stored_mock d b \<noteq> JsDir Long"
  shows "candle_action c (e\<lparr>sg_dir := d\<rparr>) (stored_mock d b) = Reverse Long"
  using assms by (simp add: candle_action_def decide_def stored_mock_def split: option.splits)

text \<open>The edge's handler on a candle that turns the market long.\<close>

lemma edge_turns_long:
  assumes "map_of (bx_edges s) symbol = Some (ecfg, e)" "well_formed e"
    and "long_breakout c (sg_long e)" "\<not> short_breakout c (sg_short e)"
    and "b = mi_base_asset (cfg_market ecfg)" "stored_mock (bx_dir s) b \<noteq> JsDir Long"
    and "trade_signal B E cfg (signal_for ecfg c Long) (bx_trading s) = (Inr (), u)"
  shows "\<exists>t. edge_ingest_new_candle B E cfg symbol c s = (Inr (), t) \<and> bx_trading t = u \<and>
    stored_mock (bx_dir t) b = JsDir Long"
proof -
  let ?e = "e\<lparr>sg_dir := bx_dir s\<rparr>"
  let ?pub = "\<lambda>x. case fst (trade_signal B E cfg x (bx_trading s)) of Inl err \<Rightarrow> Some err | Inr _ \<Rightarrow> None"
  let ?t = "push_both c (after mock_set_direction ecfg c (Reverse Long) ?e)"
  have "well_formed ?e" using assms(2) by simp
  then have step: "ingest_new_candle ecfg mock_get_direction mock_set_direction ?pub c ?e = (Inr (), ?t)"
    using reverse_long [OF assms(3,4,6)] assms(5,7) by (simp add: mock_dir.ingest_spec Let_def)
  have "sg_out ?t = PublishSignal (signal_for ecfg c Long) # sg_out ?e" "sg_dir ?t = snd (mock_set_direction b Long (bx_dir s))"
    using assms(5) by (simp_all add: push_both_def after_def Let_def)
  moreover from this(1) have "new_signals e ?t = [signal_for ecfg c Long]" by (intro new_signals_one) simp
  moreover have "stored_mock (snd (mock_set_direction b Long (bx_dir s))) b = JsDir Long" by (simp add: mock_dir.set_same)
  ultimately show ?thesis using step assms(1,7) by (simp add: edge_ingest_new_candle_def Let_def)
qed

section \<open>Properties\<close>

text \<open>
  C19: The backtester runs every day of the common history.  When the histories are loaded and a market is
  left, all that are left have the same number of candles and start with the same one, up to a time of
  zero; the markets of the edges are theirs; and the run, whose loop ends when a market has no candle,
  processes exactly that many days, each with one candle of every market and none left out, unless one
  of the days throws.
\<close>

theorem backtest_runs_every_day:
  assumes "init_candles E C cfg bp s = (Inr symbols, t)" "bx_candles s = []" "bx_edges s = []" "symbols \<noteq> []"
  shows "\<exists>n first. 0 < n \<and> map fst (bx_candles t) = symbols \<and> distinct symbols \<and>
    list_all (\<lambda>(_, cs). length cs = n \<and> (c_closeTime (hd cs) = first \<or> c_closeTime (hd cs) = 0)) (bx_candles t) \<and>
    backtest_run B E cfg t =
      seqE (forE (map (cross_section (bx_candles t)) [0..<n]) (backtest_day B E cfg)) (returnE n) (t\<lparr>bx_stats := Some []\<rparr>)"
proof -
  have "same_symbols s" using assms(2,3) by (simp add: same_symbols_def)
  from init_candles_result [OF assms(1) this assms(4)] obtain n first where n: "0 < n" "histories_of_length n (bx_candles t)"
    "map fst (bx_candles t) = symbols \<and> distinct symbols"
    "list_all (\<lambda>(_, cs). c_closeTime (hd cs) = first \<or> c_closeTime (hd cs) = 0) (bx_candles t)" by blast
  moreover have "backtest_run B E cfg t = run_loop (backtest_day B E cfg) (bx_candles t) 0 (t\<lparr>bx_stats := Some []\<rparr>)"
    by (simp add: backtest_run_def seqE_def bindE_def modifyE_def getE_def)
  ultimately show ?thesis
    unfolding run_loop_days [OF n(2)] by (intro exI [of _ n] exI [of _ first]) (auto simp: histories_of_length_def list_all_iff)
qed

text \<open>
  A position is not stopped by the candle that opens it.  When a candle breaks out upwards in a market
  that is neither long nor held, and the position can be afforded, the day's handling of that candle
  succeeds and leaves the position open with its stop below the closing price as configured, however low
  the candle went: stops are looked at before the signal, and with the stop of the position.
\<close>

theorem entry_survives_its_candle:
  assumes "map_of (bx_edges s) symbol = Some (ecfg, e)" "well_formed e"
    and "long_breakout c (sg_long e)" "\<not> short_breakout c (sg_short e)"
    and "b = to_base_asset symbol" "b = mi_base_asset (cfg_market ecfg)" "stored_mock (bx_dir s) b \<noteq> JsDir Long"
    and "redis_ready B E (bt_world (bx_trading s))" "p = backtest_position cfg b" "plain_identifier p"
    and "redis_view (bt_world (bx_trading s)) p = (0, {})"
    and "a = bc_position_size_in_quote_asset cfg (bt_bank (bx_trading s))" "affordable B (bx_trading s) a (c_close c)"
  shows "\<exists>t. ingest_market_candle B E cfg (symbol, c) s = (Inr (), t) \<and>
    0 < fst (redis_view (bt_world (bx_trading t)) p) \<and>
    bt_stops (bx_trading t) b = Some (bn_dp B 8 (c_close c * bc_stop_factor cfg)) \<and>
    bk_cash (bt_bank (bx_trading t)) = bk_cash (bt_bank (bx_trading s)) - a \<and> stored_mock (bx_dir t) b = JsDir Long"
proof -
  have B: "bignum_laws B" using assms(8) by (simp add: redis_ready_def)
  have "wp (backtest_ingest_new_candle B E cfg (market_identifier_of symbol) c)
      (\<lambda>_ w. redis_ready B E (bt_world w) \<and> redis_view (bt_world w) = redis_view (bt_world (bx_trading s)) \<and>
        bt_bank w = bt_bank (bx_trading s)) (\<lambda>_ _. False) (bx_trading s)"
    unfolding backtest_ingest_new_candle_def Let_def
    by (rule wp_bind_rule [OF wp_backtest_size(2)])
      (use assms in \<open>simp_all add: market_identifier_of_def\<close>)
  from wp_total [OF this] obtain w where
    w: "backtest_ingest_new_candle B E cfg (market_identifier_of symbol) c (bx_trading s) = (Inr (), w)"
    "redis_ready B E (bt_world w)" "redis_view (bt_world w) = redis_view (bt_world (bx_trading s))" "bt_bank w = bt_bank (bx_trading s)"
    by auto
  let ?x = "signal_for ecfg c Long"
  have sel: "sig_price ?x = c_close c" "sig_direction ?x = Long" "sig_market_identifier ?x = cfg_market ecfg"
    by (simp_all add: signal_for_def)
  have afford: "affordable B w a (sig_price ?x)" using assms(13) w(4) by (simp add: affordable_def sel)
  note traded = wp_long_signal [OF w(2) sel(3) [symmetric], of p cfg a, unfolded assms(6) [symmetric], OF assms(9,10) _ sel(2) _ afford]
  from wp_total [OF traded] obtain u where
    u: "trade_signal B E cfg ?x w = (Inr (), u)"
    "redis_view (bt_world u) p = apply_fill B (first_buy B cfg (cfg_market ecfg) (sig_timestamp_ms ?x) (sig_price ?x) a) (0, {})"
    "bk_cash (bt_bank u) = bk_cash (bt_bank w) - a" "bt_stops u b = Some (stop_price B cfg (sig_price ?x))"
    using w(3,4) assms(11,12) by auto
  let ?s = "s\<lparr>bx_trading := w\<rparr>"
  obtain t where t: "edge_ingest_new_candle B E cfg symbol c ?s = (Inr (), t)" "bx_trading t = u" "stored_mock (bx_dir t) b = JsDir Long"
    using edge_turns_long [of ?s symbol ecfg e c b B E cfg u] assms(1-4,6,7) u(1) by auto
  moreover have "0 < fst (redis_view (bt_world u) p)"
    using first_buy_opens(2,4) [OF B afford] u(2) by simp
  ultimately show ?thesis
    using w(1,4) u(3,4) by (simp add: ingest_market_candle_def seqE_def bindE_def on_trading_def stop_price_def sel)
qed

definition demo_listing :: "string \<Rightarrow> symbol_info" where
  "demo_listing quote = \<lparr>s_symbol = ''ETH'' @ quote, s_baseAsset = ''ETH'', s_quoteAsset = quote, s_filters = [], s_orderTypes = [],
     s_isSpotTradingAllowed = True, s_status = ''TRADING'', s_baseAssetPrecision = 8, s_quoteAssetPrecision = 8\<rparr>"

definition demo_backtester :: "(string \<times> edge70_config \<times> dir_mock edge70_state) list \<Rightarrow> backtester" where
  "demo_backtester edges = \<lparr>bx_source = \<lparr>cl_log = [], cl_files = []\<rparr>, bx_trading = demo_backtest empty_world,
     bx_dir = \<lparr>dm_prefix = [], dm_keys = []\<rparr>, bx_base_assets = None, bx_candles = [], bx_edges = edges,
     bx_prices = [], bx_stats = None\<rparr>"

definition demo_backtest_parameters :: backtest_parameters where
  "demo_backtest_parameters = \<lparr>bp_symbols_to_run = 300, bp_whitelist = None, bp_start_date = 499 * day_ms,
     bp_end_date = 500 * day_ms, bp_tas_quote_asset = ''BUSD'', bp_edge70_parameters = demo_parameters\<rparr>"

text \<open>Two candles are loaded, of which the second is not closed yet.\<close>

lemma demo_init:
  "\<exists>t. init_candles (quiet_env [demo_listing ''USDT'', demo_listing ''BUSD'']) two_days_source demo_backtest_config
    demo_backtest_parameters (demo_backtester []) = (Inr [''ETHUSDT''], t) \<and>
    bx_candles t = [(''ETHUSDT'', [demo_daily_candle (499 * day_ms)])]"
proof -
  let ?E = "quiet_env [demo_listing ''USDT'', demo_listing ''BUSD'']"
  have assets: "get_base_assets_list [demo_listing ''USDT'', demo_listing ''BUSD''] ''USDT'' ''BUSD'' = [''ETH'']"
    by code_simp
  let ?load = "backtest_candles two_days_source ''ETHUSDT'' (499 * day_ms) (500 * day_ms)" and ?empty = "\<lparr>cl_log = [], cl_files = []\<rparr>"
  have "fst (?load ?empty) = Inr (two_days [])"
    by (simp add: backtest_candles_def chunking_get_candles_between.simps caching_get_candles_between_def get_candles_between_def
        end_time_def ee_candles_def log_call_def write_file_def two_days_source_def window_def two_days_def openTime_def
        demo_daily_candle_def bindE_def seqE_def getE_def modifyE_def returnE_def liftE_def day_ms_def Let_def)
  then have loaded: "wp ?load Q R ?empty = Q (two_days []) (snd (?load ?empty))" for Q R
    by (cases "?load ?empty") (simp add: wp_def)
  have big: "6 < day_ms" by (simp add: day_ms_def)
  have "wp (init_candles ?E two_days_source demo_backtest_config demo_backtest_parameters)
      (\<lambda>symbols t. symbols = [''ETHUSDT''] \<and> bx_candles t = [(''ETHUSDT'', [demo_daily_candle (499 * day_ms)])]) (\<lambda>_ _. False)
      (demo_backtester [])"
    by (simp add: init_candles_def demo_backtest_config_def demo_backtest_parameters_def quiet_env_def demo_backtester_def
          demo_backtest_def empty_world_def assets)
      (auto simp: load_market_def to_symbol_def get_exchange_info_def loaded demo_listing_def two_days_def without_partial_candle_def
        read_clock_def log_call_def two_days_source_def [THEN arg_cong [where f = ce_now]] new_edge70_def demo_daily_candle_def big)
  from wp_total [OF this] show ?thesis by auto
qed

theorem backtest_runs_every_day_witness:
  "\<exists>E t. fst (init_candles E two_days_source demo_backtest_config demo_backtest_parameters (demo_backtester [])) = Inr [''ETHUSDT''] \<and>
    backtest_run ref_bignum E demo_backtest_config t =
      seqE (seqE (backtest_day ref_bignum E demo_backtest_config [(''ETHUSDT'', demo_daily_candle (499 * day_ms))])
        (returnE ())) (returnE 1) (t\<lparr>bx_stats := Some []\<rparr>)"
proof -
  let ?E = "quiet_env [demo_listing ''USDT'', demo_listing ''BUSD'']"
  obtain t where t: "init_candles ?E two_days_source demo_backtest_config demo_backtest_parameters (demo_backtester []) = (Inr [''ETHUSDT''], t)"
    "bx_candles t = [(''ETHUSDT'', [demo_daily_candle (499 * day_ms)])]" using demo_init by blast
  have "bx_candles (demo_backtester []) = []" "bx_edges (demo_backtester []) = []" by (simp_all add: demo_backtester_def)
  from backtest_runs_every_day [OF t(1) this, of ref_bignum] t
  show ?thesis by (intro exI [of _ ?E] exI [of _ t]) (auto simp: cross_section_def)
qed

definition demo_edge :: "dir_mock edge70_state" where
  "demo_edge = \<lparr>sg_long = new_history 1 [demo_candle 5 0], sg_short = new_history 1 [demo_candle 5 0], sg_healthy = True,
     sg_dir = \<lparr>dm_prefix = [], dm_keys = []\<rparr>, sg_out = []\<rparr>"

theorem entry_survives_its_candle_witness:
  "\<exists>t. ingest_market_candle ref_bignum (quiet_env []) demo_backtest_config
      (''ETHUSDT'', (demo_candle 10 1)\<lparr>c_low := 5\<rparr>) (demo_backtester [(''ETHUSDT'', market_config demo_parameters ''ETH'', demo_edge)]) = (Inr (), t) \<and>
    bt_stops (bx_trading t) ''ETH'' = Some (17 / 2) \<and> bk_cash (bt_bank (bx_trading t)) = 900"
proof -
  let ?c = "(demo_candle 10 1)\<lparr>c_low := 5\<rparr>" and ?ecfg = "market_config demo_parameters ''ETH''"
  let ?s = "demo_backtester [(''ETHUSDT'', ?ecfg, demo_edge)]"
  have edge: "map_of (bx_edges ?s) ''ETHUSDT'' = Some (?ecfg, demo_edge)" by (simp add: demo_backtester_def)
  have wf: "well_formed demo_edge" by (simp add: well_formed_def demo_edge_def bounded_new_history)
  have breakout: "long_breakout ?c (sg_long demo_edge)" "\<not> short_breakout ?c (sg_short demo_edge)"
    by (simp_all add: demo_edge_def long_breakout_new_history short_breakout_new_history breaks_high_def breaks_low_def
        slice_last_def demo_candle_def)
  have base: "''ETH'' = to_base_asset ''ETHUSDT''" by code_simp
  have market: "''ETH'' = mi_base_asset (cfg_market ?ecfg)" by (simp add: market_config_def)
  have dir: "stored_mock (bx_dir ?s) ''ETH'' \<noteq> JsDir Long" by (simp add: demo_backtester_def stored_mock_def)
  have trading: "bx_trading ?s = demo_backtest empty_world" by (simp add: demo_backtester_def)
  have ready: "redis_ready ref_bignum (quiet_env []) (bt_world (bx_trading ?s))"
    by (simp add: redis_ready_def ref_bignum_laws demo_backtest_def trading)
  have position: "demo_position = backtest_position demo_backtest_config ''ETH''"
    using backtest_position_demo by (simp add: demo_market_def)
  have view: "redis_view (bt_world (bx_trading ?s)) demo_position = (0, {})" by (simp add: trading demo_backtest_def)
  have stake: "100 = bc_position_size_in_quote_asset demo_backtest_config (bt_bank (bx_trading ?s))"
    by (simp add: demo_backtest_config_def backtester_fixed_position_size_def)
  have "bn_dp ref_bignum 8 (bn_div ref_bignum 100 10) = 10" by code_simp
  then have afford: "affordable ref_bignum (bx_trading ?s) 100 (c_close ?c)"
    by (simp add: affordable_def trading demo_backtest_def new_bank_def demo_candle_def)
  have "bn_dp ref_bignum 8 (10 * (17 / 20)) = 17 / 2" by code_simp
  then show ?thesis
    using entry_survives_its_candle [OF edge wf breakout base market dir ready position demo_position_plain view stake afford]
    by (auto simp: demo_backtest_config_def demo_candle_def trading demo_backtest_def new_bank_def)
qed

end
