(* ===== verification/BacktestStats.thy ===== *)
theory BacktestStats
  imports BacktestRun
begin

text \<open>
  What a run of the edge70 backtester prints: the summary of its statistics
  (\<open>captain-hooks-backtester-stats.ts\<close>) over the figures that \<open>BacktestRun\<close> keeps of each day, and the wins
  and losses of the positions tracker (\<open>positions-tracker.ts\<close>).  How a number is rendered is the language's
  or a package's and a parameter.
\<close>

section \<open>Numbers as text\<close>

text \<open>
  \<open>rn_human\<close> is the package \<open>human-number\<close>, \<open>rn_number\<close> the text of a number, \<open>rn_fixed\<close> a number with one
  decimal, \<open>rn_big\<close> the text of a \<open>BigNumber\<close> and \<open>rn_double\<close> the rounding of a sum to a double.
\<close>

record rendering =
  rn_human :: "big \<Rightarrow> string"
  rn_number :: "big \<Rightarrow> string"
  rn_fixed :: "big \<Rightarrow> string"
  rn_big :: "big \<Rightarrow> string"
  rn_double :: "rat \<Rightarrow> rat"

definition stats_delta_as_pct :: "bignum \<Rightarrow> rat \<Rightarrow> rat \<Rightarrow> big" where
  "stats_delta_as_pct B start end_value = big_dp B 1 (big_times (big_div B (Num end_value) (Num start)) 100)"

definition stats_pct :: "rendering \<Rightarrow> big \<Rightarrow> string" where
  "stats_pct N pct = rn_fixed N pct @ ''%''"

definition human_usd :: "bignum \<Rightarrow> rendering \<Rightarrow> rat \<Rightarrow> string" where
  "human_usd B N value = ''$'' @ rn_human N (Num (bn_dp B 0 value))"

definition stats_delta_text :: "bignum \<Rightarrow> rendering \<Rightarrow> rat \<Rightarrow> rat \<Rightarrow> string" where
  "stats_delta_text B N start end_value =
     (let pct = stats_delta_as_pct B start end_value; factor = big_dp B 1 (big_div B pct (Num 100)) in
      rn_number N pct @ ''% ('' @ rn_big N factor @ ''x)'')"

section \<open>The summary\<close>

text \<open>An array of objects in a template string.\<close>

definition object_array_text :: "'a list \<Rightarrow> string" where
  "object_array_text xs = join_with '','' (map (\<lambda>_. ''[object Object]'') xs)"

definition summary_positions_opened_closed :: "'o list \<Rightarrow> rat list \<Rightarrow> string" where
  "summary_positions_opened_closed opened changes =
     (let wins = filter (\<lambda>c. 0 \<le> c) changes; losses = filter (\<lambda>c. c < 0) changes in
      nat_string (length opened) @ '' opened, '' @ nat_string (length changes) @ '' closed.  '' @
      object_array_text wins @ '' WINS, '' @ object_array_text losses @ '' LOSSES'')"

definition loan_summary :: "rendering \<Rightarrow> string \<Rightarrow> figures list \<Rightarrow> js_error + string" where
  "loan_summary N quote_asset kept =
     (if kept = [] then Inl (Err ''no data'')
      else Inr (quote_asset @ '': '' @ rn_big N (Num (fg_loan (last kept)))))"

definition net_worth_summary :: "bignum \<Rightarrow> rendering \<Rightarrow> string \<Rightarrow> figures list \<Rightarrow> js_error + string" where
  "net_worth_summary B N quote_asset kept =
     (if kept = [] then Inl (Err ''no data'')
      else
        let current = last kept in
        Inr (quote_asset @ '': '' @ human_usd B N (fg_net_worth current) @ '' Net Worth as Cash: '' @
          human_usd B N (fg_cash current) @ '', Investments: '' @ human_usd B N (fg_investments current) @ '', Loan: '' @
          human_usd B N (fg_loan current) @ '' ''))"

definition net_worth_delta_summary :: "bignum \<Rightarrow> rendering \<Rightarrow> string \<Rightarrow> figures list \<Rightarrow> js_error + string" where
  "net_worth_delta_summary B N quote_asset kept =
     (if kept = [] then Inl (Err ''no data: this.current'')
      else
        let start_net_worth = fg_net_worth (hd kept); end_net_worth = fg_net_worth (last kept) in
        Inr (quote_asset @ '': '' @ human_usd B N start_net_worth @ '' -> '' @ human_usd B N end_net_worth @ '' '' @
          stats_delta_text B N start_net_worth end_net_worth))"

definition max_total_assets :: "figures list \<Rightarrow> rat" where
  "max_total_assets kept = Max (set (map fg_total_assets_inc_cash kept))"

definition max_total_assets_summary :: "bignum \<Rightarrow> rendering \<Rightarrow> figures list \<Rightarrow> js_error + string" where
  "max_total_assets_summary B N kept =
     (if kept = [] then Inl (Err ''no data for starting values'')
      else
        let greatest = max_total_assets kept; start_cash = fg_cash (hd kept) in
        Inr (human_usd B N start_cash @ '' -> '' @ human_usd B N greatest @ '' '' @
          stats_delta_text B N start_cash greatest))"

definition average_pct_invested :: "bignum \<Rightarrow> figures list \<Rightarrow> big" where
  "average_pct_invested B kept =
     big_div B (fold (\<lambda>f acc. big_plus acc (fg_pct_portfolio_invested f)) (tl kept) (fg_pct_portfolio_invested (hd kept)))
       (Num (of_nat (length kept)))"

definition pct_portfolio_invested_summary :: "bignum \<Rightarrow> rendering \<Rightarrow> figures list \<Rightarrow> string" where
  "pct_portfolio_invested_summary B N kept = stats_pct N (average_pct_invested B kept)"

definition average_open_positions :: "bignum \<Rightarrow> figures list \<Rightarrow> rat" where
  "average_open_positions B kept =
     bn_div B (of_nat (sum_list (map fg_open_positions_count kept))) (of_nat (length kept))"

definition highest_open_positions :: "figures list \<Rightarrow> nat" where
  "highest_open_positions kept = Max (set (map fg_open_positions_count kept))"

definition open_positions_count_summary :: "bignum \<Rightarrow> rendering \<Rightarrow> figures list \<Rightarrow> string" where
  "open_positions_count_summary B N kept =
     ''Avg: '' @ rn_big N (Num (bn_dp B 0 (average_open_positions B kept))) @ '' Highest: '' @
     rn_big N (Num (of_nat (highest_open_positions kept)))"

text \<open>
  The log of \<open>summary\<close>: the type and text of each line, up to the first error.  Nobody passes the hooks
  the positions that are opened and closed, so both lists are empty in a run.
\<close>

fun log_lines :: "(string \<times> (js_error + string)) list \<Rightarrow> (js_error + unit) \<times> (string \<times> string) list" where
  "log_lines [] = (Inr (), [])"
| "log_lines ((ty, Inl e) # ls) = (Inl e, [])"
| "log_lines ((ty, Inr m) # ls) = (case log_lines ls of (r, lines) \<Rightarrow> (r, (ty, m) # lines))"

definition stats_summary ::
    "bignum \<Rightarrow> rendering \<Rightarrow> string \<Rightarrow> string \<Rightarrow> 'o list \<Rightarrow> rat list \<Rightarrow> figures list \<Rightarrow>
     (js_error + unit) \<times> (string \<times> string) list" where
  "stats_summary B N quote_asset backtest_run_id opened changes kept =
     (if kept = [] then (Inr (), [(''HooksSummaryNoData'', ''No Data.'')])
      else log_lines
        [(''HooksPositionsSummary'', Inr (summary_positions_opened_closed opened changes)),
         (''HooksLoanSummary'', loan_summary N quote_asset kept),
         (''HooksNetWorthSummary'', net_worth_summary B N quote_asset kept),
         (''HooksNetWorthDeltaSummary'', net_worth_delta_summary B N quote_asset kept),
         (''MaxTotalAssets'', max_total_assets_summary B N kept),
         (''AveragePercentOfPortfolioInvested'', Inr (pct_portfolio_invested_summary B N kept)),
         (''OpenPositionsCounts'', Inr (open_positions_count_summary B N kept)),
         (''BacktestID'', Inr backtest_run_id)])"

section \<open>Wins and losses by asset\<close>

text \<open>A change of zero is falsy and taken for a missing one.\<close>

definition percentage_of_closed :: "position_closed_event \<Rightarrow> js_error + rat" where
  "percentage_of_closed e =
     (case ev_percentage_quote_change e of
        None \<Rightarrow> Inl (Err ''percentage_quote_change missing'')
      | Some n \<Rightarrow> if n = 0 then Inl (Err ''percentage_quote_change missing'') else Inr n)"

definition win_or_loss :: "bignum \<Rightarrow> rendering \<Rightarrow> position_closed_event \<Rightarrow> js_error + string" where
  "win_or_loss B N e =
     (if ev_abs_quote_change e = None then Inl (Err ''abs_quote_change missing'')
      else case percentage_of_closed e of
        Inl err \<Rightarrow> Inl err
      | Inr n \<Rightarrow>
          let pct = bn_dp B 1 n in
          Inr ((if n < 0 then ''LOSS '' else ''WIN '') @ ''['' @
            (if pct < 0 then [] else ''+'') @ rn_number N (Num pct) @ ''%]''))"

definition compounded :: "rendering \<Rightarrow> rat list \<Rightarrow> rat" where
  "compounded N ns = fold (\<lambda>n factor. factor * rn_double N (1 + n / 100)) ns 1"

definition asset_summary :: "bignum \<Rightarrow> rendering \<Rightarrow> string \<times> position_closed_event list \<Rightarrow> js_error + string" where
  "asset_summary B N entry =
     (case entry of (base_asset, events) \<Rightarrow>
        (case map_result (win_or_loss B N) events of
           Inl err \<Rightarrow> Inl err
         | Inr strings \<Rightarrow>
             (case map_result percentage_of_closed events of
                Inl err \<Rightarrow> Inl err
              | Inr ns \<Rightarrow> Inr (base_asset @ '': '' @ join_with '', '' strings @ '' FINAL: x'' @
                  rn_big N (Num (bn_dp B 1 (compounded N ns))) @ ''final calc is almost certainly incorrect''))))"

definition tracker_summary ::
    "bignum \<Rightarrow> rendering \<Rightarrow> (string \<times> position_closed_event list) list \<Rightarrow> (js_error + unit) \<times> (string \<times> string) list" where
  "tracker_summary B N closed_events = log_lines (map (\<lambda>e. (''info'', asset_summary B N e)) closed_events)"

section \<open>Facts about the summaries\<close>

text \<open>A run with figures prints its eight lines and never fails.\<close>

theorem summary_prints_eight_lines:
  assumes "kept \<noteq> []"
  shows "fst (stats_summary B N quote run opened changes kept) = Inr ()"
    and "map fst (snd (stats_summary B N quote run opened changes kept)) =
      [''HooksPositionsSummary'', ''HooksLoanSummary'', ''HooksNetWorthSummary'', ''HooksNetWorthDeltaSummary'',
       ''MaxTotalAssets'', ''AveragePercentOfPortfolioInvested'', ''OpenPositionsCounts'', ''BacktestID'']"
  using assms
  by (simp_all add: stats_summary_def loan_summary_def net_worth_summary_def net_worth_delta_summary_def
      max_total_assets_summary_def Let_def)

lemma grid_ge_int:
  assumes "on_grid n r" "\<bar>r - x\<bar> \<le> 1 / (2 * 10 ^ n)" "of_int k \<le> x"
  shows "of_int k \<le> (r::rat)"
proof -
  have "0 \<le> r - of_int k"
  proof (rule bignum_laws.grid_nonneg [OF ref_bignum_laws])
    show "on_grid n (r - of_int k)" by (rule on_grid_diff [OF assms(1)]) simp
    show "\<bar>r - of_int k - (x - of_int k)\<bar> \<le> 1 / (2 * 10 ^ n)" using assms(2) by simp
  qed (use assms(3) in simp)
  then show ?thesis by simp
qed

text \<open>
  The best day is never reported as a loss: the first day counts, so the percentage of the greatest total
  to the first day's cash is at least one hundred.
\<close>

theorem best_day_is_no_loss:
  assumes "bignum_laws B" "kept \<noteq> []" "0 < fg_cash (hd kept)"
    and "fg_total_assets_inc_cash (hd kept) = fg_cash (hd kept) + fg_investments (hd kept)" "0 \<le> fg_investments (hd kept)"
  shows "\<exists>p. stats_delta_as_pct B (fg_cash (hd kept)) (max_total_assets kept) = Num p \<and> 100 \<le> p"
proof -
  let ?c = "fg_cash (hd kept)" and ?m = "max_total_assets kept"
  have "fg_total_assets_inc_cash (hd kept) \<le> ?m"
    unfolding max_total_assets_def using assms(2) by (intro Max_ge) auto
  then have "?c \<le> ?m" using assms(4,5) by linarith
  then have "of_int 1 \<le> ?m / ?c" using assms(3) by simp
  then have "of_int 1 \<le> bn_div B ?m ?c"
    using grid_ge_int [OF bignum_laws.div_grid [OF assms(1)] bignum_laws.div_close [OF assms(1)], where k = 1] assms(3) by simp
  then have "of_int 100 \<le> bn_div B ?m ?c * 100" by simp
  then have "of_int 100 \<le> bn_dp B 1 (bn_div B ?m ?c * 100)"
    using grid_ge_int [OF bignum_laws.dp_grid [OF assms(1)] bignum_laws.dp_close [OF assms(1)]] by blast
  then show ?thesis using assms(3) by (simp add: stats_delta_as_pct_def)
qed

text \<open>A position closed exactly at its entry value makes the summary of its asset fail.\<close>

theorem break_even_fails_summary:
  assumes "e \<in> set events" "ev_percentage_quote_change e = Some 0" "\<forall>e \<in> set events. ev_abs_quote_change e \<noteq> None"
  shows "asset_summary B N (base_asset, events) = Inl (Err ''percentage_quote_change missing'')"
proof -
  have one: "win_or_loss B N x = Inl (Err ''percentage_quote_change missing'') \<or> (\<exists>m. win_or_loss B N x = Inr m)"
    if "x \<in> set events" for x
    using assms(3) that by (auto simp: win_or_loss_def percentage_of_closed_def Let_def split: option.splits)
  have e: "win_or_loss B N e = Inl (Err ''percentage_quote_change missing'')"
    using assms by (auto simp: win_or_loss_def percentage_of_closed_def)
  have "map_result (win_or_loss B N) events = Inl (Err ''percentage_quote_change missing'')"
    using assms(1) one
  proof (induction events)
    case (Cons x events)
    from Cons.prems(2) [of x] consider "win_or_loss B N x = Inl (Err ''percentage_quote_change missing'')"
      | m where "win_or_loss B N x = Inr m" by auto
    then show ?case
    proof cases
      case 2
      with e have "x \<noteq> e" by auto
      with Cons 2 show ?thesis by simp
    qed simp
  qed simp
  then show ?thesis by (simp add: asset_summary_def)
qed

end
