(* ===== verification/BreakoutEdges.thy ===== *)
theory BreakoutEdges
  imports Edge70 Portfolio
begin

text \<open>
  The older edges that signal on candle bodies: \<open>edge56.ts\<close> and \<open>edge58/edge58.ts\<close> with the ADX
  indicator (\<open>indicators/adx.ts\<close>), and \<open>pure-adx.ts\<close>.  The \<open>ADX\<close> of the package \<open>technicalindicators\<close> is a
  parameter.  What calls the edge gets the signals through a callback, a program on a state of its
  own.
\<close>

section \<open>Big numbers and candle bodies\<close>

fun big_abs :: "big \<Rightarrow> big" where
  "big_abs (Num x) = Num \<bar>x\<bar>"
| "big_abs (Infinite s) = Infinite False"
| "big_abs NotANumber = NotANumber"

text \<open>\<open>isGreaterThan\<close> a finite number.\<close>

fun big_greater :: "big \<Rightarrow> rat \<Rightarrow> bool" where
  "big_greater (Num x) y = (y < x)"
| "big_greater (Infinite s) y = (\<not> s)"
| "big_greater NotANumber y = False"

definition is_short_candle :: "candle \<Rightarrow> bool" where
  "is_short_candle c \<longleftrightarrow> c_close c < c_open c"

definition is_long_candle :: "candle \<Rightarrow> bool" where
  "is_long_candle c \<longleftrightarrow> \<not> is_short_candle c"

definition percentage_change :: "bignum \<Rightarrow> candle \<Rightarrow> big" where
  "percentage_change B c =
     big_dp B 2 (big_times (big_plus (big_div B (Num (c_close c)) (Num (c_open c))) (Num (- 1))) 100)"

text \<open>\<open>push\<close> of these edges: its assertion is the one of the console, which only prints.\<close>

definition body_push :: "candle \<Rightarrow> (history, unit) prog" where
  "body_push c = modifyE (\<lambda>h. h\<lparr>h_candles := array_push (h_length h) c (h_candles h)\<rparr>)"

lemma wp_body_push [simp]: "wp (body_push c) Q R h = Q () (pushed c h)"
  by (simp add: body_push_def pushed_def)

text \<open>What a close beyond all bodies of a window says.\<close>

definition body_breakout :: "candle list \<Rightarrow> rat \<Rightarrow> direction option" where
  "body_breakout cs price =
     (if list_all (\<lambda>c. price < candle_low_body_value c) cs then Some Short
      else if list_all (\<lambda>c. candle_high_body_value c < price) cs then Some Long
      else None)"

lemma highest_body:
  assumes "h_candles h \<noteq> []"
  shows "\<exists>m c. get_highest_body_value h = Inr (m, c) \<and>
    (\<forall>p. m < p \<longleftrightarrow> list_all (\<lambda>c. candle_high_body_value c < p) (h_candles h))"
proof -
  obtain a cs where h: "h_candles h = a # cs" using assms by (cases "h_candles h") auto
  obtain m w where r: "scan_highest candle_high_body_value (candle_high_body_value a, a) (a # cs) = (m, w)"
    by fastforce
  have w: "w \<in> set (a # cs)" "m = candle_high_body_value w"
    using scan_highest_attained [of "candle_high_body_value a" candle_high_body_value a "a # cs"] r by auto
  have ub: "candle_high_body_value x \<le> m" if "x \<in> set (a # cs)" for x
    using scan_highest_upper [of x a "a # cs" "candle_high_body_value a" candle_high_body_value] r that by auto
  have "m < p \<longleftrightarrow> list_all (\<lambda>c. candle_high_body_value c < p) (h_candles h)" for p
    unfolding h list_all_iff w(2) using w(1) by (blast intro: le_less_trans [OF ub [unfolded w(2)]])
  then show ?thesis
    by (intro exI [of _ m] exI [of _ w]) (simp add: get_highest_body_value_def h r del: scan_highest.simps)
qed

lemma lowest_body:
  assumes "h_candles h \<noteq> []"
  shows "\<exists>m c. get_lowest_body_value h = Inr (m, c) \<and>
    (\<forall>p. p < m \<longleftrightarrow> list_all (\<lambda>c. p < candle_low_body_value c) (h_candles h))"
proof -
  obtain a cs where h: "h_candles h = a # cs" using assms by (cases "h_candles h") auto
  obtain m w where r: "scan_lowest candle_low_body_value (candle_low_body_value a, a) (a # cs) = (m, w)"
    by fastforce
  have w: "w \<in> set (a # cs)" "m = candle_low_body_value w"
    using scan_lowest_attained [of "candle_low_body_value a" candle_low_body_value a "a # cs"] r by auto
  have lb: "m \<le> candle_low_body_value x" if "x \<in> set (a # cs)" for x
    using scan_lowest_lower [of x a "a # cs" "candle_low_body_value a" candle_low_body_value] r that by auto
  have "p < m \<longleftrightarrow> list_all (\<lambda>c. p < candle_low_body_value c) (h_candles h)" for p
    unfolding h list_all_iff w(2) using w(1) by (blast intro: less_le_trans [OF _ lb [unfolded w(2)]])
  then show ?thesis
    by (intro exI [of _ m] exI [of _ w]) (simp add: get_lowest_body_value_def h r del: scan_lowest.simps)
qed

section \<open>Edge 56\<close>

record 't edge56_state =
  e6_history :: history
  e6_outer :: 't

definition on_edge56_history :: "(history, 'a) prog \<Rightarrow> ('t edge56_state, 'a) prog" where
  "on_edge56_history m = (\<lambda>s. case m (e6_history s) of (r, h) \<Rightarrow> (r, s\<lparr>e6_history := h\<rparr>))"

definition on_edge56_outer :: "('t, 'a) prog \<Rightarrow> ('t edge56_state, 'a) prog" where
  "on_edge56_outer m = (\<lambda>s. case m (e6_outer s) of (r, x) \<Rightarrow> (r, s\<lparr>e6_outer := x\<rparr>))"

definition new_edge56 :: "nat \<Rightarrow> candle list \<Rightarrow> 't \<Rightarrow> 't edge56_state" where
  "new_edge56 days_of_price_history initial_candles x =
     \<lparr>e6_history = new_history days_of_price_history initial_candles, e6_outer = x\<rparr>"

text \<open>The two directions are looked at one after the other, and an exception is only printed.\<close>

definition edge56_ingest_new_candle ::
    "string \<Rightarrow> (string \<Rightarrow> rat \<Rightarrow> direction \<Rightarrow> ('t, unit) prog) \<Rightarrow> string \<Rightarrow> candle \<Rightarrow> ('t edge56_state, unit) prog" where
  "edge56_ingest_new_candle symbol enter_position timeframe candle =
     (if timeframe \<noteq> ''1d'' then throwE (Err ''Got a short timeframe candle'')
      else
        let potential_entry_price = c_close candle in
        finallyE
          (tryE
            (bindE (getE (\<lambda>s. get_highest_body_value (e6_history s))) (\<lambda>r. bindE (liftE r) (\<lambda>(highest_price, _).
             seqE (if highest_price < potential_entry_price
                   then on_edge56_outer (enter_position symbol potential_entry_price Long) else returnE ())
            (bindE (getE (\<lambda>s. get_lowest_body_value (e6_history s))) (\<lambda>r. bindE (liftE r) (\<lambda>(low, _).
             if potential_entry_price < low
             then on_edge56_outer (enter_position symbol potential_entry_price Short) else returnE ()))))))
            (\<lambda>_. returnE ()))
          (on_edge56_history (body_push candle)))"

section \<open>ADX\<close>

text \<open>
  A result of the package; a number that is missing or not a number is \<open>None\<close>, and every comparison with it
  fails.
\<close>

record adx_output =
  ao_adx :: "rat option"
  ao_pdi :: "rat option"
  ao_mdi :: "rat option"

fun js_above :: "rat option \<Rightarrow> rat option \<Rightarrow> bool" where
  "js_above (Some x) (Some y) = (y < x)"
| "js_above _ _ = False"

record adx_parameters =
  adx_period :: nat
  limadx :: nat

text \<open>
  The package: \<open>getResult\<close> for a period and initial candles, and \<open>nextValue\<close>, which depends on the candles it
  was given since, the last one first, and may answer \<open>undefined\<close>.
\<close>

record adx_package =
  adx_getResult :: "nat \<Rightarrow> candle list \<Rightarrow> js_error + adx_output"
  adx_nextValue :: "nat \<Rightarrow> candle list \<Rightarrow> candle list \<Rightarrow> js_error + adx_output option"

record adx_indicator =
  ax_parameters :: adx_parameters
  ax_initial :: "candle list"
  ax_fed :: "candle list"
  ax_color :: string
  ax_prev_color :: "string option"
  ax_current_result :: "adx_output option"

definition adx_required_initial_candles :: "adx_parameters \<Rightarrow> nat" where
  "adx_required_initial_candles p = max (limadx p) (adx_period p)"

definition get_color :: "adx_parameters \<Rightarrow> adx_output \<Rightarrow> string" where
  "get_color p i =
     (if js_above (ao_adx i) (Some (of_nat (limadx p))) \<and> js_above (ao_pdi i) (ao_mdi i) then ''green''
      else if js_above (ao_adx i) (Some (of_nat (limadx p))) \<and> js_above (ao_mdi i) (ao_pdi i) then ''red''
      else ''black'')"

definition new_adx :: "adx_package \<Rightarrow> adx_parameters \<Rightarrow> candle list \<Rightarrow> adx_indicator" where
  "new_adx L p initial_candles =
     \<lparr>ax_parameters = p, ax_initial = initial_candles, ax_fed = [],
      ax_color = (case adx_getResult L (adx_period p) initial_candles of
                    Inl _ \<Rightarrow> ''undefined'' | Inr i \<Rightarrow> get_color p i),
      ax_prev_color = None, ax_current_result = None\<rparr>"

definition can_enter :: "adx_indicator \<Rightarrow> direction \<Rightarrow> bool" where
  "can_enter a d \<longleftrightarrow> d = Long \<and> ax_color a = ''green'' \<or> d = Short \<and> ax_color a = ''red''"

definition take_adx_result :: "adx_output option \<Rightarrow> adx_indicator \<Rightarrow> adx_indicator" where
  "take_adx_result result a =
     (case result of
        None \<Rightarrow> a\<lparr>ax_current_result := None\<rparr>
      | Some i \<Rightarrow> a\<lparr>ax_current_result := Some i, ax_prev_color := Some (ax_color a),
                  ax_color := get_color (ax_parameters a) i\<rparr>)"

definition adx_ingest_new_candle :: "adx_package \<Rightarrow> candle \<Rightarrow> (adx_indicator, unit) prog" where
  "adx_ingest_new_candle L candle =
     seqE (modifyE (\<lambda>a. a\<lparr>ax_fed := candle # ax_fed a\<rparr>))
     (bindE (getE (\<lambda>a. adx_nextValue L (adx_period (ax_parameters a)) (ax_initial a) (ax_fed a))) (\<lambda>r.
      bindE (liftE r) (\<lambda>result. modifyE (take_adx_result result))))"

section \<open>The pure ADX edge\<close>

record 't pure_adx_state =
  pa_adx :: adx_indicator
  pa_outer :: 't

definition on_pure_adx :: "(adx_indicator, 'a) prog \<Rightarrow> ('t pure_adx_state, 'a) prog" where
  "on_pure_adx m = (\<lambda>s. case m (pa_adx s) of (r, a) \<Rightarrow> (r, s\<lparr>pa_adx := a\<rparr>))"

definition on_pure_adx_outer :: "('t, 'a) prog \<Rightarrow> ('t pure_adx_state, 'a) prog" where
  "on_pure_adx_outer m = (\<lambda>s. case m (pa_outer s) of (r, x) \<Rightarrow> (r, s\<lparr>pa_outer := x\<rparr>))"

definition pure_adx_parameters :: adx_parameters where
  "pure_adx_parameters = \<lparr>adx_period = 14, limadx = 14\<rparr>"

definition new_pure_adx :: "adx_package \<Rightarrow> candle list \<Rightarrow> 't \<Rightarrow> 't pure_adx_state" where
  "new_pure_adx L initial_candles x = \<lparr>pa_adx = new_adx L pure_adx_parameters initial_candles, pa_outer = x\<rparr>"

definition pure_adx_ingest_new_candle ::
    "adx_package \<Rightarrow> (string \<Rightarrow> rat \<Rightarrow> direction \<Rightarrow> ('t, unit) prog) \<Rightarrow> string \<Rightarrow> string \<Rightarrow> candle \<Rightarrow>
     ('t pure_adx_state, unit) prog" where
  "pure_adx_ingest_new_candle L entry_signal timeframe symbol candle =
     (if timeframe \<noteq> ''1d'' then throwE (Err ''Got a short timeframe candle'')
      else
        seqE (on_pure_adx (adx_ingest_new_candle L candle))
        (tryE
          (bindE (getE (\<lambda>s. (ax_color (pa_adx s), ax_prev_color (pa_adx s)))) (\<lambda>(color, prev_color).
           if color = ''green'' \<and> prev_color \<noteq> Some ''green''
           then on_pure_adx_outer (entry_signal symbol (c_close candle) Long)
           else if color = ''red'' \<and> prev_color \<noteq> Some ''red''
           then on_pure_adx_outer (entry_signal symbol (c_close candle) Short)
           else returnE ()))
          (\<lambda>_. returnE ())))"

section \<open>Edge 58\<close>

record market_identifier_v2 =
  mi2_exchange :: string
  mi2_symbol :: string

record edge58_parameters =
  ep_candles_of_price_history :: nat
  ep_candle_timeframe :: string
  ep_minimal_wick_less_than :: rat
  ep_large_wick_greater_than :: rat
  ep_stop_minimal_wick :: rat
  ep_stop_default :: rat
  ep_stop_large_wick :: rat
  ep_candle_body_percentage_considered_too_large :: rat
  ep_adx_parameters :: adx_parameters

record edge58_entry_signal =
  en_market_identifier :: market_identifier_v2
  en_parameters :: edge58_parameters
  en_direction :: direction
  en_entry_price :: rat
  en_enter_position_ok :: bool
  en_add_to_position_ok :: bool
  en_entry_candle_close_timestamp_ms :: int
  en_stop_price :: rat

record 't edge58_state =
  e8_history :: history
  e8_adx :: adx_indicator
  e8_outer :: 't

definition on_edge58_history :: "(history, 'a) prog \<Rightarrow> ('t edge58_state, 'a) prog" where
  "on_edge58_history m = (\<lambda>s. case m (e8_history s) of (r, h) \<Rightarrow> (r, s\<lparr>e8_history := h\<rparr>))"

definition on_edge58_adx :: "(adx_indicator, 'a) prog \<Rightarrow> ('t edge58_state, 'a) prog" where
  "on_edge58_adx m = (\<lambda>s. case m (e8_adx s) of (r, a) \<Rightarrow> (r, s\<lparr>e8_adx := a\<rparr>))"

definition on_edge58_outer :: "('t, 'a) prog \<Rightarrow> ('t edge58_state, 'a) prog" where
  "on_edge58_outer m = (\<lambda>s. case m (e8_outer s) of (r, x) \<Rightarrow> (r, s\<lparr>e8_outer := x\<rparr>))"

definition edge58_required_initial_candles :: "edge58_parameters \<Rightarrow> nat" where
  "edge58_required_initial_candles p =
     max (ep_candles_of_price_history p) (adx_required_initial_candles (ep_adx_parameters p))"

definition new_edge58 :: "adx_package \<Rightarrow> edge58_parameters \<Rightarrow> candle list \<Rightarrow> 't \<Rightarrow> 't edge58_state" where
  "new_edge58 L p initial_candles x =
     \<lparr>e8_history = new_history (ep_candles_of_price_history p) initial_candles,
      e8_adx = new_adx L (ep_adx_parameters p) initial_candles, e8_outer = x\<rparr>"

definition is_large_candle_body :: "bignum \<Rightarrow> edge58_parameters \<Rightarrow> candle \<Rightarrow> bool" where
  "is_large_candle_body B p candle =
     big_at_least (big_abs (percentage_change B candle)) (ep_candle_body_percentage_considered_too_large p)"

text \<open>A body of no size makes the wick infinite, or not a number when there is no wick either.\<close>

definition get_edge58_stop_percentage :: "bignum \<Rightarrow> edge58_parameters \<Rightarrow> candle \<Rightarrow> direction \<Rightarrow> js_error + rat" where
  "get_edge58_stop_percentage B p candle d =
     (let low_body = min (c_open candle) (c_close candle); high_body = max (c_open candle) (c_close candle);
          wick_size = (case d of Long \<Rightarrow> low_body - c_low candle | Short \<Rightarrow> c_high candle - high_body) in
      if wick_size < 0 then Inl (Err ''negative wick_size'')
      else
        let wick_pcnt = big_times (big_div B (Num wick_size) (Num (high_body - low_body))) 100 in
        Inr (if big_greater wick_pcnt (ep_large_wick_greater_than p) then ep_stop_large_wick p
             else if big_less wick_pcnt (ep_minimal_wick_less_than p) then ep_stop_minimal_wick p
             else ep_stop_default p))"

definition get_edge58_stop_price :: "bignum \<Rightarrow> edge58_parameters \<Rightarrow> candle \<Rightarrow> direction \<Rightarrow> js_error + rat" where
  "get_edge58_stop_price B p candle d =
     (case get_edge58_stop_percentage B p candle d of
        Inl e \<Rightarrow> Inl e
      | Inr stop_percentage \<Rightarrow>
          Inr (case d of
                 Long \<Rightarrow> c_low candle * bn_div B (100 - stop_percentage) 100
               | Short \<Rightarrow> c_high candle * bn_div B (100 + stop_percentage) 100))"

text \<open>The promise of a call that is not awaited is dropped, with its rejection.\<close>

definition unawaited :: "('s, 'a) prog \<Rightarrow> ('s, unit) prog" where
  "unawaited m = (\<lambda>s. (Inr (), snd (m s)))"

definition edge58_check_entry ::
    "bignum \<Rightarrow> edge58_parameters \<Rightarrow> market_identifier_v2 \<Rightarrow> (edge58_entry_signal \<Rightarrow> ('t, unit) prog) \<Rightarrow> candle \<Rightarrow>
     ('t edge58_state, unit) prog" where
  "edge58_check_entry B p market enter_or_add_to_position candle =
     (let potential_entry_price = c_close candle in
      bindE (getE (\<lambda>s. get_highest_body_value (e8_history s))) (\<lambda>r. bindE (liftE r) (\<lambda>(high, _).
      bindE (getE (\<lambda>s. get_lowest_body_value (e8_history s))) (\<lambda>r. bindE (liftE r) (\<lambda>(low, _).
      case (if potential_entry_price < low then Some Short
            else if high < potential_entry_price then Some Long else None) of
        None \<Rightarrow> returnE ()
      | Some direction \<Rightarrow>
          bindE (getE (\<lambda>s. \<not> is_large_candle_body B p candle \<and> can_enter (e8_adx s) direction)) (\<lambda>enter_position_ok.
          bindE (liftE (get_edge58_stop_price B p candle direction)) (\<lambda>stop_price.
          on_edge58_outer (enter_or_add_to_position
            \<lparr>en_market_identifier = market, en_parameters = p, en_direction = direction,
             en_entry_price = potential_entry_price, en_enter_position_ok = enter_position_ok,
             en_add_to_position_ok = True, en_entry_candle_close_timestamp_ms = c_closeTime candle,
             en_stop_price = stop_price\<rparr>))))))))"

definition edge58_ingest_new_candle ::
    "bignum \<Rightarrow> adx_package \<Rightarrow> edge58_parameters \<Rightarrow> market_identifier_v2 \<Rightarrow>
     (edge58_entry_signal \<Rightarrow> ('t, unit) prog) \<Rightarrow> string \<Rightarrow> candle \<Rightarrow> ('t edge58_state, unit) prog" where
  "edge58_ingest_new_candle B L p market enter_or_add_to_position timeframe candle =
     (if timeframe \<noteq> ep_candle_timeframe p then throwE (Err ''Got a short timeframe candle'')
      else
        seqE (unawaited (on_edge58_adx (adx_ingest_new_candle L candle)))
        (finallyE
          (tryE (edge58_check_entry B p market enter_or_add_to_position candle) throwE)
          (on_edge58_history (body_push candle))))"

section \<open>What the edges signal\<close>

lemma wp_on_edge56 [simp]:
  "wp (on_edge56_history m) Q R s = wp m (\<lambda>x h. Q x (s\<lparr>e6_history := h\<rparr>)) (\<lambda>e h. R e (s\<lparr>e6_history := h\<rparr>)) (e6_history s)"
  "wp (on_edge56_outer k) Q R s = wp k (\<lambda>x y. Q x (s\<lparr>e6_outer := y\<rparr>)) (\<lambda>e y. R e (s\<lparr>e6_outer := y\<rparr>)) (e6_outer s)"
  by (simp_all add: on_edge56_history_def on_edge56_outer_def wp_def split: prod.split sum.split)

lemma wp_on_edge58 [simp]:
  "wp (on_edge58_history m) Q R s = wp m (\<lambda>x h. Q x (s\<lparr>e8_history := h\<rparr>)) (\<lambda>e h. R e (s\<lparr>e8_history := h\<rparr>)) (e8_history s)"
  "wp (on_edge58_outer k) Q R s = wp k (\<lambda>x y. Q x (s\<lparr>e8_outer := y\<rparr>)) (\<lambda>e y. R e (s\<lparr>e8_outer := y\<rparr>)) (e8_outer s)"
  "wp (on_edge58_adx n) Q R s = wp n (\<lambda>x a. Q x (s\<lparr>e8_adx := a\<rparr>)) (\<lambda>e a. R e (s\<lparr>e8_adx := a\<rparr>)) (e8_adx s)"
  by (simp_all add: on_edge58_history_def on_edge58_outer_def on_edge58_adx_def wp_def split: prod.split sum.split)

lemma wp_state: "wp m (\<lambda>x y. P y) (\<lambda>e y. P y) s \<longleftrightarrow> P (snd (m s))"
  by (simp add: wp_def split: prod.split sum.split)

lemma wp_unawaited [simp]: "wp (unawaited m) Q R s = Q () (snd (m s))"
  by (simp add: unawaited_def wp_def)

lemma breakout_exclusive:
  assumes "cs \<noteq> []" "list_all (\<lambda>c. candle_high_body_value c < p) cs"
  shows "\<not> list_all (\<lambda>c. p < candle_low_body_value c) cs"
  using assms by (cases cs) (auto simp: candle_high_body_value_def candle_low_body_value_def)

lemma body_scans:
  assumes "h_candles h \<noteq> []"
  obtains high a low b where "get_highest_body_value h = Inr (high, a)" "get_lowest_body_value h = Inr (low, b)"
    "(if p < low then Some Short else if high < p then Some Long else None) = body_breakout (h_candles h) p"
    "\<not> (p < low \<and> high < p)"
proof -
  obtain high a low b where x: "get_highest_body_value h = Inr (high, a)" "get_lowest_body_value h = Inr (low, b)"
      "\<And>p. high < p \<longleftrightarrow> list_all (\<lambda>c. candle_high_body_value c < p) (h_candles h)"
      "\<And>p. p < low \<longleftrightarrow> list_all (\<lambda>c. p < candle_low_body_value c) (h_candles h)"
    using highest_body [OF assms] lowest_body [OF assms] by blast
  have "(if p < low then Some Short else if high < p then Some Long else None) = body_breakout (h_candles h) p"
    unfolding x(3,4) body_breakout_def by (rule refl)
  moreover have "\<not> (p < low \<and> high < p)"
    unfolding x(3,4) using breakout_exclusive [OF assms, of p] by blast
  ultimately show ?thesis using x(1,2) that by blast
qed

text \<open>
  Edge 56 enters what the rule says once, and neither an exception of the callback nor anything else keeps
  the candle out of the history.
\<close>

lemma edge56_follows_the_rule:
  assumes "h_candles (e6_history s) \<noteq> []"
  shows "edge56_ingest_new_candle symbol enter_position ''1d'' candle s =
    (Inr (), s\<lparr>e6_history := pushed candle (e6_history s),
       e6_outer := (case body_breakout (h_candles (e6_history s)) (c_close candle) of
          None \<Rightarrow> e6_outer s
        | Some d \<Rightarrow> snd (enter_position symbol (c_close candle) d (e6_outer s)))\<rparr>)"
proof -
  obtain high a low b where x: "get_highest_body_value (e6_history s) = Inr (high, a)"
      "get_lowest_body_value (e6_history s) = Inr (low, b)"
      "(if c_close candle < low then Some Short else if high < c_close candle then Some Long else None) =
        body_breakout (h_candles (e6_history s)) (c_close candle)"
      "\<not> (c_close candle < low \<and> high < c_close candle)"
    by (rule body_scans [OF assms])
  show ?thesis
    unfolding wp_outcome x(3) [symmetric] using x(4)
    by (auto simp: edge56_ingest_new_candle_def Let_def x(1,2) wp_state)
qed

text \<open>The parameters of \<open>backtest.ts\<close>, which the type of the parameters fixes but for those of the indicator.\<close>

definition edge58_config :: edge58_parameters where
  "edge58_config = \<lparr>ep_candles_of_price_history = 2, ep_candle_timeframe = ''1w'',
     ep_minimal_wick_less_than = 5, ep_large_wick_greater_than = 10,
     ep_stop_minimal_wick = 4, ep_stop_default = 6, ep_stop_large_wick = 12,
     ep_candle_body_percentage_considered_too_large = 35,
     ep_adx_parameters = \<lparr>adx_period = 14, limadx = 17\<rparr>\<rparr>"

definition proper_candle :: "candle \<Rightarrow> bool" where
  "proper_candle c \<longleftrightarrow> 0 < c_low c \<and> c_low c \<le> min (c_open c) (c_close c) \<and> max (c_open c) (c_close c) \<le> c_high c"

lemma on_grid_hundredth: "on_grid 20 (of_int k / 100)"
proof -
  have "(of_int k / 100 :: rat) * 10 ^ 20 = of_int (k * 10 ^ 18)" by simp
  then show ?thesis unfolding on_grid_def by (metis Ints_of_int)
qed

lemma edge58_stop_price:
  assumes "bignum_laws B" "proper_candle c"
  shows "\<exists>stop. get_edge58_stop_price B edge58_config c d = Inr stop \<and>
    (case d of Long \<Rightarrow> 0 < stop \<and> stop < c_low c | Short \<Rightarrow> c_high c < stop)"
proof -
  have div: "bn_div B (of_int k) 100 = of_int k / 100" for k
    by (rule bignum_laws.div_exact [OF assms(1) _ on_grid_hundredth]) simp
  have vals: "bn_div B 96 100 = 96 / 100" "bn_div B 94 100 = 94 / 100" "bn_div B 88 100 = 88 / 100"
      "bn_div B 104 100 = 104 / 100" "bn_div B 106 100 = 106 / 100" "bn_div B 112 100 = 112 / 100"
    using div [of 96] div [of 94] div [of 88] div [of 104] div [of 106] div [of 112] by simp_all
  have "0 < c_low c" "0 < c_high c" "\<not> min (c_open c) (c_close c) < c_low c"
      "\<not> c_high c < max (c_open c) (c_close c)"
    using assms(2) unfolding proper_candle_def by linarith+
  then show ?thesis
    by (cases d) (simp_all add: get_edge58_stop_price_def get_edge58_stop_percentage_def edge58_config_def Let_def vals)
qed

text \<open>The indicator after a candle, whatever the package answers.\<close>

definition adx_after :: "adx_package \<Rightarrow> candle \<Rightarrow> 't edge58_state \<Rightarrow> adx_indicator" where
  "adx_after L candle s = snd (adx_ingest_new_candle L candle (e8_adx s))"

lemma snd_on_edge58_adx: "snd (on_edge58_adx (adx_ingest_new_candle L candle) s) = s\<lparr>e8_adx := adx_after L candle s\<rparr>"
  by (simp add: on_edge58_adx_def adx_after_def split: prod.split)

definition edge58_signal ::
    "bignum \<Rightarrow> market_identifier_v2 \<Rightarrow> candle \<Rightarrow> adx_indicator \<Rightarrow> direction \<Rightarrow> rat \<Rightarrow> edge58_entry_signal" where
  "edge58_signal B market candle a d stop =
     \<lparr>en_market_identifier = market, en_parameters = edge58_config, en_direction = d,
      en_entry_price = c_close candle,
      en_enter_position_ok = (\<not> is_large_candle_body B edge58_config candle \<and> can_enter a d),
      en_add_to_position_ok = True, en_entry_candle_close_timestamp_ms = c_closeTime candle,
      en_stop_price = stop\<rparr>"

definition stop_beyond_candle :: "candle \<Rightarrow> direction \<Rightarrow> rat \<Rightarrow> bool" where
  "stop_beyond_candle candle d stop =
     (case d of Long \<Rightarrow> 0 < stop \<and> stop < c_low candle | Short \<Rightarrow> c_high candle < stop)"

text \<open>
  C35: Edge 58 signals exactly the closes beyond all bodies of its history, with a stop beyond the wick of the
  candle, and asks to enter exactly when the body is not too large and the indicator, updated with the
  candle first, has the colour of the direction.  What the callback answers reaches the caller, and the
  candle is in the history afterwards in every case.
\<close>
theorem edge58_signals_are_protected:
  assumes "bignum_laws B" "proper_candle candle" "h_candles (e8_history s) \<noteq> []"
  shows "case body_breakout (h_candles (e8_history s)) (c_close candle) of
      None \<Rightarrow> edge58_ingest_new_candle B L edge58_config market enter ''1w'' candle s =
        (Inr (), s\<lparr>e8_history := pushed candle (e8_history s), e8_adx := adx_after L candle s\<rparr>)
    | Some d \<Rightarrow> \<exists>stop. stop_beyond_candle candle d stop \<and>
        edge58_ingest_new_candle B L edge58_config market enter ''1w'' candle s =
          (case enter (edge58_signal B market candle (adx_after L candle s) d stop) (e8_outer s) of (r, x) \<Rightarrow>
            (r, s\<lparr>e8_history := pushed candle (e8_history s), e8_adx := adx_after L candle s, e8_outer := x\<rparr>))"
proof -
  obtain high a low b where x: "get_highest_body_value (e8_history s) = Inr (high, a)"
      "get_lowest_body_value (e8_history s) = Inr (low, b)"
      "(if c_close candle < low then Some Short else if high < c_close candle then Some Long else None) =
        body_breakout (h_candles (e8_history s)) (c_close candle)"
    by (rule body_scans [OF assms(3)])
  note run = edge58_ingest_new_candle_def edge58_check_entry_def Let_def x snd_on_edge58_adx
  show ?thesis
  proof (cases "body_breakout (h_candles (e8_history s)) (c_close candle)")
    case None
    have tf: "ep_candle_timeframe edge58_config = ''1w''" by (simp add: edge58_config_def)
    show ?thesis unfolding wp_outcome None by (simp add: run tf None)
  next
    case (Some d)
    obtain stop where stop: "get_edge58_stop_price B edge58_config candle d = Inr stop" "stop_beyond_candle candle d stop"
      using edge58_stop_price [OF assms(1,2)] unfolding stop_beyond_candle_def by blast
    have tf: "ep_candle_timeframe edge58_config = ''1w''" by (simp add: edge58_config_def)
    obtain r y where ry: "enter (edge58_signal B market candle (adx_after L candle s) d stop) (e8_outer s) = (r, y)"
      by fastforce
    have wp_enter: "wp (enter (edge58_signal B market candle (adx_after L candle s) d stop)) Q R (e8_outer s) =
        (case r of Inl e \<Rightarrow> R e y | Inr z \<Rightarrow> Q z y)" for Q R
      by (simp add: wp_def ry)
    have "edge58_ingest_new_candle B L edge58_config market enter ''1w'' candle s =
        (r, s\<lparr>e8_history := pushed candle (e8_history s), e8_adx := adx_after L candle s, e8_outer := y\<rparr>)"
      unfolding wp_outcome
      by (simp add: run tf Some stop(1) wp_enter [unfolded edge58_signal_def] split: sum.split)
    then show ?thesis using stop(2) by (auto simp: Some ry)
  qed
qed

text \<open>Two weeks between 10 and 11, and a week that closes at 12.\<close>

definition demo_week :: "rat \<Rightarrow> candle" where
  "demo_week close = \<lparr>c_open = close - 1, c_high = close + 1, c_low = close - 2, c_close = close, c_closeTime = 0\<rparr>"

definition green_package :: adx_package where
  "green_package = \<lparr>adx_getResult = (\<lambda>_ _. Inr \<lparr>ao_adx = None, ao_pdi = None, ao_mdi = None\<rparr>),
     adx_nextValue = (\<lambda>_ _ _. Inr (Some \<lparr>ao_adx = Some 20, ao_pdi = Some 2, ao_mdi = Some 1\<rparr>))\<rparr>"

definition demo_edge58 :: "edge58_entry_signal list edge58_state" where
  "demo_edge58 = new_edge58 green_package edge58_config [demo_week 11, demo_week 11] []"

definition log_signal :: "edge58_entry_signal \<Rightarrow> (edge58_entry_signal list, unit) prog" where
  "log_signal e = modifyE (\<lambda>xs. xs @ [e])"

theorem edge58_signals_are_protected_witness:
  "\<exists>stop. 0 < stop \<and> stop < 10 \<and>
    fst (edge58_ingest_new_candle ref_bignum green_package edge58_config \<lparr>mi2_exchange = ''binance'', mi2_symbol = ''LINKUSDT''\<rparr>
      log_signal ''1w'' (demo_week 12) demo_edge58) = Inr () \<and>
    map en_stop_price (e8_outer (snd (edge58_ingest_new_candle ref_bignum green_package edge58_config
      \<lparr>mi2_exchange = ''binance'', mi2_symbol = ''LINKUSDT''\<rparr> log_signal ''1w'' (demo_week 12) demo_edge58))) = [stop]"
proof -
  have h: "h_candles (e8_history demo_edge58) = [demo_week 11, demo_week 11]"
    by (simp add: demo_edge58_def new_edge58_def new_history_def slice_last_def edge58_config_def)
  have p: "proper_candle (demo_week 12)" by (simp add: proper_candle_def demo_week_def)
  have b: "body_breakout (h_candles (e8_history demo_edge58)) (c_close (demo_week 12)) = Some Long"
    by (simp add: h body_breakout_def demo_week_def candle_low_body_value_def candle_high_body_value_def)
  have o: "e8_outer demo_edge58 = []" by (simp add: demo_edge58_def new_edge58_def)
  have l: "c_low (demo_week 12) = 10" by (simp add: demo_week_def)
  show ?thesis
    using edge58_signals_are_protected [OF ref_bignum_laws p, of demo_edge58 green_package
        "\<lparr>mi2_exchange = ''binance'', mi2_symbol = ''LINKUSDT''\<rparr>" log_signal]
    by (auto simp: b [unfolded h] h o l log_signal_def modifyE_def edge58_signal_def stop_beyond_candle_def)
qed

end
