(* ===== verification/Edge58Backtest.thy ===== *)
theory Edge58Backtest
  imports BreakoutEdges
begin

text \<open>
  The backtester of edge 58 (\<open>backtesting/edge58/backtest.ts\<close>): a tracker that is the callback of the edge
  and writes an event log, the loop over the candles, and the analyser that replays the log for the
  profits.  The replay agrees with the tracker.
\<close>

section \<open>The analyser\<close>

text \<open>What the log says of orders that were executed; the amounts keep the names of the source.\<close>

record order_executed =
  ox_base_amount :: rat
  ox_quote_amount :: big

datatype position_change =
    PositionEntryExecutionLog market_identifier_v2 direction rat int rat order_executed
  | PositionIncreaseExecutionLog market_identifier_v2 direction rat int rat order_executed
  | PositionExitExecutionLog market_identifier_v2 direction rat big int

definition edge58_fixed_position_size :: rat where
  "edge58_fixed_position_size = 300"

record edge58_trade =
  tr_amount_invested :: rat
  tr_position_size :: big

definition new_trade :: "bignum \<Rightarrow> rat \<Rightarrow> rat \<Rightarrow> edge58_trade" where
  "new_trade B amount_invested price =
     \<lparr>tr_amount_invested = amount_invested, tr_position_size = big_div B (Num amount_invested) (Num price)\<rparr>"

definition trade_add_to_position :: "bignum \<Rightarrow> rat \<Rightarrow> rat \<Rightarrow> edge58_trade \<Rightarrow> edge58_trade" where
  "trade_add_to_position B amount_invested price t =
     \<lparr>tr_amount_invested = tr_amount_invested t + amount_invested,
      tr_position_size = big_plus (tr_position_size t) (big_div B (Num amount_invested) (Num price))\<rparr>"

definition trade_profit_loss :: "rat \<Rightarrow> edge58_trade \<Rightarrow> big" where
  "trade_profit_loss price t = big_plus (big_times (tr_position_size t) price) (Num (- tr_amount_invested t))"

record analysis =
  an_current_trade :: "edge58_trade option"
  an_capital_required :: rat
  an_total_profit_loss :: big

definition new_analysis :: analysis where
  "new_analysis = \<lparr>an_current_trade = None, an_capital_required = 0, an_total_profit_loss = Num 0\<rparr>"

definition require_capital :: "analysis \<Rightarrow> analysis" where
  "require_capital a =
     (case an_current_trade a of
        None \<Rightarrow> a
      | Some t \<Rightarrow> a\<lparr>an_capital_required := max (an_capital_required a) (tr_amount_invested t)\<rparr>)"

fun analyse_event :: "bignum \<Rightarrow> position_change \<Rightarrow> analysis \<Rightarrow> js_error + analysis" where
  "analyse_event B (PositionEntryExecutionLog _ _ entry_price _ _ _) a =
     Inr (require_capital (a\<lparr>an_current_trade := Some (new_trade B edge58_fixed_position_size entry_price)\<rparr>))"
| "analyse_event B (PositionIncreaseExecutionLog _ _ entry_price _ _ _) a =
     (case an_current_trade a of
        None \<Rightarrow> Inl (Err ''Not in position'')
      | Some t \<Rightarrow> Inr (require_capital
          (a\<lparr>an_current_trade := Some (trade_add_to_position B edge58_fixed_position_size entry_price t)\<rparr>)))"
| "analyse_event B (PositionExitExecutionLog _ _ exit_price _ _) a =
     (case an_current_trade a of
        None \<Rightarrow> Inl (Err ''Not in position'')
      | Some t \<Rightarrow> Inr (require_capital
          (a\<lparr>an_current_trade := None,
             an_total_profit_loss := big_plus (an_total_profit_loss a) (trade_profit_loss exit_price t)\<rparr>)))"

fun analyser_run :: "bignum \<Rightarrow> position_change list \<Rightarrow> analysis \<Rightarrow> js_error + analysis" where
  "analyser_run B [] a = Inr a"
| "analyser_run B (e # es) a =
     (case analyse_event B e a of Inl err \<Rightarrow> Inl err | Inr a' \<Rightarrow> analyser_run B es a')"

lemma analyser_run_append:
  "analyser_run B (xs @ ys) a =
     (case analyser_run B xs a of Inl e \<Rightarrow> Inl e | Inr a' \<Rightarrow> analyser_run B ys a')"
  by (induction xs arbitrary: a) (auto split: sum.split)

section \<open>The tracker\<close>

datatype edge58_event =
    EntrySignalEvent edge58_entry_signal
  | ExitSignalEvent market_identifier_v2 edge58_parameters direction rat big int

record edge58_tracker =
  pt_event_log :: "edge58_event list"
  pt_events :: "position_change list"
  pt_symbol :: "string option"
  pt_position_size :: big
  pt_direction :: "direction option"
  pt_stop_price :: "rat option"

definition new_edge58_tracker :: edge58_tracker where
  "new_edge58_tracker = \<lparr>pt_event_log = [], pt_events = [], pt_symbol = None, pt_position_size = Num 0,
     pt_direction = None, pt_stop_price = None\<rparr>"

definition tracker_in_position :: "edge58_tracker \<Rightarrow> bool" where
  "tracker_in_position t \<longleftrightarrow> pt_direction t \<noteq> None"

definition push_stopped_out_execution_event ::
    "market_identifier_v2 \<Rightarrow> direction \<Rightarrow> rat \<Rightarrow> big \<Rightarrow> int \<Rightarrow> edge58_tracker \<Rightarrow> edge58_tracker" where
  "push_stopped_out_execution_event market d exit_price position_size timestamp t =
     t\<lparr>pt_events := pt_events t @ [PositionExitExecutionLog market d exit_price position_size timestamp]\<rparr>"

text \<open>An empty symbol is taken for a missing one.\<close>

definition tracker_stopped_out :: "candle \<Rightarrow> (edge58_tracker, unit) prog" where
  "tracker_stopped_out candle =
     bindE (getE (\<lambda>t. t)) (\<lambda>t.
     case pt_direction t of
       None \<Rightarrow> throwE (Err ''direction was not defined'')
     | Some direction \<Rightarrow>
     case pt_stop_price t of
       None \<Rightarrow> throwE (Err ''direction was not defined'')
     | Some stop \<Rightarrow>
     case pt_symbol t of
       None \<Rightarrow> throwE (Err ''symbol was not defined'')
     | Some symbol \<Rightarrow>
       if symbol = [] then throwE (Err ''symbol was not defined'')
       else
         let market = \<lparr>mi2_exchange = ''binance'', mi2_symbol = symbol\<rparr>; position_size = pt_position_size t in
         seqE (modifyE (\<lambda>t. t\<lparr>pt_event_log := pt_event_log t @
           [ExitSignalEvent market edge58_config direction stop position_size (c_closeTime candle)]\<rparr>))
        (seqE (modifyE (\<lambda>t. t\<lparr>pt_position_size := Num 0, pt_direction := None, pt_stop_price := None,
           pt_symbol := None\<rparr>))
        (modifyE (push_stopped_out_execution_event market direction stop position_size (c_closeTime candle)))))"

definition push_entry_execution_event ::
    "edge58_entry_signal \<Rightarrow> order_executed \<Rightarrow> edge58_tracker \<Rightarrow> edge58_tracker" where
  "push_entry_execution_event event ox t =
     t\<lparr>pt_events := pt_events t @ [PositionEntryExecutionLog (en_market_identifier event) (en_direction event)
       (en_entry_price event) (en_entry_candle_close_timestamp_ms event) (en_stop_price event) ox]\<rparr>"

definition push_add_to_position_execution_event ::
    "edge58_entry_signal \<Rightarrow> order_executed \<Rightarrow> edge58_tracker \<Rightarrow> edge58_tracker" where
  "push_add_to_position_execution_event event ox t =
     t\<lparr>pt_events := pt_events t @ [PositionIncreaseExecutionLog (en_market_identifier event) (en_direction event)
       (en_entry_price event) (en_entry_candle_close_timestamp_ms event) (en_stop_price event) ox]\<rparr>"

definition enter_or_add_to_position :: "bignum \<Rightarrow> edge58_entry_signal \<Rightarrow> (edge58_tracker, unit) prog" where
  "enter_or_add_to_position B event =
     seqE (modifyE (\<lambda>t. t\<lparr>pt_event_log := pt_event_log t @ [EntrySignalEvent event]\<rparr>))
     (bindE (getE (\<lambda>t. t)) (\<lambda>t.
      let quote_amount = big_div B (Num edge58_fixed_position_size) (Num (en_entry_price event));
          ox = \<lparr>ox_base_amount = edge58_fixed_position_size, ox_quote_amount = quote_amount\<rparr> in
      if tracker_in_position t then
        if pt_direction t \<noteq> Some (en_direction event) then returnE ()
        else if en_add_to_position_ok event then
          seqE (modifyE (push_add_to_position_execution_event event ox))
            (modifyE (\<lambda>t. t\<lparr>pt_stop_price := Some (en_stop_price event),
               pt_position_size := big_plus (pt_position_size t) quote_amount\<rparr>))
        else returnE ()
      else if en_enter_position_ok event then
        seqE (modifyE (push_entry_execution_event event ox))
          (modifyE (\<lambda>t. t\<lparr>pt_stop_price := Some (en_stop_price event), pt_direction := Some (en_direction event),
             pt_symbol := Some (mi2_symbol (en_market_identifier event)), pt_position_size := quote_amount\<rparr>))
      else returnE ()))"

section \<open>The run\<close>

definition edge58_market :: market_identifier_v2 where
  "edge58_market = \<lparr>mi2_exchange = ''binance'', mi2_symbol = ''LINKUSDT''\<rparr>"

definition check_long_stop :: "candle \<Rightarrow> (edge58_tracker, unit) prog" where
  "check_long_stop candle =
     bindE (getE (\<lambda>t. t)) (\<lambda>t.
     if pt_direction t = Some Long then
       case pt_stop_price t of
         None \<Rightarrow> throwE (Err ''stop_price is undefined'')
       | Some stop \<Rightarrow> if c_low candle \<le> stop then tracker_stopped_out candle else returnE ()
     else returnE ())"

definition check_short_stop :: "candle \<Rightarrow> (edge58_tracker, unit) prog" where
  "check_short_stop candle =
     bindE (getE (\<lambda>t. t)) (\<lambda>t.
     if pt_direction t = Some Short then
       case pt_stop_price t of
         None \<Rightarrow> throwE (Err ''stop_price is undefined'')
       | Some stop \<Rightarrow> if stop \<le> c_high candle then tracker_stopped_out candle else returnE ()
     else returnE ())"

definition edge58_candle :: "bignum \<Rightarrow> adx_package \<Rightarrow> candle \<Rightarrow> (edge58_tracker edge58_state, unit) prog" where
  "edge58_candle B L candle =
     seqE (on_edge58_outer (check_long_stop candle))
     (seqE (on_edge58_outer (check_short_stop candle))
     (unawaited (edge58_ingest_new_candle B L edge58_config edge58_market (enter_or_add_to_position B)
        (ep_candle_timeframe edge58_config) candle)))"

text \<open>The edge lives as long as the run, the tracker as long as the backtester.\<close>

definition with_edge58 ::
    "(edge58_tracker \<Rightarrow> edge58_tracker edge58_state) \<Rightarrow> (edge58_tracker edge58_state, 'a) prog \<Rightarrow>
     (edge58_tracker, 'a) prog" where
  "with_edge58 mk m = (\<lambda>t. case m (mk t) of (r, s) \<Rightarrow> (r, e8_outer s))"

definition edge58_run_candles ::
    "bignum \<Rightarrow> adx_package \<Rightarrow> string \<Rightarrow> candle list \<Rightarrow> (edge58_tracker, analysis) prog" where
  "edge58_run_candles B L symbol candles =
     (if candles = [] then throwE (Err ''TypeError: Cannot read properties of undefined'')
      else
        let required = edge58_required_initial_candles edge58_config;
            initial_candles = take required candles; fresh = drop required candles in
        if length initial_candles \<noteq> required then throwE (Err (''Wrong number of initial_candles for '' @ symbol))
        else if fresh = [] then throwE (Err ''TypeError: Cannot read properties of undefined'')
        else
          seqE (with_edge58 (new_edge58 L edge58_config initial_candles) (forE fresh (edge58_candle B L)))
          (bindE (getE pt_events) (\<lambda>events. liftE (analyser_run B events new_analysis))))"

section \<open>The replay agrees with the tracker\<close>

text \<open>
  An account of a log that needs no prices of entries: the stakes of the current trade, the most stakes of
  a trade, and the proceeds less the stakes, with the size the tracker logged at each exit.
\<close>

fun book :: "position_change \<Rightarrow> nat \<times> nat \<times> big \<Rightarrow> nat \<times> nat \<times> big" where
  "book (PositionEntryExecutionLog _ _ _ _ _ _) (n, most, profit) = (1, max most 1, profit)"
| "book (PositionIncreaseExecutionLog _ _ _ _ _ _) (n, most, profit) = (Suc n, max most (Suc n), profit)"
| "book (PositionExitExecutionLog _ _ exit_price sold _) (n, most, profit) =
     (0, most, big_plus profit (big_plus (big_times sold exit_price) (Num (- (edge58_fixed_position_size * of_nat n)))))"

definition log_account :: "position_change list \<Rightarrow> nat \<times> nat \<times> big" where
  "log_account es = fold book es (0, 0, Num 0)"

lemma log_account_snoc: "log_account (es @ [e]) = book e (log_account es)"
  by (simp add: log_account_def)

definition replayed :: "edge58_tracker \<Rightarrow> nat \<times> nat \<times> big \<Rightarrow> analysis \<Rightarrow> bool" where
  "replayed t account a \<longleftrightarrow> (case account of (n, most, profit) \<Rightarrow>
     an_total_profit_loss a = profit \<and> an_capital_required a = edge58_fixed_position_size * of_nat most \<and>
     (case an_current_trade a of
        None \<Rightarrow> pt_direction t = None \<and> pt_position_size t = Num 0
      | Some tr \<Rightarrow> pt_direction t \<noteq> None \<and> tr_position_size tr = pt_position_size t \<and>
          tr_amount_invested tr = edge58_fixed_position_size * of_nat n))"

definition tracker_ok :: "bignum \<Rightarrow> edge58_tracker \<Rightarrow> bool" where
  "tracker_ok B t \<longleftrightarrow>
     (\<exists>a. analyser_run B (pt_events t) new_analysis = Inr a \<and> replayed t (log_account (pt_events t)) a) \<and>
     (pt_direction t = None \<or> pt_stop_price t \<noteq> None \<and> (\<exists>symbol. pt_symbol t = Some symbol \<and> symbol \<noteq> []))"

lemma tracker_ok_replay:
  "tracker_ok B t \<Longrightarrow> \<exists>a. analyser_run B (pt_events t) new_analysis = Inr a \<and> replayed t (log_account (pt_events t)) a"
  by (simp add: tracker_ok_def)

lemma tracker_ok_new: "tracker_ok B new_edge58_tracker"
  by (simp add: tracker_ok_def new_edge58_tracker_def replayed_def log_account_def new_analysis_def)

lemma capital_max:
  "max (edge58_fixed_position_size * of_nat m) edge58_fixed_position_size = edge58_fixed_position_size * of_nat (max m 1)"
  "max (edge58_fixed_position_size * of_nat m) (edge58_fixed_position_size * of_nat n + edge58_fixed_position_size) =
    edge58_fixed_position_size * of_nat (max m (Suc n))"
  by (auto simp: edge58_fixed_position_size_def max_def)

lemma tracker_ok_event:
  assumes "tracker_ok B t"
    and "\<And>a n most profit. analyser_run B (pt_events t) new_analysis = Inr a \<Longrightarrow>
      replayed t (n, most, profit) a \<Longrightarrow> \<exists>a'. analyse_event B e a = Inr a' \<and> replayed t' (book e (n, most, profit)) a'"
    and "pt_events t' = pt_events t @ [e]"
    and "pt_direction t' = None \<or> pt_stop_price t' \<noteq> None \<and> (\<exists>symbol. pt_symbol t' = Some symbol \<and> symbol \<noteq> [])"
  shows "tracker_ok B t'"
proof -
  obtain a where a: "analyser_run B (pt_events t) new_analysis = Inr a" "replayed t (log_account (pt_events t)) a"
    using assms(1) by (auto simp: tracker_ok_def)
  obtain n most profit where acc: "log_account (pt_events t) = (n, most, profit)" by (cases "log_account (pt_events t)")
  from assms(2) [OF a(1), of n most profit] a(2) acc obtain a' where
    "analyse_event B e a = Inr a'" "replayed t' (book e (n, most, profit)) a'" by auto
  then show ?thesis
    using assms(3,4) a(1) acc by (simp add: tracker_ok_def analyser_run_append log_account_snoc)
qed

lemma stopped_out_ok:
  assumes "tracker_ok B t" "pt_direction t = Some d"
  shows "wp (tracker_stopped_out candle) (\<lambda>_. tracker_ok B) (\<lambda>_ _. False) t"
proof -
  obtain stop symbol where s: "pt_stop_price t = Some stop" "pt_symbol t = Some symbol" "symbol \<noteq> []"
    using assms by (auto simp: tracker_ok_def)
  show ?thesis
    by (simp add: tracker_stopped_out_def assms(2) s Let_def, rule tracker_ok_event [OF assms(1)])
      (auto simp: push_stopped_out_execution_event_def replayed_def assms(2) require_capital_def
        trade_profit_loss_def split: option.splits)
qed

lemma replayed_event_log: "replayed (t\<lparr>pt_event_log := xs\<rparr>) account a = replayed t account a"
  by (simp add: replayed_def split: prod.split option.split)

lemma added_ok:
  assumes "tracker_ok B t" "pt_direction t \<noteq> None"
  shows "tracker_ok B (push_add_to_position_execution_event e ox t\<lparr>pt_stop_price := Some (en_stop_price e),
      pt_position_size := big_plus (pt_position_size t)
        (big_div B (Num edge58_fixed_position_size) (Num (en_entry_price e)))\<rparr>)"
  by (rule tracker_ok_event [OF assms(1)])
    (use assms in \<open>auto simp: push_add_to_position_execution_event_def replayed_def require_capital_def
      trade_add_to_position_def capital_max distrib_left tracker_ok_def simp del: big_div.simps big_plus.simps
      split: option.splits\<close>)

lemma entered_ok:
  assumes "tracker_ok B t" "mi2_symbol (en_market_identifier e) \<noteq> []"
  shows "tracker_ok B (push_entry_execution_event e ox t\<lparr>pt_stop_price := Some (en_stop_price e),
      pt_direction := Some (en_direction e), pt_symbol := Some (mi2_symbol (en_market_identifier e)),
      pt_position_size := big_div B (Num edge58_fixed_position_size) (Num (en_entry_price e))\<rparr>)"
  by (rule tracker_ok_event [OF assms(1)])
    (use assms in \<open>auto simp: push_entry_execution_event_def replayed_def require_capital_def new_trade_def
      capital_max simp del: big_div.simps big_plus.simps split: option.splits\<close>)

lemma enter_or_add_ok:
  assumes "tracker_ok B t" "mi2_symbol (en_market_identifier e) \<noteq> []"
  shows "wp (enter_or_add_to_position B e) (\<lambda>_. tracker_ok B) (\<lambda>_ _. False) t"
proof -
  have log: "tracker_ok B (t\<lparr>pt_event_log := xs\<rparr>)" for xs
    using assms(1) by (simp add: tracker_ok_def replayed_event_log)
  show ?thesis
    using log added_ok [OF log, of _ e] entered_ok [where e = e, OF log assms(2)]
    unfolding enter_or_add_to_position_def Let_def tracker_in_position_def
    by (simp del: big_div.simps big_plus.simps add: push_add_to_position_execution_event_def push_entry_execution_event_def)
qed

lemma edge58_ingest_keeps_outer:
  assumes "P (e8_outer s)"
    and "\<And>e x. P x \<Longrightarrow> en_market_identifier e = market \<Longrightarrow> P (snd (enter e x))"
  shows "P (e8_outer (snd (edge58_ingest_new_candle B L p market enter timeframe candle s)))"
proof -
  let ?Q = "\<lambda>_ u. P (e8_outer u)"
  have adx: "e8_outer (snd (on_edge58_adx m u)) = e8_outer u" for m :: "(adx_indicator, unit) prog" and u :: "'a edge58_state"
    by (simp add: on_edge58_adx_def split: prod.split)
  have keep: "wp (enter e) (\<lambda>_ y. P y) (\<lambda>_ y. P y) x" if "P x" "en_market_identifier e = market" for e x
    using assms(2) [OF that] by (simp add: wp_final_iff)
  have body: "wp (edge58_check_entry B p market enter candle) ?Q ?Q u" if "P (e8_outer u)" for u
    unfolding edge58_check_entry_def Let_def using that
    by (auto intro!: keep split: sum.split option.split)
  have "wp (edge58_ingest_new_candle B L p market enter timeframe candle) ?Q ?Q s"
    unfolding edge58_ingest_new_candle_def using assms(1)
    by (auto simp: adx intro!: wp_mono [OF body])
  then show ?thesis by (simp only: wp_final_iff)
qed

lemma check_stop_ok:
  assumes "tracker_ok B t"
  shows "wp (check_long_stop candle) (\<lambda>_. tracker_ok B) (\<lambda>_ _. False) t"
    and "wp (check_short_stop candle) (\<lambda>_. tracker_ok B) (\<lambda>_ _. False) t"
  using assms by (auto simp: check_long_stop_def check_short_stop_def tracker_ok_def split: option.split
      intro!: stopped_out_ok)

lemma edge58_candle_ok:
  assumes "tracker_ok B (e8_outer s)"
  shows "wp (edge58_candle B L candle) (\<lambda>_ u. tracker_ok B (e8_outer u)) (\<lambda>_ _. False) s"
proof -
  have "tracker_ok B (e8_outer (snd (edge58_ingest_new_candle B L edge58_config edge58_market
      (enter_or_add_to_position B) timeframe candle u)))" if "tracker_ok B (e8_outer u)" for u timeframe
  proof (rule edge58_ingest_keeps_outer [where P = "tracker_ok B", OF that])
    show "tracker_ok B (snd (enter_or_add_to_position B e x))"
      if "tracker_ok B x" "en_market_identifier e = edge58_market" for e x
      using enter_or_add_ok [OF that(1), of e] that(2)
      by (auto simp: edge58_market_def wp_def split: prod.splits sum.splits)
  qed
  then show ?thesis
    unfolding edge58_candle_def
    by (auto intro!: wp_mono [OF check_stop_ok(1) [OF assms]] wp_mono [OF check_stop_ok(2)])
qed

lemma edge58_loop_ok:
  "tracker_ok B (e8_outer s) \<Longrightarrow>
    wp (forE cs (edge58_candle B L)) (\<lambda>_ u. tracker_ok B (e8_outer u)) (\<lambda>_ _. False) s"
  by (induction cs arbitrary: s) (auto intro!: wp_mono [OF edge58_candle_ok])

lemma wp_with_edge58:
  "wp (with_edge58 mk m) Q R t = wp m (\<lambda>x u. Q x (e8_outer u)) (\<lambda>e u. R e (e8_outer u)) (mk t)"
  by (simp add: with_edge58_def wp_def split: prod.split sum.split)

text \<open>
  C36: The backtest of edge 58 settles.  With more candles than the edge needs to start, the run never
  fails, whatever the package and the candles: the analyser never meets an addition or an exit without a
  trade, its profit is that of the sizes the tracker logged, its capital the most stakes of one
  trade, and a trade it is left with is the tracker's position.
\<close>
theorem edge58_backtest_settles:
  assumes "edge58_required_initial_candles edge58_config < length candles"
  shows "\<exists>a t. edge58_run_candles B L symbol candles new_edge58_tracker = (Inr a, t) \<and>
    replayed t (log_account (pt_events t)) a"
proof -
  have "wp (edge58_run_candles B L symbol candles) (\<lambda>a t. replayed t (log_account (pt_events t)) a) (\<lambda>_ _. False)
      new_edge58_tracker"
    using assms
    by (auto simp: edge58_run_candles_def Let_def wp_with_edge58 new_edge58_def tracker_ok_new
        intro!: wp_mono [OF edge58_loop_ok] dest: tracker_ok_replay)
  from wp_total [OF this] show ?thesis .
qed

text \<open>Long at 12, and stopped out by a week that falls to 3.\<close>

definition demo_weeks :: "candle list" where
  "demo_weeks = replicate 17 (demo_week 11) @ [demo_week 12, demo_week 5]"

lemma demo_events:
  "map (\<lambda>e. case e of PositionExitExecutionLog _ d price _ _ \<Rightarrow> Some (d, price) | _ \<Rightarrow> None)
     (pt_events (snd (edge58_run_candles ref_bignum green_package ''LINKUSDT'' demo_weeks new_edge58_tracker))) =
   [None, Some (Long, 44 / 5)]"
  by code_simp

theorem edge58_backtest_settles_witness:
  "\<exists>a t. edge58_run_candles ref_bignum green_package ''LINKUSDT'' demo_weeks new_edge58_tracker = (Inr a, t) \<and>
    replayed t (log_account (pt_events t)) a \<and> length (pt_events t) = 2"
proof -
  have l: "edge58_required_initial_candles edge58_config < length demo_weeks"
    by (simp add: demo_weeks_def edge58_required_initial_candles_def adx_required_initial_candles_def edge58_config_def)
  have "length (pt_events (snd (edge58_run_candles ref_bignum green_package ''LINKUSDT'' demo_weeks new_edge58_tracker))) = 2"
    using arg_cong [OF demo_events, of length] by simp
  then show ?thesis
    using edge58_backtest_settles [OF l, of ref_bignum green_package "''LINKUSDT''"] by auto
qed

section \<open>Shorts\<close>

text \<open>
  The analyser values a short like a long: a short that is stopped out above its entry, which lost
  money, is booked as a profit.
\<close>
theorem stopped_short_is_booked_as_profit:
  assumes "bignum_laws B" "0 < entry_price" "entry_price < stop_price"
    and "on_grid 20 (edge58_fixed_position_size / entry_price)"
  shows "\<exists>a profit. analyser_run B
      [PositionEntryExecutionLog market Short entry_price opened stop_price ox,
       PositionExitExecutionLog market Short stop_price position_size exited] new_analysis = Inr a \<and>
    an_total_profit_loss a = Num profit \<and> 0 < profit"
proof -
  have "bn_div B edge58_fixed_position_size entry_price = edge58_fixed_position_size / entry_price"
    by (rule bignum_laws.div_exact [OF assms(1) _ assms(4)]) (use assms(2) in simp)
  moreover have "edge58_fixed_position_size < edge58_fixed_position_size / entry_price * stop_price"
    using assms(2,3) by (simp add: edge58_fixed_position_size_def field_simps)
  ultimately show ?thesis
    using assms(2) by (simp add: new_analysis_def require_capital_def new_trade_def trade_profit_loss_def)
qed

theorem stopped_short_is_booked_as_profit_witness:
  "\<exists>a profit. analyser_run ref_bignum
      [PositionEntryExecutionLog edge58_market Short 10 0 11 \<lparr>ox_base_amount = 300, ox_quote_amount = Num 30\<rparr>,
       PositionExitExecutionLog edge58_market Short 11 (Num 30) 1] new_analysis = Inr a \<and>
    an_total_profit_loss a = Num profit \<and> 0 < profit"
  using stopped_short_is_booked_as_profit [OF ref_bignum_laws, of 10 11]
  by (simp add: edge58_fixed_position_size_def)

end
