(* ===== verification/TradePlanning.thy ===== *)
theory TradePlanning
  imports Portfolio
begin

text \<open>
  Trades as they are planned: \<open>classes/specifications/trade_definition.ts\<close> with the checks of its constructor,
  \<open>lib/trading_rules.ts\<close>, and the sizing of a position by what its stop may lose
  (\<open>lib/position_sizer.ts\<close>).  The exchange answers once with the account and once with the prices.
\<close>

section \<open>Trade definitions\<close>

datatype js_flag = FlagText string | FlagBool bool

record trade_definition_spec =
  ts_pair :: string
  ts_base_amount_to_buy :: "rat option"
  ts_base_amount_imported :: "rat option"
  ts_max_quote_amount_to_buy :: "rat option"
  ts_buy_price :: "rat option"
  ts_stop_price :: "rat option"
  ts_target_price :: "rat option"
  ts_soft_entry :: js_flag
  ts_auto_size :: js_flag
  ts_timestamp :: "int option"

record trade_prices =
  tp_buy_price :: "rat option"
  tp_stop_price :: "rat option"
  tp_target_price :: "rat option"

record trade_definition =
  td_pair :: string
  td_base_amount_imported :: "rat option"
  td_max_quote_amount_to_buy :: "rat option"
  td_soft_entry :: bool
  td_auto_size :: bool
  td_unmunged :: trade_prices
  td_munged :: "trade_prices option"

fun string_to_bool :: "js_flag \<Rightarrow> bool" where
  "string_to_bool (FlagText s) \<longleftrightarrow> s = ''true''"
| "string_to_bool (FlagBool b) \<longleftrightarrow> b"

definition munge_optional ::
    "bignum \<Rightarrow> exchange_info \<Rightarrow> string \<Rightarrow> rat option \<Rightarrow> js_error + rat option" where
  "munge_optional B exchange_info pair price =
     (case price of
        None \<Rightarrow> Inr None
      | Some p \<Rightarrow> (case munge_and_check_price B exchange_info pair p of Inl e \<Rightarrow> Inl e | Inr m \<Rightarrow> Inr (Some m)))"

definition munged_prices :: "bignum \<Rightarrow> exchange_info \<Rightarrow> string \<Rightarrow> trade_prices \<Rightarrow> js_error + trade_prices" where
  "munged_prices B exchange_info pair unmunged =
     (case munge_optional B exchange_info pair (tp_buy_price unmunged) of
        Inl e \<Rightarrow> Inl e
      | Inr buy \<Rightarrow>
     (case munge_optional B exchange_info pair (tp_stop_price unmunged) of
        Inl e \<Rightarrow> Inl e
      | Inr stop \<Rightarrow>
     (case munge_optional B exchange_info pair (tp_target_price unmunged) of
        Inl e \<Rightarrow> Inl e
      | Inr target \<Rightarrow> Inr \<lparr>tp_buy_price = buy, tp_stop_price = stop, tp_target_price = target\<rparr>)))"

definition set_exchange_info :: "bignum \<Rightarrow> exchange_info \<Rightarrow> trade_definition \<Rightarrow> js_error + trade_definition" where
  "set_exchange_info B exchange_info td =
     (case munged_prices B exchange_info (td_pair td) (td_unmunged td) of
        Inl e \<Rightarrow> Inl e
      | Inr munged \<Rightarrow> Inr (td\<lparr>td_munged := Some munged\<rparr>))"

text \<open>An assertion on two prices holds when one of them is missing.\<close>

definition both :: "(rat \<Rightarrow> rat \<Rightarrow> bool) \<Rightarrow> rat option \<Rightarrow> rat option \<Rightarrow> bool" where
  "both P x y = (case x of None \<Rightarrow> True | Some a \<Rightarrow> (case y of None \<Rightarrow> True | Some b \<Rightarrow> P a b))"

definition new_trade_definition ::
    "bignum \<Rightarrow> trade_definition_spec \<Rightarrow> exchange_info option \<Rightarrow> js_error + trade_definition" where
  "new_trade_definition B spec exchange_info =
     (let buy = ts_buy_price spec; stop = ts_stop_price spec; target = ts_target_price spec;
          soft_entry = string_to_bool (ts_soft_entry spec);
          td = \<lparr>td_pair = to_upper (ts_pair spec), td_base_amount_imported = ts_base_amount_imported spec,
                td_max_quote_amount_to_buy = ts_max_quote_amount_to_buy spec, td_soft_entry = soft_entry,
                td_auto_size = string_to_bool (ts_auto_size spec),
                td_unmunged = \<lparr>tp_buy_price = buy, tp_stop_price = stop, tp_target_price = target\<rparr>,
                td_munged = None\<rparr> in
      if ts_base_amount_to_buy spec \<noteq> None then Inl (Err ''assert(base_amount_to_buy === undefined)'')
      else if ts_pair spec = [] then Inl (Err ''assert(pair)'')
      else if buy = Some 0 then Inl (Err ''buy_price of 0 as request for a market buy is depricated'')
      else if \<not> both (<) stop buy then Inl (Err ''assert(stop_price.isLessThan(buy_price))'')
      else if \<not> both (>) target buy then Inl (Err ''assert(target_price.isGreaterThan(buy_price))'')
      else if \<not> both (>) target stop then Inl (Err ''assert(target_price.isGreaterThan(stop_price))'')
      else if soft_entry \<and> buy = None then Inl (Err ''No buy_price when soft_entry is true'')
      else (case exchange_info of None \<Rightarrow> Inr td | Some ei \<Rightarrow> set_exchange_info B ei td))"

text \<open>The timestamp is asked for, but the constructor never stored it.\<close>

definition serialised_to_simple_object :: "trade_definition \<Rightarrow> trade_definition_spec" where
  "serialised_to_simple_object td =
     \<lparr>ts_pair = td_pair td, ts_base_amount_to_buy = None, ts_base_amount_imported = td_base_amount_imported td,
      ts_max_quote_amount_to_buy = td_max_quote_amount_to_buy td, ts_buy_price = tp_buy_price (td_unmunged td),
      ts_stop_price = tp_stop_price (td_unmunged td), ts_target_price = tp_target_price (td_unmunged td),
      ts_soft_entry = FlagBool (td_soft_entry td), ts_auto_size = FlagBool (td_auto_size td), ts_timestamp = None\<rparr>"

section \<open>Trading rules and the position sizer\<close>

record trading_rules =
  max_allowed_portfolio_loss_percentage_per_trade :: rat
  max_portfolio_percentage_per_trade :: "rat option"
  allowed_to_trade_without_stop :: bool

text \<open>\<open>BigNumber.minimum\<close>: what is not a number wins.\<close>

fun big_min :: "big \<Rightarrow> big \<Rightarrow> big" where
  "big_min NotANumber _ = NotANumber"
| "big_min _ NotANumber = NotANumber"
| "big_min (Num x) (Num y) = Num (min x y)"
| "big_min (Infinite s) y = (if s then Infinite True else y)"
| "big_min x (Infinite s) = (if s then Infinite True else x)"

definition percentage_at_risk :: "bignum \<Rightarrow> rat \<Rightarrow> rat \<Rightarrow> big" where
  "percentage_at_risk B buy_price stop_price = big_times (big_div B (Num (buy_price - stop_price)) (Num buy_price)) 100"

definition max_portfolio_percentage_allowed_in_trade :: "bignum \<Rightarrow> trading_rules \<Rightarrow> rat \<Rightarrow> rat \<Rightarrow> big" where
  "max_portfolio_percentage_allowed_in_trade B rules buy_price stop_price =
     big_times (big_div B (Num (max_allowed_portfolio_loss_percentage_per_trade rules))
       (percentage_at_risk B buy_price stop_price)) 100"

text \<open>\<open>calculate_percentages\<close> of a trade definition; the target only matters for what is logged.\<close>

definition calculate_percentages ::
    "bignum \<Rightarrow> rat option \<Rightarrow> rat option \<Rightarrow> trading_rules option \<Rightarrow> js_error + big option" where
  "calculate_percentages B buy_price stop_price rules =
     (case (buy_price, stop_price) of
        (Some buy, Some stop) \<Rightarrow>
          if \<not> 0 < buy then Inl (Err ''assert(buy_price.isGreaterThan(0))'')
          else Inr (case rules of
                      None \<Rightarrow> None
                    | Some r \<Rightarrow> Some (max_portfolio_percentage_allowed_in_trade B r buy stop))
      | _ \<Rightarrow> Inr None)"

record sizer_exchange =
  sx_accountInfo :: "js_error + balance list"
  sx_prices :: "js_error + (string \<rightharpoonup> rat)"

definition add_balance :: "string \<Rightarrow> (string \<rightharpoonup> rat) \<Rightarrow> balance \<Rightarrow> rat \<times> rat \<Rightarrow> rat \<times> rat" where
  "add_balance quote_currency prices_now b acc =
     (case acc of (available, whole) \<Rightarrow>
        if b_asset b = quote_currency then (available + b_free b, whole + b_free b + b_locked b)
        else (case prices_now (b_asset b @ quote_currency) of
                None \<Rightarrow> (available, whole)
              | Some p \<Rightarrow> (available, whole + (b_free b + b_locked b) * p)))"

definition get_portfolio_value_from_exchange :: "sizer_exchange \<Rightarrow> string \<Rightarrow> js_error + (rat \<times> rat)" where
  "get_portfolio_value_from_exchange X quote_currency =
     (if quote_currency = [] then Inl (Err ''assert(quote_currency)'')
      else case sx_accountInfo X of
        Inl e \<Rightarrow> Inl e
      | Inr bs \<Rightarrow>
          (case sx_prices X of
             Inl e \<Rightarrow> Inl e
           | Inr prices_now \<Rightarrow> Inr (fold (add_balance quote_currency prices_now) bs (0, 0))))"

definition calculate_autosized_quote_volume_available :: "bignum \<Rightarrow> sizer_exchange \<Rightarrow> big \<Rightarrow> string \<Rightarrow> js_error + big" where
  "calculate_autosized_quote_volume_available B X percentage quote_currency =
     (case get_portfolio_value_from_exchange X quote_currency of
        Inl e \<Rightarrow> Inl e
      | Inr (available, whole) \<Rightarrow>
          Inr (big_min (big_div B (big_times percentage whole) (Num 100)) (Num available)))"

definition size_position ::
    "bignum \<Rightarrow> sizer_exchange \<Rightarrow> trading_rules \<Rightarrow> rat \<Rightarrow> rat option \<Rightarrow> string \<Rightarrow> rat option \<Rightarrow> bool \<Rightarrow>
     js_error + (rat \<times> big)" where
  "size_position B X rules buy_price stop_price quote_currency max_quote_amount_to_buy do_not_auto_size =
     (if quote_currency = [] then Inl (Err ''assert(quote_currency)'')
      else if \<not> allowed_to_trade_without_stop rules \<and> stop_price = None
      then Inl (Err ''TRADING_RULES_VIOLATION: attempt to trade without stop price'')
      else
        let by_stop = (case stop_price of
               None \<Rightarrow> Num 100
             | Some stop \<Rightarrow> if do_not_auto_size then Num 100
                           else max_portfolio_percentage_allowed_in_trade B rules buy_price stop);
            percentage = (case max_portfolio_percentage_per_trade rules of
               None \<Rightarrow> by_stop | Some p \<Rightarrow> big_min by_stop (Num p)) in
        case calculate_autosized_quote_volume_available B X percentage quote_currency of
          Inl e \<Rightarrow> Inl e
        | Inr quote_volume \<Rightarrow>
            (case (case max_quote_amount_to_buy of None \<Rightarrow> quote_volume | Some m \<Rightarrow> big_min quote_volume (Num m)) of
               Num q \<Rightarrow> Inr (q, if buy_price = 0 then big_div B (Num q) (Num 0)
                               else Num (quote_volume_at_price_to_base_volume B q buy_price))
             | _ \<Rightarrow> Inl (Err ''assert(quote_volume.isFinite())'')))"

section \<open>What a definition and a size promise\<close>

text \<open>A definition with no exchange info survives its serialisation.\<close>

lemma trade_definition_survives_serialisation:
  assumes "new_trade_definition B spec None = Inr td"
  shows "new_trade_definition B (serialised_to_simple_object td) None = Inr td"
  using assms by (auto simp: new_trade_definition_def serialised_to_simple_object_def Let_def to_upper_def split: if_splits)

lemma set_exchange_info_keeps:
  "set_exchange_info B ei td = Inr td' \<Longrightarrow> td_unmunged td' = td_unmunged td"
  by (auto simp: set_exchange_info_def split: sum.splits)

lemma stop_below_buy:
  assumes "new_trade_definition B spec ei = Inr td" "tp_buy_price (td_unmunged td) = Some buy"
    and "tp_stop_price (td_unmunged td) = Some stop"
  shows "stop < buy"
  using assms by (auto simp: new_trade_definition_def both_def Let_def dest!: set_exchange_info_keeps
      split: if_splits option.splits)

text \<open>A bound that need not be finite.\<close>

fun big_bounds :: "big \<Rightarrow> rat \<Rightarrow> bool" where
  "big_bounds (Num x) q \<longleftrightarrow> q \<le> x"
| "big_bounds (Infinite s) q \<longleftrightarrow> \<not> s"
| "big_bounds NotANumber q \<longleftrightarrow> False"

lemma big_bounds_min: "big_bounds (big_min x y) q \<longleftrightarrow> big_bounds x q \<and> big_bounds y q"
  by (cases "(x, y)" rule: big_min.cases) auto

lemma big_min_Num: "big_min x y = Num q \<Longrightarrow> big_bounds x q \<and> big_bounds y q"
  using big_bounds_min [of x y q] by simp

lemma add_balance_nonneg:
  assumes "0 \<le> fst acc" "fst acc \<le> snd acc" "0 \<le> b_free b" "0 \<le> b_locked b" "list_all (\<lambda>p. 0 \<le> p) (case pr (b_asset b @ q) of None \<Rightarrow> [] | Some p \<Rightarrow> [p])"
  shows "0 \<le> fst (add_balance q pr b acc) \<and> fst (add_balance q pr b acc) \<le> snd (add_balance q pr b acc)"
  using assms by (auto simp: add_balance_def split: prod.split option.splits intro: add_increasing2)

definition sound_account :: "sizer_exchange \<Rightarrow> bool" where
  "sound_account X \<longleftrightarrow>
     (\<forall>bs. sx_accountInfo X = Inr bs \<longrightarrow> (\<forall>b\<in>set bs. 0 \<le> b_free b \<and> 0 \<le> b_locked b)) \<and>
     (\<forall>pr asset p. sx_prices X = Inr pr \<longrightarrow> pr asset = Some p \<longrightarrow> 0 \<le> p)"

lemma portfolio_value_nonneg:
  assumes "sound_account X" "get_portfolio_value_from_exchange X q = Inr (available, whole)"
  shows "0 \<le> available" "available \<le> whole"
proof -
  obtain bs pr where X: "sx_accountInfo X = Inr bs" "sx_prices X = Inr pr"
      "fold (add_balance q pr) bs (0, 0) = (available, whole)"
    using assms(2) by (auto simp: get_portfolio_value_from_exchange_def split: if_splits sum.splits)
  have pr: "0 \<le> p" if "pr a = Some p" for a p using assms(1) X(2) that by (auto simp: sound_account_def)
  have "\<forall>b\<in>set bs. 0 \<le> b_free b \<and> 0 \<le> b_locked b" using assms(1) X(1) by (auto simp: sound_account_def)
  then have "0 \<le> fst acc \<Longrightarrow> fst acc \<le> snd acc \<Longrightarrow> 0 \<le> fst (fold (add_balance q pr) bs acc) \<and>
      fst (fold (add_balance q pr) bs acc) \<le> snd (fold (add_balance q pr) bs acc)" for acc
  proof (induction bs arbitrary: acc)
    case (Cons b bs)
    have "0 \<le> fst (add_balance q pr b acc) \<and> fst (add_balance q pr b acc) \<le> snd (add_balance q pr b acc)"
      using Cons.prems pr by (intro add_balance_nonneg) (auto split: option.split)
    then show ?case using Cons by simp
  qed simp
  from this [of "(0, 0)"] X(3) show "0 \<le> available" "available \<le> whole" by simp_all
qed

lemma size_position_bounds:
  assumes "size_position B X rules buy (Some stop) quote most False = Inr (q, base)"
  shows "\<exists>available whole. get_portfolio_value_from_exchange X quote = Inr (available, whole) \<and> q \<le> available \<and>
    (case most of None \<Rightarrow> True | Some m \<Rightarrow> q \<le> m) \<and>
    big_bounds (big_div B (big_times (case max_portfolio_percentage_per_trade rules of
        None \<Rightarrow> max_portfolio_percentage_allowed_in_trade B rules buy stop
      | Some p \<Rightarrow> big_min (max_portfolio_percentage_allowed_in_trade B rules buy stop) (Num p)) whole) (Num 100)) q"
  using assms unfolding size_position_def calculate_autosized_quote_volume_available_def Let_def
  by (auto split: if_splits sum.splits option.splits big.splits dest!: big_min_Num simp: big_bounds_min)

lemma risk_within_rules:
  fixes q w ml p s r h :: rat
  assumes "h = 1 / (2 * 10 ^ 20)" "0 \<le> w" "0 \<le> ml" "0 < s" "s \<le> 101" "p \<le> ml / s + h" "q \<le> p * w + h"
    and "100 * r \<le> s + 100 * h" "q \<le> w" "0 < r"
  shows "q * r \<le> w * ml / 100 + (w + 1) / 10 ^ 19"
proof (cases "0 \<le> q")
  case True
  have h0: "0 \<le> h" using assms(1) by simp
  have "q * (100 * r) \<le> q * (s + 100 * h)" using True assms(8) by (rule mult_left_mono [rotated])
  also have "\<dots> = q * s + q * (100 * h)" by (simp add: distrib_left)
  also have "\<dots> \<le> (p * w + h) * s + w * (100 * h)"
    using assms(4,7,9) h0 by (intro add_mono mult_right_mono) auto
  also have "p * w + h \<le> (ml / s + h) * w + h" using assms(2,6) by (simp add: mult_right_mono)
  then have "(p * w + h) * s \<le> ((ml / s + h) * w + h) * s" using assms(4) by (intro mult_right_mono) auto
  then have "(p * w + h) * s + w * (100 * h) \<le> ((ml / s + h) * w + h) * s + w * (100 * h)" by simp
  also have "((ml / s + h) * w + h) * s = ml * w + h * (w + 1) * s" using assms(4) by (simp add: field_simps)
  also have "h * (w + 1) * s \<le> h * (w + 1) * 101" using assms(2,5) h0 by (intro mult_left_mono) auto
  finally have "q * (100 * r) \<le> ml * w + h * (w + 1) * 101 + w * (100 * h)" by simp
  then have "q * r \<le> w * ml / 100 + (h * (w + 1) * 101 + w * (100 * h)) / 100" by (simp add: field_simps)
  also have "(h * (w + 1) * 101 + w * (100 * h)) / 100 \<le> (w + 1) / 10 ^ 19"
    using assms(2) unfolding assms(1) by (simp add: field_simps)
  finally show ?thesis by simp
next
  case False
  then have "q * r \<le> 0" using assms(10) by (simp add: mult_le_0_iff)
  also have "0 \<le> w * ml / 100 + (w + 1) / 10 ^ 19" using assms(2,3) by simp
  finally show ?thesis .
qed

lemma stop_share:
  assumes "bignum_laws B" "0 < stop" "stop < buy"
  shows "0 \<le> bn_div B (buy - stop) buy" "bn_div B (buy - stop) buy \<le> 1 + 1 / (2 * 10 ^ 20)"
    "(buy - stop) / buy \<le> bn_div B (buy - stop) buy + 1 / (2 * 10 ^ 20)"
proof -
  show "0 \<le> bn_div B (buy - stop) buy" using assms by (intro bignum_laws.div_nonneg) auto
  have "\<bar>bn_div B (buy - stop) buy - (buy - stop) / buy\<bar> \<le> 1 / (2 * 10 ^ 20)"
    using assms by (intro bignum_laws.div_close) auto
  moreover have "(buy - stop) / buy \<le> 1" using assms by (simp add: field_simps)
  ultimately show "bn_div B (buy - stop) buy \<le> 1 + 1 / (2 * 10 ^ 20)"
    "(buy - stop) / buy \<le> bn_div B (buy - stop) buy + 1 / (2 * 10 ^ 20)"
    by linarith+
qed

lemma stop_share_percent:
  assumes "bignum_laws B" "0 < stop" "stop < buy"
  shows "0 \<le> bn_div B (buy - stop) buy * 100 \<and> bn_div B (buy - stop) buy * 100 \<le> 101 \<and>
    100 * ((buy - stop) / buy) \<le> bn_div B (buy - stop) buy * 100 + 100 * (1 / (2 * 10 ^ 20))"
proof -
  define r d h where "r = (buy - stop) / buy" and "d = bn_div B (buy - stop) buy" and "h = 1 / (2 * 10 ^ 20 :: rat)"
  have "0 \<le> d" "d \<le> 1 + h" "r \<le> d + h" using stop_share [OF assms] by (simp_all only: r_def d_def h_def)
  moreover have "h \<le> 1 / 100" by (simp add: h_def)
  ultimately have "0 \<le> d * 100 \<and> d * 100 \<le> 101 \<and> 100 * r \<le> d * 100 + 100 * h" by linarith
  then show ?thesis by (simp only: r_def d_def h_def)
qed

lemma share_within_rules:
  fixes whole :: rat
  assumes "bignum_laws B" "0 \<le> max_allowed_portfolio_loss_percentage_per_trade rules" "0 < stop" "stop < buy"
    and w: "0 \<le> whole" "q \<le> whole"
    and share: "big_bounds (big_div B (big_times (case max_portfolio_percentage_per_trade rules of
        None \<Rightarrow> max_portfolio_percentage_allowed_in_trade B rules buy stop
      | Some p \<Rightarrow> big_min (max_portfolio_percentage_allowed_in_trade B rules buy stop) (Num p)) whole) (Num 100)) q"
  shows "q * ((buy - stop) / buy) \<le>
    whole * max_allowed_portfolio_loss_percentage_per_trade rules / 100 + (whole + 1) / 10 ^ 19"
proof -
  let ?ml = "max_allowed_portfolio_loss_percentage_per_trade rules" and ?h = "1 / (2 * 10 ^ 20) :: rat"
  define s where "s = bn_div B (buy - stop) buy * 100"
  have s: "0 \<le> s" "s \<le> 101" "100 * ((buy - stop) / buy) \<le> s + 100 * ?h"
    using stop_share_percent [OF assms(1,3,4)] unfolding s_def by auto
  have r: "0 < (buy - stop) / buy" using assms(3,4) by simp
  show ?thesis
  proof (cases "s = 0")
    case True
    have "(buy - stop) / buy \<le> ?h" using s(3) unfolding True by (simp only: add_0_left mult_le_cancel_left_pos zero_less_numeral)
    then have "whole * ((buy - stop) / buy) \<le> whole * ?h" using w(1) by (rule mult_left_mono)
    moreover have "q * ((buy - stop) / buy) \<le> whole * ((buy - stop) / buy)" using w(2) r by (intro mult_right_mono) auto
    moreover have "whole * ?h \<le> (whole + 1) / 10 ^ 19" "0 \<le> whole * ?ml / 100"
      using w(1) assms(2) by (simp_all add: field_simps)
    ultimately show ?thesis by linarith
  next
    case False
    with s(1) have s0: "0 < s" by simp
    define p where "p = bn_div B ?ml s"
    have pct: "max_portfolio_percentage_allowed_in_trade B rules buy stop = Num (p * 100)"
      using assms(3,4) False by (simp add: max_portfolio_percentage_allowed_in_trade_def percentage_at_risk_def s_def p_def)
    have p: "p \<le> ?ml / s + ?h"
      using bignum_laws.div_close [OF assms(1) False, of ?ml] unfolding p_def by linarith
    obtain z where z: "z \<le> p * 100" "q \<le> bn_div B (z * whole) 100"
      using share that [OF min.cobounded1] that [OF order_refl] unfolding pct by (auto split: option.splits)
    have "z * whole \<le> p * 100 * whole" using z(1) w(1) by (rule mult_right_mono)
    then have "z * whole / 100 \<le> p * whole" by simp
    moreover have "\<bar>bn_div B (z * whole) 100 - z * whole / 100\<bar> \<le> ?h"
      by (rule bignum_laws.div_close [OF assms(1)]) simp
    ultimately have "q \<le> p * whole + ?h" using z(2) by linarith
    from risk_within_rules [OF refl w(1) assms(2) s0 s(2) p this s(3) w(2) r] show ?thesis .
  qed
qed

text \<open>
  C37: The size of a planned trade keeps to the rules.  For a definition with a stop that its constructor
  accepted, the quote amount the sizer answers is within what is available and within the definition's
  own maximum, and when the stop is hit it loses no more of the account than the rules allow, up to
  the rounding of three divisions.
\<close>
theorem planned_trade_keeps_to_the_rules:
  assumes "bignum_laws B" "sound_account X" "0 \<le> max_allowed_portfolio_loss_percentage_per_trade rules"
    and "new_trade_definition B spec ei = Inr td"
    and "tp_buy_price (td_unmunged td) = Some buy" "tp_stop_price (td_unmunged td) = Some stop" "0 < stop"
    and "size_position B X rules buy (Some stop) quote (td_max_quote_amount_to_buy td) False = Inr (q, base)"
  shows "\<exists>available whole. get_portfolio_value_from_exchange X quote = Inr (available, whole) \<and> q \<le> available \<and>
    (case td_max_quote_amount_to_buy td of None \<Rightarrow> True | Some m \<Rightarrow> q \<le> m) \<and>
    q * ((buy - stop) / buy) \<le>
      whole * max_allowed_portfolio_loss_percentage_per_trade rules / 100 + (whole + 1) / 10 ^ 19"
proof -
  have lt: "stop < buy" by (rule stop_below_buy [OF assms(4-6)])
  from size_position_bounds [OF assms(8)] obtain available whole where
    v: "get_portfolio_value_from_exchange X quote = Inr (available, whole)" and q: "q \<le> available"
      "case td_max_quote_amount_to_buy td of None \<Rightarrow> True | Some m \<Rightarrow> q \<le> m" and
    share: "big_bounds (big_div B (big_times (case max_portfolio_percentage_per_trade rules of
        None \<Rightarrow> max_portfolio_percentage_allowed_in_trade B rules buy stop
      | Some p \<Rightarrow> big_min (max_portfolio_percentage_allowed_in_trade B rules buy stop) (Num p)) whole) (Num 100)) q"
    by blast
  have w: "0 \<le> whole" "q \<le> whole" using portfolio_value_nonneg [OF assms(2) v] q(1) by linarith+
  from share_within_rules [OF assms(1,3,7) lt w share] show ?thesis using v q by blast
qed

definition demo_spec :: trade_definition_spec where
  "demo_spec = \<lparr>ts_pair = ''ethusdt'', ts_base_amount_to_buy = None, ts_base_amount_imported = None,
     ts_max_quote_amount_to_buy = None, ts_buy_price = Some 100, ts_stop_price = Some 90, ts_target_price = Some 120,
     ts_soft_entry = FlagText ''true'', ts_auto_size = FlagBool False, ts_timestamp = None\<rparr>"

definition demo_account :: sizer_exchange where
  "demo_account = \<lparr>sx_accountInfo = Inr [\<lparr>b_asset = ''USDT'', b_free = 1000, b_locked = 0, b_quote_equivalents = None\<rparr>],
     sx_prices = Inr (\<lambda>_. None)\<rparr>"

definition demo_rules :: trading_rules where
  "demo_rules = \<lparr>max_allowed_portfolio_loss_percentage_per_trade = 1, max_portfolio_percentage_per_trade = None,
     allowed_to_trade_without_stop = False\<rparr>"

theorem planned_trade_keeps_to_the_rules_witness:
  "size_position ref_bignum demo_account demo_rules 100 (Some 90) ''USDT'' None False = Inr (100, Num 1) \<and>
   (100 :: rat) * ((100 - 90) / 100) \<le> 1000 * 1 / 100 + (1000 + 1) / 10 ^ 19"
proof -
  have size: "size_position ref_bignum demo_account demo_rules 100 (Some 90) ''USDT'' None False = Inr (100, Num 1)"
    by code_simp
  obtain td where td: "new_trade_definition ref_bignum demo_spec None = Inr td" "tp_buy_price (td_unmunged td) = Some 100"
      "tp_stop_price (td_unmunged td) = Some 90" "td_max_quote_amount_to_buy td = None"
    by (simp add: new_trade_definition_def demo_spec_def both_def to_upper_def)
  have acc: "sound_account demo_account" by (simp add: sound_account_def demo_account_def)
  have val: "get_portfolio_value_from_exchange demo_account ''USDT'' = Inr (1000, 1000)"
    by (simp add: get_portfolio_value_from_exchange_def demo_account_def add_balance_def)
  show ?thesis
    using planned_trade_keeps_to_the_rules [OF ref_bignum_laws acc _ td(1-3), of demo_rules "''USDT''" 100 "Num 1"] size td(4) val
    by (simp add: demo_rules_def)
qed

end
