(* ===== verification/Caches.thy ===== *)
theory Caches
  imports Prelude
begin

text \<open>
  The caches in front of the exchange: \<open>BinanceExchangeInfoGetter\<close>, which keeps the promise of its last
  request for a day, and \<open>BinancePriceGetter\<close>, which keeps prices for a minute.  Calls, answers and timers
  interleave in any order; the steps are inductive relations and the properties invariants of what can
  be reached.
\<close>

section \<open>BinanceExchangeInfoGetter\<close>

text \<open>
  Requests are numbered in the order they are sent.  A promise is the number of its request, and what
  it was settled with is in \<open>ic_settled\<close>; \<open>ic_timers\<close> counts the timers that are set, \<open>ic_expired\<close> those
  that fired.
\<close>

record 'i info_cache =
  ic_promise :: "nat option"
  ic_emergency_cache :: "'i option"
  ic_requests :: nat
  ic_settled :: "nat \<Rightarrow> (js_error + 'i) option"
  ic_timers :: nat
  ic_expired :: nat

definition new_info_cache :: "'i info_cache" where
  "new_info_cache = \<lparr>ic_promise = None, ic_emergency_cache = None, ic_requests = 0, ic_settled = \<lambda>_. None,
     ic_timers = 0, ic_expired = 0\<rparr>"

datatype 'i info_answer = Promised nat | Backup 'i

text \<open>The parameter is what the client throws before there is a promise, if it does.\<close>

definition ee_exchangeInfo :: "js_error option \<Rightarrow> ('i info_cache, nat) prog" where
  "ee_exchangeInfo thrown = (case thrown of
     Some err \<Rightarrow> throwE err
   | None \<Rightarrow> bindE (getE ic_requests) (\<lambda>n. seqE (modifyE (\<lambda>s. s\<lparr>ic_requests := Suc n\<rparr>)) (returnE n)))"

definition cached_exchange_info :: "js_error option \<Rightarrow> ('i info_cache, 'i info_answer) prog" where
  "cached_exchange_info thrown =
     bindE (getE ic_promise) (\<lambda>exchange_info_promise. case exchange_info_promise of
       Some n \<Rightarrow> returnE (Promised n)
     | None \<Rightarrow>
         tryE (bindE (ee_exchangeInfo thrown) (\<lambda>n.
                 seqE (modifyE (\<lambda>s. s\<lparr>ic_promise := Some n\<rparr>))
                 (seqE (modifyE (\<lambda>s. s\<lparr>ic_timers := Suc (ic_timers s)\<rparr>)) (returnE (Promised n)))))
           (\<lambda>err. bindE (getE ic_emergency_cache) (\<lambda>emergency_cache. case emergency_cache of
               Some i \<Rightarrow> returnE (Backup i) | None \<Rightarrow> throwE err)))"

text \<open>The handlers on the promise keep a backup, and the timer forgets the promise.\<close>

definition promise_settled :: "nat \<Rightarrow> js_error + 'i \<Rightarrow> 'i info_cache \<Rightarrow> 'i info_cache" where
  "promise_settled n r s = s\<lparr>ic_settled := (ic_settled s)(n \<mapsto> r),
     ic_emergency_cache := (case r of Inl _ \<Rightarrow> ic_emergency_cache s | Inr i \<Rightarrow> Some i)\<rparr>"

definition info_expired :: "'i info_cache \<Rightarrow> 'i info_cache" where
  "info_expired s = s\<lparr>ic_promise := None, ic_timers := ic_timers s - 1, ic_expired := Suc (ic_expired s)\<rparr>"

text \<open>The client is an \<open>async\<close> function, so it returns its failures as rejections and does not throw.\<close>

inductive info_quiet_step :: "'i info_cache \<Rightarrow> 'i info_cache \<Rightarrow> bool" where
  called: "info_quiet_step s (snd (cached_exchange_info None s))"
| settled: "n < ic_requests s \<Longrightarrow> ic_settled s n = None \<Longrightarrow> info_quiet_step s (promise_settled n r s)"

inductive info_step :: "'i info_cache \<Rightarrow> 'i info_cache \<Rightarrow> bool" where
  quiet: "info_quiet_step s t \<Longrightarrow> info_step s t"
| expired: "0 < ic_timers s \<Longrightarrow> info_step s (info_expired s)"

lemma get_exchange_info_cases:
  "cached_exchange_info None s = (case ic_promise s of
     Some n \<Rightarrow> (Inr (Promised n), s)
   | None \<Rightarrow> (Inr (Promised (ic_requests s)),
       s\<lparr>ic_requests := Suc (ic_requests s), ic_promise := Some (ic_requests s), ic_timers := Suc (ic_timers s)\<rparr>))"
  by (cases "ic_promise s")
    (simp_all add: cached_exchange_info_def ee_exchangeInfo_def bindE_def seqE_def getE_def modifyE_def returnE_def tryE_def)

definition info_inv :: "'i info_cache \<Rightarrow> bool" where
  "info_inv s \<longleftrightarrow> ic_timers s = (if ic_promise s = None then 0 else 1) \<and>
     ic_requests s = ic_expired s + ic_timers s"

lemma info_quiet_step_inv: "info_quiet_step s t \<Longrightarrow> info_inv s \<Longrightarrow> info_inv t"
  by (induction rule: info_quiet_step.induct)
    (auto simp: info_inv_def get_exchange_info_cases promise_settled_def split: option.splits)

lemma info_reachable_inv: "info_step\<^sup>*\<^sup>* new_info_cache s \<Longrightarrow> info_inv s"
proof (induction rule: rtranclp_induct)
  case (step s t)
  then show ?case
    by (auto elim!: info_step.cases dest: info_quiet_step_inv simp: info_inv_def info_expired_def split: if_splits)
qed (simp add: info_inv_def new_info_cache_def)

definition serves :: "nat \<Rightarrow> js_error + 'i \<Rightarrow> 'i info_cache \<Rightarrow> bool" where
  "serves n r s \<longleftrightarrow> ic_promise s = Some n \<and> ic_settled s n = Some r"

lemma info_quiet_step_serves:
  "info_quiet_step s t \<Longrightarrow> serves n r s \<Longrightarrow> serves n r t \<and> ic_requests t = ic_requests s"
  by (induction rule: info_quiet_step.induct) (auto simp: serves_def get_exchange_info_cases promise_settled_def)

lemma info_quiet_run_serves:
  assumes "info_quiet_step\<^sup>*\<^sup>* s t" "serves n r s"
  shows "serves n r t \<and> ic_requests t = ic_requests s"
  using assms by (induction rule: rtranclp_induct) (auto dest: info_quiet_step_serves)

section \<open>BinancePriceGetter\<close>

text \<open>
  Prices with the time they came at, the times the timers are due at, and the requests under way.  A
  timer that is due fires before time goes on.
\<close>

record 'p price_cache =
  pc_now :: int
  pc_prices :: "(int \<times> 'p) option"
  pc_timers :: "int list"
  pc_pending :: nat

definition new_price_cache :: "int \<Rightarrow> 'p price_cache" where
  "new_price_cache t = \<lparr>pc_now = t, pc_prices = None, pc_timers = [], pc_pending = 0\<rparr>"

definition cache_timeout_ms :: "int option \<Rightarrow> int" where
  "cache_timeout_ms configured = (case configured of None \<Rightarrow> 60 * 1000 | Some t \<Rightarrow> if t = 0 then 60 * 1000 else t)"

text \<open>\<open>prices()\<close> up to its \<open>await\<close>: the cached prices, or a request.\<close>

definition prices_asked :: "'p price_cache \<Rightarrow> 'p option \<times> 'p price_cache" where
  "prices_asked s = (case pc_prices s of
     Some (_, p) \<Rightarrow> (Some p, s) | None \<Rightarrow> (None, s\<lparr>pc_pending := Suc (pc_pending s)\<rparr>))"

text \<open>And after it: what came is kept and a timer set to forget it.\<close>

definition prices_arrived :: "int \<Rightarrow> 'p \<Rightarrow> 'p price_cache \<Rightarrow> 'p price_cache" where
  "prices_arrived timeout p s = s\<lparr>pc_prices := Some (pc_now s, p),
     pc_timers := (pc_now s + timeout) # pc_timers s, pc_pending := pc_pending s - 1\<rparr>"

definition prices_timer :: "int \<Rightarrow> 'p price_cache \<Rightarrow> 'p price_cache" where
  "prices_timer t s = s\<lparr>pc_prices := None, pc_timers := remove1 t (pc_timers s)\<rparr>"

inductive price_step :: "int \<Rightarrow> 'p price_cache \<Rightarrow> 'p price_cache \<Rightarrow> bool" for timeout where
  asked: "price_step timeout s (snd (prices_asked s))"
| arrived: "0 < pc_pending s \<Longrightarrow> price_step timeout s (prices_arrived timeout p s)"
| failed: "0 < pc_pending s \<Longrightarrow> price_step timeout s (s\<lparr>pc_pending := pc_pending s - 1\<rparr>)"
| timer: "t \<in> set (pc_timers s) \<Longrightarrow> t \<le> pc_now s \<Longrightarrow> price_step timeout s (prices_timer t s)"
| time: "list_all (\<lambda>t. pc_now s < t) (pc_timers s) \<Longrightarrow> price_step timeout s (s\<lparr>pc_now := pc_now s + 1\<rparr>)"

definition price_inv :: "int \<Rightarrow> 'p price_cache \<Rightarrow> bool" where
  "price_inv timeout s \<longleftrightarrow> list_all (\<lambda>t. pc_now s \<le> t) (pc_timers s) \<and>
     (case pc_prices s of None \<Rightarrow> True | Some (t, _) \<Rightarrow> t + timeout \<in> set (pc_timers s) \<and> t \<le> pc_now s)"

lemma price_step_inv: "price_step timeout s t \<Longrightarrow> 0 \<le> timeout \<Longrightarrow> price_inv timeout s \<Longrightarrow> price_inv timeout t"
proof (induction rule: price_step.induct)
  case (timer t s)
  then show ?case by (auto simp: price_inv_def prices_timer_def list_all_iff dest: notin_set_remove1 set_remove1_subset [THEN subsetD])
qed (auto simp: price_inv_def prices_asked_def prices_arrived_def list_all_iff split: option.splits prod.splits)

lemma price_reachable_inv:
  "(price_step timeout)\<^sup>*\<^sup>* (new_price_cache t0) s \<Longrightarrow> 0 \<le> timeout \<Longrightarrow> price_inv timeout s"
proof (induction rule: rtranclp_induct)
  case (step s t)
  then show ?case using price_step_inv by blast
qed (simp add: price_inv_def new_price_cache_def)

section \<open>Properties\<close>

text \<open>
  C33: A failed request for the exchange info is served for the rest of the day.  In every order of calls,
  answers and timers the getter sends one request more than timers fired, or none more when nothing is
  cached.  It never answers with the backup it keeps for failures, and once the request whose promise is
  cached is settled, with a failure too, every call until the timer fires gets that promise, without
  another request.
\<close>

theorem settled_exchange_info_is_kept:
  assumes "info_step\<^sup>*\<^sup>* new_info_cache s"
  shows "ic_requests s = ic_expired s + (if ic_promise s = None then 0 else 1) \<and>
    (\<exists>n. fst (cached_exchange_info None s) = Inr (Promised n)) \<and>
    (serves n r s \<longrightarrow> info_quiet_step\<^sup>*\<^sup>* s t \<longrightarrow>
      cached_exchange_info None t = (Inr (Promised n), t) \<and> serves n r t \<and> ic_requests t = ic_requests s)"
proof -
  have "info_inv s" by (rule info_reachable_inv [OF assms])
  moreover have "cached_exchange_info None t = (Inr (Promised n), t)" if "serves n r t"
    using that by (simp add: get_exchange_info_cases serves_def)
  ultimately show ?thesis
    using info_quiet_run_serves [of s t n r]
    by (auto simp: info_inv_def get_exchange_info_cases split: option.split)
qed


definition failed_info :: "nat info_cache" where
  "failed_info = promise_settled 0 (Inl (Err ''429'')) (snd (cached_exchange_info None new_info_cache))"

theorem settled_exchange_info_is_kept_witness:
  "cached_exchange_info None failed_info = (Inr (Promised 0), failed_info) \<and> ic_settled failed_info 0 = Some (Inl (Err ''429''))"
proof -
  let ?s = "snd (cached_exchange_info None (new_info_cache :: nat info_cache))"
  have "info_step new_info_cache ?s" by (intro quiet called)
  moreover have "info_step ?s failed_info"
    unfolding failed_info_def by (intro quiet settled) (simp_all add: get_exchange_info_cases new_info_cache_def)
  ultimately have "info_step\<^sup>*\<^sup>* new_info_cache failed_info" by (rule converse_rtranclp_into_rtranclp [OF _ r_into_rtranclp])
  from settled_exchange_info_is_kept [OF this, of 0 "Inl (Err ''429'')" failed_info]
  show ?thesis by (simp add: serves_def failed_info_def promise_settled_def get_exchange_info_cases new_info_cache_def)
qed

definition cached_five :: "nat price_cache" where
  "cached_five = prices_arrived (cache_timeout_ms None) 5 (snd (prices_asked (new_price_cache 0)))"


end
