(* ===== verification/Health.thy ===== *)
theory Health
  imports Prelude "HOL-Library.AList"
begin

text \<open>
  \<open>classes/health_and_readiness.ts\<close>: the subsystems of a service and the answers to its health checks.
  Each call of \<open>addSubsystem\<close> creates an object that its caller keeps and sets; the service finds the
  objects by name.  The objects are a list here, a reference to one is its position.  The messages that
  a change of state logs are left out.
\<close>

section \<open>State and operations\<close>

record subsystem =
  su_name :: string
  su_healthy :: bool
  su_initialised :: bool

record health =
  hr_objects :: "subsystem list"
  hr_subsystems :: "(string \<times> nat) list"

definition new_health :: health where
  "new_health = \<lparr>hr_objects = [], hr_subsystems = []\<rparr>"

definition subsystem_object :: "nat \<Rightarrow> (health, subsystem) prog" where
  "subsystem_object i =
     bindE (getE hr_objects) (\<lambda>os. if i < length os then returnE (os ! i) else throwE (Err ''no such object''))"

text \<open>The two accessors read without an argument; with one they set and return.\<close>

definition subsystem_initialised :: "nat \<Rightarrow> bool option \<Rightarrow> (health, bool) prog" where
  "subsystem_initialised i val =
     bindE (subsystem_object i) (\<lambda>su.
       case val of
         None \<Rightarrow> returnE (su_initialised su)
       | Some v \<Rightarrow>
           if v \<noteq> su_initialised su
           then seqE (modifyE (\<lambda>s. s\<lparr>hr_objects := (hr_objects s)[i := su\<lparr>su_initialised := v\<rparr>]\<rparr>)) (returnE v)
           else returnE (su_initialised su))"

definition subsystem_healthy :: "nat \<Rightarrow> bool option \<Rightarrow> (health, bool) prog" where
  "subsystem_healthy i val =
     bindE (subsystem_object i) (\<lambda>su.
       case val of
         None \<Rightarrow> returnE (su_healthy su)
       | Some v \<Rightarrow>
           if v \<noteq> su_healthy su
           then seqE (modifyE (\<lambda>s. s\<lparr>hr_objects := (hr_objects s)[i := su\<lparr>su_healthy := v\<rparr>]\<rparr>)) (returnE v)
           else returnE (su_healthy su))"

definition has_registered_subsystems :: "health \<Rightarrow> bool" where
  "has_registered_subsystems s \<longleftrightarrow> 0 < length (hr_subsystems s)"

text \<open>The values of the flag of every registered subsystem, by name.\<close>

definition surmise :: "(subsystem \<Rightarrow> bool) \<Rightarrow> health \<Rightarrow> (string \<times> bool) list" where
  "surmise flag s = map (\<lambda>(name, i). (name, flag (hr_objects s ! i))) (hr_subsystems s)"

definition surmise_health_state :: "health \<Rightarrow> (string \<times> bool) list" where
  "surmise_health_state s = surmise su_healthy s"

definition surmise_initialised_state :: "health \<Rightarrow> (string \<times> bool) list" where
  "surmise_initialised_state s = surmise su_initialised s"

definition service_healthy :: "health \<Rightarrow> bool" where
  "service_healthy s \<longleftrightarrow> False \<notin> set (map (\<lambda>(name, i). su_healthy (hr_objects s ! i)) (hr_subsystems s))"

definition service_initialised :: "health \<Rightarrow> bool" where
  "service_initialised s \<longleftrightarrow> False \<notin> set (map (\<lambda>(name, i). su_initialised (hr_objects s ! i)) (hr_subsystems s))"

text \<open>The name under which a subsystem is registered; the random id is a parameter.\<close>

definition registered_name :: "string \<Rightarrow> string \<Rightarrow> health \<Rightarrow> string" where
  "registered_name uuid name s =
     (if map_of (hr_subsystems s) name \<noteq> None then name @ ''-'' @ uuid else name)"

definition addSubsystem :: "string \<Rightarrow> string \<Rightarrow> bool \<Rightarrow> bool \<Rightarrow> (health, nat) prog" where
  "addSubsystem uuid name is_healthy is_initialised =
     bindE (getE (registered_name uuid name)) (\<lambda>name.
     bindE (getE (\<lambda>s. length (hr_objects s))) (\<lambda>i.
     seqE (modifyE (\<lambda>s. s\<lparr>
         hr_objects := hr_objects s @ [\<lparr>su_name = name, su_healthy = is_healthy, su_initialised = is_initialised\<rparr>],
         hr_subsystems := AList.update name i (hr_subsystems s)\<rparr>))
       (returnE i)))"

record health_response =
  hx_http_status :: nat
  hx_status :: string
  hx_initialised_summary :: "(string \<times> bool) list"
  hx_health_summary :: "(string \<times> bool) list option"

definition health_handler :: "health \<Rightarrow> health_response" where
  "health_handler s =
     (let initialised_summary = surmise_initialised_state s; health_summary = surmise_health_state s in
      if service_healthy s \<and> service_initialised s
      then \<lparr>hx_http_status = 200, hx_status = ''OK'', hx_initialised_summary = initialised_summary,
        hx_health_summary = Some health_summary\<rparr>
      else \<lparr>hx_http_status = 503, hx_status = ''UNHEALTHY'', hx_initialised_summary = initialised_summary,
        hx_health_summary = Some health_summary\<rparr>)"

definition initialised_handler :: "health \<Rightarrow> health_response" where
  "initialised_handler s =
     (let summary = surmise_initialised_state s in
      if service_initialised s
      then \<lparr>hx_http_status = 200, hx_status = ''OK'', hx_initialised_summary = summary, hx_health_summary = None\<rparr>
      else \<lparr>hx_http_status = 503, hx_status = ''NOT_INITIALISED'', hx_initialised_summary = summary,
        hx_health_summary = None\<rparr>)"

section \<open>Lives of a service\<close>

text \<open>
  The states a service can reach, each with the values its subsystems were last given, in the order
  of their registration.  A random id makes a name that is not taken.
\<close>

inductive health_run :: "health \<Rightarrow> (bool \<times> bool) list \<Rightarrow> bool" where
  start: "health_run new_health []"
| add: "health_run s fs \<Longrightarrow> map_of (hr_subsystems s) (registered_name uuid name s) = None \<Longrightarrow>
    addSubsystem uuid name hl ini s = (Inr i, t) \<Longrightarrow> health_run t (fs @ [(hl, ini)])"
| set_healthy: "health_run s fs \<Longrightarrow> i < length fs \<Longrightarrow> subsystem_healthy i (Some v) s = (r, t) \<Longrightarrow>
    health_run t (fs[i := (v, snd (fs ! i))])"
| set_initialised: "health_run s fs \<Longrightarrow> i < length fs \<Longrightarrow> subsystem_initialised i (Some v) s = (r, t) \<Longrightarrow>
    health_run t (fs[i := (fst (fs ! i), v)])"

text \<open>The invariant: every object is registered once, in order, and carries the values it was given.\<close>

definition registered :: "health \<Rightarrow> (bool \<times> bool) list \<Rightarrow> bool" where
  "registered s fs \<longleftrightarrow> map snd (hr_subsystems s) = [0..<length fs] \<and> distinct (map fst (hr_subsystems s)) \<and>
     map (\<lambda>su. (su_healthy su, su_initialised su)) (hr_objects s) = fs"

lemma registered_fs:
  "registered s fs \<Longrightarrow> fs = map (\<lambda>su. (su_healthy su, su_initialised su)) (hr_objects s)"
  by (simp add: registered_def)

lemma registered_length: "registered s fs \<Longrightarrow> length (hr_objects s) = length fs"
  by (metis (lifting) length_map registered_fs)

lemma update_new: "k \<notin> set (map fst xs) \<Longrightarrow> AList.update k v xs = xs @ [(k, v)]"
  by (induction xs) auto

lemma registered_add:
  assumes "registered s fs" "map_of (hr_subsystems s) (registered_name uuid name s) = None"
    and "addSubsystem uuid name hl ini s = (Inr i, t)"
  shows "registered t (fs @ [(hl, ini)])" "i = length fs"
  using assms registered_length [OF assms(1)]
  by (auto simp: addSubsystem_def registered_def bindE_def seqE_def getE_def modifyE_def returnE_def update_new
      map_of_eq_None_iff)

lemma registered_set:
  assumes "registered s fs" "i < length fs" "su = hr_objects s ! i"
  shows "registered (s\<lparr>hr_objects := (hr_objects s)[i := su\<lparr>su_healthy := v\<rparr>]\<rparr>) (fs[i := (v, snd (fs ! i))])"
    and "registered (s\<lparr>hr_objects := (hr_objects s)[i := su\<lparr>su_initialised := v\<rparr>]\<rparr>) (fs[i := (fst (fs ! i), v)])"
proof -
  have "fs ! i = (su_healthy su, su_initialised su)"
    using assms by (metis (lifting) length_map nth_map registered_fs)
  then show "registered (s\<lparr>hr_objects := (hr_objects s)[i := su\<lparr>su_healthy := v\<rparr>]\<rparr>) (fs[i := (v, snd (fs ! i))])"
    "registered (s\<lparr>hr_objects := (hr_objects s)[i := su\<lparr>su_initialised := v\<rparr>]\<rparr>) (fs[i := (fst (fs ! i), v)])"
    using assms(1) by (simp_all add: registered_def map_update)
qed

lemma registered_same:
  assumes "registered s fs" "i < length fs"
  shows "fs[i := (su_healthy (hr_objects s ! i), snd (fs ! i))] = fs"
    and "fs[i := (fst (fs ! i), su_initialised (hr_objects s ! i))] = fs"
proof -
  have "fs ! i = (su_healthy (hr_objects s ! i), su_initialised (hr_objects s ! i))"
    using assms by (metis (lifting) length_map nth_map registered_fs)
  then show "fs[i := (su_healthy (hr_objects s ! i), snd (fs ! i))] = fs"
    "fs[i := (fst (fs ! i), su_initialised (hr_objects s ! i))] = fs"
    by (metis fst_conv snd_conv list_update_id)+
qed

lemma registered_set_healthy:
  assumes "registered s fs" "i < length fs" "subsystem_healthy i (Some v) s = (r, t)"
  shows "registered t (fs[i := (v, snd (fs ! i))])"
  using assms registered_length [OF assms(1)] registered_set(1) [OF assms(1,2) refl, of v] registered_same(1) [OF assms(1,2)]
  by (auto simp: subsystem_healthy_def subsystem_object_def bindE_def seqE_def getE_def modifyE_def returnE_def
      split: if_splits)

lemma registered_set_initialised:
  assumes "registered s fs" "i < length fs" "subsystem_initialised i (Some v) s = (r, t)"
  shows "registered t (fs[i := (fst (fs ! i), v)])"
  using assms registered_length [OF assms(1)] registered_set(2) [OF assms(1,2) refl, of v] registered_same(2) [OF assms(1,2)]
  by (auto simp: subsystem_initialised_def subsystem_object_def bindE_def seqE_def getE_def modifyE_def returnE_def
      split: if_splits)

lemma health_run_registered: "health_run s fs \<Longrightarrow> registered s fs"
proof (induction rule: health_run.induct)
  case start
  show ?case by (simp add: registered_def new_health_def)
qed (blast intro: registered_add registered_set_healthy registered_set_initialised)+

lemma registered_flags:
  assumes "registered s fs"
  shows "map (\<lambda>(name, i). flag (hr_objects s ! i)) (hr_subsystems s) = map flag (hr_objects s)"
proof -
  have "map (\<lambda>i. flag (hr_objects s ! i)) (map snd (hr_subsystems s)) = map flag (hr_objects s)"
    using assms registered_length [OF assms] by (auto simp: registered_def intro: nth_equalityI)
  then show ?thesis by (simp add: case_prod_unfold comp_def)
qed

lemma surmise_registered:
  assumes "registered s fs"
  shows "surmise flag s = zip (map fst (hr_subsystems s)) (map flag (hr_objects s))"
  unfolding registered_flags [OF assms, symmetric] surmise_def
  by (simp add: zip_map_map case_prod_unfold flip: zip_map_fst_snd) (simp add: zip_same_conv_map)

lemma service_flags:
  assumes "registered s fs"
  shows "service_healthy s \<longleftrightarrow> list_all fst fs" and "service_initialised s \<longleftrightarrow> list_all snd fs"
  unfolding service_healthy_def service_initialised_def registered_flags [OF assms]
  by (subst registered_fs [OF assms], force simp: list.pred_map list_all_iff)+

section \<open>Properties\<close>

text \<open>
  C29: The health check tells the state of every subsystem.  Whatever a service does, it answers 200
  exactly when every subsystem that was ever registered was last set healthy and initialised, also those
  registered again under a name that was taken; the summaries list each of them once, with the values
  it was last given.  The check of readiness looks at the initialisation alone.
\<close>

theorem health_checks_are_exact:
  assumes "health_run s fs"
  shows "hx_http_status (health_handler s) = (if list_all (\<lambda>(hl, ini). hl \<and> ini) fs then 200 else 503) \<and>
    hx_http_status (initialised_handler s) = (if list_all snd fs then 200 else 503) \<and>
    (\<exists>names. distinct names \<and> length names = length fs \<and>
       hx_health_summary (health_handler s) = Some (zip names (map fst fs)) \<and>
       hx_initialised_summary (health_handler s) = zip names (map snd fs))"
proof -
  have r: "registered s fs" using assms by (rule health_run_registered)
  then have fs: "map su_healthy (hr_objects s) = map fst fs" "map su_initialised (hr_objects s) = map snd fs"
    by (auto simp: registered_def)
  have "list_all fst fs \<and> list_all snd fs \<longleftrightarrow> list_all (\<lambda>(hl, ini). hl \<and> ini) fs" by (auto simp: list_all_iff)
  moreover have "distinct (map fst (hr_subsystems s))" "length (map fst (hr_subsystems s)) = length fs"
    using r by (auto simp: registered_def dest: arg_cong [of _ _ length])
  ultimately show ?thesis
    using service_flags [OF r] surmise_registered [OF r] fs
    by (auto simp: health_handler_def initialised_handler_def Let_def surmise_health_state_def surmise_initialised_state_def)
qed

text \<open>Two subsystems of the same name; the second becomes initialised, then unhealthy.\<close>

definition demo_health :: health where
  "demo_health =
     \<lparr>hr_objects = [\<lparr>su_name = ''global'', su_healthy = True, su_initialised = True\<rparr>,
        \<lparr>su_name = ''global-u'', su_healthy = False, su_initialised = True\<rparr>],
      hr_subsystems = [(''global'', 0), (''global-u'', 1)]\<rparr>"

lemma demo_health_run: "health_run demo_health [(True, True), (False, True)]"
proof -
  let ?a = "snd (addSubsystem ''u'' ''global'' True True new_health)"
  let ?b = "snd (addSubsystem ''u'' ''global'' True False ?a)"
  let ?c = "snd (subsystem_initialised 1 (Some True) ?b)"
  have "health_run ?a ([] @ [(True, True)])"
    by (rule health_run.add [OF health_run.start, of "''u''" "''global''" _ _ 0]) code_simp+
  then have "health_run ?b (([] @ [(True, True)]) @ [(True, False)])"
    by (rule health_run.add [of _ _ "''u''" "''global''" _ _ 1]) code_simp+
  then have "health_run ?c ([(True, True), (True, False)][1 := (True, True)])"
    using health_run.set_initialised [of ?b "[(True, True), (True, False)]" 1 True "fst (subsystem_initialised 1 (Some True) ?b)" ?c]
    by simp
  then have "health_run (snd (subsystem_healthy 1 (Some False) ?c)) ([(True, True), (True, True)][1 := (False, True)])"
    using health_run.set_healthy [of ?c "[(True, True), (True, True)]" 1 False "fst (subsystem_healthy 1 (Some False) ?c)"
      "snd (subsystem_healthy 1 (Some False) ?c)"] by simp
  moreover have "snd (subsystem_healthy 1 (Some False) ?c) = demo_health" by code_simp
  ultimately show ?thesis by simp
qed

theorem health_checks_are_exact_witness:
  "hx_http_status (health_handler demo_health) = 503 \<and> hx_http_status (initialised_handler demo_health) = 200"
  using health_checks_are_exact [OF demo_health_run] by simp

end
