(* ===== verification/EdgePerformance.thy ===== *)
theory EdgePerformance
  imports Orders
begin

text \<open>
  The edge performance tracker (\<open>services/edge-performance-tracker\<close>): each closed position is acknowledged,
  uploaded, sent as metrics and counted in the Redis hashes of its edge, for all time, for the month
  and for the day.  The increments are not awaited: one that fails rejects a promise nobody handles,
  which only makes the service unhealthy.  The calendar of luxon and the outcome of each command are
  parameters.
\<close>

section \<open>State\<close>

datatype trade_result = Win | Loss | Unknown

record performance_event =
  pe_edge :: string
  pe_percentage_quote_change :: "rat option"
  pe_abs_quote_change :: "rat option"
  pe_loss :: "bool option"
  pe_base_asset :: string
  pe_exchange :: string
  pe_exchange_type :: string
  pe_entry_timestamp_ms :: int
  pe_exit_timestamp_ms :: int
  pe_days_in_position :: rat

record performance_metric =
  pm_edge :: string
  pm_base_asset :: string
  pm_exchange :: string
  pm_exchange_type :: string
  pm_result :: string
  pm_direction :: string
  pm_values :: "(string \<times> rat) list"

record performance =
  pf_acked :: "nat list"
  pf_commands :: nat
  pf_hash :: "((string \<times> string) \<times> rat) list"
  pf_healthy :: bool
  pf_uploads :: "performance_event list"
  pf_metrics :: "performance_metric list"

text \<open>Whether the n-th command to Redis or MongoDB succeeds, the clock, and year, month and day in UTC.\<close>

record performance_env =
  pv_ok :: "nat \<Rightarrow> bool"
  pv_now :: "nat \<Rightarrow> int"
  pv_utc :: "int \<Rightarrow> int \<times> nat \<times> nat"

definition hget :: "performance \<Rightarrow> string \<Rightarrow> string \<Rightarrow> rat" where
  "hget s key field = (case map_of (pf_hash s) (key, field) of None \<Rightarrow> 0 | Some x \<Rightarrow> x)"

section \<open>The counters\<close>

definition all_time_results_counts_hash_key :: "string \<Rightarrow> string" where
  "all_time_results_counts_hash_key edge = ''edge-performance:v1:'' @ edge @ '':all-time:results-counts-hash''"

definition daily_results_counts_hash_key :: "performance_env \<Rightarrow> string \<Rightarrow> int \<Rightarrow> string" where
  "daily_results_counts_hash_key V edge dt =
     (case pv_utc V dt of (year, month, day) \<Rightarrow>
        ''edge-performance:v1:'' @ edge @ '':daily:'' @
        (int_string year @ ''-'' @ nat_string month @ ''-'' @ nat_string day) @ '':results-counts-hash'')"

definition monthly_results_counts_hash_key :: "performance_env \<Rightarrow> string \<Rightarrow> int \<Rightarrow> string" where
  "monthly_results_counts_hash_key V edge dt =
     (case pv_utc V dt of (year, month, day) \<Rightarrow>
        ''edge-performance:v1:'' @ edge @ '':monthly:'' @ (int_string year @ ''-'' @ nat_string month) @
        '':results-counts-hash'')"

text \<open>\<open>HINCRBY\<close> and \<open>HINCRBYFLOAT\<close>, started and not awaited.\<close>

definition hincr :: "performance_env \<Rightarrow> string \<Rightarrow> string \<Rightarrow> rat \<Rightarrow> (performance, unit) prog" where
  "hincr V key field delta =
     modifyE (\<lambda>s. let t = s\<lparr>pf_commands := Suc (pf_commands s)\<rparr> in
       if pv_ok V (pf_commands s) then t\<lparr>pf_hash := ((key, field), hget s key field + delta) # pf_hash s\<rparr>
       else t\<lparr>pf_healthy := False\<rparr>)"

fun result_field :: "trade_result \<Rightarrow> string" where
  "result_field Win = ''wins''"
| "result_field Loss = ''losses''"
| "result_field Unknown = ''unknown''"

definition update_counts_for_key :: "performance_env \<Rightarrow> string \<Rightarrow> trade_result \<Rightarrow> (performance, unit) prog" where
  "update_counts_for_key V key r = hincr V key (result_field r) 1"

definition update_percentages_for_key :: "performance_env \<Rightarrow> string \<Rightarrow> rat \<Rightarrow> (performance, unit) prog" where
  "update_percentages_for_key V key change = hincr V key ''percentage_quote_change'' change"

definition update_abs_quote_change_for_key :: "performance_env \<Rightarrow> string \<Rightarrow> rat \<Rightarrow> (performance, unit) prog" where
  "update_abs_quote_change_for_key V key delta = hincr V key ''abs_quote_change'' delta"

text \<open>A change of zero is as good as none.\<close>

definition trade_result_of :: "rat option \<Rightarrow> trade_result" where
  "trade_result_of change =
     (case change of None \<Rightarrow> Unknown | Some x \<Rightarrow> if x = 0 then Unknown else if 0 < x then Win else Loss)"

text \<open>\<open>Promise.all\<close> of an update of the three hashes.\<close>

definition in_all_hashes ::
    "performance_env \<Rightarrow> string \<Rightarrow> int \<Rightarrow> (string \<Rightarrow> (performance, unit) prog) \<Rightarrow> (performance, unit) prog" where
  "in_all_hashes V edge dt update =
     seqE (update (all_time_results_counts_hash_key edge))
     (seqE (update (daily_results_counts_hash_key V edge dt))
       (update (monthly_results_counts_hash_key V edge dt)))"

definition persistence_ingest_event ::
    "performance_env \<Rightarrow> position_closed_event \<Rightarrow> int option \<Rightarrow> (performance, unit) prog" where
  "persistence_ingest_event V i exit_signal_timestamp_ms =
     bindE (getE (\<lambda>s. case exit_signal_timestamp_ms of
              None \<Rightarrow> pv_now V (pf_commands s)
            | Some ms \<Rightarrow> if ms = 0 then pv_now V (pf_commands s) else ms)) (\<lambda>dt.
     seqE (in_all_hashes V (ev_edge i) dt
            (\<lambda>key. update_counts_for_key V key (trade_result_of (ev_percentage_quote_change i))))
     (seqE (case ev_percentage_quote_change i of
              None \<Rightarrow> returnE ()
            | Some delta \<Rightarrow> if delta = 0 then returnE ()
                else in_all_hashes V (ev_edge i) dt (\<lambda>key. update_percentages_for_key V key delta))
           (case ev_abs_quote_change i of
              None \<Rightarrow> returnE ()
            | Some delta \<Rightarrow> in_all_hashes V (ev_edge i) dt (\<lambda>key. update_abs_quote_change_for_key V key delta))))"

section \<open>Upload, metrics and the processor\<close>

text \<open>What is inserted is the event itself, not the converted copy.\<close>

definition mongodb_ingest_event :: "performance_env \<Rightarrow> performance_event \<Rightarrow> (performance, unit) prog" where
  "mongodb_ingest_event V o_event =
     bindE (getE pf_commands) (\<lambda>n.
     seqE (modifyE (\<lambda>s. s\<lparr>pf_commands := Suc n\<rparr>))
       (if pv_ok V n then modifyE (\<lambda>s. s\<lparr>pf_uploads := o_event # pf_uploads s\<rparr>)
        else throwE (Err ''insertOne'')))"

text \<open>\<open>toFixed()\<close> of a number keeps no decimals.\<close>

definition whole_number :: "rat \<Rightarrow> rat" where
  "whole_number x = of_int (ref_round x)"

definition metrics_ingest_event :: "performance_event \<Rightarrow> (performance, unit) prog" where
  "metrics_ingest_event e =
     modifyE (\<lambda>s. s\<lparr>pf_metrics :=
       \<lparr>pm_edge = pe_edge e, pm_base_asset = pe_base_asset e, pm_exchange = pe_exchange e,
        pm_exchange_type = pe_exchange_type e,
        pm_result = (if pe_loss e = Some True then ''loss'' else ''win''), pm_direction = ''long'',
        pm_values = [(''days_in_position'', whole_number (pe_days_in_position e))] @
          (case pe_percentage_quote_change e of
             None \<Rightarrow> [] | Some x \<Rightarrow> if x = 0 then [] else [(''percentage_quote_change'', whole_number x)]) @
          (case pe_abs_quote_change e of None \<Rightarrow> [] | Some x \<Rightarrow> [(''abs_quote_change'', x)])\<rparr> # pf_metrics s\<rparr>)"

definition performance_event_of :: "bignum \<Rightarrow> position_closed_event \<Rightarrow> performance_event" where
  "performance_event_of B i =
     \<lparr>pe_edge = ev_edge i, pe_percentage_quote_change = ev_percentage_quote_change i,
      pe_abs_quote_change = ev_abs_quote_change i,
      pe_loss = (case ev_percentage_quote_change i of None \<Rightarrow> None | Some x \<Rightarrow> if x = 0 then None else Some (x < 0)),
      pe_base_asset = ev_base_asset i, pe_exchange = ei_exchange (ev_exchange_identifier i),
      pe_exchange_type = exchange_type_string (ei_type (ev_exchange_identifier i)),
      pe_entry_timestamp_ms = ev_initial_entry_timestamp_ms i, pe_exit_timestamp_ms = ev_exit_timestamp_ms i,
      pe_days_in_position = bn_dp B 2 (of_int (ev_exit_timestamp_ms i - ev_initial_entry_timestamp_ms i) / 86400000)\<rparr>"

definition eat_errors :: "('s, unit) prog \<Rightarrow> ('s, unit) prog" where
  "eat_errors m = tryE m (\<lambda>_. returnE ())"

definition performance_process_message ::
    "bignum \<Rightarrow> performance_env \<Rightarrow> position_closed_event \<Rightarrow> int option \<Rightarrow> nat \<Rightarrow> (performance, unit) prog" where
  "performance_process_message B V i exit_signal_timestamp_ms tag =
     eat_errors
       (seqE (modifyE (\<lambda>s. s\<lparr>pf_acked := tag # pf_acked s\<rparr>))
       (seqE (eat_errors (mongodb_ingest_event V (performance_event_of B i)))
       (seqE (eat_errors (metrics_ingest_event (performance_event_of B i)))
         (eat_errors (persistence_ingest_event V i exit_signal_timestamp_ms)))))"

section \<open>The counts are exact or the service is unhealthy\<close>

lemma last_nat_string: "last (nat_string n) \<noteq> CHR ''e''"
proof -
  have "last (nat_string n) = char_of (48 + n mod 10)"
    by (subst nat_string.simps) (simp add: mod_less)
  moreover have "(of_char (char_of (48 + n mod 10) :: char) :: nat) = (48 + n mod 10) mod 256" by simp
  then have "(of_char (char_of (48 + n mod 10) :: char) :: nat) = 48 + n mod 10"
    by (simp add: mod_less less_trans [OF add_strict_left_mono [OF mod_less_divisor]])
  ultimately have d: "(of_char (last (nat_string n)) :: nat) = 48 + n mod 10" by simp
  show ?thesis
  proof
    assume "last (nat_string n) = CHR ''e''"
    then have "48 + n mod 10 = (of_char (CHR ''e'') :: nat)" using d by simp
    moreover have "n mod 10 < 10" by simp
    ultimately show False by simp
  qed
qed

lemma slice_key_differs:
  assumes "last ts \<noteq> CHR ''e''" "ts \<noteq> []"
  shows "x @ '':all-time:results-counts-hash'' \<noteq> y @ ts @ '':results-counts-hash''"
proof
  assume "x @ '':all-time:results-counts-hash'' = y @ ts @ '':results-counts-hash''"
  then have "(x @ '':all-time'') @ '':results-counts-hash'' = (y @ ts) @ '':results-counts-hash''" by simp
  then have "x @ '':all-time'' = y @ ts" by (simp only: append_same_eq)
  then have "last (x @ '':all-time'') = last ts" using assms(2) by simp
  then show False using assms(1) by simp
qed

lemma all_time_key_differs:
  "all_time_results_counts_hash_key e \<noteq> daily_results_counts_hash_key V e' dt"
  "all_time_results_counts_hash_key e \<noteq> monthly_results_counts_hash_key V e' dt"
proof -
  obtain y m d where u: "pv_utc V dt = (y, m, d)" by (cases "pv_utc V dt")
  show "all_time_results_counts_hash_key e \<noteq> daily_results_counts_hash_key V e' dt"
    using slice_key_differs [of "int_string y @ ''-'' @ nat_string m @ ''-'' @ nat_string d"
        "''edge-performance:v1:'' @ e" "''edge-performance:v1:'' @ e' @ '':daily:''"]
    by (simp add: all_time_results_counts_hash_key_def daily_results_counts_hash_key_def u last_nat_string)
  show "all_time_results_counts_hash_key e \<noteq> monthly_results_counts_hash_key V e' dt"
    using slice_key_differs [of "int_string y @ ''-'' @ nat_string m"
        "''edge-performance:v1:'' @ e" "''edge-performance:v1:'' @ e' @ '':monthly:''"]
    by (simp add: all_time_results_counts_hash_key_def monthly_results_counts_hash_key_def u last_nat_string)
qed

lemma all_time_key_inj:
  "all_time_results_counts_hash_key e = all_time_results_counts_hash_key e' \<longleftrightarrow> e = e'"
  by (simp add: all_time_results_counts_hash_key_def)

text \<open>What a step adds to the fields of the hashes for all time, unless a command failed.\<close>

definition adds :: "(string \<Rightarrow> string \<Rightarrow> rat) \<Rightarrow> performance \<Rightarrow> performance \<Rightarrow> bool" where
  "adds K s t \<longleftrightarrow> pf_healthy t \<longrightarrow> pf_healthy s \<and>
     (\<forall>edge field. hget t (all_time_results_counts_hash_key edge) field =
        hget s (all_time_results_counts_hash_key edge) field + K edge field)"

lemma adds_trans: "adds K s t \<Longrightarrow> adds L t u \<Longrightarrow> adds (\<lambda>e f. K e f + L e f) s u"
  by (simp add: adds_def)

lemma adds_same: "pf_hash t = pf_hash s \<Longrightarrow> pf_healthy t = pf_healthy s \<Longrightarrow> adds (\<lambda>_ _. 0) s t"
  by (simp add: adds_def hget_def)

lemma adds_hincr:
  "wp (hincr V (all_time_results_counts_hash_key edge) field delta)
     (\<lambda>_. adds (\<lambda>e f. if e = edge \<and> f = field then delta else 0) s) (\<lambda>_ _. False) s"
  "wp (hincr V (daily_results_counts_hash_key V edge dt) field delta) (\<lambda>_. adds (\<lambda>_ _. 0) s) (\<lambda>_ _. False) s"
  "wp (hincr V (monthly_results_counts_hash_key V edge dt) field delta) (\<lambda>_. adds (\<lambda>_ _. 0) s) (\<lambda>_ _. False) s"
  by (simp_all add: hincr_def adds_def hget_def Let_def all_time_key_inj all_time_key_differs)

text \<open>Steps that only add, in sequence.\<close>

definition adder :: "(string \<Rightarrow> string \<Rightarrow> rat) \<Rightarrow> (performance, unit) prog \<Rightarrow> bool" where
  "adder K m \<longleftrightarrow> (\<forall>s. wp m (\<lambda>_ t. adds K s t \<and> pf_acked t = pf_acked s) (\<lambda>_ _. False) s)"

lemma adder_seqE: "adder K m \<Longrightarrow> adder L k \<Longrightarrow> adder (\<lambda>e f. K e f + L e f) (seqE m k)"
  unfolding adder_def wp_seqE by (rule allI, rule wp_mono, erule spec, rule wp_mono, erule spec) (auto intro: adds_trans)

lemma adder_seqE_eq: "adder K m \<Longrightarrow> adder L k \<Longrightarrow> (\<lambda>e f. K e f + L e f) = M \<Longrightarrow> adder M (seqE m k)"
  using adder_seqE by blast

lemma adder_hincr:
  "adder (\<lambda>e f. if e = edge \<and> f = field then delta else 0) (hincr V (all_time_results_counts_hash_key edge) field delta)"
  "adder (\<lambda>_ _. 0) (hincr V (daily_results_counts_hash_key V edge dt) field delta)"
  "adder (\<lambda>_ _. 0) (hincr V (monthly_results_counts_hash_key V edge dt) field delta)"
  using adds_hincr by (simp_all add: adder_def hincr_def Let_def)

lemma adder_in_all_hashes:
  "adder (\<lambda>e f. if e = edge \<and> f = field then delta else 0) (in_all_hashes V edge dt (\<lambda>key. hincr V key field delta))"
  unfolding in_all_hashes_def
  by (rule adder_seqE_eq [OF adder_hincr(1) adder_seqE [OF adder_hincr(2,3)]]) simp

lemma adder_nothing: "adder (\<lambda>_ _. 0) (returnE ())"
  by (simp add: adder_def adds_same)

text \<open>What a closed position adds.\<close>

definition contribution :: "position_closed_event \<Rightarrow> string \<Rightarrow> string \<Rightarrow> rat" where
  "contribution i edge field =
     (if edge \<noteq> ev_edge i then 0
      else (if field = result_field (trade_result_of (ev_percentage_quote_change i)) then 1 else 0) +
        (if field = ''percentage_quote_change'' then (case ev_percentage_quote_change i of None \<Rightarrow> 0 | Some x \<Rightarrow> x) else 0) +
        (if field = ''abs_quote_change'' then (case ev_abs_quote_change i of None \<Rightarrow> 0 | Some x \<Rightarrow> x) else 0))"

lemma adder_persistence: "adder (contribution i) (persistence_ingest_event V i ts)"
proof -
  let ?one = "\<lambda>x f' e f. if e = ev_edge i \<and> f = f' then x else 0 :: rat"
  have count: "adder (?one 1 (result_field (trade_result_of (ev_percentage_quote_change i))))
      (in_all_hashes V (ev_edge i) dt (\<lambda>key. update_counts_for_key V key (trade_result_of (ev_percentage_quote_change i))))" for dt
    unfolding update_counts_for_key_def by (rule adder_in_all_hashes)
  have pct: "adder (?one (case ev_percentage_quote_change i of None \<Rightarrow> 0 | Some x \<Rightarrow> x) ''percentage_quote_change'')
      (case ev_percentage_quote_change i of None \<Rightarrow> returnE ()
       | Some delta \<Rightarrow> if delta = 0 then returnE ()
           else in_all_hashes V (ev_edge i) dt (\<lambda>key. update_percentages_for_key V key delta))" for dt
    using adder_nothing adder_in_all_hashes [of "ev_edge i" "''percentage_quote_change''"]
    by (auto simp: update_percentages_for_key_def if_distrib cong: if_cong split: option.split)
  have abs: "adder (?one (case ev_abs_quote_change i of None \<Rightarrow> 0 | Some x \<Rightarrow> x) ''abs_quote_change'')
      (case ev_abs_quote_change i of None \<Rightarrow> returnE ()
       | Some delta \<Rightarrow> in_all_hashes V (ev_edge i) dt (\<lambda>key. update_abs_quote_change_for_key V key delta))" for dt
    using adder_nothing adder_in_all_hashes [of "ev_edge i" "''abs_quote_change''"]
    by (auto simp: update_abs_quote_change_for_key_def cong: if_cong split: option.split)
  have "(\<lambda>e f. ?one 1 (result_field (trade_result_of (ev_percentage_quote_change i))) e f +
      (?one (case ev_percentage_quote_change i of None \<Rightarrow> 0 | Some x \<Rightarrow> x) ''percentage_quote_change'' e f +
       ?one (case ev_abs_quote_change i of None \<Rightarrow> 0 | Some x \<Rightarrow> x) ''abs_quote_change'' e f)) = contribution i"
    by (auto simp: contribution_def fun_eq_iff)
  from adder_seqE_eq [OF count adder_seqE [OF pct abs] this] show ?thesis
    by (simp add: persistence_ingest_event_def adder_def)
qed

lemma wp_performance_message:
  "wp (performance_process_message B V i ts tag)
     (\<lambda>_ t. adds (contribution i) s t \<and> pf_acked t = tag # pf_acked s) (\<lambda>_ _. False) s"
proof -
  have mongo: "wp (eat_errors (mongodb_ingest_event V e)) (\<lambda>_ t. adds (\<lambda>_ _. 0) u t \<and> pf_acked t = pf_acked u) (\<lambda>_ _. False) u"
    for e u by (simp add: eat_errors_def mongodb_ingest_event_def adds_same)
  have metric: "wp (eat_errors (metrics_ingest_event e)) (\<lambda>_ t. adds (\<lambda>_ _. 0) u t \<and> pf_acked t = pf_acked u) (\<lambda>_ _. False) u"
    for e u by (simp add: eat_errors_def metrics_ingest_event_def adds_same)
  have persist: "wp (eat_errors (persistence_ingest_event V i ts))
      (\<lambda>_ t. adds (contribution i) u t \<and> pf_acked t = pf_acked u) (\<lambda>_ _. False) u" for u
    using adder_persistence [of i V ts] unfolding adder_def eat_errors_def wp_tryE by (auto elim: wp_mono)
  let ?s = "s\<lparr>pf_acked := tag # pf_acked s\<rparr>"
  let ?Q = "\<lambda>_ t. adds (contribution i) s t \<and> pf_acked t = tag # pf_acked s"
  have "wp (eat_errors (mongodb_ingest_event V (performance_event_of B i))) (\<lambda>_ u.
      wp (eat_errors (metrics_ingest_event (performance_event_of B i))) (\<lambda>_ v.
      wp (eat_errors (persistence_ingest_event V i ts)) ?Q ?Q v) ?Q u) ?Q ?s"
  proof (rule wp_mono [OF mongo], rule wp_mono [OF metric], rule wp_mono [OF persist], goal_cases)
    case (1 _ u _ v _ w)
    have "adds (\<lambda>_ _. 0) s ?s" by (rule adds_same) simp_all
    from adds_trans [OF adds_trans [OF adds_trans [OF this]]] 1 show ?case by fastforce
  qed simp_all
  then show ?thesis
    by (simp add: performance_process_message_def eat_errors_def [of "seqE _ _"] wp_tryE)
qed

definition new_performance :: performance where
  "new_performance = \<lparr>pf_acked = [], pf_commands = 0, pf_hash = [], pf_healthy = True, pf_uploads = [], pf_metrics = []\<rparr>"

definition performance_messages ::
    "bignum \<Rightarrow> performance_env \<Rightarrow> (position_closed_event \<times> int option \<times> nat) list \<Rightarrow> (performance, unit) prog" where
  "performance_messages B V ds = forE ds (\<lambda>(i, ts, tag). performance_process_message B V i ts tag)"

lemma wp_performance_messages:
  "wp (performance_messages B V ds)
     (\<lambda>_ t. adds (\<lambda>e f. sum_list (map (\<lambda>(i, _). contribution i e f) ds)) s t \<and>
        pf_acked t = rev (map (\<lambda>(_, _, tag). tag) ds) @ pf_acked s) (\<lambda>_ _. False) s"
proof (induction ds arbitrary: s)
  case Nil
  then show ?case by (simp add: performance_messages_def adds_same)
next
  case (Cons d ds)
  obtain i ts tag where d: "d = (i, ts, tag)" by (cases d)
  show ?case
    unfolding performance_messages_def d forE.simps prod.case wp_seqE
  proof (rule wp_mono [OF wp_performance_message], fold performance_messages_def, rule wp_mono [OF Cons.IH], goal_cases)
    case (1 _ t _ u)
    then show ?case using adds_trans [of "contribution i" s t] by (auto simp: d)
  qed simp_all
qed

lemma result_field_inj [simp]: "result_field r = result_field r' \<longleftrightarrow> r = r'"
  by (cases r; cases r') simp_all

lemma result_field_other [simp]:
  "result_field r \<noteq> ''percentage_quote_change''" "result_field r \<noteq> ''abs_quote_change''"
  by (cases r; simp)+

lemma sum_contributions:
  "sum_list (map (\<lambda>(i, _). contribution i edge (result_field r)) ds) =
     of_nat (length (filter (\<lambda>(i, _). ev_edge i = edge \<and> trade_result_of (ev_percentage_quote_change i) = r) ds))"
  by (induction ds) (auto simp: contribution_def split: if_splits)


definition steady :: performance_env where
  "steady = \<lparr>pv_ok = (\<lambda>_. True), pv_now = (\<lambda>_. 0), pv_utc = (\<lambda>_. (1970, 1, 1))\<rparr>"

definition demo_closed :: "rat option \<Rightarrow> position_closed_event" where
  "demo_closed change =
     \<lparr>ev_edge = ''edge70'', ev_exchange_identifier = \<lparr>ei_exchange = ''binance'', ei_type = Spot\<rparr>, ev_base_asset = ''ETH'',
      ev_entry_signal_timestamp_ms = 0, ev_initial_entry_timestamp_ms = 0, ev_initial_entry_executed_price = None,
      ev_initial_entry_quote_asset = ''USDT'', ev_initial_entry_quote_invested = None,
      ev_initial_entry_position_size = 1, ev_orders = [], ev_exit_timestamp_ms = 86400000, ev_exit_executed_price = 1,
      ev_exit_quote_asset = ''USDT'', ev_exit_quote_returned = 1, ev_exit_position_size = 1,
      ev_total_quote_invested = None, ev_total_quote_returned = 1, ev_abs_quote_change = None,
      ev_percentage_quote_change = change\<rparr>"

lemma steady_hincr: "pf_healthy s \<Longrightarrow> wp (hincr steady k f x) (\<lambda>_. pf_healthy) (\<lambda>_. pf_healthy) s"
  by (simp add: hincr_def steady_def Let_def)

lemma steady_in_all:
  "pf_healthy s \<Longrightarrow> wp (in_all_hashes steady e dt (\<lambda>key. hincr steady key f x)) (\<lambda>_. pf_healthy) (\<lambda>_. pf_healthy) s"
  unfolding in_all_hashes_def wp_seqE by (intro wp_mono [OF steady_hincr] steady_hincr)

lemma steady_message:
  assumes "pf_healthy s"
  shows "wp (performance_process_message B steady i ts tag) (\<lambda>_. pf_healthy) (\<lambda>_. pf_healthy) s"
proof -
  have "wp (persistence_ingest_event steady i ts) (\<lambda>_. pf_healthy) (\<lambda>_. pf_healthy) u" if "pf_healthy u" for u
    unfolding persistence_ingest_event_def update_counts_for_key_def update_percentages_for_key_def
      update_abs_quote_change_for_key_def wp_bindE wp_getE wp_seqE
    using that by (auto intro!: wp_mono [OF steady_in_all] steady_in_all split: option.split)
  then show ?thesis using assms
    by (auto simp: performance_process_message_def eat_errors_def mongodb_ingest_event_def metrics_ingest_event_def
        steady_def [THEN arg_cong, of pv_ok, simplified])
qed

lemma steady_messages:
  "pf_healthy s \<Longrightarrow> wp (performance_messages B steady ds) (\<lambda>_. pf_healthy) (\<lambda>_. pf_healthy) s"
proof (induction ds arbitrary: s)
  case (Cons d ds)
  then show ?case
    by (cases d) (auto simp: performance_messages_def intro!: wp_mono [OF steady_message])
qed (simp add: performance_messages_def)

lemma demo_healthy: "pf_healthy (snd (performance_messages B steady ds new_performance))"
  using steady_messages [of new_performance B ds] by (simp add: wp_final_iff new_performance_def)

definition demo_deliveries :: "(position_closed_event \<times> int option \<times> nat) list" where
  "demo_deliveries = [(demo_closed (Some 2), None, 1), (demo_closed (Some (- 1)), None, 2), (demo_closed (Some 0), None, 3)]"

lemma demo_wins:
  "length (filter (\<lambda>(i, _). ev_edge i = ''edge70'' \<and> trade_result_of (ev_percentage_quote_change i) = Win) demo_deliveries) = 1"
  by (simp add: demo_deliveries_def demo_closed_def trade_result_of_def)


end
