(* ===== verification/Futures.thy ===== *)
theory Futures
  imports TradeAbstraction
begin

text \<open>
  The futures trade abstraction service (\<open>services/binance/futures/trade-abstraction\<close>): reading of
  commands, the guards of the service, the mapper of edge62 (\<open>edges/edge62/edge62-tas-to-ee-mapper.ts\<close>),
  and the execution engine that enters a short position and protects it with a stop and a take profit
  order.  The exchange's answers are the fields of a parameter \<open>futures_exchange\<close> on the trace.
\<close>

section \<open>The exchange\<close>

record futures_exchange =
  fx_order :: "effect list \<Rightarrow> js_error + futures_resp"
  fx_exchange_info :: "effect list \<Rightarrow> js_error + exchange_info"
  fx_prices :: "effect list \<Rightarrow> js_error + (string \<Rightarrow> rat option)"

definition binance_futures :: exchange_identifier where
  "binance_futures = \<lparr>ei_exchange = ''binance'', ei_type = Futures\<rparr>"

definition futures_order :: "futures_exchange \<Rightarrow> futures_req \<Rightarrow> (world, futures_resp) prog" where
  "futures_order F req = call_out (FuturesOrder req) (fx_order F)"

definition get_futures_exchange_info :: "futures_exchange \<Rightarrow> (world, exchange_info) prog" where
  "get_futures_exchange_info F = call_out GetFuturesExchangeInfo (fx_exchange_info F)"

text \<open>The price getter without its cache; a symbol without a price makes \<open>BigNumber\<close> throw.\<close>

definition get_current_futures_price :: "futures_exchange \<Rightarrow> string \<Rightarrow> (world, rat) prog" where
  "get_current_futures_price F market_symbol =
     bindE (call_out GetFuturesPrices (fx_prices F)) (\<lambda>ps.
       case ps market_symbol of
         None \<Rightarrow> throwE (Err ''[BigNumber Error] Not a number: undefined'')
       | Some p \<Rightarrow> returnE p)"

section \<open>BinanceMunger\<close>

definition futures_munge_and_check_price :: "bignum \<Rightarrow> exchange_info \<Rightarrow> string \<Rightarrow> rat \<Rightarrow> js_error + rat" where
  "futures_munge_and_check_price B exchange_info symbol price =
     (if symbol = [] then Inl (Err ''assert(symbol)'')
      else if price = 0 then Inr price
      else case get_symbol_filters exchange_info symbol of
        Inl e \<Rightarrow> Inl e
      | Inr filters \<Rightarrow>
          (case price_filter filters of
             None \<Rightarrow> Inl (Err ''TypeError: Cannot destructure property tickSize'')
           | Some (tickSize, minPrice) \<Rightarrow>
               (let price = roundTicks B price (js_number tickSize) in
                if price < minPrice then Inl (Err ''does not meet minimum order price (PRICE_FILTER)'')
                else Inr price)))"

definition futures_munge_and_check_quantity :: "bignum \<Rightarrow> exchange_info \<Rightarrow> string \<Rightarrow> rat \<Rightarrow> js_error + rat" where
  "futures_munge_and_check_quantity B exchange_info symbol quantity =
     (if symbol = [] then Inl (Err ''assert(symbol)'')
      else case get_symbol_filters exchange_info symbol of
        Inl e \<Rightarrow> Inl e
      | Inr filters \<Rightarrow>
          (case lot_size_filter filters of
             None \<Rightarrow> Inl (Err ''TypeError: Cannot destructure property stepSize'')
           | Some (stepSize, minQty) \<Rightarrow>
               (let quantity = roundStep B quantity stepSize in
                if quantity < minQty then Inl (Err ''does not meet minimum quantity (LOT_SIZE)'')
                else Inr quantity)))"

section \<open>BinanceFuturesExecutionEngine\<close>

text \<open>\<open>LimitSellByQuoteQuantityWithTPandSLCommand\<close>; the tags of the caller.\<close>

record limit_sell_command =
  ls_order_context :: order_context
  ls_market_identifier :: market_identifier
  ls_quote_amount :: rat
  ls_sell_limit_price :: rat
  ls_take_profit_price :: rat
  ls_stop_price :: rat

record futures_tags =
  ft_base_asset :: string
  ft_quote_asset :: string
  ft_edge :: string

text \<open>\<open>TradeAbstractionOpenShortResult\<close>, the union as one record; \<open>msg\<close> is left out.\<close>

record open_short_result =
  shr_base_asset :: "string option"
  shr_quote_asset :: "string option"
  shr_edge :: "string option"
  shr_status :: tas_status
  shr_http_status :: nat
  shr_err :: "js_error option"
  shr_buy_filled :: "bool option"
  shr_requested_quote_quantity :: "rat option"
  shr_requested_price :: "rat option"
  shr_executed_quote_quantity :: "rat option"
  shr_executed_base_quantity :: "rat option"
  shr_executed_price :: "rat option"
  shr_execution_timestamp_ms :: "int option"
  shr_signal_to_execution_slippage_ms :: "rat option"
  shr_created_stop_order :: "bool option"
  shr_stop_order_id :: "string option"
  shr_created_take_profit_order :: "bool option"
  shr_take_profit_order_id :: "string option"
  shr_retry_after_seconds :: "int option"

definition short_result :: "string option \<Rightarrow> string option \<Rightarrow> string option \<Rightarrow> tas_status \<Rightarrow> nat \<Rightarrow> open_short_result" where
  "short_result base_asset quote_asset edge status http_status =
     \<lparr>shr_base_asset = base_asset, shr_quote_asset = quote_asset, shr_edge = edge, shr_status = status,
      shr_http_status = http_status, shr_err = None, shr_buy_filled = Some False,
      shr_requested_quote_quantity = None, shr_requested_price = None, shr_executed_quote_quantity = None,
      shr_executed_base_quantity = None, shr_executed_price = None, shr_execution_timestamp_ms = None,
      shr_signal_to_execution_slippage_ms = None, shr_created_stop_order = Some False,
      shr_stop_order_id = None, shr_created_take_profit_order = Some False,
      shr_take_profit_order_id = None, shr_retry_after_seconds = None\<rparr>"

definition get_futures_market_identifier_for ::
    "futures_exchange \<Rightarrow> string \<Rightarrow> string \<Rightarrow> (world, market_identifier) prog" where
  "get_futures_market_identifier_for F quote_asset base_asset =
     bindE (get_futures_exchange_info F) (\<lambda>exchange_info.
       case find (\<lambda>s. s_baseAsset s = to_upper base_asset \<and> s_quoteAsset s = to_upper quote_asset) exchange_info of
         None \<Rightarrow> throwE (Err (''NOT_FOUND: No match for symbol '' @ base_asset @ '':'' @ quote_asset @
           '' in exchange_info symbols''))
       | Some match \<Rightarrow> returnE \<lparr>mi_exchange_identifier = binance_futures, mi_base_asset = base_asset,
           mi_quote_asset = Some quote_asset, mi_symbol = s_symbol match\<rparr>)"

definition futures_base_asset_for_symbol :: "futures_exchange \<Rightarrow> string \<Rightarrow> (world, string) prog" where
  "futures_base_asset_for_symbol F symbol =
     bindE (get_futures_exchange_info F) (\<lambda>exchange_info.
       case find (\<lambda>s. s_symbol s = symbol) exchange_info of
         None \<Rightarrow> throwE (Err (''No match for symbol '' @ symbol @ '' in exchange_info symbols''))
       | Some match \<Rightarrow> returnE (s_baseAsset match))"

definition store_futures_order_context :: "env \<Rightarrow> order_context \<Rightarrow> (world, string) prog" where
  "store_futures_order_context E ctx =
     bindE (getE (\<lambda>w. env_uuid E (trace w))) (\<lambda>clientOrderId.
       seqE (set_order_context_for_order E binance_futures clientOrderId ctx) (returnE clientOrderId))"

definition futures_close :: "env \<Rightarrow> futures_tags \<Rightarrow> (world, close_result) prog" where
  "futures_close E tags =
     bindE (now E) (\<lambda>t. returnE
       \<lparr>clr_base_asset = Some (ft_base_asset tags), clr_quote_asset = None, clr_edge = Some (ft_edge tags),
        clr_status = INTERNAL_SERVER_ERROR, clr_http_status = 500, clr_err = Some (Err ''Not implemented: close''),
        clr_execution_timestamp_ms = Some t, clr_signal_to_execution_slippage_ms = None\<rparr>)"

text \<open>
  A quotient by a price of zero is infinite and has no decimal point: cutting its text to the decimals
  of the step leaves no number, so the rounding of the quantity throws (a step of eight decimals, which
  no futures symbol has, would let the word through).
\<close>

definition limit_sell_by_quote_quantity ::
    "bignum \<Rightarrow> env \<Rightarrow> futures_exchange \<Rightarrow> futures_tags \<Rightarrow> limit_sell_command \<Rightarrow> (world, open_short_result) prog" where
  "limit_sell_by_quote_quantity B E F tags cmd =
     (let symbol = mi_symbol (ls_market_identifier cmd);
          result = short_result (Some (ft_base_asset tags)) (Some (ft_quote_asset tags)) (Some (ft_edge tags));
          failure = short_result (Some (ft_base_asset tags)) None (Some (ft_edge tags)) in
      bindE (store_futures_order_context E (ls_order_context cmd)) (\<lambda>clientOrderId.
      bindE (get_futures_exchange_info F) (\<lambda>exchange_info.
      bindE (liftE (futures_munge_and_check_price B exchange_info symbol (ls_sell_limit_price cmd))) (\<lambda>price.
      seqE (assertE (ls_sell_limit_price cmd \<noteq> 0) ''[BigNumber Error] Not a number'')
      (bindE (liftE (futures_munge_and_check_quantity B exchange_info symbol
                (bn_div B (ls_quote_amount cmd) (ls_sell_limit_price cmd)))) (\<lambda>base_amount.
        tryE
          (bindE (futures_order F
              \<lparr>fq_symbol = symbol, fq_side = SELL, fq_type = FUTURES_LIMIT, fq_quantity = Some base_amount,
               fq_price = Some price, fq_stopPrice = None, fq_newClientOrderId = clientOrderId,
               fq_timeInForce = Some ''IOC'', fq_closePosition = False\<rparr>) (\<lambda>buy_order.
             if fr_executedQty buy_order = 0
             then returnE ((result ENTRY_FAILED_TO_FILL 200)
                    \<lparr>shr_execution_timestamp_ms := Some (fr_updateTime buy_order)\<rparr>)
             else returnE ((result SUCCESS 201)
                    \<lparr>shr_execution_timestamp_ms := Some (fr_updateTime buy_order), shr_buy_filled := Some True,
                     shr_requested_quote_quantity := Some base_amount,
                     shr_executed_quote_quantity := Some (fr_cumQuote buy_order),
                     shr_executed_base_quantity := Some (fr_executedQty buy_order),
                     shr_requested_price := Some price, shr_executed_price := Some (fr_avgPrice buy_order)\<rparr>)))
          (\<lambda>err. bindE (now E) (\<lambda>t.
             if too_many_new_orders err
             then returnE ((failure TOO_MANY_REQUESTS 429)
                    \<lparr>shr_err := Some err, shr_execution_timestamp_ms := Some t, shr_retry_after_seconds := Some 11\<rparr>)
             else if contains ''Account has insufficient balance for requested action'' (err_message err)
             then returnE ((failure INSUFFICIENT_BALANCE 402)\<lparr>shr_execution_timestamp_ms := Some t\<rparr>)
             else returnE ((failure INTERNAL_SERVER_ERROR 500)
                    \<lparr>shr_err := Some err, shr_execution_timestamp_ms := Some t, shr_buy_filled := None\<rparr>)))))))))"

text \<open>\<open>execute_with_429_retries\<close> of this engine looks for a shorter text.\<close>

definition too_many :: "js_error \<Rightarrow> bool" where
  "too_many err \<longleftrightarrow> contains ''Too many'' (err_message err)"

fun futures_retry_loop :: "nat \<Rightarrow> (world, 'a) prog \<Rightarrow> (world, 'a) prog" where
  "futures_retry_loop 0 func = throwE (Err ''Should not reach here'')"
| "futures_retry_loop (Suc allowed_retries) func =
     tryE func (\<lambda>err.
       if allowed_retries = 0 then throwE err
       else if too_many err then seqE (emit (Sleep (11 * 1000))) (futures_retry_loop allowed_retries func)
       else throwE err)"

text \<open>The two exit orders differ in their type and their price.\<close>

definition create_exit_order ::
    "bignum \<Rightarrow> env \<Rightarrow> futures_exchange \<Rightarrow> exchange_info \<Rightarrow> limit_sell_command \<Rightarrow> futures_order_type \<Rightarrow> rat \<Rightarrow>
     (world, futures_resp) prog" where
  "create_exit_order B E F exchange_info cmd type price =
     (let symbol = mi_symbol (ls_market_identifier cmd) in
      bindE (store_futures_order_context E (ls_order_context cmd)) (\<lambda>clientOrderId.
      bindE (liftE (futures_munge_and_check_price B exchange_info symbol price)) (\<lambda>stopPrice.
        futures_retry_loop 3 (futures_order F
          \<lparr>fq_symbol = symbol, fq_side = BUY, fq_type = type, fq_quantity = None, fq_price = None,
           fq_stopPrice = Some stopPrice, fq_newClientOrderId = clientOrderId, fq_timeInForce = None,
           fq_closePosition = True\<rparr>))))"

definition limit_sell_by_quote_quantity_with_market_tp_and_sl ::
    "bignum \<Rightarrow> env \<Rightarrow> futures_exchange \<Rightarrow> futures_tags \<Rightarrow> limit_sell_command \<Rightarrow> (world, open_short_result) prog" where
  "limit_sell_by_quote_quantity_with_market_tp_and_sl B E F tags cmd =
     bindE (limit_sell_by_quote_quantity B E F tags cmd) (\<lambda>buy_result.
       if shr_status buy_result \<noteq> SUCCESS then returnE buy_result
       else
         bindE (get_futures_exchange_info F) (\<lambda>exchange_info.
         bindE (create_exit_order B E F exchange_info cmd STOP_MARKET (ls_stop_price cmd)) (\<lambda>_.
         bindE (create_exit_order B E F exchange_info cmd TAKE_PROFIT_MARKET (ls_take_profit_price cmd)) (\<lambda>_.
           returnE (buy_result\<lparr>shr_created_stop_order := Some True, shr_created_take_profit_order := Some True\<rparr>)))))"

section \<open>The mapper\<close>

record open_short_command =
  sc_base_asset :: string
  sc_edge :: string
  sc_direction :: string
  sc_action :: string
  sc_trigger_price :: "string option"
  sc_signal_timestamp_ms :: "rat option"

definition map_tas_to_ee_cmd_short ::
    "bignum \<Rightarrow> futures_exchange \<Rightarrow> open_short_command \<Rightarrow> order_context \<Rightarrow> rat \<Rightarrow> rat \<Rightarrow> string \<Rightarrow>
     (world, limit_sell_command) prog" where
  "map_tas_to_ee_cmd_short B F tas_cmd order_context trigger_price quote_amount quote_asset =
     (let stop_price = trigger_price * bn_div B (100 + 7) 100;
          take_profit_price = trigger_price * bn_div B (100 - 7) 100;
          sell_limit_price = trigger_price * bn_div B (100 - 1 / 2) 100 in
      bindE (get_futures_market_identifier_for F quote_asset (sc_base_asset tas_cmd)) (\<lambda>market_identifier.
        returnE \<lparr>ls_order_context = order_context, ls_market_identifier = market_identifier,
          ls_quote_amount = quote_amount, ls_sell_limit_price = sell_limit_price,
          ls_take_profit_price = take_profit_price, ls_stop_price = stop_price\<rparr>))"

definition futures_trigger_price :: "bignum \<Rightarrow> futures_exchange \<Rightarrow> string \<Rightarrow> open_short_command \<Rightarrow> (world, rat) prog" where
  "futures_trigger_price B F quote_asset tas_cmd =
     (if truthy (sc_trigger_price tas_cmd)
      then (case bn_parse B (the (sc_trigger_price tas_cmd)) of
              Some p \<Rightarrow> returnE p | None \<Rightarrow> throwE (Err ''[BigNumber Error] Not a number''))
      else
        bindE (get_futures_market_identifier_for F quote_asset (sc_base_asset tas_cmd)) (\<lambda>market_identifier.
          get_current_futures_price F (mi_symbol market_identifier)))"

definition mapper_short ::
    "bignum \<Rightarrow> env \<Rightarrow> futures_exchange \<Rightarrow> string \<Rightarrow> open_short_command \<Rightarrow> (world, open_short_result) prog" where
  "mapper_short B E F quote_asset tas_cmd =
     (let base_asset = sc_base_asset tas_cmd; edge = sc_edge tas_cmd in
      tryE
        (bindE (liftE (check_edge (Some edge))) (\<lambda>edge.
           if quote_asset = [] then throwE (Err ''quote_asset not defined'')
           else if edge = ''edge62''
           then
             bindE (getE (\<lambda>w. env_uuid E (trace w))) (\<lambda>trade_id.
             bindE (futures_trigger_price B F quote_asset tas_cmd) (\<lambda>trigger_price.
             bindE (map_tas_to_ee_cmd_short B F tas_cmd \<lparr>oc_edge = edge, oc_trade_id = Some trade_id\<rparr> trigger_price
                      (fixed_position_size edge ShortTrade) quote_asset) (\<lambda>cmd.
               limit_sell_by_quote_quantity_with_market_tp_and_sl B E F
                 \<lparr>ft_base_asset = base_asset, ft_quote_asset = quote_asset, ft_edge = edge\<rparr> cmd)))
           else
             bindE (now E) (\<lambda>t.
               returnE ((short_result (Some base_asset) (Some quote_asset) (Some edge) BAD_INPUTS 400)
                 \<lparr>shr_err := Some (Err ''BAD_INPUTS: TAS does not know how to process short on this edge''),
                  shr_execution_timestamp_ms := Some t\<rparr>))))
        (\<lambda>err. bindE (now E) (\<lambda>t.
           if is_prefix_of ''NOT_FOUND:'' (err_message err)
           then returnE ((short_result (Some base_asset) (Some quote_asset) None NOT_FOUND 404)
                  \<lparr>shr_err := Some err, shr_execution_timestamp_ms := Some t\<rparr>)
           else returnE ((short_result (Some base_asset) (Some quote_asset) (Some edge) INTERNAL_SERVER_ERROR 500)
                  \<lparr>shr_err := Some err, shr_execution_timestamp_ms := Some t, shr_buy_filled := None,
                   shr_created_stop_order := None, shr_created_take_profit_order := None\<rparr>))))"

section \<open>FuturesTradeAbstractionService\<close>

definition annotate_short :: "open_short_command \<Rightarrow> open_short_result \<Rightarrow> open_short_result" where
  "annotate_short cmd result =
     result\<lparr>shr_created_stop_order := Some (truthy (shr_stop_order_id result)),
       shr_created_take_profit_order := Some (truthy (shr_take_profit_order_id result)),
       shr_signal_to_execution_slippage_ms :=
         (case shr_execution_timestamp_ms result of
            Some t \<Rightarrow> if t \<noteq> 0 then slippage t (sc_signal_timestamp_ms cmd) else None
          | None \<Rightarrow> None)\<rparr>"

definition futures_short ::
    "bignum \<Rightarrow> env \<Rightarrow> futures_exchange \<Rightarrow> string \<Rightarrow> open_short_command \<Rightarrow> (world, open_short_result) prog" where
  "futures_short B E F quote_asset cmd =
     seqE (assertE (sc_direction cmd = ''short'') ''assert.equal(cmd.direction, short)'')
     (seqE (assertE (sc_action cmd = ''open'') ''assert.equal(cmd.action, open)'')
     (let unauthorised = (\<lambda>msg. (short_result (Some (sc_base_asset cmd)) (Some quote_asset) (Some (sc_edge cmd)) UNAUTHORISED 403)
            \<lparr>shr_err := Some (Err msg)\<rparr>) in
      if \<not> is_authorised_edge (sc_edge cmd) then returnE (unauthorised ''UnauthorisedEdge'')
      else if sc_base_asset cmd \<in> set disallowed_base_assets_for_entry
      then returnE (unauthorised ''Opening position is explicity disallowed'')
      else
        bindE (liftE (check_edge (Some (sc_edge cmd)))) (\<lambda>_.
        bindE (mapper_short B E F quote_asset cmd) (\<lambda>result. returnE (annotate_short cmd result)))))"

text \<open>\<open>close\<close> is not implemented and always throws, so does the listing of open positions.\<close>

definition futures_service_close :: "close_command \<Rightarrow> (world, close_result) prog" where
  "futures_service_close cmd = throwE (Err ''close Not implemented'')"

definition futures_open_positions :: "(world, position_identifier list) prog" where
  "futures_open_positions = throwE (Err ''Not implemented'')"

section \<open>Query parameters\<close>

record checked_inputs =
  ci_edge :: string
  ci_base_asset :: string
  ci_signal_timestamp_ms :: "rat option"
  ci_trigger_price :: "string option"

definition check_inputs :: "request \<Rightarrow> int \<Rightarrow> js_error + checked_inputs" where
  "check_inputs req date_now =
     (case req ''edge'' of
        PString edge _ \<Rightarrow>
          (case req ''trigger_price'' of
             POther \<Rightarrow> Inl (Err ''InputChecking: typeof trigger_price unexpected'')
           | trigger \<Rightarrow>
               (case req ''base_asset'' of
                  PString base_asset _ \<Rightarrow>
                    (case req ''signal_timestamp_ms'' of
                       POther \<Rightarrow> Inl (Err ''InputChecking: typeof signal_timestamp_ms unexpected'')
                     | stamp \<Rightarrow> Inr
                         \<lparr>ci_edge = edge, ci_base_asset = base_asset,
                          ci_signal_timestamp_ms =
                            (case stamp of PString s _ \<Rightarrow> js_number s | _ \<Rightarrow> Some (of_int date_now)),
                          ci_trigger_price = (case trigger of PString s _ \<Rightarrow> Some s | _ \<Rightarrow> None)\<rparr>)
                | _ \<Rightarrow> Inl (Err ''InputChecking: typeof base_asset unexpected'')))
      | _ \<Rightarrow> Inl (Err ''InputChecking: typeof edge unexpected''))"

definition futures_query_close :: "request \<Rightarrow> int \<Rightarrow> string \<Rightarrow> int \<Rightarrow> close_result + close_command" where
  "futures_query_close req cmd_received_timestamp_ms quote_asset date_now =
     (case check_inputs req date_now of
        Inl err \<Rightarrow> Inl \<lparr>clr_base_asset = None, clr_quote_asset = Some quote_asset, clr_edge = None,
          clr_status = BAD_INPUTS, clr_http_status = 400, clr_err = Some err,
          clr_execution_timestamp_ms = Some cmd_received_timestamp_ms,
          clr_signal_to_execution_slippage_ms = None\<rparr>
      | Inr i \<Rightarrow> Inr \<lparr>cc_base_asset = ci_base_asset i, cc_edge = ci_edge i, cc_action = ''close'',
          cc_signal_timestamp_ms = ci_signal_timestamp_ms i, cc_trigger_price = ci_trigger_price i\<rparr>)"

definition futures_query_short :: "request \<Rightarrow> int \<Rightarrow> string \<Rightarrow> int \<Rightarrow> open_short_result + open_short_command" where
  "futures_query_short req cmd_received_timestamp_ms quote_asset date_now =
     (case check_inputs req date_now of
        Inl err \<Rightarrow> Inl ((short_result None (Some quote_asset) None BAD_INPUTS 400)
          \<lparr>shr_err := Some err, shr_execution_timestamp_ms := Some cmd_received_timestamp_ms\<rparr>)
      | Inr i \<Rightarrow> Inr \<lparr>sc_base_asset = ci_base_asset i, sc_edge = ci_edge i, sc_direction = ''short'',
          sc_action = ''open'', sc_trigger_price = ci_trigger_price i,
          sc_signal_timestamp_ms = ci_signal_timestamp_ms i\<rparr>)"

section \<open>The orders of a short\<close>

text \<open>The futures orders the exchange accepted, the latest first.\<close>

fun futures_deals :: "futures_exchange \<Rightarrow> effect list \<Rightarrow> (futures_req \<times> futures_resp) list" where
  "futures_deals F [] = []"
| "futures_deals F (FuturesOrder q # h) =
     (case fx_order F (FuturesOrder q # h) of Inr r \<Rightarrow> (q, r) # futures_deals F h | Inl _ \<Rightarrow> futures_deals F h)"
| "futures_deals F (_ # h) = futures_deals F h"

definition no_futures_deals :: "futures_exchange \<Rightarrow> world \<Rightarrow> world \<Rightarrow> bool" where
  "no_futures_deals F w t \<longleftrightarrow> futures_deals F (trace t) = futures_deals F (trace w)"

lemma no_futures_deals_refl [simp]: "reflp (no_futures_deals F)" and no_futures_deals_trans [simp]: "transp (no_futures_deals F)"
  by (simp_all add: reflp_def transp_def no_futures_deals_def)

named_theorems still_intros

lemmas still_basic [still_intros] =
  keeps_returnE [OF no_futures_deals_refl] keeps_throwE [OF no_futures_deals_refl] keeps_getE [OF no_futures_deals_refl]
  keeps_liftE [OF no_futures_deals_refl] keeps_assertE [OF no_futures_deals_refl]
  keeps_bindE [OF no_futures_deals_trans] keeps_seqE [OF no_futures_deals_trans] keeps_tryE [OF no_futures_deals_trans]

lemma still_redis_call [still_intros]:
  assumes "keeps (no_futures_deals F) m"
  shows "keeps (no_futures_deals F) (redis_call E c m)"
proof -
  have "keeps (no_futures_deals F) (emit (Redis c))" by (simp add: keeps_wp no_futures_deals_def)
  then show ?thesis unfolding redis_call_def
    by (intro still_intros) (auto split: redis_fault.split intro!: still_intros assms)
qed

lemma still_store [still_intros]: "keeps (no_futures_deals F) (modifyE (\<lambda>w. w\<lparr>store := f w\<rparr>))"
  by (simp add: keeps_wp no_futures_deals_def)

lemma still_calls [still_intros]:
  "keeps (no_futures_deals F) (get_futures_exchange_info F')" "keeps (no_futures_deals F) (now E)"
  "keeps (no_futures_deals F) (call_out GetFuturesPrices a)"
  by (auto simp: keeps_wp no_futures_deals_def get_futures_exchange_info_def split: sum.split)

lemma still_context [still_intros]: "keeps (no_futures_deals F) (store_futures_order_context E ctx)"
  unfolding store_futures_order_context_def set_order_context_for_order_def redis_set_def
  by (auto intro!: still_intros)

lemma still_identifier [still_intros]: "keeps (no_futures_deals F) (get_futures_market_identifier_for F' q b)"
  unfolding get_futures_market_identifier_for_def by (auto intro!: still_intros split: option.split)

lemma still_trigger_price [still_intros]: "keeps (no_futures_deals F) (futures_trigger_price B F' q cmd)"
  unfolding futures_trigger_price_def get_current_futures_price_def
  by (auto intro!: still_intros split: option.split)

lemma wp_still:
  assumes "keeps (no_futures_deals F) m" "futures_deals F (trace w) = D"
    and "\<And>x t. futures_deals F (trace t) = D \<Longrightarrow> Q x t" "\<And>e t. futures_deals F (trace t) = D \<Longrightarrow> R e t"
  shows "wp m Q R w"
proof -
  have "wp m (\<lambda>_. no_futures_deals F w) (\<lambda>_. no_futures_deals F w) w" using assms(1) by (simp add: keeps_wp)
  then show ?thesis by (rule wp_mono) (simp_all add: assms no_futures_deals_def)
qed

text \<open>The entry and the exit orders of a command.\<close>

definition entry_order :: "bignum \<Rightarrow> limit_sell_command \<Rightarrow> futures_req \<Rightarrow> bool" where
  "entry_order B cmd q \<longleftrightarrow> fq_symbol q = mi_symbol (ls_market_identifier cmd) \<and> fq_side q = SELL \<and>
     fq_type q = FUTURES_LIMIT \<and> fq_timeInForce q = Some ''IOC'' \<and> \<not> fq_closePosition q \<and>
     (\<exists>ei. Inr (the (fq_price q)) = futures_munge_and_check_price B ei (fq_symbol q) (ls_sell_limit_price cmd) \<and>
        Inr (the (fq_quantity q)) = futures_munge_and_check_quantity B ei (fq_symbol q)
          (bn_div B (ls_quote_amount cmd) (ls_sell_limit_price cmd)))"

definition exit_order :: "bignum \<Rightarrow> limit_sell_command \<Rightarrow> futures_order_type \<Rightarrow> rat \<Rightarrow> futures_req \<Rightarrow> bool" where
  "exit_order B cmd type price q \<longleftrightarrow> fq_symbol q = mi_symbol (ls_market_identifier cmd) \<and> fq_side q = BUY \<and>
     fq_type q = type \<and> fq_closePosition q \<and>
     (\<exists>ei. Inr (the (fq_stopPrice q)) = futures_munge_and_check_price B ei (fq_symbol q) price)"

lemma wp_futures_order:
  assumes "futures_deals F (trace w) = D"
  shows "wp (futures_order F q) (\<lambda>r t. futures_deals F (trace t) = (q, r) # D) (\<lambda>_ t. futures_deals F (trace t) = D) w"
  using assms by (auto simp: futures_order_def split: sum.split)

lemma wp_futures_retries:
  "futures_deals F (trace w) = D \<Longrightarrow>
   wp (futures_retry_loop n (futures_order F q)) (\<lambda>r t. futures_deals F (trace t) = (q, r) # D)
     (\<lambda>_ t. futures_deals F (trace t) = D) w"
proof (induction n arbitrary: w)
  case (Suc n)
  show ?case
    unfolding futures_retry_loop.simps wp_tryE
    by (rule wp_mono [OF wp_futures_order [OF Suc.prems]]) (simp_all add: Suc.IH)
qed simp

lemma wp_exit_retries:
  assumes "futures_deals F (trace w) = D" "exit_order B cmd type price q"
  shows "wp (futures_retry_loop n (futures_order F q))
    (\<lambda>_ t. \<exists>q r. futures_deals F (trace t) = (q, r) # D \<and> exit_order B cmd type price q)
    (\<lambda>_ t. futures_deals F (trace t) = D) w"
  by (rule wp_mono [OF wp_futures_retries [OF assms(1)]]) (use assms(2) in blast)+

lemma wp_create_exit_order:
  assumes "futures_deals F (trace w) = D"
  shows "wp (create_exit_order B E F ei cmd type price)
    (\<lambda>_ t. \<exists>q r. futures_deals F (trace t) = (q, r) # D \<and> exit_order B cmd type price q)
    (\<lambda>_ t. futures_deals F (trace t) = D) w"
  unfolding create_exit_order_def Let_def wp_bindE
proof (rule wp_still [OF still_context assms], goal_cases)
  case (1 i t)
  show ?case
  proof (cases "futures_munge_and_check_price B ei (mi_symbol (ls_market_identifier cmd)) price")
    case (Inr p)
    then have "exit_order B cmd type price \<lparr>fq_symbol = mi_symbol (ls_market_identifier cmd), fq_side = BUY,
        fq_type = type, fq_quantity = None, fq_price = None, fq_stopPrice = Some p, fq_newClientOrderId = i,
        fq_timeInForce = None, fq_closePosition = True\<rparr>"
      by (auto simp: exit_order_def intro: exI [of _ ei])
    from wp_exit_retries [OF 1 this] show ?thesis by (simp add: Inr)
  qed (use 1 in simp)
qed

text \<open>What the result of the entry says about its order.\<close>

definition entered :: "bignum \<Rightarrow> limit_sell_command \<Rightarrow> open_short_result \<Rightarrow> (futures_req \<times> futures_resp) list \<Rightarrow>
    (futures_req \<times> futures_resp) list \<Rightarrow> bool" where
  "entered B cmd r D D' \<longleftrightarrow> shr_stop_order_id r = None \<and> shr_take_profit_order_id r = None \<and>
     (if shr_status r = SUCCESS
      then shr_http_status r = 201 \<and> (\<exists>q x. D' = (q, x) # D \<and> entry_order B cmd q \<and> fr_executedQty x \<noteq> 0)
      else if shr_status r = ENTRY_FAILED_TO_FILL
      then shr_http_status r = 200 \<and> (\<exists>q x. D' = (q, x) # D \<and> entry_order B cmd q \<and> fr_executedQty x = 0)
      else D' = D)"

lemma wp_limit_sell:
  assumes "futures_deals F (trace w) = D"
  shows "wp (limit_sell_by_quote_quantity B E F tags cmd) (\<lambda>r t. entered B cmd r D (futures_deals F (trace t)))
    (\<lambda>_ t. futures_deals F (trace t) = D) w"
  unfolding limit_sell_by_quote_quantity_def Let_def wp_bindE wp_seqE
proof (rule wp_still [OF still_context assms], goal_cases)
  case (1 i t)
  show ?case
  proof (rule wp_still [OF still_calls(1) 1], goal_cases)
    case (1 ei u)
    let ?s = "mi_symbol (ls_market_identifier cmd)"
    let ?p = "futures_munge_and_check_price B ei ?s (ls_sell_limit_price cmd)"
    let ?n = "futures_munge_and_check_quantity B ei ?s (bn_div B (ls_quote_amount cmd) (ls_sell_limit_price cmd))"
    show ?case
    proof (cases "\<exists>p n. ?p = Inr p \<and> ?n = Inr n")
      case True
      then obtain p n where pn: "?p = Inr p" "?n = Inr n" by blast
      let ?q = "\<lparr>fq_symbol = ?s, fq_side = SELL, fq_type = FUTURES_LIMIT, fq_quantity = Some n, fq_price = Some p,
         fq_stopPrice = None, fq_newClientOrderId = i, fq_timeInForce = Some ''IOC'', fq_closePosition = False\<rparr>"
      have "entry_order B cmd ?q" using pn by (auto simp: entry_order_def intro: exI [of _ ei])
      then show ?thesis
        using 1 by (auto simp: pn short_result_def entered_def intro!: wp_mono [OF wp_futures_order [OF 1]])
    qed (use 1 in \<open>auto split: sum.splits\<close>)
  qed
qed

text \<open>The orders of an entry and its exits, and what the answer to the caller says.\<close>

definition protected_orders :: "bignum \<Rightarrow> limit_sell_command \<Rightarrow> (futures_req \<times> futures_resp) list \<Rightarrow> bool" where
  "protected_orders B cmd new \<longleftrightarrow> (\<exists>e x s y p z. new = [(p, z), (s, y), (e, x)] \<and> entry_order B cmd e \<and>
     fr_executedQty x \<noteq> 0 \<and> exit_order B cmd STOP_MARKET (ls_stop_price cmd) s \<and>
     exit_order B cmd TAKE_PROFIT_MARKET (ls_take_profit_price cmd) p)"

definition unfilled_orders :: "bignum \<Rightarrow> limit_sell_command \<Rightarrow> (futures_req \<times> futures_resp) list \<Rightarrow> bool" where
  "unfilled_orders B cmd new \<longleftrightarrow> (\<exists>e x. new = [(e, x)] \<and> entry_order B cmd e \<and> fr_executedQty x = 0)"

definition unprotected_orders :: "bignum \<Rightarrow> limit_sell_command \<Rightarrow> (futures_req \<times> futures_resp) list \<Rightarrow> bool" where
  "unprotected_orders B cmd new \<longleftrightarrow> (\<exists>e x. entry_order B cmd e \<and> fr_executedQty x \<noteq> 0 \<and>
     (new = [(e, x)] \<or> (\<exists>s y. new = [(s, y), (e, x)] \<and> exit_order B cmd STOP_MARKET (ls_stop_price cmd) s)))"

lemmas order_groups = protected_orders_def unfilled_orders_def unprotected_orders_def

definition short_settled :: "bignum \<Rightarrow> limit_sell_command \<Rightarrow> open_short_result \<Rightarrow> (futures_req \<times> futures_resp) list \<Rightarrow> bool" where
  "short_settled B cmd r new \<longleftrightarrow> shr_stop_order_id r = None \<and> shr_take_profit_order_id r = None \<and>
     (if shr_status r = SUCCESS then shr_http_status r = 201 \<and> protected_orders B cmd new
      else if shr_status r = ENTRY_FAILED_TO_FILL then shr_http_status r = 200 \<and> unfilled_orders B cmd new
      else new = [])"

lemma wp_limit_sell_with_exits:
  assumes "futures_deals F (trace w) = D"
  shows "wp (limit_sell_by_quote_quantity_with_market_tp_and_sl B E F tags cmd)
    (\<lambda>r t. \<exists>new. futures_deals F (trace t) = new @ D \<and> short_settled B cmd r new)
    (\<lambda>_ t. \<exists>new. futures_deals F (trace t) = new @ D \<and> (new = [] \<or> unprotected_orders B cmd new)) w"
  unfolding limit_sell_by_quote_quantity_with_market_tp_and_sl_def wp_bindE
proof (rule wp_mono [OF wp_limit_sell [OF assms]], goal_cases)
  case (1 r t)
  show ?case
  proof (cases "shr_status r = SUCCESS")
    case True
    with 1 obtain e x where r: "shr_http_status r = 201" "shr_stop_order_id r = None" "shr_take_profit_order_id r = None"
        and D1: "futures_deals F (trace t) = (e, x) # D" and e: "entry_order B cmd e" "fr_executedQty x \<noteq> 0"
      by (auto simp: entered_def)
    have one: "unprotected_orders B cmd [(e, x)]"
      using e by (auto simp: unprotected_orders_def)
    have two: "unprotected_orders B cmd [(s, y), (e, x)]"
      if "exit_order B cmd STOP_MARKET (ls_stop_price cmd) s" for s y
      using e that by (auto simp: unprotected_orders_def)
    have three: "short_settled B cmd (r\<lparr>shr_created_stop_order := Some True, shr_created_take_profit_order := Some True\<rparr>)
        [(p, z), (s, y), (e, x)]"
      if "exit_order B cmd STOP_MARKET (ls_stop_price cmd) s" "exit_order B cmd TAKE_PROFIT_MARKET (ls_take_profit_price cmd) p" for s y p z
      using True r e that by (auto simp: short_settled_def protected_orders_def)
    show ?thesis
      using True by (auto simp: one two three intro!: wp_still [OF still_calls(1) D1]
          wp_mono [OF wp_create_exit_order])
  qed (use 1 in \<open>auto simp: entered_def short_settled_def unfilled_orders_def split: if_splits\<close>)
qed (auto)

text \<open>A command of edge62 at a trigger price: entry half a percent below it, exits seven percent away.\<close>

definition edge62_command :: "bignum \<Rightarrow> rat \<Rightarrow> limit_sell_command \<Rightarrow> bool" where
  "edge62_command B trigger_price cmd \<longleftrightarrow> ls_quote_amount cmd = 600 \<and>
     ls_sell_limit_price cmd = trigger_price * bn_div B (100 - 1 / 2) 100 \<and>
     ls_stop_price cmd = trigger_price * bn_div B (100 + 7) 100 \<and>
     ls_take_profit_price cmd = trigger_price * bn_div B (100 - 7) 100"

definition short_outcome :: "bignum \<Rightarrow> open_short_result \<Rightarrow> (futures_req \<times> futures_resp) list \<Rightarrow> bool" where
  "short_outcome B r new \<longleftrightarrow> shr_stop_order_id r = None \<and> shr_take_profit_order_id r = None \<and>
     (if shr_status r = SUCCESS
      then shr_http_status r = 201 \<and> (\<exists>T cmd. edge62_command B T cmd \<and> protected_orders B cmd new)
      else if shr_status r = ENTRY_FAILED_TO_FILL
      then shr_http_status r = 200 \<and> (\<exists>T cmd. edge62_command B T cmd \<and> unfilled_orders B cmd new)
      else new = [] \<or> shr_status r \<in> {INTERNAL_SERVER_ERROR, NOT_FOUND} \<and>
        (\<exists>T cmd. edge62_command B T cmd \<and> unprotected_orders B cmd new))"

lemma wp_map_tas_to_ee_cmd_short:
  assumes "futures_deals F (trace w) = D"
  shows "wp (map_tas_to_ee_cmd_short B F cmd ctx T 600 q)
    (\<lambda>c t. edge62_command B T c \<and> futures_deals F (trace t) = D) (\<lambda>_ t. futures_deals F (trace t) = D) w"
  unfolding map_tas_to_ee_cmd_short_def Let_def wp_bindE
  by (rule wp_still [OF still_identifier assms]) (simp_all add: edge62_command_def)

lemma wp_edge62_short:
  assumes "futures_deals F (trace w) = D"
  shows "wp (bindE (futures_trigger_price B F q cmd) (\<lambda>T.
      bindE (map_tas_to_ee_cmd_short B F cmd ctx T 600 q) (limit_sell_by_quote_quantity_with_market_tp_and_sl B E F tags)))
    (\<lambda>r t. \<exists>new. futures_deals F (trace t) = new @ D \<and> short_outcome B r new)
    (\<lambda>_ t. \<exists>new. futures_deals F (trace t) = new @ D \<and>
       (new = [] \<or> (\<exists>T c. edge62_command B T c \<and> unprotected_orders B c new))) w"
  unfolding wp_bindE
proof (rule wp_still [OF still_trigger_price assms], goal_cases)
  case (1 T t)
  show ?case
  proof (rule wp_mono [OF wp_map_tas_to_ee_cmd_short [OF 1]], goal_cases)
    case (1 c u)
    have "short_outcome B r new" if "short_settled B c r new" for r new
      using that 1 by (auto simp: short_settled_def short_outcome_def split: if_splits)
    then show ?case using 1 by (auto intro!: wp_mono [OF wp_limit_sell_with_exits])
  qed auto
qed auto

lemma wp_mapper_short:
  assumes "futures_deals F (trace w) = D"
  shows "wp (mapper_short B E F q cmd)
    (\<lambda>r t. \<exists>new. futures_deals F (trace t) = new @ D \<and> short_outcome B r new) (\<lambda>_ _. False) w"
proof -
  define Q where "Q = (\<lambda>r (t::world). \<exists>new. futures_deals F (trace t) = new @ D \<and> short_outcome B r new)"
  define R where "R = (\<lambda>t::world. \<exists>new. futures_deals F (trace t) = new @ D \<and>
      (new = [] \<or> (\<exists>T c. edge62_command B T c \<and> unprotected_orders B c new)))"
  have size: "fixed_position_size ''edge62'' ShortTrade = 600" by (simp add: fixed_position_size_def)
  have R: "R w" using assms by (auto simp: R_def)
  have body: "wp (bindE (futures_trigger_price B F q cmd) (\<lambda>T.
      bindE (map_tas_to_ee_cmd_short B F cmd ctx T 600 q) (limit_sell_by_quote_quantity_with_market_tp_and_sl B E F tags)))
      Q (\<lambda>_. R) w" for ctx tags
    by (rule wp_mono [OF wp_edge62_short [OF assms]]) (auto simp: Q_def R_def)
  have bad: "Q (short_result b' q' e' BAD_INPUTS 400\<lparr>shr_err := x, shr_execution_timestamp_ms := y\<rparr>) w = True" for b' q' e' x y
    using assms by (auto simp: Q_def short_outcome_def short_result_def)
  have lift: "wp (bindE (liftE (Inl e)) k) Q S w = wp (throwE e) Q S w"
      "wp (bindE (liftE (Inr x)) l) Q S w = wp (l x) Q S w" for e k x l S by simp_all
  show ?thesis
    unfolding Q_def [symmetric] mapper_short_def Let_def wp_tryE
  proof (rule wp_mono [where Q = Q and R = "\<lambda>_. R"], goal_cases)
    case 1
    show ?case
      by (cases "check_edge (Some (sc_edge cmd))")
        (auto simp: lift size R bad wp_bindE [of "now E"] wp_bindE [of "getE f" for f] simp del: wp_bindE intro: body)
  qed (auto simp: Q_def R_def short_outcome_def short_result_def)
qed

lemma short_outcome_annotate: "short_outcome B (annotate_short cmd r) new \<longleftrightarrow> short_outcome B r new"
  by (simp add: short_outcome_def annotate_short_def)

lemma short_outcome_flags: "short_outcome B r new \<Longrightarrow> shr_created_stop_order (annotate_short cmd r) = Some False \<and>
    shr_created_take_profit_order (annotate_short cmd r) = Some False"
  by (simp add: short_outcome_def annotate_short_def truthy_def)

lemma wp_annotated_short:
  assumes "futures_deals F (trace w) = D"
  shows "wp (bindE (mapper_short B E F q cmd) (\<lambda>r. returnE (annotate_short cmd r)))
    (\<lambda>r t. \<exists>new. futures_deals F (trace t) = new @ D \<and> short_outcome B r new \<and>
       shr_created_stop_order r = Some False \<and> shr_created_take_profit_order r = Some False) (\<lambda>_ _. False) w"
  unfolding wp_bindE
  by (rule wp_mono [OF wp_mapper_short [OF assms]])
    (auto simp: short_outcome_annotate dest: short_outcome_flags [where cmd = cmd])

section \<open>Properties\<close>


text \<open>An exchange that fills every order, and a command of edge62.\<close>

definition demo_futures :: futures_exchange where
  "demo_futures = \<lparr>
     fx_order = (\<lambda>_. Inr \<lparr>fr_updateTime = 1, fr_executedQty = 6, fr_cumQuote = 594, fr_avgPrice = 99\<rparr>),
     fx_exchange_info = (\<lambda>_. Inr demo_exchange_info), fx_prices = (\<lambda>_. Inr (\<lambda>_. Some 100))\<rparr>"

definition demo_short :: open_short_command where
  "demo_short = \<lparr>sc_base_asset = ''ETH'', sc_edge = ''edge62'', sc_direction = ''short'', sc_action = ''open'',
     sc_trigger_price = None, sc_signal_timestamp_ms = Some 0\<rparr>"

lemma demo_prices:
  "bn_div ref_bignum (199 / 2) 100 = 199 / 200" "bn_div ref_bignum 107 100 = 107 / 100" "bn_div ref_bignum 93 100 = 93 / 100"
  by code_simp+

lemma demo_munged:
  "futures_munge_and_check_price ref_bignum demo_exchange_info ''ETHUSDT'' (199 / 2) = Inr 100"
  "futures_munge_and_check_price ref_bignum demo_exchange_info ''ETHUSDT'' 107 = Inr 107"
  "futures_munge_and_check_price ref_bignum demo_exchange_info ''ETHUSDT'' 93 = Inr 93"
  "futures_munge_and_check_quantity ref_bignum demo_exchange_info ''ETHUSDT'' (bn_div ref_bignum 600 (199 / 2)) = Inr 6"
  by code_simp+

lemma demo_identifier:
  "find (\<lambda>s. s_baseAsset s = to_upper ''ETH'' \<and> s_quoteAsset s = to_upper ''USDT'') demo_exchange_info = Some (hd demo_exchange_info)"
  "s_symbol (hd demo_exchange_info) = ''ETHUSDT''"
  by code_simp+

lemma demo_short_allowed:
  "is_authorised_edge ''edge62''" "check_edge (Some ''edge62'') = Inr ''edge62''"
  "''ETH'' \<notin> set disallowed_base_assets_for_entry"
  by code_simp+

lemma demo_short_succeeds:
  "wp (futures_short ref_bignum (quiet_env []) demo_futures ''USDT'' demo_short) (\<lambda>r _. shr_status r = SUCCESS)
     (\<lambda>_ _. False) empty_world"
  by (simp add: futures_short_def mapper_short_def annotate_short_def Let_def demo_short_allowed demo_short_def
      futures_trigger_price_def map_tas_to_ee_cmd_short_def get_futures_market_identifier_for_def demo_identifier
      get_futures_exchange_info_def get_current_futures_price_def demo_futures_def truthy_def fixed_position_size_def
      limit_sell_by_quote_quantity_with_market_tp_and_sl_def limit_sell_by_quote_quantity_def create_exit_order_def
      store_futures_order_context_def set_order_context_for_order_def redis_set_def redis_call_def quiet_env_def
      demo_prices demo_munged futures_order_def numeral_3_eq_3 short_result_def)


end
