(* ===== verification/Messaging.thy ===== *)
theory Messaging
  imports PositionTracker ExecutionEngine
begin

text \<open>
  Messages between the services: the routing table (\<open>classes/amqp/message-routing.ts\<close>), the wrapper
  around every message processor (\<open>listener-factory-v2.ts\<close>), the processors of order messages
  (\<open>amqp-binance-order-data-listener.ts\<close>, the callbacks of the position tracker, of the order forwarder
  and of the conversion to generic updates) and the services that publish them.  The broker is outside:
  a delivered message comes with its tag, and what a service tells the broker about it is recorded.
\<close>

section \<open>Routing\<close>

record route =
  ro_routing_key :: string
  ro_exchange_name :: string
  ro_exchange_type :: string
  ro_durable :: bool
  ro_headers :: "(string \<times> string) list"

definition binance_tool_route :: "string \<Rightarrow> (string \<times> string) list \<Rightarrow> route" where
  "binance_tool_route key headers =
     \<lparr>ro_routing_key = key, ro_exchange_name = ''binance-tool'', ro_exchange_type = ''topic'', ro_durable = False,
      ro_headers = headers\<rparr>"

text \<open>\<open>MyEventNameType\<close>, and the events that have a route, with its key.\<close>

definition event_names :: "string list" where
  "event_names =
     [''InternalConnectivityTestEvent'', ''BinanceOrderData'', ''BinanceExecutionReport'', ''SpotPortfolio'',
      ''Edge56EntrySignal'', ''FuturesBinanceOrderData'', ''GenericOrderData'', ''GenericOrderUpdate'',
      ''Edge58EntrySignal'', ''Edge60EntrySignal'', ''Edge61EntrySignal'', ''Edge70Signal'', ''SpotPositionOpened'',
      ''SpotPositionClosed'', ''EdgeDirectionSignal'', ''SendMessageEvent'']"

definition quorum_routes :: "(string \<times> string) list" where
  "quorum_routes =
     [(''SpotPortfolio'', ''portfolio''), (''Edge70Signal'', ''edge70-signal''),
      (''EdgeDirectionSignal'', ''edge-direction-signals''), (''BinanceOrderData'', ''spot-binance-orders''),
      (''BinanceExecutionReport'', ''binance.spot.BinanceExecutionReport''),
      (''FuturesBinanceOrderData'', ''futures-binance-order-data''),
      (''GenericOrderData'', ''spot-generic-order-data''),
      (''GenericOrderUpdate'', ''generic.spot.GenericOrderUpdate''), (''SpotPositionOpened'', ''spot-positions''),
      (''SpotPositionClosed'', ''spot-positions''), (''SendMessageEvent'', ''send-message'')]"

definition amqp_routing :: "string \<Rightarrow> js_error + route" where
  "amqp_routing event_name =
     (if event_name = ''InternalConnectivityTestEvent''
      then Inr (binance_tool_route ''connectivity-test-events'' [])
      else case map_of quorum_routes event_name of
        Some key \<Rightarrow> Inr (binance_tool_route key [(''x-queue-type'', ''quorum'')])
      | None \<Rightarrow> Inl (Err (''Routing not defined for event_name: '' @ event_name)))"

section \<open>A service that consumes messages\<close>

text \<open>
  What was told to the broker about a delivery; a negative acknowledgement without further arguments
  asks for the message to be queued again.  Three subsystems of the health checks matter: the
  callbacks of the order listener, the listener, and the service as a whole.
\<close>

datatype settlement = Acknowledged | Requeued

record consumer =
  cn_world :: world
  cn_settled :: "(nat \<times> settlement) list"
  cn_callbacks_healthy :: bool
  cn_listener_healthy :: bool
  cn_service_healthy :: bool

definition in_world :: "(world, 'a) prog \<Rightarrow> ('b consumer_scheme, 'a) prog" where
  "in_world m = (\<lambda>s. case m (cn_world s) of (r, w) \<Rightarrow> (r, s\<lparr>cn_world := w\<rparr>))"

lemma wp_in_world [simp, wp_simps]:
  "wp (in_world m) Q R s = wp m (\<lambda>x w. Q x (s\<lparr>cn_world := w\<rparr>)) (\<lambda>e w. R e (s\<lparr>cn_world := w\<rparr>)) (cn_world s)"
  by (simp add: wp_def in_world_def split: prod.split sum.split)

definition channel_ack :: "nat \<Rightarrow> ('b consumer_scheme, unit) prog" where
  "channel_ack tag = modifyE (\<lambda>s. s\<lparr>cn_settled := (tag, Acknowledged) # cn_settled s\<rparr>)"

definition channel_nack :: "nat \<Rightarrow> ('b consumer_scheme, unit) prog" where
  "channel_nack tag = modifyE (\<lambda>s. s\<lparr>cn_settled := (tag, Requeued) # cn_settled s\<rparr>)"

text \<open>The content of a message: no JSON, JSON's \<open>null\<close>, or a value with its \<open>object_type\<close>.\<close>

datatype 'e body = NotJson | JsonNull | Body "string option" 'e

type_synonym ('b, 'e) processor = "'e \<Rightarrow> nat \<Rightarrow> ('b consumer_scheme, unit) prog"

text \<open>
  \<open>TypedMessageProcessorWrapper.process_message\<close>.  Text that is no JSON is told to the broker, but the
  method goes on and fails on the missing body.  The promise of the processor is returned, not awaited,
  so its rejection is not one of the exceptions the wrapper can eat.
\<close>

definition wrapper_process_message :: "string \<Rightarrow> bool \<Rightarrow> ('b, 'e) processor \<Rightarrow> 'e body \<Rightarrow> nat \<Rightarrow> ('b consumer_scheme, unit) prog" where
  "wrapper_process_message event_name eat_exceptions processor content tag =
     (let caught = (if eat_exceptions then returnE ()
            else throwE (Err ''TypeError: Cannot read properties of undefined (reading object_type)'')) in
      case content of
        NotJson \<Rightarrow> seqE (channel_nack tag) caught
      | JsonNull \<Rightarrow> caught
      | Body object_type event \<Rightarrow>
          if object_type = Some event_name then processor event tag
          else if object_type \<noteq> None \<and> object_type \<noteq> Some [] then channel_ack tag
          else channel_nack tag)"

text \<open>
  \<open>wrapper_func\<close> gets a null when the server closed the channel.  It does not wait for the wrapper: a
  rejection ends in the service's \<open>unhandledRejection\<close> handler, which marks the service unhealthy.
\<close>

definition unhandled_rejection :: "js_error \<Rightarrow> ('b consumer_scheme, unit) prog" where
  "unhandled_rejection err =
     seqE (in_world (alert ''UnhandledPromiseRejection''))
       (modifyE (\<lambda>s. s\<lparr>cn_service_healthy := False\<rparr>))"

definition wrapper_func :: "string \<Rightarrow> bool \<Rightarrow> ('b, 'e) processor \<Rightarrow> ('e body \<times> nat) option \<Rightarrow> ('b consumer_scheme, unit) prog" where
  "wrapper_func event_name eat_exceptions processor event =
     (case event of
        None \<Rightarrow> seqE (modifyE (\<lambda>s. s\<lparr>cn_listener_healthy := False\<rparr>))
                  (throwE (Err ''AMQP server closed the connection''))
      | Some (content, tag) \<Rightarrow>
          tryE (wrapper_process_message event_name eat_exceptions processor content tag) unhandled_rejection)"

section \<open>AMQP_BinanceOrderDataListener\<close>

text \<open>
  The callbacks are started, not awaited, and their rejections are logged: they run to their end here
  when they are started, although an acknowledgement can come before.
\<close>

definition detached :: "('s, unit) prog \<Rightarrow> ('s, unit) prog" where
  "detached m = tryE m (\<lambda>_. returnE ())"

definition processBinanceOrderDataMessage :: "'s order_callbacks option \<Rightarrow> binance_order_data \<Rightarrow> ('s, unit) prog" where
  "processBinanceOrderDataMessage cbs data =
     (let st = x_orderStatus data;
          optional = (\<lambda>sel. case cbs of None \<Rightarrow> returnE () | Some c \<Rightarrow> detached (call_if (sel c) data)) in
      if st = ''NEW'' then optional order_created
      else if st = ''PARTIALLY_FILLED'' then optional order_filled_or_partially_filled
      else if st = ''CANCELED'' then optional order_cancelled
      else if st = ''EXPIRED'' then optional order_expired
      else if st \<noteq> ''FILLED'' then throwE (Err (''Unexpected orderStatus: '' @ st))
      else seqE (optional order_filled_or_partially_filled)
             (case cbs of None \<Rightarrow> returnE () | Some c \<Rightarrow> detached (order_filled c data)))"

definition order_data_process_message :: "world order_callbacks option \<Rightarrow> ('b, binance_order_data) processor" where
  "order_data_process_message cbs event tag =
     tryE (seqE (in_world (processBinanceOrderDataMessage cbs event)) (channel_ack tag))
       (\<lambda>_. modifyE (\<lambda>s. s\<lparr>cn_callbacks_healthy := False\<rparr>))"

text \<open>The listener as it is registered: every exception is rethrown.\<close>

definition consume_order_data :: "world order_callbacks option \<Rightarrow> (binance_order_data body \<times> nat) option \<Rightarrow> ('b consumer_scheme, unit) prog" where
  "consume_order_data cbs = wrapper_func ''BinanceOrderData'' False (order_data_process_message cbs)"

section \<open>Publishers\<close>

text \<open>
  \<open>TypedGenericTopicPublisher\<close>.  The broker's answers are the fields of \<open>amqp_server\<close> on the calls made so
  far.  The channel library buffers a message even when it reports that its buffer is full.
\<close>

datatype amqp_call = Connect | CreateChannel | AssertExchange string | ChannelPublish string

record amqp_server =
  as_connect :: "amqp_call list \<Rightarrow> js_error option"
  as_create_channel :: "amqp_call list \<Rightarrow> js_error option"
  as_assert_exchange :: "amqp_call list \<Rightarrow> js_error option"
  as_publish :: "amqp_call list \<Rightarrow> js_error + bool"

record 'e topic_publisher =
  tp_route :: route
  tp_connection :: bool
  tp_channel :: bool
  tp_healthy :: bool
  tp_initialised :: bool
  tp_calls :: "amqp_call list"
  tp_sent :: "'e list"

definition new_topic_publisher :: "string \<Rightarrow> js_error + 'e topic_publisher" where
  "new_topic_publisher event_name =
     map_sum id (\<lambda>route. \<lparr>tp_route = route, tp_connection = False, tp_channel = False, tp_healthy = True,
       tp_initialised = False, tp_calls = [], tp_sent = []\<rparr>) (amqp_routing event_name)"

definition amqp_request :: "amqp_call \<Rightarrow> (amqp_call list \<Rightarrow> js_error option) \<Rightarrow> ('e topic_publisher, unit) prog" where
  "amqp_request c answer =
     seqE (modifyE (\<lambda>p. p\<lparr>tp_calls := c # tp_calls p\<rparr>))
       (bindE (getE (\<lambda>p. answer (tp_calls p))) (\<lambda>r. case r of None \<Rightarrow> returnE () | Some e \<Rightarrow> throwE e))"

definition publisher_connect :: "amqp_server \<Rightarrow> ('e topic_publisher, unit) prog" where
  "publisher_connect A =
     tryE
       (seqE (bindE (getE tp_connection) (\<lambda>connection.
          if connection then returnE ()
          else seqE (amqp_request Connect (as_connect A)) (modifyE (\<lambda>p. p\<lparr>tp_connection := True\<rparr>))))
        (bindE (getE tp_channel) (\<lambda>channel.
          if channel then returnE ()
          else
            seqE (amqp_request CreateChannel (as_create_channel A))
            (seqE (modifyE (\<lambda>p. p\<lparr>tp_channel := True\<rparr>))
            (seqE (bindE (getE (ro_exchange_name \<circ> tp_route)) (\<lambda>name. amqp_request (AssertExchange name) (as_assert_exchange A)))
              (modifyE (\<lambda>p. p\<lparr>tp_initialised := True\<rparr>)))))))
       (\<lambda>err. seqE (modifyE (\<lambda>p. p\<lparr>tp_healthy := False\<rparr>)) (throwE err))"

definition publisher_publish :: "amqp_server \<Rightarrow> 'e \<Rightarrow> ('e topic_publisher, unit) prog" where
  "publisher_publish A event =
     tryE
       (seqE (publisher_connect A)
        (seqE (bindE (getE (ro_routing_key \<circ> tp_route)) (\<lambda>key. modifyE (\<lambda>p. p\<lparr>tp_calls := ChannelPublish key # tp_calls p\<rparr>)))
        (bindE (getE (\<lambda>p. as_publish A (tp_calls p))) (\<lambda>r.
           case r of
             Inl err \<Rightarrow> throwE err
           | Inr buffered \<Rightarrow>
               seqE (modifyE (\<lambda>p. p\<lparr>tp_sent := event # tp_sent p\<rparr>))
                 (assertE buffered ''AMQP reports server full when trying to publish'')))))
       (\<lambda>err. seqE (modifyE (\<lambda>p. p\<lparr>tp_healthy := False\<rparr>)) (throwE err))"

text \<open>
  What the library calls when the channel is closed or fails; the channel is not given up.  Closing both
  on shutdown is taken to succeed.
\<close>

definition connection_closed :: "('e topic_publisher, unit) prog" where
  "connection_closed = modifyE (\<lambda>p. p\<lparr>tp_healthy := False\<rparr>)"

definition publisher_shutdown_streams :: "('e topic_publisher, unit) prog" where
  "publisher_shutdown_streams = modifyE (\<lambda>p. p\<lparr>tp_channel := False, tp_connection := False, tp_healthy := False\<rparr>)"

section \<open>Services on the way of an order\<close>

text \<open>\<open>BinanceSpotOrdersToAMQP\<close>: only completed orders are forwarded.\<close>

definition orders_to_amqp_callbacks :: "amqp_server \<Rightarrow> binance_order_data topic_publisher order_callbacks" where
  "orders_to_amqp_callbacks A =
     \<lparr>order_created = None, order_filled_or_partially_filled = None, order_cancelled = None, order_expired = None,
      order_filled = publisher_publish A\<rparr>"

definition orders_to_amqp :: "bignum \<Rightarrow> amqp_server \<Rightarrow> execution_report \<Rightarrow> (binance_order_data topic_publisher, unit) prog" where
  "orders_to_amqp B A x = processExecutionReport B binance_spot (Some (orders_to_amqp_callbacks A)) x"

text \<open>The callbacks of the position tracker service; \<open>tracker_order_filled\<close> is in \<open>PositionTracker\<close>.\<close>

definition position_tracker_callbacks :: "bignum \<Rightarrow> env \<Rightarrow> exchange_info \<Rightarrow> world order_callbacks" where
  "position_tracker_callbacks B E exchange_info =
     \<lparr>order_created = None, order_filled_or_partially_filled = None, order_cancelled = None, order_expired = None,
      order_filled = tracker_order_filled B E exchange_info\<rparr>"

text \<open>
  \<open>BinanceExecutionReportToGenericOrderUpdate.process_message\<close>: whatever fails, nothing is told to the
  broker.
\<close>

record update_service = consumer +
  us_publisher :: "generic_order_update topic_publisher"

definition in_publisher :: "(generic_order_update topic_publisher, 'a) prog \<Rightarrow> (update_service, 'a) prog" where
  "in_publisher m = (\<lambda>s. case m (us_publisher s) of (r, p) \<Rightarrow> (r, s\<lparr>us_publisher := p\<rparr>))"

definition to_generic_order_update :: "env \<Rightarrow> amqp_server \<Rightarrow> execution_report \<Rightarrow> nat \<Rightarrow> (update_service, unit) prog" where
  "to_generic_order_update E A data tag =
     tryE
       (bindE (in_world (get_exchange_info E)) (\<lambda>exchange_info.
        bindE (liftE (fromBinanceExecutionReport data exchange_info)) (\<lambda>generic_order_update.
        seqE (in_publisher (publisher_publish A generic_order_update)) (channel_ack tag))))
       (\<lambda>_. returnE ())"

section \<open>Order messages\<close>

definition expected_status :: "string \<Rightarrow> bool" where
  "expected_status st \<longleftrightarrow> st \<in> {''NEW'', ''PARTIALLY_FILLED'', ''CANCELED'', ''EXPIRED'', ''FILLED''}"

lemma detached_never_throws: "wp (detached m) (\<lambda>_ _. True) (\<lambda>_ _. False) w"
  by (simp add: detached_def wp_true)

lemma detached_call_if: "detached (call_if f x) = (case f of None \<Rightarrow> returnE () | Some g \<Rightarrow> detached (g x))"
  by (simp add: call_if_def detached_def tryE_def returnE_def fun_eq_iff split: option.split)

lemma wp_order_data_message:
  "wp (processBinanceOrderDataMessage cbs data) (\<lambda>_ _. expected_status (x_orderStatus data))
     (\<lambda>_ _. \<not> expected_status (x_orderStatus data)) w"
proof -
  have opt: "wp (case cbs of None \<Rightarrow> returnE () | Some c \<Rightarrow> detached (f c)) (\<lambda>_ _. True) (\<lambda>_ _. False) v"
    for f :: "'a order_callbacks \<Rightarrow> ('a, unit) prog" and v
    by (simp add: detached_never_throws split: option.split)
  show ?thesis
    unfolding processBinanceOrderDataMessage_def Let_def expected_status_def
    by (auto intro!: wp_mono [OF opt])
qed

text \<open>What the broker is told about a delivery, and what becomes of the health of the service.\<close>

definition settlement_of :: "binance_order_data body \<times> nat \<Rightarrow> (nat \<times> settlement) list" where
  "settlement_of d = (case d of (b, tag) \<Rightarrow>
     (case b of
        NotJson \<Rightarrow> [(tag, Requeued)]
      | JsonNull \<Rightarrow> []
      | Body ty data \<Rightarrow>
          if ty = Some ''BinanceOrderData'' then (if expected_status (x_orderStatus data) then [(tag, Acknowledged)] else [])
          else if ty \<noteq> None \<and> ty \<noteq> Some [] then [(tag, Acknowledged)]
          else [(tag, Requeued)]))"

definition unexpected_order :: "binance_order_data body \<Rightarrow> bool" where
  "unexpected_order b = (case b of Body ty data \<Rightarrow> ty = Some ''BinanceOrderData'' \<and> \<not> expected_status (x_orderStatus data) | _ \<Rightarrow> False)"

definition no_object :: "'e body \<Rightarrow> bool" where
  "no_object b = (case b of Body _ _ \<Rightarrow> False | _ \<Rightarrow> True)"

definition delivered :: "consumer \<Rightarrow> binance_order_data body \<times> nat \<Rightarrow> consumer \<Rightarrow> bool" where
  "delivered s d t \<longleftrightarrow> cn_settled t = settlement_of d @ cn_settled s \<and> cn_listener_healthy t = cn_listener_healthy s \<and>
     cn_callbacks_healthy t = (cn_callbacks_healthy s \<and> \<not> unexpected_order (fst d)) \<and>
     cn_service_healthy t = (cn_service_healthy s \<and> \<not> no_object (fst d))"

lemmas consume_defs = consume_order_data_def wrapper_func_def wrapper_process_message_def order_data_process_message_def
  channel_ack_def channel_nack_def unhandled_rejection_def

lemma wp_consume: "wp (consume_order_data cbs (Some d)) (\<lambda>_ t. delivered s d t) (\<lambda>_ _. False) s"
proof -
  obtain b tag where d: "d = (b, tag)" by (cases d)
  show ?thesis
  proof (cases b)
    case (Body ty data)
    show ?thesis
    proof (cases "ty = Some ''BinanceOrderData''")
      case True
      show ?thesis
        unfolding consume_defs Let_def d Body True
        by (auto simp: delivered_def settlement_of_def unexpected_order_def no_object_def
            intro!: wp_mono [OF wp_order_data_message])
    qed (simp add: consume_defs d Body delivered_def settlement_of_def unexpected_order_def no_object_def)
  qed (simp_all add: consume_defs d delivered_def settlement_of_def unexpected_order_def no_object_def)
qed

lemma consume_delivered: "delivered s d (snd (consume_order_data cbs (Some d) s))"
proof -
  have "wp (consume_order_data cbs (Some d)) (\<lambda>_. delivered s d) (\<lambda>_. delivered s d) s"
    by (rule wp_mono [OF wp_consume]) simp_all
  then show ?thesis by (rule wp_final)
qed

fun deliveries :: "('m option \<Rightarrow> ('s, unit) prog) \<Rightarrow> 'm list \<Rightarrow> 's \<Rightarrow> 's" where
  "deliveries f [] s = s"
| "deliveries f (d # ds) s = deliveries f ds (snd (f (Some d) s))"

section \<open>Publishers and the conversion service\<close>

text \<open>An event whose publication returned was handed to the channel; a publisher never becomes healthy again.\<close>

lemma wp_publisher_publish:
  "wp (publisher_publish A event)
     (\<lambda>_ q. tp_sent q = event # tp_sent p \<and> tp_healthy q = tp_healthy p \<and> tp_channel q)
     (\<lambda>_ q. (tp_sent q = tp_sent p \<or> tp_sent q = event # tp_sent p) \<and> \<not> tp_healthy q) p"
  by (auto simp: publisher_publish_def publisher_connect_def amqp_request_def split: sum.split option.split)

text \<open>What the conversion of a report may leave behind.\<close>

definition update_consumer :: "env \<Rightarrow> amqp_server \<Rightarrow> (execution_report body \<times> nat) option \<Rightarrow> (update_service, unit) prog" where
  "update_consumer E A = wrapper_func ''BinanceExecutionReport'' False (to_generic_order_update E A)"

definition same_health :: "update_service \<Rightarrow> update_service \<Rightarrow> bool" where
  "same_health s t \<longleftrightarrow> cn_callbacks_healthy t = cn_callbacks_healthy s \<and> cn_listener_healthy t = cn_listener_healthy s \<and>
     cn_service_healthy t = cn_service_healthy s \<and> us_publisher t = us_publisher s"

lemma wp_in_publisher [simp]:
  "wp (in_publisher m) Q R s = wp m (\<lambda>x p. Q x (s\<lparr>us_publisher := p\<rparr>)) (\<lambda>e p. R e (s\<lparr>us_publisher := p\<rparr>)) (us_publisher s)"
  by (simp add: wp_def in_publisher_def split: prod.split sum.split)

lemma wp_unconvertible:
  assumes "\<And>info. \<exists>e. fromBinanceExecutionReport x info = Inl e"
  shows "wp (update_consumer E A (Some (Body (Some ''BinanceExecutionReport'') x, tag)))
    (\<lambda>_ t. cn_settled t = cn_settled s \<and> same_health s t) (\<lambda>_ _. False) s"
proof -
  have "wp (liftE (fromBinanceExecutionReport x info)) Q (\<lambda>_. P) u" if "P u" for info Q P and u :: update_service
    using assms [of info] that by auto
  then show ?thesis
    by (auto simp: update_consumer_def wrapper_func_def wrapper_process_message_def to_generic_order_update_def
        get_exchange_info_def same_health_def simp del: wp_liftE split: sum.split)
qed

text \<open>With a prefetch of one the broker delivers a message only when the one before is settled.\<close>

fun respects_prefetch ::
    "(('e body \<times> nat) option \<Rightarrow> ('b consumer_scheme, unit) prog) \<Rightarrow> ('e body \<times> nat) list \<Rightarrow> 'b consumer_scheme \<Rightarrow> bool" where
  "respects_prefetch f (d # e # ds) s \<longleftrightarrow>
     snd d \<in> fst ` set (cn_settled (snd (f (Some d) s))) \<and> respects_prefetch f (e # ds) (snd (f (Some d) s))"
| "respects_prefetch f _ s \<longleftrightarrow> True"

section \<open>Properties\<close>

text \<open>
  C30: Whatever the messages and whatever the callbacks do, the order listener tells the broker exactly
  this: an order of a known status and a message of another type are acknowledged, text that is no JSON
  and an object without a type are queued again, the rest is left open.  A failing callback leaves no
  trace: only an unknown status makes the callbacks unhealthy, and only a message that is no object the
  service.
\<close>
theorem order_deliveries_are_settled:
  fixes s :: consumer
  shows "cn_settled (deliveries (consume_order_data cbs) ds s) = concat (map settlement_of (rev ds)) @ cn_settled s \<and>
   cn_callbacks_healthy (deliveries (consume_order_data cbs) ds s) =
     (cn_callbacks_healthy s \<and> \<not> list_ex (unexpected_order \<circ> fst) ds) \<and>
   cn_service_healthy (deliveries (consume_order_data cbs) ds s) =
     (cn_service_healthy s \<and> \<not> list_ex (no_object \<circ> fst) ds)"
proof (induction ds arbitrary: s)
  case (Cons d ds)
  show ?case using Cons.IH consume_delivered [of s d cbs] by (auto simp: delivered_def)
qed simp

text \<open>A world in which Redis refuses every command: nothing can be stored.\<close>

definition redis_down :: "env \<Rightarrow> bool" where
  "redis_down E \<longleftrightarrow> (\<forall>h. case env_redis E h of RedisFailed _ \<Rightarrow> True | _ \<Rightarrow> False)"

lemma down_call: "redis_down E \<Longrightarrow> keeps_store (redis_call E c m)"
  unfolding keeps_store_wp wp_redis_call Let_def redis_down_def
  by (auto split: redis_fault.splits)

lemma down_redis:
  assumes "redis_down E"
  shows "keeps_store (redis_set E k v)" "keeps_store (redis_mset E kvs)" "keeps_store (redis_incrby E k n)"
    "keeps_store (redis_sadd E k xs)" "keeps_store (redis_keys E k)" "keeps_store (redis_del E ks)"
  by (simp_all add: redis_defs down_call [OF assms])

lemma keeps_store_promise_all2: "keeps_store m \<Longrightarrow> keeps_store k \<Longrightarrow> keeps_store (promise_all2 m k)"
  unfolding promise_all2_def by (intro keeps_store_intros)

lemma down_tracker_order_filled:
  assumes "redis_down E"
  shows "keeps_store (tracker_order_filled B E ei data)"
  unfolding tracker_order_filled_def buy_order_filled_def sell_order_filled_def sell_order_filled_by_def
    load_position_for_order_def add_order_to_position_def redis_persistence_sel publish_and_delete_def
    get_SpotPositionOpenedEvent_def get_SpotPositionClosedEvent_def on_position_opened_def on_position_closed_def
    is_too_small_to_trade_def add_orders_def create_new_position_def adjust_position_size_by_def delete_position_def Let_def
  by (intro keeps_store_intros keeps_store_promise_all2 down_redis [OF assms])

lemma wp_consume_filled:
  assumes "x_orderStatus data = ''FILLED''" "wp (tracker_order_filled B E ei data) (\<lambda>_. P) (\<lambda>_. P) (cn_world s)"
  shows "wp (consume_order_data (Some (position_tracker_callbacks B E ei)) (Some (Body (Some ''BinanceOrderData'') data, tag)))
    (\<lambda>_ t. cn_settled t = (tag, Acknowledged) # cn_settled s \<and> P (cn_world t) \<and>
       cn_callbacks_healthy t = cn_callbacks_healthy s \<and> cn_service_healthy t = cn_service_healthy s) (\<lambda>_ _. False) s"
proof -
  have "wp (detached (tracker_order_filled B E ei data)) (\<lambda>_. P) (\<lambda>_ _. False) (cn_world s)"
    unfolding detached_def wp_tryE wp_returnE by (rule wp_mono [OF assms(2)])
  then show ?thesis
    using assms(1)
    by (simp add: consume_defs processBinanceOrderDataMessage_def detached_call_if)
      (auto simp: position_tracker_callbacks_def intro!: wp_mono)
qed

text \<open>
  C31: A fill that cannot be stored is lost.  When Redis refuses every command, the message of a filled
  order is still acknowledged, so it is not delivered again; nothing was stored, and the service
  goes on reporting healthy.
\<close>
theorem failed_fill_is_lost:
  assumes "redis_down E" "x_orderStatus data = ''FILLED''"
  shows "\<exists>t. consume_order_data (Some (position_tracker_callbacks B E ei))
      (Some (Body (Some ''BinanceOrderData'') data, tag)) s = (Inr (), t) \<and>
    cn_settled t = (tag, Acknowledged) # cn_settled s \<and> store (cn_world t) = store (cn_world s) \<and>
    cn_callbacks_healthy t = cn_callbacks_healthy s \<and> cn_service_healthy t = cn_service_healthy s"
proof -
  have "wp (tracker_order_filled B E ei data) (\<lambda>_ t. store t = store (cn_world s)) (\<lambda>_ t. store t = store (cn_world s)) (cn_world s)"
    using down_tracker_order_filled [OF assms(1)] by (simp add: keeps_store_wp)
  from wp_total [OF wp_consume_filled [OF assms(2) this]] show ?thesis by simp
qed

text \<open>
  C2: A fill reaches its position.  An execution report of a completed order, published by the order
  service and delivered to the position tracker, is acknowledged and changes exactly the position its
  context names, as the abstract step of the tracker says.
\<close>
theorem fill_reaches_position:
  assumes "x_eventType x = ''executionReport''" "x_orderStatus x = ''FILLED''"
    and "tp_connection pub" "tp_channel pub"
    and "as_publish A (ChannelPublish (ro_routing_key (tp_route pub)) # tp_calls pub) = Inr True"
    and "fromCompletedBinanceOrderData (to_binance_order_data B binance_spot x) ei = Inr ord"
    and "redis_ready B E (cn_world s)" "p = position_of (cn_world s) ord" "plain_identifier p"
    and "acceptable_for B p ord (redis_view (cn_world s) p)" "o_market_symbol ord \<noteq> []"
    and "\<forall>h. env_exchange_info E h = Inr info"
  shows "\<exists>pub' data t. orders_to_amqp B A x pub = (Inr (), pub') \<and> tp_sent pub' = data # tp_sent pub \<and>
    consume_order_data (Some (position_tracker_callbacks B E ei)) (Some (Body (Some ''BinanceOrderData'') data, tag)) s = (Inr (), t) \<and>
    cn_settled t = (tag, Acknowledged) # cn_settled s \<and>
    redis_view (cn_world t) = (redis_view (cn_world s))(p := filled_spec B info ord (redis_view (cn_world s) p))"
proof -
  let ?data = "to_binance_order_data B binance_spot x" and ?cb = "position_tracker_callbacks B E ei" and ?w = "cn_world s"
  have sent: "wp (orders_to_amqp B A x) (\<lambda>_ p. tp_sent p = ?data # tp_sent pub) (\<lambda>_ _. False) pub"
    using assms(1-5)
    by (simp add: orders_to_amqp_def processExecutionReport_def Let_def call_if_def orders_to_amqp_callbacks_def
        publisher_publish_def publisher_connect_def)
  have side: "o_side ord = x_side ?data"
    using assms(6) by (auto simp: fromCompletedBinanceOrderData_def split: if_splits option.splits sum.splits)
  have run: "wp (if x_side ?data = BUY then buy_order_filled B E ord else sell_order_filled B E ord)
      (\<lambda>_ t. redis_view t = (redis_view ?w)(p := filled_spec B info ord (redis_view ?w p))) (\<lambda>_ _. False) t"
    if same: "store t = store ?w" for t
  proof -
    have "p = position_of t ord" "redis_view t = redis_view ?w"
      unfolding assms(8) position_of_def edge_stored_def same by (rule refl, rule view_store [OF same])
    note step = wp_order_filled_handler [OF ready_store [OF same assms(7)] this(1) assms(9) _ assms(11,12)]
    have "wp (order_filled_handler B E ord)
        (\<lambda>_ t. redis_view t = (redis_view ?w)(p := filled_spec B info ord (redis_view ?w p))) (\<lambda>_ _. False) t"
      by (rule wp_mono [OF step]) (simp_all add: assms(10) \<open>redis_view t = redis_view ?w\<close>)
    then show ?thesis by (simp add: order_filled_handler_def side)
  qed
  have "wp (tracker_order_filled B E ei ?data)
      (\<lambda>_ t. redis_view t = (redis_view ?w)(p := filled_spec B info ord (redis_view ?w p))) (\<lambda>_ _. False) ?w"
    unfolding tracker_order_filled_def wp_bindE [of "tryE m h" for m h] wp_bindE [of "liftE r" for r] assms(6) wp_liftE sum.case
    by (rule wp_mono [OF keeps_store_tryE_total run]) (intro keeps_store_intros, simp)
  then have tracked: "wp (tracker_order_filled B E ei ?data)
      (\<lambda>_ t. redis_view t = (redis_view ?w)(p := filled_spec B info ord (redis_view ?w p)))
      (\<lambda>_ t. redis_view t = (redis_view ?w)(p := filled_spec B info ord (redis_view ?w p))) ?w"
    by (rule wp_mono) simp_all
  have "x_orderStatus ?data = ''FILLED''" using assms(2) by (simp add: to_binance_order_data_def execution_report.defs)
  from wp_total [OF wp_consume_filled [OF this tracked], of tag] obtain t
    where "consume_order_data (Some ?cb) (Some (Body (Some ''BinanceOrderData'') ?data, tag)) s = (Inr (), t)"
      "cn_settled t = (tag, Acknowledged) # cn_settled s"
      "redis_view (cn_world t) = (redis_view ?w)(p := filled_spec B info ord (redis_view ?w p))" by auto
  moreover from wp_total [OF sent] obtain pub' where "orders_to_amqp B A x pub = (Inr (), pub')"
      "tp_sent pub' = ?data # tp_sent pub" by auto
  ultimately show ?thesis by blast
qed

text \<open>
  A report that cannot be converted stops the conversion service.  It is neither acknowledged nor
  queued again, so with a prefetch of one nothing is delivered after it; every subsystem and the
  publisher go on reporting the health they had.
\<close>
theorem unconvertible_report_stops_the_queue:
  assumes "\<And>info. \<exists>e. fromBinanceExecutionReport x info = Inl e"
    and "tag \<notin> fst ` set (cn_settled s)"
    and "respects_prefetch (update_consumer E A) ((Body (Some ''BinanceExecutionReport'') x, tag) # ds) s"
  shows "ds = [] \<and> same_health s (deliveries (update_consumer E A) ((Body (Some ''BinanceExecutionReport'') x, tag) # ds) s)"
proof -
  let ?d = "(Body (Some ''BinanceExecutionReport'') x, tag)"
  obtain t where t: "update_consumer E A (Some ?d) s = (Inr (), t)" "cn_settled t = cn_settled s" "same_health s t"
    using wp_total [OF wp_unconvertible [OF assms(1)], of E A tag s] by auto
  then have "ds = []" using assms(2,3) by (cases ds) auto
  then show ?thesis using t by simp
qed

section \<open>Witnesses\<close>

definition demo_consumer :: "world \<Rightarrow> consumer" where
  "demo_consumer w = \<lparr>cn_world = w, cn_settled = [], cn_callbacks_healthy = True, cn_listener_healthy = True,
     cn_service_healthy = True\<rparr>"

definition demo_server :: amqp_server where
  "demo_server = \<lparr>as_connect = (\<lambda>_. None), as_create_channel = (\<lambda>_. None), as_assert_exchange = (\<lambda>_. None),
     as_publish = (\<lambda>_. Inr True)\<rparr>"

definition demo_publisher :: "'e topic_publisher" where
  "demo_publisher = \<lparr>tp_route = binance_tool_route ''spot-binance-orders'' [], tp_connection = True, tp_channel = True,
     tp_healthy = True, tp_initialised = True, tp_calls = [], tp_sent = []\<rparr>"

definition filled_report :: execution_report where
  "filled_report = (demo_report ''FILLED'')\<lparr>x_newClientOrderId := ''a''\<rparr>"

lemma filled_report_converts:
  "fromCompletedBinanceOrderData (to_binance_order_data ref_bignum binance_spot filled_report) demo_exchange_info =
     Inr (demo_fill ''a'' BUY 2)"
  by code_simp

theorem fill_reaches_position_witness:
  "\<exists>pub' data t. orders_to_amqp ref_bignum demo_server filled_report demo_publisher = (Inr (), pub') \<and>
    tp_sent pub' = [data] \<and>
    consume_order_data (Some (position_tracker_callbacks ref_bignum demo_env demo_exchange_info))
      (Some (Body (Some ''BinanceOrderData'') data, 7)) (demo_consumer flat_world) = (Inr (), t) \<and>
    cn_settled t = [(7, Acknowledged)] \<and> fst (redis_view (cn_world t) demo_position) = 200000000"
proof -
  have spec: "fst (filled_spec ref_bignum demo_exchange_info (demo_fill ''a'' BUY 2) (0, {})) = 200000000"
    by (simp add: filled_spec_def apply_fill_def apply_order_def) (simp add: demo_fill_def demo_sats)
  have ready: "redis_ready ref_bignum demo_env (cn_world (demo_consumer flat_world))"
    "demo_position = position_of (cn_world (demo_consumer flat_world)) (demo_fill ''a'' BUY 2)"
    "acceptable_for ref_bignum demo_position (demo_fill ''a'' BUY 2) (redis_view (cn_world (demo_consumer flat_world)) demo_position)"
    using demo_worlds_ready(1) demo_position_of(1) demo_acceptable(1) by (simp_all add: demo_consumer_def demo_views)
  have "x_eventType filled_report = ''executionReport''" "x_orderStatus filled_report = ''FILLED''"
    by (simp_all add: filled_report_def demo_report_def)
  note witness = fill_reaches_position [OF this _ _ _ filled_report_converts ready(1,2) demo_position_plain ready(3)
      demo_symbol demo_env_info, of demo_publisher demo_server 7]
  show ?thesis
    using witness spec by (fastforce simp: demo_publisher_def demo_server_def demo_consumer_def demo_views)
qed

definition down_env :: env where
  "down_env = demo_env\<lparr>env_redis := \<lambda>_. RedisFailed (Err ''ECONNREFUSED'')\<rparr>"

theorem failed_fill_is_lost_witness:
  "\<exists>t. consume_order_data (Some (position_tracker_callbacks ref_bignum down_env demo_exchange_info))
      (Some (Body (Some ''BinanceOrderData'') (to_binance_order_data ref_bignum binance_spot filled_report), 7))
      (demo_consumer flat_world) = (Inr (), t) \<and>
    cn_settled t = [(7, Acknowledged)] \<and> store (cn_world t) = demo_store \<and> cn_service_healthy t"
proof -
  have "redis_down down_env" by (simp add: redis_down_def down_env_def)
  moreover have "x_orderStatus (to_binance_order_data ref_bignum binance_spot filled_report) = ''FILLED''" by code_simp
  ultimately show ?thesis
    using failed_fill_is_lost [of down_env "to_binance_order_data ref_bignum binance_spot filled_report" ref_bignum
        demo_exchange_info 7 "demo_consumer flat_world"]
    by (auto simp: demo_consumer_def flat_world_def)
qed

theorem unconvertible_report_stops_the_queue_witness:
  "cn_service_healthy (deliveries (update_consumer demo_env demo_server)
      [(Body (Some ''BinanceExecutionReport'') (demo_report ''TRADE_PREVENTION''), 7)]
      (consumer.extend (demo_consumer empty_world) \<lparr>us_publisher = demo_publisher\<rparr>))"
proof -
  have "map_binance_order_status_to_generic_order_status ''TRADE_PREVENTION'' =
      Inl (Err ''Do not know how to map binance order status to generic order status'')" by code_simp
  then have "\<exists>e. fromBinanceExecutionReport (demo_report ''TRADE_PREVENTION'') info = Inl e" for info
    by (auto simp: fromBinanceExecutionReport_def demo_report_def split: option.split)
  note witness = unconvertible_report_stops_the_queue [OF this, where ds = "[]" and tag = 7 and E = demo_env
      and A = demo_server and s = "consumer.extend (demo_consumer empty_world) \<lparr>us_publisher = demo_publisher\<rparr>"]
  then show ?thesis by (simp add: same_health_def demo_consumer_def consumer.defs)
qed

end
