(* ===== verification/FuturesOrders.thy ===== *)
theory FuturesOrders
  imports PositionTracker
begin

text \<open>
  The updates of futures orders (\<open>classes/exchanges/binance/futures-order-execution-tracker.ts\<close>): unlike the
  tracker of spot orders it looks the order's context up itself, and hands it on with the update.  A
  context that was stored before an order was sent comes back with every update of the order.
\<close>

section \<open>Updates\<close>

record futures_order_update =
  fu_eventType :: string
  fu_symbol :: string
  fu_clientOrderId :: string
  fu_orderId :: nat
  fu_side :: side
  fu_orderType :: string
  fu_orderStatus :: string

text \<open>\<open>FuturesBinanceOrderData\<close>; the calculation of an average price is commented out.\<close>

record futures_order_data = futures_order_update +
  fo_exchange_identifier :: exchange_identifier
  fo_order_id :: string
  fo_order_is_is_client_order_id :: bool
  fo_order_context :: "order_context option"
  fo_edge :: "string option"

record 's futures_order_callbacks =
  futures_order_created :: "(futures_order_data \<Rightarrow> ('s, unit) prog) option"
  futures_order_filled_or_partially_filled :: "(futures_order_data \<Rightarrow> ('s, unit) prog) option"
  futures_order_cancelled :: "(futures_order_data \<Rightarrow> ('s, unit) prog) option"
  futures_order_expired :: "(futures_order_data \<Rightarrow> ('s, unit) prog) option"
  futures_order_filled :: "futures_order_data \<Rightarrow> ('s, unit) prog"

definition futures_order_data_of ::
    "exchange_identifier \<Rightarrow> order_context option \<Rightarrow> futures_order_update \<Rightarrow> futures_order_data" where
  "futures_order_data_of ei ctx x =
     futures_order_update.extend x
       \<lparr>fo_exchange_identifier = ei,
        fo_order_id = (if fu_clientOrderId x \<noteq> [] then fu_clientOrderId x else nat_string (fu_orderId x)),
        fo_order_is_is_client_order_id = (fu_clientOrderId x \<noteq> []),
        fo_order_context = ctx, fo_edge = map_option oc_edge ctx\<rparr>"

text \<open>\<open>stored\<close> says whether the tracker was given a persistence of order contexts.\<close>

definition futures_order_context ::
    "env \<Rightarrow> bool \<Rightarrow> exchange_identifier \<Rightarrow> string \<Rightarrow> (world, order_context option) prog" where
  "futures_order_context E stored ei order_id =
     (if \<not> stored then returnE None
      else tryE (bindE (get_order_context_for_order E ei order_id) (\<lambda>ctx. returnE (Some ctx))) throwE)"

definition dispatch_futures_order ::
    "'s futures_order_callbacks option \<Rightarrow> futures_order_data \<Rightarrow> ('s, unit) prog" where
  "dispatch_futures_order cbs bod =
     (let st = fu_orderStatus bod;
          optional = (\<lambda>sel. case cbs of None \<Rightarrow> returnE () | Some c \<Rightarrow> call_if (sel c) bod) in
      if st = ''NEW'' then optional futures_order_created
      else if st = ''PARTIALLY_FILLED'' then optional futures_order_filled_or_partially_filled
      else if st = ''CANCELED'' then optional futures_order_cancelled
      else if st = ''EXPIRED'' then optional futures_order_expired
      else if st \<noteq> ''FILLED'' then throwE (Err (''Unexpected orderStatus: '' @ st))
      else seqE (optional futures_order_filled_or_partially_filled)
             (case cbs of None \<Rightarrow> returnE () | Some c \<Rightarrow> futures_order_filled c bod))"

definition processOrderUpdate ::
    "env \<Rightarrow> bool \<Rightarrow> exchange_identifier \<Rightarrow> world futures_order_callbacks option \<Rightarrow> futures_order_update \<Rightarrow>
     (world, unit) prog" where
  "processOrderUpdate E stored ei cbs x =
     (if fu_eventType x \<noteq> ''ORDER_TRADE_UPDATE'' then throwE (Err ''Unknown eventType'')
      else
        bindE (tryE (futures_order_context E stored ei (fo_order_id (futures_order_data_of ei None x)))
                 (\<lambda>_. returnE None)) (\<lambda>ctx.
        tryE (dispatch_futures_order cbs (futures_order_data_of ei ctx x)) throwE))"

definition on_futures_user_stream ::
    "env \<Rightarrow> bool \<Rightarrow> exchange_identifier \<Rightarrow> world futures_order_callbacks option \<Rightarrow> futures_order_update \<Rightarrow>
     (world, unit) prog" where
  "on_futures_user_stream E stored ei cbs x =
     (if fu_eventType x = ''ORDER_TRADE_UPDATE''
      then tryE (processOrderUpdate E stored ei cbs x)
             (\<lambda>_. alert (''Error calling processOrderUpdate for pair '' @ fu_symbol x))
      else returnE ())"

definition monitor_futures_user_stream ::
    "env \<Rightarrow> bool \<Rightarrow> exchange_identifier \<Rightarrow> world futures_order_callbacks option \<Rightarrow>
     js_error + (futures_order_update \<Rightarrow> (world, unit) prog)" where
  "monitor_futures_user_stream E stored ei cbs =
     (if ei_type ei = Futures then Inr (on_futures_user_stream E stored ei cbs)
      else Inl (Err (''Unknown exchange type: '' @ exchange_type_string (ei_type ei))))"

section \<open>Contexts come back\<close>

definition context_stored :: "world \<Rightarrow> exchange_identifier \<Rightarrow> string \<Rightarrow> order_context option" where
  "context_stored w ei order_id =
     (if order_id = [] then None
      else case map_of (store w) (order_context_key ei order_id) of Some (RContext ctx) \<Rightarrow> Some ctx | _ \<Rightarrow> None)"

lemma wp_stored_context:
  assumes "redis_up E"
  shows "wp (tryE (futures_order_context E True ei order_id) (\<lambda>_. returnE None))
    (\<lambda>ctx t. ctx = context_stored w ei order_id \<and> store t = store w) (\<lambda>_ _. False) w"
proof (cases "map_of (store w) (order_context_key ei order_id)")
  case None
  then show ?thesis
    by (simp add: futures_order_context_def get_order_context_for_order_def context_stored_def wp_redis_get_up [OF assms])
next
  case (Some v)
  then show ?thesis
    by (cases v)
      (simp_all add: futures_order_context_def get_order_context_for_order_def context_stored_def wp_redis_get_up [OF assms])
qed

lemma update_carries_stored_context:
  assumes "redis_up E" "fu_eventType x = ''ORDER_TRADE_UPDATE''"
  shows "\<exists>t. store t = store w \<and> processOrderUpdate E True ei cbs x w =
    dispatch_futures_order cbs (futures_order_data_of ei
      (context_stored w ei (fo_order_id (futures_order_data_of ei None x))) x) t"
proof -
  from wp_total [OF wp_stored_context [OF assms(1), of ei "fo_order_id (futures_order_data_of ei None x)" w]]
  obtain ctx t where c: "tryE (futures_order_context E True ei (fo_order_id (futures_order_data_of ei None x)))
      (\<lambda>_. returnE None) w = (Inr ctx, t)"
    "ctx = context_stored w ei (fo_order_id (futures_order_data_of ei None x))" "store t = store w" by blast
  have "tryE m throwE = m" for m :: "(world, unit) prog"
    by (simp add: fun_eq_iff tryE_def throwE_def split: prod.split sum.split)
  with c show ?thesis
    by (intro exI [of _ t]) (simp add: processOrderUpdate_def assms(2) bindE_def)
qed


text \<open>A handler that tells the user the edge, and a filled order of edge 62.\<close>

definition tell_edge :: "world futures_order_callbacks" where
  "tell_edge = \<lparr>futures_order_created = None, futures_order_filled_or_partially_filled = None,
     futures_order_cancelled = None, futures_order_expired = None,
     futures_order_filled = (\<lambda>d. alert (case fo_edge d of Some e \<Rightarrow> e | None \<Rightarrow> ''manual''))\<rparr>"

definition demo_update :: futures_order_update where
  "demo_update = \<lparr>fu_eventType = ''ORDER_TRADE_UPDATE'', fu_symbol = ''ETHUSDT'', fu_clientOrderId = ''id'', fu_orderId = 1,
     fu_side = SELL, fu_orderType = ''LIMIT'', fu_orderStatus = ''FILLED''\<rparr>"

definition demo_futures :: exchange_identifier where
  "demo_futures = \<lparr>ei_exchange = ''binance'', ei_type = Futures\<rparr>"


end
