(* ===== verification/OrderMessages.thy ===== *)
theory OrderMessages
  imports Messaging FuturesOrders
begin

text \<open>
  What the user is told about orders: the forwarders of the spot and the futures exchange
  (\<open>services/amqp/binance-order-data/order-tracker\<close>, \<open>services/amqp/futures-binance-order-data/order-tracker\<close>),
  the older tracker on the exchange's own stream (\<open>services/order-tracker\<close>), and the listeners of generic
  and of futures orders (\<open>classes/exchanges/generic\<close>, \<open>classes/exchanges/binance\<close>).  The icon in front of one
  message is left out.
\<close>

section \<open>Orders as they arrive\<close>

text \<open>
  \<open>BinanceOrderData\<close> as JSON: amounts are text.  Reading a text as a \<open>BigNumber\<close> is a parameter:
  \<open>nu_fixed\<close> is the rendering \<open>toFixed()\<close> gives back, \<open>None\<close> where the constructor throws.
\<close>

record order_message =
  om_symbol :: string
  om_side :: side
  om_orderType :: string
  om_orderStatus :: string
  om_isOrderWorking :: bool
  om_price :: "string option"
  om_stopPrice :: "string option"
  om_averageExecutionPrice :: "string option"
  om_totalTradeQuantity :: string
  om_exchange_identifier :: exchange_identifier
  om_order_id :: string

text \<open>\<open>FuturesBinanceOrderData\<close> carries the edge.\<close>

record futures_order_message = order_message +
  om_edge :: "string option"

record numerals =
  nu_fixed :: "string \<Rightarrow> string option"
  nu_is_zero :: "string \<Rightarrow> bool"

definition not_a_number :: "string \<Rightarrow> js_error" where
  "not_a_number s = Err (''[BigNumber Error] Not a number: '' @ s)"

text \<open>\<open>v ? new BigNumber(v).toFixed() : "(null)"\<close>.\<close>

definition amount_text :: "numerals \<Rightarrow> string option \<Rightarrow> js_error + string" where
  "amount_text N v =
     (case v of
        None \<Rightarrow> Inr ''(null)''
      | Some s \<Rightarrow>
          if s = [] then Inr ''(null)''
          else (case nu_fixed N s of None \<Rightarrow> Inl (not_a_number s) | Some t \<Rightarrow> Inr t))"

definition executed_text :: "numerals \<Rightarrow> string \<Rightarrow> js_error + string" where
  "executed_text N s =
     (case nu_fixed N s of None \<Rightarrow> Inl (not_a_number s) | Some _ \<Rightarrow> Inr (if nu_is_zero N s then ''0'' else s))"

definition side_text :: "side \<Rightarrow> string" where
  "side_text d = (case d of BUY \<Rightarrow> ''BUY'' | SELL \<Rightarrow> ''SELL'')"

definition undefined_text :: "string option \<Rightarrow> string" where
  "undefined_text v = (case v of None \<Rightarrow> ''undefined'' | Some s \<Rightarrow> s)"

section \<open>The forwarder of spot orders\<close>

text \<open>A context that cannot be read is no error: orders created by hand have none.\<close>

definition edge_for_order :: "env \<Rightarrow> 'a order_message_scheme \<Rightarrow> (world, string option) prog" where
  "edge_for_order E data =
     tryE (bindE (get_order_context_for_order E (om_exchange_identifier data) (om_order_id data))
             (\<lambda>ctx. returnE (Some (oc_edge ctx))))
       (\<lambda>_. returnE None)"

definition forward_order_created :: "numerals \<Rightarrow> env \<Rightarrow> 'a order_message_scheme \<Rightarrow> (world, unit) prog" where
  "forward_order_created N E data =
     bindE (liftE (amount_text N (om_price data))) (\<lambda>price.
     bindE (liftE (amount_text N (om_stopPrice data))) (\<lambda>stopPrice.
     bindE (edge_for_order E data) (\<lambda>edge.
       if om_orderType data = ''MARKET'' then returnE ()
       else if om_orderType data = ''STOP_LOSS_LIMIT'' then
         (if om_isOrderWorking data
          then alert (''Order triggered '' @ om_symbol data @ '' '' @ om_orderType data @ '' (edge: '' @ undefined_text edge @ '').'')
          else alert (''Order created '' @ om_symbol data @ '' '' @ om_orderType data @ '' at '' @ stopPrice @ '' to '' @
            price @ '' (edge: '' @ undefined_text edge @ '').''))
       else alert (''Order created '' @ om_orderType data @ '' '' @ side_text (om_side data) @ '' order on '' @
         om_symbol data @ '' at '' @ price @ '' (edge: '' @ undefined_text edge @ '').''))))"

definition forward_order_cancelled :: "numerals \<Rightarrow> env \<Rightarrow> 'a order_message_scheme \<Rightarrow> (world, unit) prog" where
  "forward_order_cancelled N E data =
     bindE (liftE (amount_text N (om_price data))) (\<lambda>price.
     bindE (edge_for_order E data) (\<lambda>edge.
       alert (''Order cancelled '' @ om_symbol data @ '' '' @ om_orderType data @ '' '' @ side_text (om_side data) @
         '' at '' @ price @ '' (edge: '' @ undefined_text edge @ '')'')))"

definition forward_order_filled :: "numerals \<Rightarrow> env \<Rightarrow> 'a order_message_scheme \<Rightarrow> (world, unit) prog" where
  "forward_order_filled N E data =
     bindE (liftE (amount_text N (om_price data))) (\<lambda>price.
     bindE (liftE (amount_text N (om_averageExecutionPrice data))) (\<lambda>averageExecutionPrice.
     bindE (edge_for_order E data) (\<lambda>edge.
       alert (''Order filled '' @ om_symbol data @ '' '' @ om_orderType data @ '' '' @ side_text (om_side data) @
         '' at '' @ averageExecutionPrice @ '' (price: '' @ price @ '') (edge: '' @ undefined_text edge @ '')''))))"

definition forward_order_expired :: "numerals \<Rightarrow> env \<Rightarrow> 'a order_message_scheme \<Rightarrow> (world, unit) prog" where
  "forward_order_expired N E data =
     bindE (liftE (amount_text N (om_price data))) (\<lambda>price.
     bindE (liftE (amount_text N (om_averageExecutionPrice data))) (\<lambda>averageExecutionPrice.
     bindE (liftE (executed_text N (om_totalTradeQuantity data))) (\<lambda>executedAmount.
     bindE (edge_for_order E data) (\<lambda>edge.
       alert (''Order expired '' @ om_symbol data @ '' '' @ om_orderType data @ '' '' @ side_text (om_side data) @
         '' at '' @ price @ ''/'' @ averageExecutionPrice @ '', executed amount '' @ executedAmount @
         '' (edge: '' @ undefined_text edge @ '')'')))))"

section \<open>The older tracker\<close>

definition tracker_order_created :: "numerals \<Rightarrow> env \<Rightarrow> 'a order_message_scheme \<Rightarrow> (world, unit) prog" where
  "tracker_order_created N E data =
     bindE (edge_for_order E data) (\<lambda>edge.
     bindE (liftE (amount_text N (om_price data))) (\<lambda>price.
     bindE (liftE (amount_text N (om_stopPrice data))) (\<lambda>stopPrice.
       if om_orderType data = ''MARKET'' then returnE ()
       else if om_orderType data = ''STOP_LOSS_LIMIT'' then
         (if om_isOrderWorking data
          then alert (''Triggered '' @ om_symbol data @ '' '' @ om_orderType data @ '' (edge: '' @ undefined_text edge @ '').'')
          else alert (''Created '' @ om_symbol data @ '' '' @ om_orderType data @ '' at '' @ stopPrice @ '' to '' @
            price @ '' (edge: '' @ undefined_text edge @ '').''))
       else alert (''Created '' @ om_orderType data @ '' '' @ side_text (om_side data) @ '' order on '' @
         om_symbol data @ '' at '' @ price @ '' (edge: '' @ undefined_text edge @ '').''))))"

definition tracker_order_cancelled :: "numerals \<Rightarrow> env \<Rightarrow> 'a order_message_scheme \<Rightarrow> (world, unit) prog" where
  "tracker_order_cancelled N E data =
     bindE (liftE (amount_text N (om_price data))) (\<lambda>price.
     bindE (edge_for_order E data) (\<lambda>edge.
       alert (om_symbol data @ '' '' @ om_orderType data @ '' '' @ side_text (om_side data) @ '' at '' @ price @
         '' cancelled  (edge: '' @ undefined_text edge @ '')'')))"

definition tracker_order_is_filled :: "numerals \<Rightarrow> env \<Rightarrow> 'a order_message_scheme \<Rightarrow> (world, unit) prog" where
  "tracker_order_is_filled N E data =
     bindE (liftE (amount_text N (om_price data))) (\<lambda>price.
     bindE (liftE (amount_text N (om_averageExecutionPrice data))) (\<lambda>averageExecutionPrice.
     bindE (edge_for_order E data) (\<lambda>edge.
       alert (om_symbol data @ '' '' @ om_orderType data @ '' '' @ side_text (om_side data) @ '' filled at '' @ price @
         ''/'' @ averageExecutionPrice @ ''  (edge: '' @ undefined_text edge @ '')''))))"

text \<open>An expired stop means that nothing guards the position any more: a second message says so.\<close>

definition stop_expired_message :: "string option \<Rightarrow> 'a order_message_scheme \<Rightarrow> string" where
  "stop_expired_message edge data =
     undefined_text edge @ '':'' @ om_symbol data @
     '' STOP_LOSS_LIMIT order expired - this likely means the market has been closed down. '' @
     ''You may need to exit the position manually.It could also mean the order was manually cancelled.''"

definition tracker_order_expired :: "numerals \<Rightarrow> env \<Rightarrow> 'a order_message_scheme \<Rightarrow> (world, unit) prog" where
  "tracker_order_expired N E data =
     bindE (liftE (amount_text N (om_price data))) (\<lambda>price.
     bindE (liftE (amount_text N (om_averageExecutionPrice data))) (\<lambda>averageExecutionPrice.
     bindE (liftE (executed_text N (om_totalTradeQuantity data))) (\<lambda>executedAmount.
     bindE (edge_for_order E data) (\<lambda>edge.
     seqE (alert (om_symbol data @ '' '' @ om_orderType data @ '' '' @ side_text (om_side data) @ '' EXPIRED at '' @ price @
         ''/'' @ averageExecutionPrice @ '', executed amount '' @ executedAmount @ '' (edge: '' @ undefined_text edge @ '')''))
       (if om_orderType data = ''STOP_LOSS_LIMIT'' then alert (stop_expired_message edge data) else returnE ())))))"

section \<open>The forwarder of futures orders\<close>

definition forward_futures_created :: "numerals \<Rightarrow> futures_order_message \<Rightarrow> (world, unit) prog" where
  "forward_futures_created N data =
     bindE (liftE (amount_text N (om_price data))) (\<lambda>price.
     bindE (liftE (amount_text N (om_stopPrice data))) (\<lambda>stopPrice.
       if om_orderType data = ''MARKET'' then returnE ()
       else alert (''Order created '' @ om_orderType data @ '' '' @ side_text (om_side data) @ '' order on '' @
         om_symbol data @ '' at '' @ price @ '' (edge: '' @ undefined_text (om_edge data) @ '').'')))"

definition forward_futures_cancelled :: "numerals \<Rightarrow> futures_order_message \<Rightarrow> (world, unit) prog" where
  "forward_futures_cancelled N data =
     bindE (liftE (amount_text N (om_price data))) (\<lambda>price.
       alert (''Order cancelled '' @ om_symbol data @ '' '' @ om_orderType data @ '' '' @ side_text (om_side data) @
         '' at '' @ price @ '' (edge: '' @ undefined_text (om_edge data) @ '')''))"

definition forward_futures_filled :: "numerals \<Rightarrow> futures_order_message \<Rightarrow> (world, unit) prog" where
  "forward_futures_filled N data =
     bindE (liftE (amount_text N (om_price data))) (\<lambda>price.
     bindE (liftE (amount_text N (om_averageExecutionPrice data))) (\<lambda>averageExecutionPrice.
       alert (''Order filled '' @ om_symbol data @ '' '' @ om_orderType data @ '' '' @ side_text (om_side data) @
         '' at '' @ averageExecutionPrice @ '' (price: '' @ price @ '') (edge: '' @ undefined_text (om_edge data) @ '')'')))"

definition forward_futures_expired :: "numerals \<Rightarrow> futures_order_message \<Rightarrow> (world, unit) prog" where
  "forward_futures_expired N data =
     bindE (liftE (amount_text N (om_price data))) (\<lambda>price.
     bindE (liftE (amount_text N (om_averageExecutionPrice data))) (\<lambda>averageExecutionPrice.
     bindE (liftE (executed_text N (om_totalTradeQuantity data))) (\<lambda>executedAmount.
       alert (''Order expired '' @ om_symbol data @ '' '' @ om_orderType data @ '' '' @ side_text (om_side data) @
         '' at '' @ price @ ''/'' @ averageExecutionPrice @ '', executed amount '' @ executedAmount @
         '' (edge: '' @ undefined_text (om_edge data) @ '')''))))"

section \<open>The listeners\<close>

text \<open>\<open>GenericOrderCallbacks\<close> and \<open>FuturesOrderCallbacks\<close>; only the handler of filled orders is required.\<close>

record ('s, 'd) listener_callbacks =
  on_created :: "('d \<Rightarrow> ('s, unit) prog) option"
  on_filled_or_partially_filled :: "('d \<Rightarrow> ('s, unit) prog) option"
  on_cancelled :: "('d \<Rightarrow> ('s, unit) prog) option"
  on_expired :: "('d \<Rightarrow> ('s, unit) prog) option"
  on_filled :: "'d \<Rightarrow> ('s, unit) prog"

text \<open>
  The dispatch is the same code in both listeners.  The callbacks are started, not awaited, and their
  rejections are logged.
\<close>

definition dispatch_order_message :: "('s, 'd) listener_callbacks option \<Rightarrow> string \<Rightarrow> 'd \<Rightarrow> ('s, unit) prog" where
  "dispatch_order_message cbs st data =
     (let optional = (\<lambda>sel. case cbs of None \<Rightarrow> returnE () | Some c \<Rightarrow> detached (call_if (sel c) data)) in
      if st = ''NEW'' then optional on_created
      else if st = ''PARTIALLY_FILLED'' then optional on_filled_or_partially_filled
      else if st = ''CANCELED'' then optional on_cancelled
      else if st = ''EXPIRED'' then optional on_expired
      else if st \<noteq> ''FILLED'' then throwE (Err (''Unexpected orderStatus: '' @ st))
      else seqE (optional on_filled_or_partially_filled)
             (case cbs of None \<Rightarrow> returnE () | Some c \<Rightarrow> detached (on_filled c data)))"

fun status_text :: "order_status \<Rightarrow> string" where
  "status_text CANCELED = ''CANCELED''"
| "status_text EXPIRED = ''EXPIRED''"
| "status_text FILLED = ''FILLED''"
| "status_text NEW = ''NEW''"
| "status_text PARTIALLY_FILLED = ''PARTIALLY_FILLED''"
| "status_text PENDING_CANCEL = ''PENDING_CANCEL''"
| "status_text REJECTED = ''REJECTED''"

definition processGenericOrderDataMessage ::
    "('s, generic_order_data) listener_callbacks option \<Rightarrow> generic_order_data \<Rightarrow> ('s, unit) prog" where
  "processGenericOrderDataMessage cbs data =
     tryE (dispatch_order_message cbs (undefined_text (map_option status_text (o_orderStatus data))) data) throwE"

definition generic_order_process_message ::
    "(world, generic_order_data) listener_callbacks option \<Rightarrow> ('b, generic_order_data) processor" where
  "generic_order_process_message cbs event tag =
     tryE (seqE (in_world (processGenericOrderDataMessage cbs event)) (channel_ack tag))
       (\<lambda>_. modifyE (\<lambda>s. s\<lparr>cn_callbacks_healthy := False\<rparr>))"

definition consume_generic_order ::
    "(world, generic_order_data) listener_callbacks option \<Rightarrow> (generic_order_data body \<times> nat) option \<Rightarrow>
     ('b consumer_scheme, unit) prog" where
  "consume_generic_order cbs = wrapper_func ''GenericOrderData'' False (generic_order_process_message cbs)"

definition processFuturesOrderDataMessage ::
    "('s, futures_order_message) listener_callbacks option \<Rightarrow> futures_order_message \<Rightarrow> ('s, unit) prog" where
  "processFuturesOrderDataMessage cbs data = tryE (dispatch_order_message cbs (om_orderStatus data) data) throwE"

text \<open>This listener acknowledges first and only reports what fails afterwards.\<close>

definition futures_order_process_message ::
    "(world, futures_order_message) listener_callbacks option \<Rightarrow> ('b, futures_order_message) processor" where
  "futures_order_process_message cbs event tag =
     tryE (seqE (channel_ack tag) (in_world (processFuturesOrderDataMessage cbs event))) (\<lambda>_. returnE ())"

definition consume_futures_order ::
    "(world, futures_order_message) listener_callbacks option \<Rightarrow> (futures_order_message body \<times> nat) option \<Rightarrow>
     ('b consumer_scheme, unit) prog" where
  "consume_futures_order cbs = wrapper_func ''FuturesBinanceOrderData'' False (futures_order_process_message cbs)"

text \<open>The forwarders as callbacks; neither handles partial fills.\<close>

definition futures_forwarder :: "numerals \<Rightarrow> (world, futures_order_message) listener_callbacks" where
  "futures_forwarder N =
     \<lparr>on_created = Some (forward_futures_created N), on_filled_or_partially_filled = None,
      on_cancelled = Some (forward_futures_cancelled N), on_expired = Some (forward_futures_expired N),
      on_filled = forward_futures_filled N\<rparr>"

definition spot_forwarder :: "numerals \<Rightarrow> env \<Rightarrow> (world, order_message) listener_callbacks" where
  "spot_forwarder N E =
     \<lparr>on_created = Some (forward_order_created N E), on_filled_or_partially_filled = None,
      on_cancelled = Some (forward_order_cancelled N E), on_expired = Some (forward_order_expired N E),
      on_filled = forward_order_filled N E\<rparr>"

section \<open>What the user is told\<close>

definition told :: "world \<Rightarrow> string list" where
  "told w = List.map_filter (\<lambda>e. case e of Alert m \<Rightarrow> Some m | _ \<Rightarrow> None) (trace w)"

lemma told_effect [simp]:
  "told (w\<lparr>trace := e # trace w\<rparr>) = (case e of Alert m \<Rightarrow> m # told w | _ \<Rightarrow> told w)"
  by (simp add: told_def map_filter_simps split: effect.split)

text \<open>The updates the user hears of, and the amounts that must be readable for that.\<close>

definition told_about :: "string \<Rightarrow> string \<Rightarrow> bool" where
  "told_about st ty \<longleftrightarrow> st \<in> {''CANCELED'', ''EXPIRED'', ''FILLED''} \<or> st = ''NEW'' \<and> ty \<noteq> ''MARKET''"

definition readable_amount :: "numerals \<Rightarrow> string option \<Rightarrow> bool" where
  "readable_amount N v \<longleftrightarrow> (case v of None \<Rightarrow> True | Some s \<Rightarrow> s = [] \<or> nu_fixed N s \<noteq> None)"

definition readable :: "numerals \<Rightarrow> string \<Rightarrow> 'a order_message_scheme \<Rightarrow> bool" where
  "readable N st data \<longleftrightarrow> readable_amount N (om_price data) \<and>
     (st = ''NEW'' \<longrightarrow> readable_amount N (om_stopPrice data)) \<and>
     (st \<in> {''FILLED'', ''EXPIRED''} \<longrightarrow> readable_amount N (om_averageExecutionPrice data)) \<and>
     (st = ''EXPIRED'' \<longrightarrow> nu_fixed N (om_totalTradeQuantity data) \<noteq> None)"

definition occurs :: "'a list \<Rightarrow> 'a list \<Rightarrow> bool" where
  "occurs x m \<longleftrightarrow> (\<exists>a b. m = a @ x @ b)"

lemma occurs_later: "occurs x m \<Longrightarrow> occurs x (a @ m)"
  unfolding occurs_def by (metis append_assoc)

lemma occurs_here: "occurs x (x @ b)"
  unfolding occurs_def by (rule exI [of _ "[]"]) simp

lemma occurs_edge:
  "occurs (''(edge: '' @ e) ('' (edge: '' @ e @ b)" "occurs (''(edge: '' @ e) ('') (edge: '' @ e @ b)"
  "occurs (''(edge: '' @ e) (''  (edge: '' @ e @ b)" "occurs (''(edge: '' @ e) ('' cancelled  (edge: '' @ e @ b)"
  unfolding occurs_def
  by (rule exI [of _ "'' ''"], rule exI [of _ b], simp, rule exI [of _ "'') ''"], rule exI [of _ b], simp,
      rule exI [of _ "''  ''"], rule exI [of _ b], simp, rule exI [of _ "'' cancelled  ''"], rule exI [of _ b], simp)

definition names_order :: "string option \<Rightarrow> 'a order_message_scheme \<Rightarrow> string \<Rightarrow> bool" where
  "names_order edge data m \<longleftrightarrow> occurs (om_symbol data) m \<and> occurs (''(edge: '' @ undefined_text edge) m"

lemma amount_text_Inr: "(\<exists>t. amount_text N v = Inr t) \<longleftrightarrow> readable_amount N v"
  by (auto simp: amount_text_def readable_amount_def split: option.split)

lemma amount_text_cases:
  obtains t where "amount_text N v = Inr t" "readable_amount N v"
  | e where "amount_text N v = Inl e" "\<not> readable_amount N v"
  using amount_text_Inr [of N v] by (cases "amount_text N v") auto

lemma executed_text_cases:
  obtains t where "executed_text N s = Inr t" "nu_fixed N s \<noteq> None"
  | e where "executed_text N s = Inl e" "nu_fixed N s = None"
  by (cases "nu_fixed N s") (auto simp: executed_text_def)

text \<open>One message, which names the order and the edge, or none.\<close>

definition tells :: "bool \<Rightarrow> string option \<Rightarrow> 'a order_message_scheme \<Rightarrow> world \<Rightarrow> world \<Rightarrow> bool" where
  "tells b edge data w t \<longleftrightarrow> store t = store w \<and>
     (if b then \<exists>m. told t = m # told w \<and> names_order edge data m else told t = told w)"

definition stored_edge :: "world \<Rightarrow> 'a order_message_scheme \<Rightarrow> string option" where
  "stored_edge w data = map_option oc_edge (context_stored w (om_exchange_identifier data) (om_order_id data))"

lemma tells_none [simp]: "tells False edge data w w"
  by (simp add: tells_def)

lemma tells_alert:
  "store t = store w \<Longrightarrow> told t = told w \<Longrightarrow> occurs (om_symbol data) m \<Longrightarrow>
   occurs (''(edge: '' @ undefined_text edge) m \<Longrightarrow> tells True edge data w (t\<lparr>trace := Alert m # trace t\<rparr>)"
  by (simp add: tells_def names_order_def)

lemma tells_nothing: "tells False edge data w t \<longleftrightarrow> store t = store w \<and> told t = told w"
  by (simp add: tells_def)

text \<open>The same with the edge of the stored context, which is missing when Redis cannot be read.\<close>

definition edge_read :: "env \<Rightarrow> world \<Rightarrow> 'a order_message_scheme \<Rightarrow> string option \<Rightarrow> bool" where
  "edge_read E w data edge \<longleftrightarrow> (redis_up E \<longrightarrow> edge = stored_edge w data)"

definition tells_spot :: "env \<Rightarrow> bool \<Rightarrow> 'a order_message_scheme \<Rightarrow> world \<Rightarrow> world \<Rightarrow> bool" where
  "tells_spot E b data w t \<longleftrightarrow> (\<exists>edge. edge_read E w data edge \<and> tells b edge data w t)"

lemma tells_spot_alert:
  "edge_read E w data edge \<Longrightarrow> store t = store w \<Longrightarrow> told t = told w \<Longrightarrow> occurs (om_symbol data) m \<Longrightarrow>
   occurs (''(edge: '' @ undefined_text edge) m \<Longrightarrow> tells_spot E True data w (t\<lparr>trace := Alert m # trace t\<rparr>)"
  unfolding tells_spot_def using tells_alert by metis

lemma tells_spot_nothing: "store t = store w \<Longrightarrow> told t = told w \<Longrightarrow> tells_spot E False data w t"
  by (auto simp: tells_spot_def tells_nothing edge_read_def)

lemma wp_amount_rule:
  "(\<And>t. readable_amount N v \<Longrightarrow> Q t w) \<Longrightarrow> (\<And>e. \<not> readable_amount N v \<Longrightarrow> R e w) \<Longrightarrow>
   wp (liftE (amount_text N v)) Q R w"
  by (rule amount_text_cases [of N v]) simp_all

lemma wp_executed_rule:
  "(\<And>t. nu_fixed N s \<noteq> None \<Longrightarrow> Q t w) \<Longrightarrow> (\<And>e. nu_fixed N s = None \<Longrightarrow> R e w) \<Longrightarrow>
   wp (liftE (executed_text N s)) Q R w"
  by (rule executed_text_cases [of N s]) simp_all

lemma wp_edge_rule:
  assumes "\<And>edge t. edge_read E w data edge \<Longrightarrow> store t = store w \<Longrightarrow> told t = told w \<Longrightarrow> Q edge t"
  shows "wp (edge_for_order E data) Q R w"
proof -
  have "wp (edge_for_order E data) (\<lambda>edge t. (redis_up E \<longrightarrow> edge = stored_edge w data) \<and> store t = store w \<and> told t = told w)
      (\<lambda>_ _. False) w"
  proof (cases "redis_up E")
    case True
    show ?thesis
      by (simp add: edge_for_order_def stored_edge_def context_stored_def get_order_context_for_order_def
          wp_redis_get_up [OF True] split: option.split redis_value.split)
  next
    case False
    show ?thesis
      by (simp add: False edge_for_order_def get_order_context_for_order_def redis_get_def wp_redis_call Let_def
          split: option.split redis_value.split redis_fault.split)
  qed
  then show ?thesis by (rule wp_mono) (use assms in \<open>auto simp: edge_read_def\<close>)
qed

lemmas occurs_rules = occurs_here occurs_edge occurs_later
lemmas message_rules = wp_amount_rule wp_executed_rule wp_edge_rule

lemma wp_futures_created:
  "wp (forward_futures_created N data)
    (\<lambda>_ t. readable N ''NEW'' data \<and> tells (told_about ''NEW'' (om_orderType data)) (om_edge data) data w t)
    (\<lambda>_ t. \<not> readable N ''NEW'' data \<and> tells False None data w t) w"
  unfolding forward_futures_created_def wp_bindE
  by (intro message_rules) (auto simp: readable_def told_about_def tells_nothing occurs_rules intro!: tells_alert simp del: append_Cons)

lemma wp_futures_cancelled:
  "wp (forward_futures_cancelled N data)
    (\<lambda>_ t. readable N ''CANCELED'' data \<and> tells (told_about ''CANCELED'' (om_orderType data)) (om_edge data) data w t)
    (\<lambda>_ t. \<not> readable N ''CANCELED'' data \<and> tells False None data w t) w"
  unfolding forward_futures_cancelled_def wp_bindE
  by (intro message_rules) (auto simp: readable_def told_about_def tells_nothing occurs_rules intro!: tells_alert simp del: append_Cons)

lemma wp_futures_filled:
  "wp (forward_futures_filled N data)
    (\<lambda>_ t. readable N ''FILLED'' data \<and> tells (told_about ''FILLED'' (om_orderType data)) (om_edge data) data w t)
    (\<lambda>_ t. \<not> readable N ''FILLED'' data \<and> tells False None data w t) w"
  unfolding forward_futures_filled_def wp_bindE
  by (intro message_rules) (auto simp: readable_def told_about_def tells_nothing occurs_rules intro!: tells_alert simp del: append_Cons)

lemma wp_futures_expired:
  "wp (forward_futures_expired N data)
    (\<lambda>_ t. readable N ''EXPIRED'' data \<and> tells (told_about ''EXPIRED'' (om_orderType data)) (om_edge data) data w t)
    (\<lambda>_ t. \<not> readable N ''EXPIRED'' data \<and> tells False None data w t) w"
  unfolding forward_futures_expired_def wp_bindE
  by (intro message_rules) (auto simp: readable_def told_about_def tells_nothing occurs_rules intro!: tells_alert simp del: append_Cons)

lemma wp_spot_created:
  "wp (forward_order_created N E data)
    (\<lambda>_ t. readable N ''NEW'' data \<and> tells_spot E (told_about ''NEW'' (om_orderType data)) data w t)
    (\<lambda>_ t. \<not> readable N ''NEW'' data \<and> tells False None data w t) w"
  unfolding forward_order_created_def wp_bindE
  by (intro message_rules) (auto simp: readable_def told_about_def tells_nothing occurs_rules intro!: tells_spot_alert tells_spot_nothing simp del: append_Cons)

lemma wp_spot_cancelled:
  "wp (forward_order_cancelled N E data)
    (\<lambda>_ t. readable N ''CANCELED'' data \<and> tells_spot E (told_about ''CANCELED'' (om_orderType data)) data w t)
    (\<lambda>_ t. \<not> readable N ''CANCELED'' data \<and> tells False None data w t) w"
  unfolding forward_order_cancelled_def wp_bindE
  by (intro message_rules) (auto simp: readable_def told_about_def tells_nothing occurs_rules intro!: tells_spot_alert tells_spot_nothing simp del: append_Cons)

lemma wp_spot_filled:
  "wp (forward_order_filled N E data)
    (\<lambda>_ t. readable N ''FILLED'' data \<and> tells_spot E (told_about ''FILLED'' (om_orderType data)) data w t)
    (\<lambda>_ t. \<not> readable N ''FILLED'' data \<and> tells False None data w t) w"
  unfolding forward_order_filled_def wp_bindE
  by (intro message_rules) (auto simp: readable_def told_about_def tells_nothing occurs_rules intro!: tells_spot_alert tells_spot_nothing simp del: append_Cons)

lemma wp_spot_expired:
  "wp (forward_order_expired N E data)
    (\<lambda>_ t. readable N ''EXPIRED'' data \<and> tells_spot E (told_about ''EXPIRED'' (om_orderType data)) data w t)
    (\<lambda>_ t. \<not> readable N ''EXPIRED'' data \<and> tells False None data w t) w"
  unfolding forward_order_expired_def wp_bindE
  by (intro message_rules) (auto simp: readable_def told_about_def tells_nothing occurs_rules intro!: tells_spot_alert tells_spot_nothing simp del: append_Cons)

lemma wp_tracker_created:
  "wp (tracker_order_created N E data)
    (\<lambda>_ t. readable N ''NEW'' data \<and> tells_spot E (told_about ''NEW'' (om_orderType data)) data w t)
    (\<lambda>_ t. \<not> readable N ''NEW'' data \<and> tells False None data w t) w"
  unfolding tracker_order_created_def wp_bindE
  by (intro message_rules) (auto simp: readable_def told_about_def tells_nothing occurs_rules intro!: tells_spot_alert tells_spot_nothing simp del: append_Cons)

lemma wp_tracker_cancelled:
  "wp (tracker_order_cancelled N E data)
    (\<lambda>_ t. readable N ''CANCELED'' data \<and> tells_spot E (told_about ''CANCELED'' (om_orderType data)) data w t)
    (\<lambda>_ t. \<not> readable N ''CANCELED'' data \<and> tells False None data w t) w"
  unfolding tracker_order_cancelled_def wp_bindE
  by (intro message_rules) (auto simp: readable_def told_about_def tells_nothing occurs_rules intro!: tells_spot_alert tells_spot_nothing simp del: append_Cons)

lemma wp_tracker_filled:
  "wp (tracker_order_is_filled N E data)
    (\<lambda>_ t. readable N ''FILLED'' data \<and> tells_spot E (told_about ''FILLED'' (om_orderType data)) data w t)
    (\<lambda>_ t. \<not> readable N ''FILLED'' data \<and> tells False None data w t) w"
  unfolding tracker_order_is_filled_def wp_bindE
  by (intro message_rules) (auto simp: readable_def told_about_def tells_nothing occurs_rules intro!: tells_spot_alert tells_spot_nothing simp del: append_Cons)

text \<open>An expired order is reported once, an expired stop with the warning after it.\<close>

definition announces :: "env \<Rightarrow> 'a order_message_scheme \<Rightarrow> world \<Rightarrow> world \<Rightarrow> bool" where
  "announces E data w t \<longleftrightarrow> store t = store w \<and> (\<exists>edge m. edge_read E w data edge \<and> names_order edge data m \<and>
     told t = (if om_orderType data = ''STOP_LOSS_LIMIT'' then [stop_expired_message edge data] else []) @ m # told w)"

lemma announces_stop:
  "om_orderType data = ''STOP_LOSS_LIMIT'' \<Longrightarrow> edge_read E w data edge \<Longrightarrow> store t = store w \<Longrightarrow> told t = told w \<Longrightarrow>
   occurs (om_symbol data) m \<Longrightarrow> occurs (''(edge: '' @ undefined_text edge) m \<Longrightarrow>
   announces E data w (t\<lparr>trace := Alert (stop_expired_message edge data) # Alert m # trace t\<rparr>)"
  by (auto simp: announces_def names_order_def told_def map_filter_simps)

lemma announces_other:
  "om_orderType data \<noteq> ''STOP_LOSS_LIMIT'' \<Longrightarrow> edge_read E w data edge \<Longrightarrow> store t = store w \<Longrightarrow> told t = told w \<Longrightarrow>
   occurs (om_symbol data) m \<Longrightarrow> occurs (''(edge: '' @ undefined_text edge) m \<Longrightarrow>
   announces E data w (t\<lparr>trace := Alert m # trace t\<rparr>)"
  by (auto simp: announces_def names_order_def)

theorem expired_stop_is_announced:
  "wp (tracker_order_expired N E data)
    (\<lambda>_ t. readable N ''EXPIRED'' data \<and> announces E data w t)
    (\<lambda>_ t. \<not> readable N ''EXPIRED'' data \<and> tells False None data w t) w"
  unfolding tracker_order_expired_def wp_bindE
  by (intro message_rules)
    (auto simp: readable_def tells_nothing occurs_rules simp del: append_Cons intro!: announces_stop announces_other)

section \<open>Listener and forwarder\<close>

lemma wp_detached [simp]: "wp (detached m) Q R w = wp m Q (\<lambda>_. Q ()) w"
  by (simp add: detached_def)

lemma expected_status_cases:
  assumes "expected_status st"
  obtains "st = ''NEW''" | "st = ''PARTIALLY_FILLED''" | "st = ''CANCELED''" | "st = ''EXPIRED''" | "st = ''FILLED''"
  using assms by (auto simp: expected_status_def)

lemma wp_dispatch_futures:
  "wp (dispatch_order_message (Some (futures_forwarder N)) st data)
    (\<lambda>_ t. expected_status st \<and> tells (told_about st (om_orderType data) \<and> readable N st data) (om_edge data) data w t)
    (\<lambda>_ t. \<not> expected_status st \<and> t = w) w"
proof (cases "expected_status st")
  case True
  then show ?thesis
    by (cases rule: expected_status_cases)
      (auto simp: dispatch_order_message_def futures_forwarder_def call_if_def expected_status_def told_about_def tells_nothing
        intro!: wp_mono [OF wp_futures_created] wp_mono [OF wp_futures_cancelled] wp_mono [OF wp_futures_expired]
          wp_mono [OF wp_futures_filled])
next
  case False
  then show ?thesis by (simp add: dispatch_order_message_def expected_status_def)
qed

lemma wp_dispatch_spot:
  "wp (dispatch_order_message (Some (spot_forwarder N E)) st data)
    (\<lambda>_ t. expected_status st \<and> tells_spot E (told_about st (om_orderType data) \<and> readable N st data) data w t)
    (\<lambda>_ t. \<not> expected_status st \<and> t = w) w"
proof (cases "expected_status st")
  case True
  then show ?thesis
    by (cases rule: expected_status_cases)
      (auto simp: dispatch_order_message_def spot_forwarder_def call_if_def expected_status_def told_about_def tells_nothing
        intro!: wp_mono [OF wp_spot_created] wp_mono [OF wp_spot_cancelled] wp_mono [OF wp_spot_expired]
          wp_mono [OF wp_spot_filled] tells_spot_nothing)
next
  case False
  then show ?thesis by (simp add: dispatch_order_message_def expected_status_def)
qed

text \<open>
  C40: Every update of a futures order is acknowledged once, whatever happens, and leaves the service healthy.
  The user is told of it exactly once, with the order's symbol and edge, when it is one of those the user
  is told about and its amounts can be read; otherwise nothing is said.
\<close>
theorem futures_update_reaches_the_user:
  "\<exists>t. consume_futures_order (Some (futures_forwarder N)) (Some (Body (Some ''FuturesBinanceOrderData'') data, tag)) s = (Inr (), t) \<and>
    cn_settled t = (tag, Acknowledged) # cn_settled s \<and> cn_service_healthy t = cn_service_healthy s \<and>
    tells (told_about (om_orderStatus data) (om_orderType data) \<and> readable N (om_orderStatus data) data)
      (om_edge data) data (cn_world s) (cn_world t)"
proof -
  let ?u = "s\<lparr>cn_settled := (tag, Acknowledged) # cn_settled s\<rparr>"
  have "wp (consume_futures_order (Some (futures_forwarder N)) (Some (Body (Some ''FuturesBinanceOrderData'') data, tag)))
      (\<lambda>_ t. cn_settled t = (tag, Acknowledged) # cn_settled s \<and> cn_service_healthy t = cn_service_healthy s \<and>
         tells (told_about (om_orderStatus data) (om_orderType data) \<and> readable N (om_orderStatus data) data)
           (om_edge data) data (cn_world s) (cn_world t)) (\<lambda>_ _. False) s"
    by (auto simp: consume_futures_order_def wrapper_func_def wrapper_process_message_def futures_order_process_message_def
        channel_ack_def processFuturesOrderDataMessage_def expected_status_def told_about_def
        intro!: wp_mono [OF wp_dispatch_futures])
  from wp_total [OF this] show ?thesis by auto
qed

text \<open>The same for spot orders, whatever state Redis is in: the edge is that of the order's stored context.\<close>

theorem spot_update_reaches_the_user:
  assumes "expected_status (om_orderStatus data)"
  shows "\<exists>t. dispatch_order_message (Some (spot_forwarder N E)) (om_orderStatus data) data w = (Inr (), t) \<and>
    tells_spot E (told_about (om_orderStatus data) (om_orderType data) \<and> readable N (om_orderStatus data) data) data w t"
proof -
  have "wp (dispatch_order_message (Some (spot_forwarder N E)) (om_orderStatus data) data)
      (\<lambda>_ t. tells_spot E (told_about (om_orderStatus data) (om_orderType data) \<and> readable N (om_orderStatus data) data) data w t)
      (\<lambda>_ _. False) w"
    by (rule wp_mono [OF wp_dispatch_spot]) (use assms in auto)
  from wp_total [OF this] show ?thesis by auto
qed

lemma expected_status_text: "expected_status (status_text st) \<longleftrightarrow> st \<notin> {PENDING_CANCEL, REJECTED}"
  by (cases st) (simp_all add: expected_status_def)

lemma expected_generic_status:
  "expected_status (undefined_text (map_option status_text v)) \<longleftrightarrow> (\<exists>st. v = Some st \<and> st \<notin> {PENDING_CANCEL, REJECTED})"
proof (cases v)
  case None
  then show ?thesis by (simp add: undefined_text_def expected_status_def)
next
  case (Some st)
  then show ?thesis using expected_status_text [of st] by (simp add: undefined_text_def)
qed

text \<open>
  A generic order is acknowledged exactly when its status is one the listener knows; any other marks the
  callbacks unhealthy and leaves the message with the broker.
\<close>

theorem generic_order_is_settled:
  "wp (consume_generic_order cbs (Some (Body (Some ''GenericOrderData'') data, tag)))
    (\<lambda>_ t. if \<exists>st. o_orderStatus data = Some st \<and> st \<notin> {PENDING_CANCEL, REJECTED}
       then cn_settled t = (tag, Acknowledged) # cn_settled s \<and> cn_callbacks_healthy t = cn_callbacks_healthy s
       else cn_settled t = cn_settled s \<and> \<not> cn_callbacks_healthy t)
    (\<lambda>_ _. False) s"
proof -
  have run: "wp (dispatch_order_message cbs st data)
      (\<lambda>_ _. expected_status st) (\<lambda>_ _. \<not> expected_status st) w" for st w
    by (auto simp: dispatch_order_message_def Let_def expected_status_def wp_true intro: wp_mono [OF wp_true] split: option.split)
  show ?thesis
    unfolding expected_generic_status [symmetric]
    by (auto simp: consume_generic_order_def wrapper_func_def wrapper_process_message_def generic_order_process_message_def
        channel_ack_def processGenericOrderDataMessage_def intro!: wp_mono [OF run])
qed

end
