(* ===== verification/PositionPerformance.thy ===== *)
theory PositionPerformance
  imports Portfolio OrderMessages "HOL-Library.Multiset"
begin

text \<open>
  The report on open positions (\<open>services/position-performance\<close>): at an interval the service asks for all
  prices, reads every open position and sends one message that lists them by their change since entry.
\<close>

section \<open>Sorting\<close>

text \<open>
  \<open>isGreaterThan\<close> between numbers that need not be finite.  \<open>Array.prototype.sort\<close> is a stable insertion of
  each element before the first one it compares below; the language leaves the order open where the
  comparison contradicts itself, as the one of this report does for equal changes.
\<close>

fun big_greater :: "big \<Rightarrow> big \<Rightarrow> bool" where
  "big_greater (Num x) (Num y) = (y < x)"
| "big_greater (Num x) (Infinite s) = s"
| "big_greater (Infinite s) (Num y) = (\<not> s)"
| "big_greater (Infinite s) (Infinite t) = (\<not> s \<and> t)"
| "big_greater _ _ = False"

fun js_insert :: "('a \<Rightarrow> 'a \<Rightarrow> int) \<Rightarrow> 'a \<Rightarrow> 'a list \<Rightarrow> 'a list" where
  "js_insert cmp x [] = [x]"
| "js_insert cmp x (y # ys) = (if cmp x y < 0 then x # y # ys else y # js_insert cmp x ys)"

definition js_sort :: "('a \<Rightarrow> 'a \<Rightarrow> int) \<Rightarrow> 'a list \<Rightarrow> 'a list" where
  "js_sort cmp xs = fold (js_insert cmp) xs []"

section \<open>The report\<close>

record interim_data =
  id_edge :: "string option"
  id_base_asset :: string
  id_initial_entry_price :: rat
  id_change :: big

definition change_since_entry :: "bignum \<Rightarrow> rat \<Rightarrow> rat \<Rightarrow> big" where
  "change_since_entry B current_price initial_entry_price =
     big_times (big_div B (Num (current_price - initial_entry_price)) (Num initial_entry_price)) 100"

definition current_price_of :: "env \<Rightarrow> price_table option \<Rightarrow> position_identifier \<Rightarrow> (world, rat) prog" where
  "current_price_of E ps p =
     bindE (get_initial_entry_quote_asset E p) (\<lambda>quote.
       let symbol = to_upper (pi_base_asset p @ quote) in
       case ps of
         None \<Rightarrow> throwE (Err ''prices not initialised'')
       | Some ps \<Rightarrow> (case ps symbol of
           None \<Rightarrow> throwE (Err ''[BigNumber Error] Not a number: undefined'')
         | Some price \<Rightarrow> returnE price))"

definition interim_data_of :: "bignum \<Rightarrow> env \<Rightarrow> price_table option \<Rightarrow> position_identifier \<Rightarrow> (world, interim_data) prog" where
  "interim_data_of B E ps p =
     bindE (current_price_of E ps p) (\<lambda>current_price.
     bindE (get_initial_entry_price B E p) (\<lambda>initial_entry_price.
     bindE (get_initial_entry_price B E p) (\<lambda>initial.
       returnE \<lparr>id_edge = pi_edge p, id_base_asset = pi_base_asset p, id_initial_entry_price = initial_entry_price,
         id_change = change_since_entry B current_price initial\<rparr>)))"

text \<open>\<open>text\<close> is \<open>toFixed()\<close>.\<close>

definition data_to_string :: "bignum \<Rightarrow> (big \<Rightarrow> string) \<Rightarrow> interim_data \<Rightarrow> string" where
  "data_to_string B text d =
     id_base_asset d @ '': '' @ text (big_dp B 1 (id_change d)) @ ''% (entry: '' @ text (Num (id_initial_entry_price d)) @
     '', '' @ undefined_text (id_edge d) @ '')''"

definition by_change :: "interim_data \<Rightarrow> interim_data \<Rightarrow> int" where
  "by_change a b = (if big_greater (id_change a) (id_change b) then 1 else - 1)"

definition performance_message :: "bignum \<Rightarrow> (big \<Rightarrow> string) \<Rightarrow> interim_data list \<Rightarrow> string" where
  "performance_message B text ds =
     CHR 0x0A # nat_string (length ds) @ '' positions:'' @ CHR 0x0A # join_with [CHR 0x0A] (map (data_to_string B text) ds)"

definition list_positions :: "bignum \<Rightarrow> env \<Rightarrow> (big \<Rightarrow> string) \<Rightarrow> price_table option \<Rightarrow> (world, unit) prog" where
  "list_positions B E text ps =
     bindE (open_positions E) (\<lambda>positions.
     bindE (mapE (interim_data_of B E ps) positions) (\<lambda>unsorted.
       let ds = js_sort by_change unsorted in
       if ds \<noteq> [] then alert (performance_message B text ds) else returnE ()))"

definition update_performance :: "bignum \<Rightarrow> env \<Rightarrow> (big \<Rightarrow> string) \<Rightarrow> (world, unit) prog" where
  "update_performance B E text =
     bindE (call_out GetPrices (env_prices E)) (\<lambda>ps. list_positions B E text (Some ps))"

section \<open>What sorting gives\<close>

lemma mset_js_insert [simp]: "mset (js_insert cmp x ys) = add_mset x (mset ys)"
  by (induction ys) auto

lemma mset_js_sort [simp]: "mset (js_sort cmp xs) = mset xs"
proof -
  have "mset (fold (js_insert cmp) xs ys) = mset xs + mset ys" for ys
    by (induction xs arbitrary: ys) auto
  then show ?thesis by (simp add: js_sort_def)
qed

lemma set_js_insert [simp]: "set (js_insert cmp x ys) = insert x (set ys)"
  using mset_js_insert [of cmp x ys] by (metis set_mset_add_mset_insert set_mset_mset)

lemma set_js_sort [simp]: "set (js_sort cmp xs) = set xs"
  by (metis mset_js_sort set_mset_mset)

definition ascending :: "interim_data list \<Rightarrow> bool" where
  "ascending ds \<longleftrightarrow> sorted_wrt (\<lambda>a b. \<not> big_greater (id_change a) (id_change b)) ds"

lemma big_not_greater_trans:
  assumes "\<not> big_greater x y" "\<not> big_greater y z" "y \<noteq> NotANumber"
  shows "\<not> big_greater x z"
  using assms by (cases x; cases y; cases z) auto

lemma big_not_greater_sym: "big_greater x y \<Longrightarrow> \<not> big_greater y x"
  by (cases x; cases y) auto

lemma ascending_insert:
  assumes "ascending ys" "id_change x \<noteq> NotANumber" "\<forall>y \<in> set ys. id_change y \<noteq> NotANumber"
  shows "ascending (js_insert by_change x ys)"
  using assms
proof (induction ys)
  case (Cons y ys)
  have tail: "\<not> big_greater (id_change x) (id_change z)" if "\<not> big_greater (id_change x) (id_change y)" "z \<in> set ys" for z
    using big_not_greater_trans [OF that(1)] Cons.prems(1,3) that(2) by (auto simp: ascending_def)
  have head: "\<not> big_greater (id_change y) (id_change x)" if "big_greater (id_change x) (id_change y)"
    by (rule big_not_greater_sym [OF that])
  show ?case
    using Cons tail head by (auto simp: ascending_def by_change_def)
qed (simp add: ascending_def)

lemma ascending_sort:
  assumes "\<forall>x \<in> set xs. id_change x \<noteq> NotANumber"
  shows "ascending (js_sort by_change xs)"
proof -
  have "ascending (fold (js_insert by_change) xs ys)"
    if "ascending ys" "\<forall>x \<in> set xs \<union> set ys. id_change x \<noteq> NotANumber" for ys
    using that by (induction xs arbitrary: ys) (simp_all add: ascending_insert)
  from this [of "[]"] assms show ?thesis by (simp add: js_sort_def ascending_def)
qed

section \<open>What is reported\<close>

definition quiet :: "world \<Rightarrow> world \<Rightarrow> bool" where
  "quiet w t \<longleftrightarrow> told t = told w"

lemma quiet_pre [simp]: "reflp quiet" "transp quiet"
  by (auto simp: quiet_def reflp_def transp_def)

lemmas quiet_rules = keeps_bindE [OF quiet_pre(2)] keeps_returnE [OF quiet_pre(1)] keeps_throwE [OF quiet_pre(1)]
  keeps_liftE [OF quiet_pre(1)] keeps_getE [OF quiet_pre(1)]

lemma quiet_redis_get: "keeps quiet (redis_get E k)"
  by (simp add: keeps_wp quiet_def redis_get_def wp_redis_call Let_def split: option.split redis_value.split redis_fault.split)

lemma quiet_open_positions: "keeps quiet (open_positions E)"
  by (simp add: keeps_wp quiet_def open_positions_def redis_keys_def wp_redis_call Let_def split: sum.split redis_fault.split)

lemma quiet_get_key: "keeps quiet (get_key_no_null E p name)"
  unfolding get_key_no_null_def get_key_def by (auto intro!: quiet_rules quiet_redis_get)

lemma quiet_interim: "keeps quiet (interim_data_of B E ps p)"
  unfolding interim_data_of_def current_price_of_def get_initial_entry_quote_asset_def get_string_key_no_null_def
    get_initial_entry_price_def get_sats_key_def Let_def
  by (auto intro!: quiet_rules quiet_get_key split: option.split)

text \<open>A list of the positions, each as often as it is open, by change where the changes are numbers.\<close>

definition reports :: "position_identifier list \<Rightarrow> interim_data list \<Rightarrow> bool" where
  "reports positions ds \<longleftrightarrow>
     mset (map (\<lambda>d. (id_base_asset d, id_edge d)) ds) = mset (map (\<lambda>p. (pi_base_asset p, pi_edge p)) positions) \<and>
     ((\<forall>d \<in> set ds. id_change d \<noteq> NotANumber) \<longrightarrow> ascending ds)"

lemma sorted_reports:
  assumes "map (\<lambda>d. (id_base_asset d, id_edge d)) unsorted = map (\<lambda>p. (pi_base_asset p, pi_edge p)) positions"
  shows "reports positions (js_sort by_change unsorted)" "js_sort by_change unsorted = [] \<longleftrightarrow> positions = []"
proof -
  show "reports positions (js_sort by_change unsorted)"
    using ascending_sort [of unsorted] unfolding reports_def by (simp flip: assms)
  have "length unsorted = length positions" using assms by (metis length_map)
  then show "js_sort by_change unsorted = [] \<longleftrightarrow> positions = []" by (metis length_0_conv mset_js_sort size_mset)
qed

lemma wp_interim:
  "wp (interim_data_of B E ps p) (\<lambda>d t. quiet w t \<and> (id_base_asset d, id_edge d) = (pi_base_asset p, pi_edge p))
     (\<lambda>_ t. quiet w t) w"
proof -
  have shape: "wp (bindE m (\<lambda>c. bindE m' (\<lambda>x. bindE m'' (\<lambda>y. returnE (g c x y))))) (\<lambda>d _. \<exists>c x y. d = g c x y) (\<lambda>_ _. True) v"
    for m :: "(world, 'a) prog" and m' :: "(world, 'b) prog" and m'' :: "(world, 'c) prog" and g :: "'a \<Rightarrow> 'b \<Rightarrow> 'c \<Rightarrow> 'd" and v
    by (auto intro!: wp_mono [OF wp_true])
  have "wp (interim_data_of B E ps p) (\<lambda>d _. (id_base_asset d, id_edge d) = (pi_base_asset p, pi_edge p)) (\<lambda>_ _. True) w"
    unfolding interim_data_of_def by (rule wp_mono [OF shape]) auto
  moreover have "wp (interim_data_of B E ps p) (\<lambda>_ t. quiet w t) (\<lambda>_ t. quiet w t) w"
    using quiet_interim by (simp add: keeps_wp)
  ultimately show ?thesis by (rule wp_mono [OF wp_conj]) auto
qed

lemma wp_mapE_interim:
  "wp (mapE (interim_data_of B E ps) positions)
    (\<lambda>ds t. quiet w t \<and> map (\<lambda>d. (id_base_asset d, id_edge d)) ds = map (\<lambda>p. (pi_base_asset p, pi_edge p)) positions)
    (\<lambda>_ t. quiet w t) w"
proof (induction positions arbitrary: w)
  case (Cons p positions)
  have step: "quiet w t \<Longrightarrow> wp (mapE (interim_data_of B E ps) positions)
      (\<lambda>ds u. quiet w u \<and> map (\<lambda>d. (id_base_asset d, id_edge d)) ds = map (\<lambda>p. (pi_base_asset p, pi_edge p)) positions)
      (\<lambda>_ u. quiet w u) t" for t
    by (rule wp_mono [OF Cons.IH]) (auto simp: quiet_def)
  show ?case by (auto intro!: wp_mono [OF wp_interim] wp_mono [OF step])
qed (simp add: quiet_def)

text \<open>
  A report names every open position exactly once, lowest change first, in a single message, and there is
  none without positions.  When anything fails on the way, a price that is missing say, nothing is sent.
\<close>
theorem report_lists_positions_by_change:
  "wp (list_positions B E text ps)
    (\<lambda>_ t. \<exists>positions ds. fst (open_positions E w) = Inr positions \<and>
       reports positions ds \<and> told t = (if positions = [] then told w else performance_message B text ds # told w))
    (\<lambda>_ t. told t = told w) w"
proof -
  have list: "wp (open_positions E) (\<lambda>positions t. fst (open_positions E w) = Inr positions \<and> quiet w t) (\<lambda>_ t. quiet w t) w"
    using quiet_open_positions [of E] by (auto simp: keeps_def wp_def split: prod.splits sum.splits)
      (metis snd_conv)+
  have entries: "quiet w t \<Longrightarrow> wp (mapE (interim_data_of B E ps) positions)
      (\<lambda>ds u. quiet w u \<and> map (\<lambda>d. (id_base_asset d, id_edge d)) ds = map (\<lambda>p. (pi_base_asset p, pi_edge p)) positions)
      (\<lambda>_ u. quiet w u) t" for t positions
    by (rule wp_mono [OF wp_mapE_interim]) (auto simp: quiet_def)
  have sent: "wp (let ds = js_sort by_change unsorted in
        if ds \<noteq> [] then alert (performance_message B text ds) else returnE ())
      (\<lambda>_ v. \<exists>positions ds. fst (open_positions E w) = Inr positions \<and>
       reports positions ds \<and> told v = (if positions = [] then told w else performance_message B text ds # told w)) R u"
    if "fst (open_positions E w) = Inr positions" "quiet w u"
      "map (\<lambda>d. (id_base_asset d, id_edge d)) unsorted = map (\<lambda>p. (pi_base_asset p, pi_edge p)) positions" for positions unsorted u R
    using that(1,2) sorted_reports [OF that(3)] by (auto simp: Let_def quiet_def)
  show ?thesis
    unfolding list_positions_def wp_bindE
  proof (rule wp_mono [OF list])
    fix positions t assume l: "fst (open_positions E w) = Inr positions \<and> quiet w t"
    then have q: "quiet w t" by simp
    show "wp (mapE (interim_data_of B E ps) positions) (\<lambda>unsorted. wp (let ds = js_sort by_change unsorted in
          if ds \<noteq> [] then alert (performance_message B text ds) else returnE ())
        (\<lambda>_ v. \<exists>positions ds. fst (open_positions E w) = Inr positions \<and> reports positions ds \<and>
           told v = (if positions = [] then told w else performance_message B text ds # told w)) (\<lambda>_ t. told t = told w))
        (\<lambda>_ t. told t = told w) t"
      by (rule wp_mono [OF entries [OF q]], rule sent) (use l in \<open>auto simp: quiet_def\<close>)
  qed (simp add: quiet_def)
qed

end
