(* ===== verification/FuturesPortfolio.thy ===== *)
theory FuturesPortfolio
  imports PositionPerformance
begin

text \<open>
  The valuation of a futures account (\<open>services/binance/futures/portfolio-tracker/futures-portfolio-utils.ts\<close>),
  the older sibling of \<open>SpotPortfolioUtils\<close>: it keeps no mark of what was added already, so it can be asked
  again and again.  The service that called it is disabled at this commit.
\<close>

section \<open>PortfolioUtils\<close>

record futures_balance =
  fb_asset :: string
  fb_quote_equivalents :: "(string \<rightharpoonup> big) option"
  fb_walletBalance :: rat
  fb_unrealizedProfit :: rat
  fb_marginBalance :: rat
  fb_maintMargin :: rat
  fb_initialMargin :: rat
  fb_positionInitialMargin :: rat
  fb_openOrderInitialMargin :: rat
  fb_maxWithdrawAmount :: rat
  fb_crossWalletBalance :: rat
  fb_crossUnPnl :: rat
  fb_availableBalance :: rat
  fb_marginAvailable :: bool
  fb_updateTime :: int

text \<open>The balances are declared always present, but the code checks.\<close>

record futures_portfolio =
  fp_usd_value :: "string option"
  fp_balances :: "futures_balance list option"
  fp_prices :: "price_table option"

definition futures_convert :: "bignum \<Rightarrow> price_table \<Rightarrow> rat \<Rightarrow> string \<Rightarrow> string \<Rightarrow> js_error + big" where
  "futures_convert B ps base_quantity base_currency quote_currency =
     (if base_currency = quote_currency then Inr (Num base_quantity)
      else
        case ps (base_currency @ quote_currency) of
          Some price \<Rightarrow> Inr (Num (base_quantity * price))
        | None \<Rightarrow>
            (case ps (quote_currency @ base_currency) of
               Some price \<Rightarrow> Inr (big_div B (Num base_quantity) (Num price))
             | None \<Rightarrow> Inl (Err (''Pair '' @ base_currency @ quote_currency @ '' not available when converting '' @
                 base_currency @ '' to '' @ quote_currency))))"

definition futures_total_balance :: "bignum \<Rightarrow> futures_balance \<Rightarrow> rat" where
  "futures_total_balance B b = bn_dp B 8 (fb_walletBalance b)"

definition futures_total_balance_bignum :: "futures_balance \<Rightarrow> rat" where
  "futures_total_balance_bignum b = fb_walletBalance b"

definition futures_total_value :: "bignum \<Rightarrow> price_table \<Rightarrow> string \<Rightarrow> futures_balance \<Rightarrow> js_error + big" where
  "futures_total_value B ps quote_currency b =
     (let base_quantity = fb_walletBalance b in
      if fb_asset b = quote_currency then Inr (Num base_quantity)
      else futures_convert B ps base_quantity (fb_asset b) quote_currency)"

definition futures_free_balance :: "bignum \<Rightarrow> price_table \<Rightarrow> string \<Rightarrow> futures_balance \<Rightarrow> js_error + big" where
  "futures_free_balance B ps quote_currency b =
     (let base_quantity = fb_walletBalance b in
      if fb_asset b = quote_currency then Inr (Num base_quantity)
      else if base_quantity = 0 then Inr (Num base_quantity)
      else futures_convert B ps base_quantity (fb_asset b) quote_currency)"

definition futures_balances_with_free_greater_than ::
    "bignum \<Rightarrow> futures_balance list \<Rightarrow> string \<Rightarrow> rat \<Rightarrow> price_table \<Rightarrow> (string \<times> big) list" where
  "futures_balances_with_free_greater_than B bs quote_currency quote_amount ps =
     (let mapper = (\<lambda>b. (fb_asset b, case futures_free_balance B ps quote_currency b of Inr x \<Rightarrow> Some x | Inl _ \<Rightarrow> None))
      in List.map_filter (\<lambda>(asset, q). case q of
           Some x \<Rightarrow> if big_at_least x quote_amount then Some (asset, x) else None
         | None \<Rightarrow> None) (map mapper bs))"

text \<open>The objects \<open>quote_equivalents\<close> that exist are shared with the copy that is returned, and written.\<close>

datatype futures_returned = FuturesArgument | FuturesCopy futures_portfolio

definition futures_equivalent_added :: "bignum \<Rightarrow> price_table \<Rightarrow> string \<Rightarrow> futures_balance \<Rightarrow> futures_balance" where
  "futures_equivalent_added B ps quote_currency b =
     (case futures_total_value B ps quote_currency b of
        Inl _ \<Rightarrow> b
      | Inr quote_value \<Rightarrow>
          b\<lparr>fb_quote_equivalents := Some ((case fb_quote_equivalents b of Some m \<Rightarrow> m | None \<Rightarrow> Map.empty)
              (quote_currency \<mapsto> big_dp B 8 quote_value))\<rparr>)"

definition futures_equivalent_shared :: "bignum \<Rightarrow> price_table \<Rightarrow> string \<Rightarrow> futures_balance \<Rightarrow> futures_balance" where
  "futures_equivalent_shared B ps quote_currency b =
     (case fb_quote_equivalents b of None \<Rightarrow> b | Some _ \<Rightarrow> futures_equivalent_added B ps quote_currency b)"

definition futures_unprocessed :: "bignum \<Rightarrow> price_table \<Rightarrow> string \<Rightarrow> futures_balance list \<Rightarrow> string list" where
  "futures_unprocessed B ps quote_currency bs =
     map fb_asset (filter (\<lambda>b. case futures_total_value B ps quote_currency b of Inl _ \<Rightarrow> True | Inr _ \<Rightarrow> False) bs)"

definition futures_add_quote_value :: "bignum \<Rightarrow> string \<Rightarrow> (futures_portfolio, futures_returned \<times> string list) prog" where
  "futures_add_quote_value B quote_currency =
     bindE (getE (\<lambda>p. p)) (\<lambda>portfolio.
       case fp_balances portfolio of
         None \<Rightarrow> returnE (FuturesArgument, [])
       | Some bs \<Rightarrow>
           (case fp_prices portfolio of
              None \<Rightarrow> throwE (Err ''Cannot add_quote_value_to_portfolio_balances when portfolio has no prices'')
            | Some ps \<Rightarrow>
                seqE (modifyE (\<lambda>p. p\<lparr>fp_balances := Some (map (futures_equivalent_shared B ps quote_currency) bs)\<rparr>))
                  (returnE
                    (FuturesCopy (portfolio\<lparr>fp_balances := Some (map (futures_equivalent_added B ps quote_currency) bs)\<rparr>),
                     futures_unprocessed B ps quote_currency bs))))"

definition futures_portfolio_returned :: "futures_returned \<Rightarrow> (futures_portfolio, futures_portfolio) prog" where
  "futures_portfolio_returned r = (case r of FuturesArgument \<Rightarrow> getE (\<lambda>p. p) | FuturesCopy p \<Rightarrow> returnE p)"

definition futures_equivalent :: "string \<Rightarrow> futures_balance \<Rightarrow> big option" where
  "futures_equivalent quote_currency b =
     (case fb_quote_equivalents b of None \<Rightarrow> None | Some m \<Rightarrow> m quote_currency)"

definition big_or_zero :: "big option \<Rightarrow> big" where
  "big_or_zero v = (case v of Some x \<Rightarrow> x | None \<Rightarrow> Num 0)"

definition futures_total_of :: "string \<Rightarrow> futures_balance list \<Rightarrow> big" where
  "futures_total_of quote_currency bs =
     fold (\<lambda>b total. big_plus total (big_or_zero (futures_equivalent quote_currency b))) bs (Num 0)"

definition calculate_futures_value :: "bignum \<Rightarrow> string \<Rightarrow> (futures_portfolio, big \<times> string list) prog" where
  "calculate_futures_value B quote_currency =
     bindE (futures_add_quote_value B quote_currency) (\<lambda>(r, unprocessed_balances).
     bindE (futures_portfolio_returned r) (\<lambda>portfolio.
       case fp_balances portfolio of
         None \<Rightarrow> throwE (Err ''Cannot calculate_portfolio_value_in_quote_currency when portfolio has no balances'')
       | Some bs \<Rightarrow>
           (case fp_prices portfolio of
              None \<Rightarrow> throwE (Err ''Cannot calculate_portfolio_value_in_quote_currency when portfolio has no prices'')
            | Some _ \<Rightarrow> returnE (futures_total_of quote_currency bs, unprocessed_balances))))"

definition futures_largest_first :: "string \<Rightarrow> futures_balance \<Rightarrow> futures_balance \<Rightarrow> int" where
  "futures_largest_first quote_currency a b =
     (let x = big_or_zero (futures_equivalent quote_currency a); y = big_or_zero (futures_equivalent quote_currency b) in
      if big_greater x y then - 1 else if big_greater y x then 1 else 0)"

definition futures_snippet :: "bignum \<Rightarrow> string \<Rightarrow> big \<Rightarrow> futures_balance \<Rightarrow> string option" where
  "futures_snippet B quote_currency quote_total b =
     (if fb_asset b = quote_currency
      then Some (quote_currency @ '' ('' @
        big_text B (big_times (big_div B (Num (futures_total_balance B b)) quote_total) 100) @ ''%)'')
      else
        case futures_equivalent quote_currency b of
          None \<Rightarrow> None
        | Some x \<Rightarrow>
            if futures_total_balance_bignum b = 0 then None
            else
              let percentage = big_times (big_div B x quote_total) 100 in
              if big_less percentage (3 / 10) then None
              else Some (fb_asset b @ '' ('' @ big_text B percentage @ ''%)''))"

definition futures_balances_to_string :: "bignum \<Rightarrow> string \<Rightarrow> (futures_portfolio, string option) prog" where
  "futures_balances_to_string B quote_currency =
     bindE (calculate_futures_value B quote_currency) (\<lambda>(quote_total, _).
     bindE (futures_add_quote_value B quote_currency) (\<lambda>(r, _).
     bindE (futures_portfolio_returned r) (\<lambda>portfolio.
       case fp_balances portfolio of
         None \<Rightarrow> returnE None
       | Some bs \<Rightarrow>
           returnE (Some (join_with '', '' (List.map_filter (futures_snippet B quote_currency quote_total)
             (js_sort (futures_largest_first quote_currency)
               (filter (\<lambda>b. futures_equivalent quote_currency b \<noteq> None) bs))))))))"

definition futures_balance_for_asset :: "string \<Rightarrow> futures_portfolio \<Rightarrow> futures_balance option" where
  "futures_balance_for_asset asset portfolio =
     (case fp_balances portfolio of None \<Rightarrow> None | Some bs \<Rightarrow> List.find (\<lambda>b. fb_asset b = asset) bs)"

section \<open>Valuations can be repeated\<close>

lemma futures_total_value_added [simp]:
  "futures_total_value B ps q (futures_equivalent_added B ps' q' b) = futures_total_value B ps q b"
  by (simp add: futures_equivalent_added_def futures_total_value_def Let_def split: sum.split)

lemma futures_added_idem [simp]:
  "futures_equivalent_added B ps q (futures_equivalent_added B ps q b) = futures_equivalent_added B ps q b"
  by (simp add: futures_equivalent_added_def [of B ps q "futures_equivalent_added B ps q b"] split: sum.split)
    (simp add: futures_equivalent_added_def)

lemma futures_added_shared [simp]:
  "futures_equivalent_added B ps q (futures_equivalent_shared B ps q b) = futures_equivalent_added B ps q b"
  by (simp add: futures_equivalent_shared_def split: option.split)

lemma futures_total_value_shared [simp]:
  "futures_total_value B ps q (futures_equivalent_shared B ps q b) = futures_total_value B ps q b"
  by (simp add: futures_equivalent_shared_def split: option.split)

lemma futures_unprocessed_shared [simp]:
  "futures_unprocessed B ps q (map (futures_equivalent_shared B ps q) bs) = futures_unprocessed B ps q bs"
proof -
  have "fb_asset (futures_equivalent_shared B ps q b) = fb_asset b" for b
    by (simp add: futures_equivalent_shared_def futures_equivalent_added_def split: option.split sum.split)
  then show ?thesis by (simp add: futures_unprocessed_def filter_map o_def)
qed

definition valued :: "bignum \<Rightarrow> string \<Rightarrow> futures_portfolio \<Rightarrow> js_error + big \<times> string list" where
  "valued B q p =
     (case fp_balances p of
        None \<Rightarrow> Inl (Err ''Cannot calculate_portfolio_value_in_quote_currency when portfolio has no balances'')
      | Some bs \<Rightarrow>
          (case fp_prices p of
             None \<Rightarrow> Inl (Err ''Cannot add_quote_value_to_portfolio_balances when portfolio has no prices'')
           | Some ps \<Rightarrow> Inr (futures_total_of q (map (futures_equivalent_added B ps q) bs), futures_unprocessed B ps q bs)))"

definition shared_written :: "bignum \<Rightarrow> string \<Rightarrow> futures_portfolio \<Rightarrow> futures_portfolio" where
  "shared_written B q p =
     (case fp_balances p of None \<Rightarrow> p | Some bs \<Rightarrow>
       (case fp_prices p of None \<Rightarrow> p | Some ps \<Rightarrow> p\<lparr>fp_balances := Some (map (futures_equivalent_shared B ps q) bs)\<rparr>))"

lemma calculate_futures_value_eq: "calculate_futures_value B q p = (valued B q p, shared_written B q p)"
  unfolding wp_outcome
  by (simp add: calculate_futures_value_def futures_add_quote_value_def futures_portfolio_returned_def valued_def
      shared_written_def split: option.split)

text \<open>
  Asking for the value of a futures portfolio again, on the object the first call was given, answers the
  same: total, unconverted assets and errors alike.
\<close>
theorem futures_valuation_is_repeatable:
  "fst (calculate_futures_value B q (snd (calculate_futures_value B q p))) = fst (calculate_futures_value B q p)"
  by (simp add: calculate_futures_value_eq valued_def shared_written_def o_def split: option.split)

section \<open>The same value as the spot account's\<close>

definition mirrors :: "futures_balance \<Rightarrow> balance \<Rightarrow> bool" where
  "mirrors f b \<longleftrightarrow> fb_asset f = b_asset b \<and> fb_walletBalance f = b_free b + b_locked b \<and>
     fb_quote_equivalents f = b_quote_equivalents b \<and> fb_walletBalance f \<noteq> 0"

lemma mirrors_total_value:
  "mirrors f b \<Longrightarrow> futures_total_value B ps q f = get_total_value_of_balance_in_quote_currency B ps q b"
  by (auto simp: mirrors_def futures_total_value_def get_total_value_of_balance_in_quote_currency_def futures_convert_def
      convert_base_to_quote_currency_def Let_def)

lemma mirrors_equivalent:
  assumes "mirrors f b"
  shows "futures_equivalent q (futures_equivalent_added B ps q f) = quote_equivalent q (quote_equivalent_added B ps q b)"
  using assms mirrors_total_value [OF assms, of B ps q]
  by (simp add: mirrors_def futures_equivalent_def futures_equivalent_added_def quote_equivalent_def quote_equivalent_added_def
      split: sum.split option.split)

lemma mirrors_total:
  assumes "list_all2 mirrors fs bs"
  shows "futures_total_of q (map (futures_equivalent_added B ps q) fs) = total_of q (map (quote_equivalent_added B ps q) bs)"
proof -
  have "fold (\<lambda>b total. big_plus total (big_or_zero (futures_equivalent q b))) (map (futures_equivalent_added B ps q) fs) z =
      fold (\<lambda>b total. big_plus total (case quote_equivalent q b of Some x \<Rightarrow> x | None \<Rightarrow> Num 0)) (map (quote_equivalent_added B ps q) bs) z" for z
    using assms
    by (induction fs bs arbitrary: z rule: list_all2_induct) (simp_all add: mirrors_equivalent big_or_zero_def)
  then show ?thesis by (simp add: futures_total_of_def total_of_def)
qed

lemma mirrors_unprocessed:
  "list_all2 mirrors fs bs \<Longrightarrow> futures_unprocessed B ps q fs = unprocessed B ps q bs"
  by (induction fs bs rule: list_all2_induct)
    (auto simp: futures_unprocessed_def unprocessed_def mirrors_total_value mirrors_def split: sum.splits)

text \<open>
  On the first valuation the two utilities agree: a futures account and a spot account with the same
  holdings, none of them empty, are worth the same at the same prices and leave the same assets out.
\<close>
theorem futures_value_agrees_with_spot:
  assumes "fp_balances f = Some fs" "list_all2 mirrors fs (sp_balances p)" "fp_prices f = Some ps" "sp_prices p = Some ps"
    and "sp_quote_values_added p = None"
  shows "fst (calculate_futures_value B q f) = fst (calculate_portfolio_value_in_quote_currency B q p)"
proof -
  have "wp (calculate_portfolio_value_in_quote_currency B q)
      (\<lambda>r _. r = (total_of q (map (quote_equivalent_added B ps q) (sp_balances p)), unprocessed B ps q (sp_balances p)))
      (\<lambda>_ _. False) p"
    by (simp add: calculate_portfolio_value_in_quote_currency_def add_quote_value_to_portfolio_balances_def returned_portfolio_def
        assms(4,5) Let_def)
  then have "fst (calculate_portfolio_value_in_quote_currency B q p) =
      Inr (total_of q (map (quote_equivalent_added B ps q) (sp_balances p)), unprocessed B ps q (sp_balances p))"
    by (auto simp: wp_def split: prod.splits sum.splits)
  then show ?thesis
    by (simp add: calculate_futures_value_eq valued_def assms(1,3) mirrors_total [OF assms(2)] mirrors_unprocessed [OF assms(2)])
qed

end
