(* ===== verification/SpotService.thy ===== *)
theory SpotService
  imports TradeAbstraction
begin

text \<open>
  What the spot service promises on top of the deals: its guards against an entry, and what \<open>/close\<close>
  does with the size that is stored for a position.
\<close>

section \<open>Guards and exits of the spot service\<close>

text \<open>The size stored for a position, in units of the base asset.\<close>

definition stored_size :: "world \<Rightarrow> position_identifier \<Rightarrow> rat" where
  "stored_size w p = of_int (fst (redis_view w p)) / 10 ^ 8"

lemma wp_stored_size:
  assumes "redis_ready B E w" "plain_identifier p"
  shows "wp (ps_position_size (redis_persistence B E) p)
    (\<lambda>x t. x = stored_size w p \<and> store t = store w \<and> deals_of E t = deals_of E w) (\<lambda>_ _. False) w"
proof -
  let ?m = "ps_position_size (redis_persistence B E) p"
  have "keeps_store ?m" "keeps (no_deals E) ?m"
    unfolding redis_persistence_sel by (intro keeps_store_intros quiet_intros)+
  then have "wp ?m (\<lambda>_ t. store t = store w) (\<lambda>_ t. store t = store w) w"
      "wp ?m (\<lambda>_ t. deals_of E t = deals_of E w) (\<lambda>_ t. deals_of E t = deals_of E w) w"
    by (simp_all add: keeps_store_wp) (simp add: keeps_wp no_deals_def [abs_def])
  from wp_conj [OF redis_positions.size_law [OF assms] wp_conj [OF this]]
  show ?thesis by (rule wp_mono) (auto simp: stored_size_def)
qed

lemma wp_in_position:
  assumes "redis_ready B E w" "plain_identifier p"
  shows "wp (in_position (redis_persistence B E) p)
    (\<lambda>b t. b = (0 < stored_size w p) \<and> store t = store w \<and> deals_of E t = deals_of E w) (\<lambda>_ _. False) w"
  unfolding in_position_def wp_bindE
proof (rule wp_mono [OF wp_stored_size [OF assms]], goal_cases)
  case (1 x t)
  then show ?case unfolding wp_returnE by blast
qed

lemma stored_size_store: "store t = store w \<Longrightarrow> stored_size t p = stored_size w p"
  by (drule view_store) (simp add: stored_size_def)

lemma stored_size_held: "stored_size held_world demo_position = 3"
  by (simp add: stored_size_def held_world_view)

lemma spot_position_demo [simp]: "spot_position ''edge70'' ''ETH'' = demo_position"
  by (simp add: spot_position_def demo_position_def binance_spot_def)

definition demo_long :: open_long_command where
  "demo_long = \<lparr>cl_base_asset = ''ETH'', cl_quote_asset = None, cl_edge = ''edge70'', cl_direction = ''long'',
     cl_action = ''open'', cl_trigger_price = Some ''10'', cl_signal_timestamp_ms = Some 1, cl_trade_id = ''t''\<rparr>"

definition demo_close :: close_command where
  "demo_close = \<lparr>cc_base_asset = ''ETH'', cc_edge = ''edge70'', cc_action = ''close'',
     cc_signal_timestamp_ms = Some 1, cc_trigger_price = None\<rparr>"



text \<open>Cancelling the exit orders only reads the store; selling afterwards sells the size that is stored.\<close>

lemma wp_cancel_exit_orders:
  "wp (cancel_exit_orders (binance_engine B E) (redis_exit_store E) (live_runtime E) p symbol)
     (\<lambda>_ u. store u = store t \<and> deals_of E u = deals_of E t) (\<lambda>_ _. False) t"
proof -
  let ?c = "cancel_exit_orders (binance_engine B E) (redis_exit_store E) (live_runtime E) p symbol"
  have "keeps_store ?c"
    unfolding cancel_exit_orders_def redis_exit_store_def exit_store.simps binance_engine_sel live_sel
      get_stop_order_def get_oco_order_def cancel_order_def cancel_oco_order_def
    by (intro keeps_store_intros)
  then have "wp ?c (\<lambda>_ u. store u = store t) (\<lambda>_ u. store u = store t) t" by (simp add: keeps_store_wp)
  from wp_conj [OF this svc.cancel_exit_orders_law] show ?thesis by (rule wp_mono) auto
qed

lemma wp_sell_stored:
  fixes m :: market_identifier and p :: position_identifier
  assumes "redis_ready B E w" "plain_identifier p" "store t = store w" "deals_of E t = deals_of E w"
  shows "wp (bindE (ps_position_size (redis_persistence B E) p) (\<lambda>base_amount.
       bindE (en_market_sell (binance_engine B E) \<lparr>ms_order_context = ctx, ms_market_identifier = m, ms_base_amount = base_amount\<rparr>)
         (\<lambda>_. returnE r)))
      (\<lambda>r' t. r' = r \<and> (\<exists>ord rsp. deals_of E t = Order ord rsp # deals_of E w \<and> dump_of (mi_symbol m) (stored_size w p) ord))
      (\<lambda>_ t. refused (deals_of E w) (deals_of E t)) t"
  unfolding wp_bindE
proof (rule wp_mono [OF wp_stored_size [OF _ assms(2)]], goal_cases)
  case 1
  then show ?case using ready_store [OF assms(3,1)] .
next
  case (2 x u)
  then have "x = stored_size w p" and "deals_of E u = deals_of E w" using assms(4) stored_size_store [OF assms(3)] by simp_all
  have "wp (en_market_sell (binance_engine B E) \<lparr>ms_order_context = ctx, ms_market_identifier = m, ms_base_amount = x\<rparr>)
      (\<lambda>rsp v. \<exists>ord. deals_of E v = Order ord rsp # deals_of E u \<and> dump_of (mi_symbol m) x ord)
      (\<lambda>_ v. refused (deals_of E u) (deals_of E v)) u" for ctx
    using binance.dump_law [of B E "\<lparr>ms_order_context = ctx, ms_market_identifier = m, ms_base_amount = x\<rparr>" u] by simp
  note sell = this
  show ?case
    unfolding wp_returnE \<open>x = _\<close>
    by (rule wp_mono [OF sell [unfolded \<open>x = _\<close>]]) (use \<open>deals_of E u = _\<close> in auto)
qed simp

lemma wp_live_close:
  assumes "redis_ready B E w" "plain_identifier (spot_position (cc_edge cmd) (cc_base_asset cmd))"
    and "cc_action cmd = ''close''"
  shows "wp (live_close B E q cmd) (\<lambda>r t. (let n = stored_size w (spot_position (cc_edge cmd) (cc_base_asset cmd)) in
     if n \<le> 0 then clr_status r = NOT_FOUND \<and> clr_http_status r = 404 \<and> deals_of E t = deals_of E w \<and> store t = store w
     else clr_status r = SUCCESS \<and> clr_http_status r = 200 \<and> (\<exists>ord rsp. deals_of E t = Order ord rsp # deals_of E w \<and>
            dump_of (to_upper (cc_base_asset cmd) @ to_upper q) n ord) \<or>
          clr_status r = INTERNAL_SERVER_ERROR \<and> clr_http_status r = 500 \<and> refused (deals_of E w) (deals_of E t))) (\<lambda>_ _. False) w"
proof -
  let ?p = "spot_position (cc_edge cmd) (cc_base_asset cmd)"
  let ?symbol = "mi_symbol (get_market_identifier_for q (cc_base_asset cmd))"
  let ?n = "stored_size w ?p" and ?m = "get_market_identifier_for q (cc_base_asset cmd)"
  let ?ok = "\<lambda>r t. clr_status r = SUCCESS \<and> clr_http_status r = 200 \<and> (\<exists>ord rsp. deals_of E t = Order ord rsp # deals_of E w \<and>
            dump_of ?symbol ?n ord) \<or>
          clr_status r = INTERNAL_SERVER_ERROR \<and> clr_http_status r = 500 \<and> refused (deals_of E w) (deals_of E t)"
  let ?post = "\<lambda>r t. if ?n \<le> 0
      then clr_status r = NOT_FOUND \<and> clr_http_status r = 404 \<and> deals_of E t = deals_of E w \<and> store t = store w
      else ?ok r t"
  have rest: "wp (if \<not> found then returnE (close_result_for cmd i NOT_FOUND 404)
      else seqE (cancel_exit_orders (binance_engine B E) (redis_exit_store E) (live_runtime E) ?p ?symbol)
        (tryE (bindE (ps_position_size (redis_persistence B E) ?p) (\<lambda>base_amount.
            bindE (en_market_sell (binance_engine B E) \<lparr>ms_order_context = ctx, ms_market_identifier = ?m, ms_base_amount = base_amount\<rparr>)
              (\<lambda>_. returnE ((close_result_for cmd i SUCCESS 200)\<lparr>clr_quote_asset := Some q\<rparr>))))
          (\<lambda>err. seqE (alert m)
            (returnE ((close_result_for cmd i INTERNAL_SERVER_ERROR 500)\<lparr>clr_err := Some err\<rparr>))))) ?post (\<lambda>_ _. False) u"
    if "found = (0 < ?n)" "store u = store w" "deals_of E u = deals_of E w" for found i ctx m u
  proof (cases found)
    case True
    show ?thesis
      unfolding eqTrueI [OF True] not_True_eq_False if_False wp_seqE [of "cancel_exit_orders EE XS RT p s" for EE XS RT p s] wp_tryE
    proof (rule wp_mono [OF wp_cancel_exit_orders], goal_cases)
      case (1 _ v)
      show ?case
        by (rule wp_mono [OF wp_sell_stored [OF assms(1,2)]]) (use 1 True that in \<open>auto simp: close_result_for_def deals_of_def\<close>)
    qed simp
  qed (use that in \<open>simp add: close_result_for_def\<close>)
  have rt: "rt_now (live_runtime E) = now E" "rt_send_message (live_runtime E) = alert" by (simp_all add: live_sel)
  have "wp (live_close B E q cmd) ?post (\<lambda>_ _. False) w"
    unfolding tas_close_def mapper_close_position_def Let_def assms(3) rt wp_seqE [of "assertE b m" for b m] wp_assertE
      wp_bindE [of "now E"] wp_now wp_bindE [of "in_position P p" for P p] simp_thms if_True
    by (rule wp_mono [OF wp_in_position [OF assms(1,2)]], rule rest) simp_all
  then show ?thesis by (simp only: Let_def get_market_identifier_for_def market_identifier.simps)
qed

text \<open>
  C8: Closing sells exactly what is stored.  With Redis up, \<open>/close\<close> on a position answers 404 and trades
  nothing when no size is stored; otherwise, whether or not the exit orders could be cancelled, it
  either sells the stored size at the market and reports success, or reports 500 and the sell was
  refused.
\<close>

theorem close_sells_the_stored_size:
  assumes "redis_ready B E w" "plain_identifier (spot_position (cc_edge cmd) (cc_base_asset cmd))"
    and "cc_action cmd = ''close''"
  shows "\<exists>r t. live_close B E q cmd w = (Inr r, t) \<and>
    (let n = stored_size w (spot_position (cc_edge cmd) (cc_base_asset cmd)) in
     if n \<le> 0 then clr_status r = NOT_FOUND \<and> clr_http_status r = 404 \<and> deals_of E t = deals_of E w \<and> store t = store w
     else clr_status r = SUCCESS \<and> clr_http_status r = 200 \<and> (\<exists>ord rsp. deals_of E t = Order ord rsp # deals_of E w \<and>
            dump_of (to_upper (cc_base_asset cmd) @ to_upper q) n ord) \<or>
          clr_status r = INTERNAL_SERVER_ERROR \<and> clr_http_status r = 500 \<and> refused (deals_of E w) (deals_of E t))"
  using wp_total [OF wp_live_close [OF assms]] by simp

theorem close_sells_the_stored_size_witness:
  "\<exists>r t. live_close ref_bignum (quiet_env []) ''USDT'' demo_close held_world = (Inr r, t) \<and>
     (clr_status r = SUCCESS \<longrightarrow>
       (\<exists>ord rsp. deals_of (quiet_env []) t = [Order ord rsp] \<and> dump_of ''ETHUSDT'' 3 ord))"
proof -
  have "deals_of (quiet_env []) held_world = []" by (simp add: deals_of_def held_world_def)
  moreover have "to_upper ''ETH'' @ to_upper ''USDT'' = ''ETHUSDT''" by code_simp
  ultimately show ?thesis
    using close_sells_the_stored_size [of ref_bignum "quiet_env []" held_world demo_close "''USDT''", OF held_world_ready]
    by (fastforce simp: demo_close_def stored_size_held Let_def)
qed

definition blind_env :: env where
  "blind_env = (quiet_env demo_exchange_info)
     \<lparr>env_redis := \<lambda>h. case h of Redis (GET k) # _ \<Rightarrow> RedisFailed (Err ''connection lost'') | _ \<Rightarrow> RedisOk\<rparr>"

text \<open>
  The guard against a second entry fails open.  In a run where Redis refuses the reads of the
  position's size, a held position counts as absent: \<open>/long\<close> buys into it again, places a stop and
  reports success.
\<close>

theorem unreadable_position_is_entered_again:
  "(case live_long ref_bignum blind_env ''USDT'' demo_long held_world of
      (Inr r, t) \<Rightarrow> Some (lr_status r, map deal_summary (deals_of blind_env t))
    | (Inl _, _) \<Rightarrow> None) =
   Some (SUCCESS, [(SELL, STOP_LOSS_LIMIT, Some 9), (BUY, LIMIT, Some 9)])"
  by code_simp

end
