(* ===== verification/Bridge.thy ===== *)
theory Bridge
  imports SpotService Messaging
begin

text \<open>
  From a signal to a command (\<open>services/edge70-signal-to-tas-bridge\<close>): the message processor, the fanout
  and the forwarder, and the client of the trade abstraction service with its retries
  (\<open>trade-abstraction-v2/client\<close>).  HTTP is a function from a path and query parameters; the service of
  \<open>TradeAbstraction\<close> is one instance of it.
\<close>

section \<open>The client\<close>

datatype tas_body = LongBody open_long_result | CloseBody close_result

record http_response =
  hr_status :: nat
  hr_retry_after :: "rat option"
  hr_data :: tas_body

type_synonym 's http = "string \<Rightarrow> request \<Rightarrow> ('s, http_response) prog"

text \<open>
  The seconds of the \<open>Retry-After\<close> header, or the default; a header that holds a date is not read.
\<close>

definition getMillisToSleep :: "rat option \<Rightarrow> int" where
  "getMillisToSleep retry_after = (case retry_after of None \<Rightarrow> 11 * 1000 | Some seconds \<Rightarrow> \<lfloor>seconds * 1000 + 1 / 2\<rfloor>)"

text \<open>
  \<open>AxiosRetry.get\<close> repeats the request for as long as the answer is 429; after \<open>fuel\<close> answers the model
  gives \<open>None\<close>.  A status of 500 or more, a timeout and a lost connection reject the request.
\<close>

fun axios_retry :: "nat \<Rightarrow> (int \<Rightarrow> ('s, unit) prog) \<Rightarrow> ('s, http_response) prog \<Rightarrow> ('s, http_response option) prog" where
  "axios_retry 0 sleep request = returnE None"
| "axios_retry (Suc fuel) sleep request =
     bindE request (\<lambda>response.
       if hr_status response = 429
       then seqE (sleep (getMillisToSleep (hr_retry_after response))) (axios_retry fuel sleep request)
       else returnE (Some response))"

text \<open>
  The parameters of a command in the query string: the fields that are defined, each as its string.  A
  timestamp is a whole number.
\<close>

definition query_string :: "(string \<times> string option) list \<Rightarrow> request" where
  "query_string fs = (\<lambda>k. case map_of fs k of Some (Some v) \<Rightarrow> PString v None | _ \<Rightarrow> PMissing)"

definition long_params :: "open_long_command \<Rightarrow> request" where
  "long_params cmd = query_string
     [(''object_type'', Some ''TradeAbstractionOpenLongCommand''), (''object_class'', Some ''command''),
      (''base_asset'', Some (cl_base_asset cmd)), (''edge'', Some (cl_edge cmd)), (''trade_id'', Some (cl_trade_id cmd)),
      (''direction'', Some (cl_direction cmd)), (''action'', Some (cl_action cmd)),
      (''trigger_price'', cl_trigger_price cmd),
      (''signal_timestamp_ms'', map_option (\<lambda>t. int_string \<lfloor>t\<rfloor>) (cl_signal_timestamp_ms cmd))]"

definition close_params :: "close_command \<Rightarrow> request" where
  "close_params cmd = query_string
     [(''object_type'', Some ''TradeAbstractionCloseCommand''), (''object_class'', Some ''command''), (''version'', Some ''1''),
      (''base_asset'', Some (cc_base_asset cmd)), (''edge'', Some (cc_edge cmd)), (''action'', Some (cc_action cmd)),
      (''signal_timestamp_ms'', map_option (\<lambda>t. int_string \<lfloor>t\<rfloor>) (cc_signal_timestamp_ms cmd)),
      (''trigger_price'', cc_trigger_price cmd)]"

text \<open>A result of the wrong type is only reported.\<close>

definition client_long ::
    "nat \<Rightarrow> (int \<Rightarrow> ('s, unit) prog) \<Rightarrow> 's http \<Rightarrow> open_long_command \<Rightarrow> ('s, tas_body option) prog" where
  "client_long fuel sleep http cmd =
     bindE (axios_retry fuel sleep (http ''/long'' (long_params cmd))) (\<lambda>response. returnE (map_option hr_data response))"

definition client_close ::
    "nat \<Rightarrow> (int \<Rightarrow> ('s, unit) prog) \<Rightarrow> 's http \<Rightarrow> close_command \<Rightarrow> ('s, tas_body option) prog" where
  "client_close fuel sleep http cmd =
     bindE (axios_retry fuel sleep (http ''/close'' (close_params cmd))) (\<lambda>response. returnE (map_option hr_data response))"

section \<open>The bridge\<close>

text \<open>An \<open>Edge70Signal\<close> as it arrives: JSON, so only the handler knows whether its fields are as declared.\<close>

record signal_message =
  sm_edge :: string
  sm_base_asset :: string
  sm_direction :: string
  sm_signal_price :: string
  sm_signal_timestamp_ms :: int

text \<open>\<open>generate_trade_id\<close> appends a random id.\<close>

definition generate_trade_id :: "string \<Rightarrow> string \<Rightarrow> string \<Rightarrow> string \<Rightarrow> string" where
  "generate_trade_id uuid edge base_asset direction = edge @ ''-'' @ base_asset @ ''-'' @ direction @ ''-'' @ uuid"

definition long_command :: "string \<Rightarrow> signal_message \<Rightarrow> open_long_command" where
  "long_command uuid signal =
     \<lparr>cl_base_asset = sm_base_asset signal, cl_quote_asset = None, cl_edge = ''edge70'', cl_direction = ''long'',
      cl_action = ''open'', cl_trigger_price = Some (sm_signal_price signal),
      cl_signal_timestamp_ms = Some (of_int (sm_signal_timestamp_ms signal)),
      cl_trade_id = generate_trade_id uuid ''edge70'' (sm_base_asset signal) ''long''\<rparr>"

definition close_command_for :: "signal_message \<Rightarrow> close_command" where
  "close_command_for signal =
     \<lparr>cc_base_asset = sm_base_asset signal, cc_edge = ''edge70'', cc_action = ''close'',
      cc_signal_timestamp_ms = Some (of_int (sm_signal_timestamp_ms signal)),
      cc_trigger_price = Some (sm_signal_price signal)\<rparr>"

text \<open>
  \<open>Edge70ForwarderToEdge70Spot.process_signal\<close>.  Every error of closing is swallowed, whether or not it
  is the 404 the code looks for.
\<close>

definition forwarder_process_signal ::
    "bool \<Rightarrow> nat \<Rightarrow> (int \<Rightarrow> ('s, unit) prog) \<Rightarrow> 's http \<Rightarrow> ('s, string) prog \<Rightarrow> signal_message \<Rightarrow> ('s, unit) prog" where
  "forwarder_process_signal forward_short_signals_as_close_position fuel sleep http uuid signal =
     seqE (assertE (sm_edge signal = ''edge70'') ''assert.equal(signal.edge, edge70)'')
     (seqE (assertE (sm_base_asset signal \<noteq> []) ''base_asset not specified in market_identifier'')
       (if sm_direction signal = ''long''
        then bindE uuid (\<lambda>u. bindE (client_long fuel sleep http (long_command u signal)) (\<lambda>_. returnE ()))
        else if sm_direction signal = ''short''
        then (if forward_short_signals_as_close_position
              then tryE (bindE (client_close fuel sleep http (close_command_for signal)) (\<lambda>_. returnE ()))
                     (\<lambda>_. returnE ())
              else returnE ())
        else throwE (Err (''Unknown direction: '' @ sm_direction signal))))"

definition fanout_process_signal ::
    "nat \<Rightarrow> (int \<Rightarrow> ('s, unit) prog) \<Rightarrow> 's http \<Rightarrow> ('s, string) prog \<Rightarrow> signal_message \<Rightarrow> ('s, unit) prog" where
  "fanout_process_signal fuel sleep http uuid signal =
     (if sm_base_asset signal = [] then throwE (Err ''base_asset not specified in market_identifier'')
      else tryE (forwarder_process_signal True fuel sleep http uuid signal) (\<lambda>_. returnE ()))"

text \<open>
  \<open>Edge70MessageProcessor.process_message\<close> acknowledges first.  It does not wait for the fanout, whose
  rejection would end in the handler for unhandled rejections.
\<close>

definition edge70_process_message ::
    "nat \<Rightarrow> (int \<Rightarrow> (world, unit) prog) \<Rightarrow> world http \<Rightarrow> (world, string) prog \<Rightarrow> ('b, signal_message) processor" where
  "edge70_process_message fuel sleep http uuid signal tag =
     tryE
       (seqE (channel_ack tag)
        (seqE (assertE (sm_edge signal = ''edge70'') ''assert.equal(edge, edge70)'')
        (seqE (assertE (sm_base_asset signal \<noteq> []) ''base_asset not specified in market_identifier'')
          (tryE (in_world (fanout_process_signal fuel sleep http uuid signal)) unhandled_rejection))))
       (\<lambda>_. returnE ())"

definition consume_edge70 ::
    "nat \<Rightarrow> (int \<Rightarrow> (world, unit) prog) \<Rightarrow> world http \<Rightarrow> (world, string) prog \<Rightarrow>
     (signal_message body \<times> nat) option \<Rightarrow> (consumer, unit) prog" where
  "consume_edge70 fuel sleep http uuid = wrapper_func ''Edge70Signal'' False (edge70_process_message fuel sleep http uuid)"

section \<open>The spot service behind the client\<close>

definition respond :: "('r \<Rightarrow> tas_body) \<Rightarrow> 'r reply \<Rightarrow> ('s, http_response) prog" where
  "respond f r = (case r of
     InternalServerError \<Rightarrow> throwE (Err ''Request failed with status code 500'')
   | Reply st x retry \<Rightarrow>
       if st < 500 then returnE \<lparr>hr_status = st, hr_retry_after = map_option of_int retry, hr_data = f x\<rparr>
       else throwE (Err ''Request failed with status code 500''))"

definition spot_tas :: "bignum \<Rightarrow> env \<Rightarrow> string \<Rightarrow> world http" where
  "spot_tas B E quote_asset path req =
     (if path = ''/long''
      then bindE (http_long B (redis_persistence B E) (binance_engine B E) (redis_exit_store E) (live_runtime E) quote_asset req)
             (respond LongBody)
      else if path = ''/close''
      then bindE (http_close (redis_persistence B E) (binance_engine B E) (redis_exit_store E) (live_runtime E) quote_asset req)
             (respond CloseBody)
      else throwE (Err ''Request failed with status code 404''))"

text \<open>The bridge with the service behind it, waiting and drawing ids in the same world.\<close>

definition bridge :: "nat \<Rightarrow> bignum \<Rightarrow> env \<Rightarrow> string \<Rightarrow> (signal_message body \<times> nat) option \<Rightarrow> (consumer, unit) prog" where
  "bridge fuel B E quote_asset =
     consume_edge70 fuel (\<lambda>ms. emit (Sleep ms)) (spot_tas B E quote_asset) (getE (\<lambda>w. env_uuid E (trace w)))"

section \<open>Commands survive the query string\<close>

definition digit_step :: "char \<Rightarrow> rat \<Rightarrow> rat \<Rightarrow> rat option" where
  "digit_step c u a =
     (if 48 \<le> (of_char c :: nat) \<and> (of_char c :: nat) \<le> 57 then Some (a + u * of_nat (of_char c - 48)) else None)"

lemma decimal_digits_snoc:
  "decimal_digits (ds @ [c]) u a =
     (case decimal_digits ds u a of None \<Rightarrow> None | Some b \<Rightarrow> digit_step c (u / 10 ^ length ds) b)"
proof (induction ds arbitrary: u a)
  case (Cons d ds)
  show ?case using Cons.IH by (auto simp: Let_def divide_divide_eq_left split: option.split)
qed (simp add: Let_def digit_step_def)

lemma digit_char: "d < 10 \<Longrightarrow> (of_char (char_of (48 + d) :: char) :: nat) = 48 + d"
  by (simp add: of_char_of)

lemma decimal_digits_nat_string:
  "decimal_digits (nat_string n) (x * 10 ^ (length (nat_string n) - 1)) 0 = Some (x * of_nat n)"
proof (induction n arbitrary: x rule: nat_string.induct)
  case (1 n)
  show ?case
  proof (cases "n < 10")
    case True
    then show ?thesis by (subst (1 2) nat_string.simps) (simp add: digit_char)
  next
    case False
    let ?m = "n div 10" and ?l = "length (nat_string (n div 10))"
    have l: "0 < ?l" by simp
    have shift: "10 * x * 10 ^ (?l - 1) = x * 10 ^ ?l" using l by (cases ?l) simp_all
    have "decimal_digits (nat_string ?m) (x * 10 ^ ?l) 0 = Some (10 * x * of_nat ?m)"
      using 1 [OF False, of "10 * x"] unfolding shift .
    moreover have "(of_nat n :: rat) = 10 * of_nat ?m + of_nat (n mod 10)"
      by (metis of_nat_add of_nat_mult of_nat_numeral mult_div_mod_eq)
    ultimately show ?thesis
      using False by (subst (1 2) nat_string.simps) (simp add: decimal_digits_snoc digit_step_def digit_char algebra_simps)
  qed
qed

lemma nat_string_digits: "c \<in> set (nat_string n) \<Longrightarrow> 48 \<le> (of_char c :: nat)"
proof (induction n rule: nat_string.induct)
  case (1 n)
  then show ?case by (subst (asm) (2) nat_string.simps) (auto simp: digit_char split: if_splits)
qed

lemma js_number_int_string:
  assumes "0 \<le> i"
  shows "js_number (int_string i) = Some (of_int i)"
proof -
  have "CHR ''.'' \<notin> set (nat_string (nat i))"
    using nat_string_digits [of "CHR ''.''" "nat i"] by auto
  then show ?thesis
    using decimal_digits_nat_string [of "nat i" 1] assms
    by (simp add: js_number_def int_string_def split_on_no_sep)
qed

lemma long_params_sel:
  "long_params cmd ''edge'' = PString (cl_edge cmd) None" "long_params cmd ''base_asset'' = PString (cl_base_asset cmd) None"
  "long_params cmd ''trade_id'' = PString (cl_trade_id cmd) None"
  "long_params cmd ''trigger_price'' = (case cl_trigger_price cmd of None \<Rightarrow> PMissing | Some v \<Rightarrow> PString v None)"
  "cl_signal_timestamp_ms cmd = Some (of_int i) \<Longrightarrow> long_params cmd ''signal_timestamp_ms'' = PString (int_string i) None"
  by (simp_all add: long_params_def query_string_def split: option.split)

lemma close_params_sel:
  "close_params cmd ''edge'' = PString (cc_edge cmd) None" "close_params cmd ''base_asset'' = PString (cc_base_asset cmd) None"
  "close_params cmd ''trigger_price'' = (case cc_trigger_price cmd of None \<Rightarrow> PMissing | Some v \<Rightarrow> PString v None)"
  "cc_signal_timestamp_ms cmd = Some (of_int i) \<Longrightarrow> close_params cmd ''signal_timestamp_ms'' = PString (int_string i) None"
  by (simp_all add: close_params_def query_string_def split: option.split)

lemma int_string_nonempty [simp]: "int_string i \<noteq> []"
  by (simp add: int_string_def)

lemmas query_defs = query_long_def query_close_def checked_def get_signal_timestamp_ms_def
  get_param_must_be_non_empty_string_OR_THROW_def get_OPTIONAL_param_must_be_non_empty_string_def

lemma query_long_params:
  assumes "cl_quote_asset cmd = None" "cl_direction cmd = ''long''" "cl_action cmd = ''open''"
    and "cl_base_asset cmd \<noteq> []" "cl_edge cmd \<noteq> []" "cl_trade_id cmd \<noteq> []" "cl_trigger_price cmd \<noteq> Some []"
    and "cl_signal_timestamp_ms cmd = Some (of_int i)" "0 \<le> i"
  shows "query_long (long_params cmd) received q now_ms = Inr (Inr cmd)"
  using assms by (cases "cl_trigger_price cmd") (simp_all add: query_defs long_params_sel js_number_int_string)

lemma query_close_params:
  assumes "cc_action cmd = ''close''" "cc_base_asset cmd \<noteq> []" "cc_edge cmd \<noteq> []" "cc_trigger_price cmd \<noteq> Some []"
    and "cc_signal_timestamp_ms cmd = Some (of_int i)" "0 \<le> i"
  shows "query_close (close_params cmd) received q now_ms = Inr cmd"
  using assms by (cases "cc_trigger_price cmd") (simp_all add: query_defs close_params_sel js_number_int_string)

section \<open>A signal and the deals it causes\<close>

text \<open>The answers of one opening that is repeated while the service is busy; the last one counts.\<close>

inductive attempts :: "(string \<Rightarrow> rat \<Rightarrow> rat \<Rightarrow> bool) \<Rightarrow> string \<Rightarrow> open_long_result \<Rightarrow> deal list \<Rightarrow> deal list \<Rightarrow> bool"
  for lots symbol where
  last: "settled lots symbol r D D' \<Longrightarrow> attempts lots symbol r D D'"
| again: "settled lots symbol r D D' \<Longrightarrow> lr_status r = TOO_MANY_REQUESTS \<Longrightarrow> attempts lots symbol r' D' D'' \<Longrightarrow>
    attempts lots symbol r' D D''"

definition position_sold :: "env \<Rightarrow> string \<Rightarrow> string \<Rightarrow> world \<Rightarrow> world \<Rightarrow> bool" where
  "position_sold E q base_asset w t \<longleftrightarrow>
     (let n = stored_size w (spot_position ''edge70'' base_asset) in
      if n \<le> 0 then deals_of E t = deals_of E w \<and> store t = store w
      else (\<exists>ord rsp. deals_of E t = Order ord rsp # deals_of E w \<and> dump_of (to_upper base_asset @ to_upper q) n ord) \<or>
        refused (deals_of E w) (deals_of E t))"

lemma coded_429: "coded r \<Longrightarrow> lr_http_status r = 429 \<longleftrightarrow> lr_status r = TOO_MANY_REQUESTS"
  by (cases "lr_status r") (simp_all add: coded_def)

lemma deals_of_alert [simp]: "deals_of E (w\<lparr>trace := Alert m # trace w\<rparr>) = deals_of E w"
  "deals_of E (w\<lparr>trace := Sleep n # trace w\<rparr>) = deals_of E w"
  by (simp_all add: deals_of_def)

abbreviation live_http_long :: "bignum \<Rightarrow> env \<Rightarrow> string \<Rightarrow> request \<Rightarrow> (world, open_long_result reply) prog" where
  "live_http_long B E \<equiv> http_long B (redis_persistence B E) (binance_engine B E) (redis_exit_store E) (live_runtime E)"

abbreviation live_http_close :: "bignum \<Rightarrow> env \<Rightarrow> string \<Rightarrow> request \<Rightarrow> (world, close_result reply) prog" where
  "live_http_close B E \<equiv> http_close (redis_persistence B E) (binance_engine B E) (redis_exit_store E) (live_runtime E)"

lemma wp_live_http_long:
  assumes "\<And>received now_ms. query_long req received q now_ms = Inr (Inr cmd)"
  shows "wp (live_http_long B E q req)
    (\<lambda>reply t. \<exists>r retry. reply = Reply (lr_http_status r) r retry \<and> coded r \<and>
       settled (lots_of B) (to_upper (cl_base_asset cmd) @ to_upper q) r (deals_of E w) (deals_of E t)) (\<lambda>_ _. False) w"
proof -
  have rt: "rt_now (live_runtime E) = now E" "rt_send_message (live_runtime E) = alert" by (simp_all add: live_sel)
  show ?thesis
    unfolding http_long_def wp_tryE rt wp_bindE [of "now E"] wp_now wp_bindE [of "liftE r" for r] wp_liftE assms
      sum.case wp_bindE [of "tas_long B P EE XS RT q cmd" for B P EE XS RT q cmd]
    by (rule wp_mono [OF wp_live_long]) auto
qed

lemma wp_live_http_close:
  assumes "\<And>received now_ms. query_close req received q now_ms = Inr cmd"
    and "redis_ready B E w" "plain_identifier (spot_position ''edge70'' (cc_base_asset cmd))"
    and "cc_edge cmd = ''edge70''" "cc_action cmd = ''close''"
  shows "wp (live_http_close B E q req)
    (\<lambda>reply t. \<exists>r. reply = Reply (clr_http_status r) r None \<and> clr_http_status r \<noteq> 429 \<and>
       position_sold E q (cc_base_asset cmd) w t) (\<lambda>_ _. False) w"
proof -
  have rt: "rt_now (live_runtime E) = now E" "rt_send_message (live_runtime E) = alert" by (simp_all add: live_sel)
  show ?thesis
    unfolding http_close_def wp_tryE rt wp_bindE [of "now E"] wp_now assms(1)
      sum.case wp_bindE [of "tas_close P EE XS RT q cmd" for P EE XS RT q cmd]
    by (rule wp_mono [OF wp_live_close [OF assms(2)]])
      (use assms(3-) in \<open>auto simp: position_sold_def Let_def split: if_splits\<close>)
qed

lemma wp_spot_tas_long:
  assumes "\<And>received now_ms. query_long req received q now_ms = Inr (Inr cmd)"
  shows "wp (spot_tas B E q ''/long'' req)
    (\<lambda>response t. \<exists>r. (hr_status response = 429 \<longleftrightarrow> lr_status r = TOO_MANY_REQUESTS) \<and>
       settled (lots_of B) (to_upper (cl_base_asset cmd) @ to_upper q) r (deals_of E w) (deals_of E t))
    (\<lambda>_ t. \<exists>r. settled (lots_of B) (to_upper (cl_base_asset cmd) @ to_upper q) r (deals_of E w) (deals_of E t)) w"
  unfolding spot_tas_def if_P [OF refl] wp_bindE
  by (rule wp_mono [OF wp_live_http_long [OF assms]]) (auto simp: respond_def coded_429)

lemma wp_spot_tas_close:
  assumes "\<And>received now_ms. query_close req received q now_ms = Inr cmd"
    and "redis_ready B E w" "plain_identifier (spot_position ''edge70'' (cc_base_asset cmd))"
    and "cc_edge cmd = ''edge70''" "cc_action cmd = ''close''"
  shows "wp (spot_tas B E q ''/close'' req)
    (\<lambda>response t. hr_status response \<noteq> 429 \<and> position_sold E q (cc_base_asset cmd) w t)
    (\<lambda>_ t. position_sold E q (cc_base_asset cmd) w t) w"
proof -
  have "spot_tas B E q ''/close'' req = bindE (live_http_close B E q req) (respond CloseBody)" by (simp add: spot_tas_def)
  then show ?thesis
    unfolding wp_bindE by (simp del: wp_bindE) (unfold wp_bindE, rule wp_mono [OF wp_live_http_close [OF assms]], auto simp: respond_def)
qed

lemma wp_retried_long:
  fixes req q cmd B E
  defines "sends D \<equiv> \<lambda>t. \<exists>r. attempts (lots_of B) (to_upper (cl_base_asset cmd) @ to_upper q) r D (deals_of E t)"
  assumes "\<And>received now_ms. query_long req received q now_ms = Inr (Inr cmd)" "0 < fuel"
  shows "wp (axios_retry fuel (\<lambda>ms. emit (Sleep ms)) (spot_tas B E q ''/long'' req))
    (\<lambda>_. sends (deals_of E w)) (\<lambda>_. sends (deals_of E w)) w"
  using assms(3)
proof (induction fuel arbitrary: w)
  case (Suc fuel)
  show ?case
    unfolding axios_retry.simps wp_bindE
  proof (rule wp_mono [OF wp_spot_tas_long [OF assms(2)]], goal_cases)
    case (1 response t)
    then obtain r where r: "hr_status response = 429 \<longleftrightarrow> lr_status r = TOO_MANY_REQUESTS"
        "settled (lots_of B) (to_upper (cl_base_asset cmd) @ to_upper q) r (deals_of E w) (deals_of E t)" by blast
    show ?case
    proof (cases "hr_status response = 429 \<and> 0 < fuel")
      case True
      let ?u = "t\<lparr>trace := Sleep (getMillisToSleep (hr_retry_after response)) # trace t\<rparr>"
      have "sends (deals_of E t) v \<Longrightarrow> sends (deals_of E w) v" for v
        using r True by (auto simp: sends_def intro: attempts.again)
      with True Suc.IH [of ?u] show ?thesis by (auto intro: wp_mono)
    qed (use r in \<open>auto simp: sends_def intro: attempts.last\<close>)
  qed (auto simp: sends_def intro: attempts.last)
qed simp

lemma wp_retried_close:
  assumes "\<And>received now_ms. query_close req received q now_ms = Inr cmd" "0 < fuel"
    and "redis_ready B E w" "plain_identifier (spot_position ''edge70'' (cc_base_asset cmd))"
    and "cc_edge cmd = ''edge70''" "cc_action cmd = ''close''"
  shows "wp (axios_retry fuel sleep (spot_tas B E q ''/close'' req))
    (\<lambda>_ t. position_sold E q (cc_base_asset cmd) w t) (\<lambda>_ t. position_sold E q (cc_base_asset cmd) w t) w"
proof (cases fuel)
  case (Suc n)
  show ?thesis
    unfolding Suc axios_retry.simps wp_bindE
    by (rule wp_mono [OF wp_spot_tas_close [OF assms(1,3-6)]]) simp_all
qed (use assms(2) in simp)

text \<open>What a signal does to the world of the service behind the bridge.\<close>

definition executed :: "bignum \<Rightarrow> env \<Rightarrow> string \<Rightarrow> signal_message \<Rightarrow> world \<Rightarrow> world \<Rightarrow> bool" where
  "executed B E q m w t \<longleftrightarrow>
     (if sm_direction m = ''long''
      then \<exists>r. attempts (lots_of B) (to_upper (sm_base_asset m) @ to_upper q) r (deals_of E w) (deals_of E t)
      else position_sold E q (sm_base_asset m) w t)"

lemma wp_forwarded:
  assumes "redis_ready B E w" "plain_identifier (spot_position ''edge70'' (sm_base_asset m))"
    and "sm_edge m = ''edge70''" "sm_direction m = ''long'' \<or> sm_direction m = ''short''"
    and "sm_base_asset m \<noteq> []" "sm_signal_price m \<noteq> []" "0 \<le> sm_signal_timestamp_ms m" "0 < fuel"
  shows "wp (fanout_process_signal fuel (\<lambda>ms. emit (Sleep ms)) (spot_tas B E q) (getE (\<lambda>w. env_uuid E (trace w))) m)
    (\<lambda>_ t. executed B E q m w t) (\<lambda>_ _. False) w"
proof -
  have long: "query_long (long_params (long_command u m)) received q now_ms = Inr (Inr (long_command u m))" for u received now_ms
    by (rule query_long_params [where i = "sm_signal_timestamp_ms m"])
      (use assms in \<open>simp_all add: long_command_def generate_trade_id_def\<close>)
  have short: "query_close (close_params (close_command_for m)) received q now_ms = Inr (close_command_for m)" for received now_ms
    by (rule query_close_params [where i = "sm_signal_timestamp_ms m"]) (use assms in \<open>simp_all add: close_command_for_def\<close>)
  have fwd: "wp (forwarder_process_signal True fuel (\<lambda>ms. emit (Sleep ms)) (spot_tas B E q) (getE (\<lambda>w. env_uuid E (trace w))) m)
    (\<lambda>_ t. executed B E q m w t) (\<lambda>_ t. executed B E q m w t) w"
  proof (cases "sm_direction m = ''long''")
    case True
    show ?thesis
      using wp_retried_long [OF long assms(8)] True assms(3,5)
      by (auto simp: forwarder_process_signal_def client_long_def executed_def long_command_def intro: wp_mono)
  next
    case False
    have base: "cc_base_asset (close_command_for m) = sm_base_asset m" "cc_edge (close_command_for m) = ''edge70''"
      "cc_action (close_command_for m) = ''close''" by (simp_all add: close_command_for_def)
    show ?thesis
      using wp_retried_close [OF short assms(8,1), unfolded base, OF assms(2)] False assms(3-5)
      by (auto simp: forwarder_process_signal_def client_close_def executed_def intro: wp_mono)
  qed
  show ?thesis
    unfolding fanout_process_signal_def using assms(5) by (simp del: wp_bindE) (rule wp_mono [OF fwd], simp_all)
qed

section \<open>Properties\<close>

definition demo_signal :: signal_message where
  "demo_signal = \<lparr>sm_edge = ''edge70'', sm_base_asset = ''ETH'', sm_direction = ''short'', sm_signal_price = ''10'',
     sm_signal_timestamp_ms = 5\<rparr>"

text \<open>
  C32: Commands survive the query string.  What the client puts into the query of \<open>/long\<close> and \<open>/close\<close> is
  read back by the service as the command it was.
\<close>
theorem commands_survive_the_query:
  assumes "sm_base_asset m \<noteq> []" "sm_signal_price m \<noteq> []" "0 \<le> sm_signal_timestamp_ms m"
  shows "query_long (long_params (long_command uuid m)) received q now_ms = Inr (Inr (long_command uuid m)) \<and>
    query_close (close_params (close_command_for m)) received q now_ms = Inr (close_command_for m)"
proof (rule conjI)
  show "query_long (long_params (long_command uuid m)) received q now_ms = Inr (Inr (long_command uuid m))"
    by (rule query_long_params [where i = "sm_signal_timestamp_ms m"])
      (use assms in \<open>simp_all add: long_command_def generate_trade_id_def\<close>)
  show "query_close (close_params (close_command_for m)) received q now_ms = Inr (close_command_for m)"
    by (rule query_close_params [where i = "sm_signal_timestamp_ms m"]) (use assms in \<open>simp_all add: close_command_for_def\<close>)
qed

theorem commands_survive_the_query_witness:
  "query_close (close_params (close_command_for demo_signal)) 0 ''USDT'' 0 = Inr (close_command_for demo_signal)"
  using commands_survive_the_query [of demo_signal "''u''" 0 "''USDT''" 0] by (simp add: demo_signal_def)

end
