(* ===== verification/TelegramBot.thy ===== *)
theory TelegramBot
  imports Futures Bridge
begin

text \<open>
  The telegram bot (\<open>services/telegram-bot-bert\<close>): the commands the user types, what they ask of the spot and
  the futures trade abstraction services, the replies, and the handlers in the order they are registered.
  Replies are the bytes of their UTF-8 text.
\<close>

section \<open>The bot and its surroundings\<close>

text \<open>\<open>UnhandledReply\<close>: a reply that was not awaited failed, and nobody handles the rejection.\<close>

datatype bot_effect =
    ReplyText string
  | ReplyHTML string
  | AskPositions
  | AskLong open_long_command
  | AskClose close_command
  | AskMoveStop move_stop_command
  | AskFuturesShort open_short_command
  | AskFuturesClose close_command
  | UnhandledReply js_error

record tas_answer =
  ta_http_status :: nat
  ta_status :: string
  ta_msg :: string

text \<open>Telegram, the two services and the clock, each a function of the effects so far.\<close>

record bot_env =
  be_reply :: "bot_effect list \<Rightarrow> js_error option"
  be_answer :: "bot_effect list \<Rightarrow> js_error + tas_answer"
  be_positions :: "bot_effect list \<Rightarrow> js_error + position_identifier list"
  be_now :: "bot_effect list \<Rightarrow> int"
  be_uuid :: "bot_effect list \<Rightarrow> string"

type_synonym 'a bot = "(bot_effect list, 'a) prog"

definition bot_emit :: "bot_effect \<Rightarrow> unit bot" where
  "bot_emit e = modifyE (\<lambda>h. e # h)"

definition send_reply :: "bot_env \<Rightarrow> bot_effect \<Rightarrow> unit bot" where
  "send_reply V e =
     seqE (bot_emit e) (bindE (getE (be_reply V)) (\<lambda>r. case r of None \<Rightarrow> returnE () | Some err \<Rightarrow> throwE err))"

definition bot_reply :: "bot_env \<Rightarrow> string \<Rightarrow> unit bot" where
  "bot_reply V msg = send_reply V (ReplyText msg)"

text \<open>\<open>ctx.reply\<close> without \<open>await\<close>.\<close>

definition bot_reply_unawaited :: "bot_env \<Rightarrow> string \<Rightarrow> unit bot" where
  "bot_reply_unawaited V msg = tryE (bot_reply V msg) (\<lambda>err. bot_emit (UnhandledReply err))"

definition ask_tas :: "bot_env \<Rightarrow> bot_effect \<Rightarrow> tas_answer bot" where
  "ask_tas V e = seqE (bot_emit e) (bindE (getE (be_answer V)) liftE)"

definition date_now :: "bot_env \<Rightarrow> int bot" where
  "date_now V = getE (be_now V)"

definition cross_mark :: string where
  "cross_mark = [CHR 0xE2, CHR 0x9D, CHR 0x8C]"

definition zany_face :: string where
  "zany_face = [CHR 0xF0, CHR 0x9F, CHR 0xA4, CHR 0xAA]"

definition success_mark :: "tas_answer \<Rightarrow> string" where
  "success_mark result = (if 400 \<le> ta_http_status result then cross_mark else [])"

section \<open>Spot commands\<close>

definition open_spot_long :: "bot_env \<Rightarrow> string \<Rightarrow> string \<Rightarrow> unit bot" where
  "open_spot_long V base_asset edge =
     bindE (date_now V) (\<lambda>signal_timestamp_ms.
     bindE (getE (be_uuid V)) (\<lambda>uuid.
     bindE (ask_tas V (AskLong
       \<lparr>cl_base_asset = base_asset, cl_quote_asset = None, cl_edge = edge, cl_direction = ''long'', cl_action = ''open'',
        cl_trigger_price = None, cl_signal_timestamp_ms = Some (of_int signal_timestamp_ms),
        cl_trade_id = generate_trade_id uuid edge base_asset ''long''\<rparr>)) (\<lambda>result.
       bot_reply V (success_mark result @ '' Spot long entry on '' @ edge @ '':'' @ base_asset @ '': '' @
         ta_status result @ '': '' @ ta_msg result))))"

definition close_spot_long :: "bot_env \<Rightarrow> string \<Rightarrow> string \<Rightarrow> unit bot" where
  "close_spot_long V base_asset edge =
     seqE (bot_reply V (to_upper edge @ '': closing spot long on '' @ base_asset))
     (bindE (date_now V) (\<lambda>signal_timestamp_ms.
      bindE (ask_tas V (AskClose
        \<lparr>cc_base_asset = base_asset, cc_edge = edge, cc_action = ''close'',
         cc_signal_timestamp_ms = Some (of_int signal_timestamp_ms), cc_trigger_price = None\<rparr>)) (\<lambda>result.
        bot_reply V (success_mark result @ '' Spot long close on '' @ edge @ '':'' @ base_asset @ '': '' @
          ta_status result @ '': '' @ ta_msg result))))"

definition move_spot_stop :: "bot_env \<Rightarrow> string \<Rightarrow> string \<Rightarrow> string \<Rightarrow> unit bot" where
  "move_spot_stop V base_asset edge new_stop_price =
     bindE (date_now V) (\<lambda>signal_timestamp_ms.
     bindE (ask_tas V (AskMoveStop
       \<lparr>mv_trade_context = \<lparr>mc_base_asset = base_asset, mc_quote_asset = None, mc_edge = edge, mc_trade_id = None\<rparr>,
        mv_action = ''move_stop'', mv_new_stop_price = new_stop_price,
        mv_signal_timestamp_ms = Some (of_int signal_timestamp_ms)\<rparr>)) (\<lambda>result.
       bot_reply V (success_mark result @ '' Spot move stop on '' @ edge @ '':'' @ base_asset @ '': '' @
         ta_status result @ '': '' @ ta_msg result)))"

text \<open>\<open>args.shift()\<close> of an array that may be empty; an empty word, between two spaces, is falsy.\<close>

definition word_at :: "nat \<Rightarrow> string list \<Rightarrow> string option" where
  "word_at i args = (if i < length args \<and> args ! i \<noteq> [] then Some (args ! i) else None)"

text \<open>Missing words are reported by the caller, everything later here.\<close>

definition spot :: "bot_env \<Rightarrow> string list \<Rightarrow> unit bot" where
  "spot V args =
     (case word_at 0 args of None \<Rightarrow> throwE (Err ''Missing command'') | Some command \<Rightarrow>
      case word_at 1 args of None \<Rightarrow> throwE (Err ''Missing edge'') | Some edge_unchecked \<Rightarrow>
      case word_at 2 args of None \<Rightarrow> throwE (Err ''Missing base_asset'') | Some base_asset \<Rightarrow>
      tryE
        (let base_asset = to_upper base_asset in
         if command \<notin> {''long'', ''close'', ''move-stop''}
         then send_reply V (ReplyHTML (''Invalid command for /spot '' @ [CHR 0x27] @ command @
           '', valid commands are long, close, move-stop''))
         else if command = ''long'' then open_spot_long V base_asset edge_unchecked
         else if command = ''close'' then close_spot_long V base_asset edge_unchecked
         else
           case word_at 3 args of
             None \<Rightarrow> throwE (Err ''Invalid command: new_stop_price missing'')
           | Some new_stop_price \<Rightarrow> move_spot_stop V base_asset edge_unchecked new_stop_price)
        (\<lambda>err. bot_reply V (''Looks like it failed: '' @ err_message err)))"

definition position_line :: "position_identifier \<Rightarrow> string" where
  "position_line p =
     ei_exchange (pi_exchange_identifier p) @ '' '' @ exchange_type_string (ei_type (pi_exchange_identifier p)) @ ''  '' @
     (case pi_edge p of None \<Rightarrow> ''undefined'' | Some edge \<Rightarrow> edge) @ '':'' @ to_upper (pi_base_asset p)"

fun join_lines :: "string list \<Rightarrow> string" where
  "join_lines [] = []"
| "join_lines [x] = x"
| "join_lines (x # xs) = x @ CHR 0x0A # join_lines xs"

definition list_positions_command :: "bot_env \<Rightarrow> unit bot" where
  "list_positions_command V =
     seqE (bot_emit AskPositions) (bindE (getE (be_positions V)) (\<lambda>r. bindE (liftE r) (\<lambda>positions.
       if positions = [] then bot_reply V ''No open positions.''
       else bot_reply V (join_lines (map position_line positions)))))"

section \<open>Futures commands\<close>

definition bot_futures_open_short :: "bot_env \<Rightarrow> string list \<Rightarrow> unit bot" where
  "bot_futures_open_short V args =
     tryE
       (bindE (date_now V) (\<lambda>signal_timestamp_ms.
          case word_at 1 args of None \<Rightarrow> bot_reply_unawaited V ''edge not defined.'' | Some edge \<Rightarrow>
          case word_at 0 args of None \<Rightarrow> bot_reply_unawaited V ''base_asset not defined.'' | Some base_asset \<Rightarrow>
          bindE (ask_tas V (AskFuturesShort
            \<lparr>sc_base_asset = to_upper base_asset, sc_edge = edge, sc_direction = ''short'', sc_action = ''open'',
             sc_trigger_price = None, sc_signal_timestamp_ms = Some (of_int signal_timestamp_ms)\<rparr>)) (\<lambda>result.
          seqE (bot_reply_unawaited V (''Futures short opened on '' @ edge @ '':'' @ to_upper base_asset @ '': '' @ ta_status result))
            (bot_reply_unawaited V (ta_msg result)))))
       (\<lambda>_. bot_reply_unawaited V ''Exception caught.'')"

definition bot_futures_close :: "bot_env \<Rightarrow> string list \<Rightarrow> unit bot" where
  "bot_futures_close V args =
     tryE
       (bindE (date_now V) (\<lambda>signal_timestamp_ms.
          case word_at 1 args of None \<Rightarrow> bot_reply_unawaited V ''edge not defined.'' | Some edge \<Rightarrow>
          case word_at 0 args of None \<Rightarrow> bot_reply_unawaited V ''base_asset not defined.'' | Some base_asset \<Rightarrow>
          bindE (ask_tas V (AskFuturesClose
            \<lparr>cc_base_asset = to_upper base_asset, cc_edge = edge, cc_action = ''close'',
             cc_signal_timestamp_ms = Some (of_int signal_timestamp_ms), cc_trigger_price = None\<rparr>)) (\<lambda>result.
          bot_reply_unawaited V (ta_msg result))))
       (\<lambda>_. bot_reply_unawaited V ''Exception caught.'')"

text \<open>\<open>positions\<close>, which nothing calls, opens a short.\<close>

definition bot_futures_positions :: "bot_env \<Rightarrow> string list \<Rightarrow> unit bot" where
  "bot_futures_positions V args =
     tryE
       (bindE (date_now V) (\<lambda>signal_timestamp_ms.
          case word_at 0 args of None \<Rightarrow> bot_reply_unawaited V ''base_asset not defined.'' | Some base_asset \<Rightarrow>
          case word_at 1 args of None \<Rightarrow> bot_reply_unawaited V ''edge not defined.'' | Some edge \<Rightarrow>
          bindE (ask_tas V (AskFuturesShort
            \<lparr>sc_base_asset = to_upper base_asset, sc_edge = edge, sc_direction = ''short'', sc_action = ''open'',
             sc_trigger_price = None, sc_signal_timestamp_ms = Some (of_int signal_timestamp_ms)\<rparr>)) (\<lambda>result.
          bot_reply_unawaited V (ta_msg result))))
       (\<lambda>_. bot_reply_unawaited V ''Exception caught.'')"

definition not_recognised :: "string \<Rightarrow> string" where
  "not_recognised command = ''Command not recognised: '' @ command"

text \<open>The case of \<open>close\<close> has no \<open>break\<close>: it runs on into the default.\<close>

definition futures_command :: "bot_env \<Rightarrow> string \<Rightarrow> unit bot" where
  "futures_command V message =
     (let args = split_on (CHR '' '') message;
          default = (\<lambda>command. bot_reply_unawaited V (not_recognised command)) in
      tryE
        (seqE (if args ! 0 \<noteq> ''/futures'' then bot_reply_unawaited V (''Expected /futures, got '' @ args ! 0) else returnE ())
          (case drop 1 args of
             [] \<Rightarrow> default ''undefined''
           | command # rest \<Rightarrow>
               if command = ''short'' then bot_futures_open_short V rest
               else if command = ''close'' then seqE (bot_futures_close V rest) (default command)
               else default command))
        (\<lambda>_. bot_reply_unawaited V ''Exception caught.''))"

section \<open>The handlers\<close>

definition text_to_command :: "bot_env \<Rightarrow> string \<Rightarrow> unit bot" where
  "text_to_command V message =
     (let args = split_on (CHR '' '') message in
      tryE
        (if args ! 0 = ''/spot'' then spot V (drop 1 args)
         else if args ! 0 = ''/positions'' then list_positions_command V
         else if args ! 0 = ''/futures'' then futures_command V message
         else returnE ())
        (\<lambda>_. bot_reply V (''Internal error '' @ zany_face)))"

text \<open>
  An update from Telegram and the handlers of the library: a handler is given the update and what follows
  it.  Which messages are commands, and how the registered handlers are composed, is the library's.
\<close>

record telegram_update =
  tu_username :: "string option"
  tu_text :: "string option"

type_synonym bot_handler = "telegram_update \<Rightarrow> unit bot \<Rightarrow> unit bot"

record telegraf =
  tg_compose :: "bot_handler list \<Rightarrow> bot_handler"
  tg_is_command :: "string \<Rightarrow> telegram_update \<Rightarrow> bool"

definition on_command :: "telegraf \<Rightarrow> string \<Rightarrow> (telegram_update \<Rightarrow> unit bot) \<Rightarrow> bot_handler" where
  "on_command T name h u next = (if tg_is_command T name u then h u else next)"

definition on_text :: "(string \<Rightarrow> unit bot) \<Rightarrow> bot_handler" where
  "on_text h u next = (case tu_text u of None \<Rightarrow> next | Some message \<Rightarrow> h message)"

definition commands_handlers :: "telegraf \<Rightarrow> bot_env \<Rightarrow> string \<Rightarrow> bot_handler list" where
  "commands_handlers T V help_text =
     [on_command T ''help'' (\<lambda>u. send_reply V (ReplyHTML help_text)),
      on_command T ''hi'' (\<lambda>u. bot_reply V (''Yep, I'' @ [CHR 0x27] @ ''m here!'')),
      on_text (text_to_command V),
      on_command T ''futures'' (\<lambda>u.
        let message = (case tu_text u of None \<Rightarrow> [] | Some m \<Rightarrow> m) in
        seqE (bot_reply_unawaited V (''Futures handler processing message: '' @ message)) (futures_command V message))]"

definition telegram_users_who_can_use_bot :: "string list" where
  "telegram_users_who_can_use_bot = [''slyph'', ''MehranRezghi'']"

text \<open>The two handlers of \<open>bert.ts\<close>, registered after those of the commands.\<close>

definition log_response_time :: bot_handler where
  "log_response_time u next = next"

definition authorise_user :: bot_handler where
  "authorise_user u next =
     (case tu_username u of
        None \<Rightarrow> throwE (Err ''username is not defined in ctx.from'')
      | Some name \<Rightarrow>
          if name = [] then throwE (Err ''username is not defined in ctx.from'')
          else if name \<notin> set telegram_users_who_can_use_bot then next else returnE ())"

definition bert :: "telegraf \<Rightarrow> bot_env \<Rightarrow> string \<Rightarrow> telegram_update \<Rightarrow> unit bot" where
  "bert T V help_text u =
     tg_compose T (commands_handlers T V help_text @ [log_response_time, authorise_user]) u (returnE ())"

section \<open>What the library promises\<close>

text \<open>Handlers run in the order they were registered; each decides whether the next one runs.\<close>

locale telegraf_laws =
  fixes T :: telegraf
  assumes compose_nil: "tg_compose T [] u next = next"
    and compose_cons: "tg_compose T (h # hs) u next = h u (tg_compose T hs u next)"
begin

lemma text_stops_at_commands:
  assumes "tu_text u = Some message" "\<not> tg_is_command T ''help'' u" "\<not> tg_is_command T ''hi'' u"
  shows "bert T V help_text u = text_to_command V message"
  by (simp add: bert_def commands_handlers_def compose_cons on_command_def on_text_def assms)

end

text \<open>An instance: a command is a text that begins with its name after a slash.\<close>

fun chain :: "bot_handler list \<Rightarrow> bot_handler" where
  "chain [] u next = next"
| "chain (h # hs) u next = h u (chain hs u next)"

definition ref_telegraf :: telegraf where
  "ref_telegraf = \<lparr>tg_compose = chain,
     tg_is_command = (\<lambda>name u. case tu_text u of None \<Rightarrow> False | Some m \<Rightarrow> hd (split_on (CHR '' '') m) = CHR ''/'' # name)\<rparr>"

interpretation ref_bot: telegraf_laws ref_telegraf
  by unfold_locales (simp_all add: ref_telegraf_def)

section \<open>What is asked\<close>

fun is_reply :: "bot_effect \<Rightarrow> bool" where
  "is_reply (ReplyText _) = True"
| "is_reply (ReplyHTML _) = True"
| "is_reply (UnhandledReply _) = True"
| "is_reply _ = False"

definition asked :: "bot_effect list \<Rightarrow> bot_effect list" where
  "asked h = filter (\<lambda>e. \<not> is_reply e) h"

lemma asked_Cons [simp]: "asked (e # h) = (if is_reply e then asked h else e # asked h)"
  by (simp add: asked_def)

lemma asked_Nil [simp]: "asked [] = []"
  by (simp add: asked_def)

lemma wp_bot_emit [simp]: "wp (bot_emit e) Q R = (\<lambda>h. Q () (e # h))"
  by (simp add: bot_emit_def)

lemma wp_date_now [simp]: "wp (date_now V) Q R = (\<lambda>h. Q (be_now V h) h)"
  by (simp add: date_now_def)

lemma wp_ask_tas [simp]:
  "wp (ask_tas V e) Q R = (\<lambda>h. case be_answer V (e # h) of Inl err \<Rightarrow> R err (e # h) | Inr x \<Rightarrow> Q x (e # h))"
  by (simp add: ask_tas_def fun_eq_iff)

lemma wp_send_reply [simp]:
  "wp (send_reply V e) Q R = (\<lambda>h. case be_reply V (e # h) of None \<Rightarrow> Q () (e # h) | Some err \<Rightarrow> R err (e # h))"
  by (simp add: send_reply_def fun_eq_iff split: option.split)

lemma wp_bot_reply [simp]: "wp (bot_reply V m) Q R = wp (send_reply V (ReplyText m)) Q R"
  by (simp add: bot_reply_def)

lemma wp_bot_reply_unawaited [simp]:
  "wp (bot_reply_unawaited V m) Q R = (\<lambda>h. case be_reply V (ReplyText m # h) of
     None \<Rightarrow> Q () (ReplyText m # h) | Some err \<Rightarrow> Q () (UnhandledReply err # ReplyText m # h))"
  by (simp add: bot_reply_unawaited_def fun_eq_iff split: option.split)

lemma wp_open_spot_long:
  "wp (open_spot_long V base_asset edge)
    (\<lambda>_ t. \<exists>cmd. asked t = AskLong cmd # asked h \<and> cl_base_asset cmd = base_asset \<and> cl_edge cmd = edge)
    (\<lambda>_ t. \<exists>cmd. asked t = AskLong cmd # asked h \<and> cl_base_asset cmd = base_asset \<and> cl_edge cmd = edge) h"
  by (simp add: open_spot_long_def split: sum.split option.split)

lemma typed_words:
  assumes "CHR '' '' \<notin> set a" "CHR '' '' \<notin> set b"
  shows "split_on (CHR '' '') (''/spot long '' @ a @ '' '' @ b) = [''/spot'', ''long'', a, b]"
  using split_on_append [OF assms(1), of b] split_on_no_sep [OF assms(2)] by simp


definition silent_bot :: bot_env where
  "silent_bot = \<lparr>be_reply = (\<lambda>_. None), be_answer = (\<lambda>_. Inl (Err ''timeout'')), be_positions = (\<lambda>_. Inr []),
     be_now = (\<lambda>h. int (length h)), be_uuid = (\<lambda>_. ''uuid'')\<rparr>"

definition stranger :: "string \<Rightarrow> telegram_update" where
  "stranger m = \<lparr>tu_username = Some ''mallory'', tu_text = Some m\<rparr>"


section \<open>Every message\<close>

text \<open>A message asks the services at most one thing, whatever it says and whatever fails.\<close>

definition asks_once :: "bot_effect list \<Rightarrow> bot_effect list \<Rightarrow> bool" where
  "asks_once h t \<longleftrightarrow> asked t = asked h \<or> (\<exists>e. asked t = e # asked h)"

lemma asks_once_effects [simp]:
  "is_reply e \<Longrightarrow> asks_once h (e # t) = asks_once h t" "asked t = asked h \<Longrightarrow> asks_once h (e # t)"
    "asked t = asked h \<Longrightarrow> asks_once h t"
  by (auto simp: asks_once_def)

lemma wp_reply_once:
  "asks_once h g \<Longrightarrow> is_reply e \<Longrightarrow> wp (send_reply V e) (\<lambda>_ t. asks_once h t) (\<lambda>_ t. asks_once h t) g"
  by (simp split: option.split)

lemma wp_spot_commands_once:
  assumes "asked g = asked h"
  shows "wp (open_spot_long V b e) (\<lambda>_ t. asks_once h t) (\<lambda>_ t. asks_once h t) g"
    and "wp (close_spot_long V b e) (\<lambda>_ t. asks_once h t) (\<lambda>_ t. asks_once h t) g"
    and "wp (move_spot_stop V b e p) (\<lambda>_ t. asks_once h t) (\<lambda>_ t. asks_once h t) g"
  using assms
  by (simp_all add: open_spot_long_def close_spot_long_def move_spot_stop_def split: option.split sum.split)

lemma wp_spot_once:
  assumes "asked g = asked h"
  shows "wp (spot V args) (\<lambda>_ t. asks_once h t) (\<lambda>_ t. asks_once h t) g"
proof -
  have reply: "wp (bot_reply V m) (\<lambda>_ t. asks_once h t) (\<lambda>_ t. asks_once h t) t" if "asks_once h t" for m t
    using that by (simp split: option.split)
  have attempt: "wp (tryE m (\<lambda>err. bot_reply V (f err))) (\<lambda>_ t. asks_once h t) (\<lambda>_ t. asks_once h t) g"
    if "wp m (\<lambda>_ t. asks_once h t) (\<lambda>_ t. asks_once h t) g" for m f
    unfolding wp_tryE by (rule wp_mono [OF that]) (simp_all only: reply)
  note ok = wp_spot_commands_once [OF assms] wp_reply_once
  show ?thesis
    unfolding spot_def Let_def using assms
    by (auto split: option.split simp del: wp_tryE wp_bot_reply wp_send_reply intro!: attempt ok)
qed

lemma wp_unawaited_once:
  "asks_once h g \<Longrightarrow> wp (bot_reply_unawaited V m) (\<lambda>_ t. asks_once h t) R g"
  by (simp split: option.split)

lemma wp_futures_short_once:
  "asked g = asked h \<Longrightarrow> wp (bot_futures_open_short V args) (\<lambda>_ t. asks_once h t) R g"
  by (cases "word_at 1 args"; cases "word_at 0 args")
    (simp_all add: bot_futures_open_short_def split: option.split sum.split)

lemma wp_futures_close_once:
  "asked g = asked h \<Longrightarrow> wp (bot_futures_close V args) (\<lambda>_ t. asks_once h t) R g"
  by (cases "word_at 1 args"; cases "word_at 0 args")
    (simp_all add: bot_futures_close_def split: option.split sum.split)

lemma wp_unawaited_same:
  "asked g = asked h \<Longrightarrow> wp (bot_reply_unawaited V m) (\<lambda>_ t. asked t = asked h) R g"
  by (simp split: option.split)

text \<open>Every path of \<open>futures\<close> but that of a short ends with telling the user the command is unknown.\<close>

definition told_unknown :: "string \<Rightarrow> bot_effect list \<Rightarrow> bool" where
  "told_unknown command t \<longleftrightarrow> (\<exists>us. set us \<subseteq> range UnhandledReply \<and>
     (\<exists>h. t = us @ ReplyText (not_recognised command) # h))"

lemma wp_unknown: "asks_once h g \<Longrightarrow>
  wp (bot_reply_unawaited V (not_recognised command)) (\<lambda>_ t. asks_once h t \<and> told_unknown command t) R g"
proof -
  assume "asks_once h g"
  moreover have "told_unknown command (ReplyText (not_recognised command) # g)"
    unfolding told_unknown_def by (intro exI [of _ "[]"]) simp
  moreover have "told_unknown command (UnhandledReply err # ReplyText (not_recognised command) # g)" for err
    unfolding told_unknown_def by (intro exI [of _ "[UnhandledReply err]"]) simp
  ultimately show ?thesis by (simp split: option.split)
qed

lemma wp_futures_command:
  assumes "split_on (CHR '' '') message = ''/futures'' # args"
  shows "wp (futures_command V message)
    (\<lambda>_ t. asks_once h t \<and> (hd (args @ [''undefined'']) \<noteq> ''short'' \<longrightarrow> told_unknown (hd (args @ [''undefined''])) t)) R h"
proof (cases args)
  case Nil
  show ?thesis
    unfolding futures_command_def assms Let_def
    by (simp add: Nil del: append_Cons wp_bot_reply_unawaited) (rule wp_unknown, simp)
next
  case (Cons command rest)
  have close: "wp (bot_futures_close V rest) (\<lambda>_. wp (bot_reply_unawaited V (not_recognised c))
      (\<lambda>_ t. asks_once h t \<and> told_unknown c t) R') Q h" for Q R' c
    by (rule wp_mono [OF wp_futures_close_once [of h h _ _ "\<lambda>_ _. False"]]) (auto intro: wp_unknown simp del: wp_bot_reply_unawaited)
  show ?thesis
    unfolding futures_command_def assms Let_def
    by (auto simp: Cons simp del: append_Cons wp_bot_reply_unawaited intro!: wp_unknown close
        wp_mono [OF wp_futures_short_once [of h h _ _ "\<lambda>_ _. False"]])
qed

lemma wp_text_once:
  assumes "split_on (CHR '' '') message = w # args"
  shows "wp (text_to_command V message) (\<lambda>_ t. asks_once h t) (\<lambda>_ t. asks_once h t) h"
proof -
  have reply: "wp (bot_reply V m) (\<lambda>_ t. asks_once h t) (\<lambda>_ t. asks_once h t) t" if "asks_once h t" for m t
    using that by (simp split: option.split)
  have positions: "wp (list_positions_command V) (\<lambda>_ t. asks_once h t) (\<lambda>_ t. asks_once h t) h"
    by (simp add: list_positions_command_def split: option.split sum.split)
  have futures: "wp (futures_command V message) (\<lambda>_ t. asks_once h t) (\<lambda>_ t. asks_once h t) h" if "w = ''/futures''"
    by (rule wp_mono [OF wp_futures_command [of message args V h "\<lambda>_ _. False"]]) (use assms that in auto)
  have spot: "wp (spot V (drop 1 (w # args))) (\<lambda>_ t. asks_once h t) (\<lambda>_ t. asks_once h t) h"
    by (rule wp_spot_once) simp
  show ?thesis
    unfolding text_to_command_def Let_def assms wp_tryE
    by (rule wp_mono [where Q = "\<lambda>_ t. asks_once h t" and R = "\<lambda>_ t. asks_once h t"])
      (use positions futures spot reply in \<open>auto simp del: wp_bot_reply\<close>)
qed

text \<open>One message never asks the services more than one thing.\<close>

theorem bot_asks_at_most_once:
  "asks_once h (snd (text_to_command V message h))"
proof -
  obtain w args where "split_on (CHR '' '') message = w # args" by (cases "split_on (CHR '' '') message") simp_all
  from wp_final [OF wp_text_once [OF this, of V h]] show ?thesis .
qed

text \<open>Closing a futures position always ends with the reply that the command is not recognised.\<close>

theorem futures_close_is_not_recognised:
  assumes "CHR '' '' \<notin> set edge" "CHR '' '' \<notin> set asset"
  shows "told_unknown ''close'' (snd (futures_command V (''/futures close '' @ asset @ '' '' @ edge) h))"
proof -
  have "split_on (CHR '' '') (''/futures close '' @ asset @ '' '' @ edge) = [''/futures'', ''close'', asset, edge]"
    using split_on_append [OF assms(2), of edge] split_on_no_sep [OF assms(1)] by simp
  from wp_futures_command [OF this, of V h "\<lambda>_ _. False"]
  have "wp (futures_command V (''/futures close '' @ asset @ '' '' @ edge)) (\<lambda>_ t. told_unknown ''close'' t) (\<lambda>_ t. told_unknown ''close'' t) h"
    by (rule wp_mono) auto
  then show ?thesis by (rule wp_final)
qed

text \<open>The help text names the edge before the asset; typed that way, the edge is taken for the asset.\<close>

theorem futures_help_swaps_edge_and_asset:
  "\<exists>cmd. AskFuturesShort cmd \<in> set (snd (futures_command V ''/futures short edge62 BTC'' h)) \<and>
    sc_base_asset cmd = ''EDGE62'' \<and> sc_edge cmd = ''BTC''"
proof -
  have up: "to_upper ''edge62'' = ''EDGE62''" by code_simp
  let ?P = "\<lambda>t. \<exists>cmd. AskFuturesShort cmd \<in> set t \<and> sc_base_asset cmd = ''EDGE62'' \<and> sc_edge cmd = ''BTC''"
  have "?P (AskFuturesShort cmd # g)" if "sc_base_asset cmd = ''EDGE62''" "sc_edge cmd = ''BTC''" for cmd g
    using that by auto
  moreover have "?P (ReplyText m # t)" "?P (UnhandledReply err # t)" if "?P t" for m err t
    using that by auto
  ultimately have "wp (bot_futures_open_short V [''edge62'', ''BTC'']) (\<lambda>_. ?P) (\<lambda>_ _. False) h"
    by (simp add: bot_futures_open_short_def word_at_def up del: list.set split: option.split sum.split)
  then have "wp (futures_command V ''/futures short edge62 BTC'') (\<lambda>_. ?P) (\<lambda>_. ?P) h"
    unfolding futures_command_def by (auto elim: wp_mono)
  then show ?thesis by (rule wp_final)
qed

end
