(* ===== verification/StoreTyping.thy ===== *)
theory StoreTyping
  imports Messaging
begin

text \<open>
  The types of what Redis holds: under a key that ends in \<open>:sats_position_size\<close> there is an integer, under
  one that ends in \<open>:orders\<close> a set of orders.  Nothing the position tracker does with a filled order breaks
  this, whatever the order says and whichever Redis commands fail or lose their reply.
\<close>

section \<open>Keys and types\<close>

definition ends_with :: "'a list \<Rightarrow> 'a list \<Rightarrow> bool" where
  "ends_with k s \<longleftrightarrow> (\<exists>p. k = p @ s)"

lemma ends_with_append: "ends_with (p @ a) s \<Longrightarrow> ends_with a s \<or> ends_with s a"
  unfolding ends_with_def by (metis append_eq_append_conv2)

lemma ends_with_code: "ends_with k s \<longleftrightarrow> length s \<le> length k \<and> drop (length k - length s) k = s"
  unfolding ends_with_def by (metis append_take_drop_id append_eq_conv_conj diff_add_inverse2 le_add2 length_append)

definition is_size_key :: "string \<Rightarrow> bool" where
  "is_size_key k \<longleftrightarrow> ends_with k '':sats_position_size''"

definition is_orders_key :: "string \<Rightarrow> bool" where
  "is_orders_key k \<longleftrightarrow> ends_with k '':orders''"

definition value_typed :: "string \<Rightarrow> redis_value \<Rightarrow> bool" where
  "value_typed k v \<longleftrightarrow> (is_size_key k \<longrightarrow> (\<exists>n. v = RInt n)) \<and> (is_orders_key k \<longrightarrow> (\<exists>xs. v = ROrders xs))"

definition store_typed :: "world \<Rightarrow> bool" where
  "store_typed w \<longleftrightarrow> (\<forall>k v. map_of (store w) k = Some v \<longrightarrow> value_typed k v)"

lemma size_key_typed: "value_typed (p @ '':sats_position_size'') (RInt n)"
proof -
  have "\<not> ends_with '':sats_position_size'' '':orders''" "\<not> ends_with '':orders'' '':sats_position_size''"
    by (simp_all add: ends_with_code)
  then show ?thesis unfolding value_typed_def is_orders_key_def by (metis ends_with_append)
qed

lemma orders_key_typed: "value_typed (p @ '':orders'') (ROrders xs)"
proof -
  have "\<not> ends_with '':sats_position_size'' '':orders''" "\<not> ends_with '':orders'' '':sats_position_size''"
    by (simp_all add: ends_with_code)
  then show ?thesis unfolding value_typed_def is_size_key_def by (metis ends_with_append)
qed

text \<open>Any value fits a key with another last part.\<close>

definition other_name :: "string \<Rightarrow> bool" where
  "other_name a \<longleftrightarrow> \<not> ends_with a '':sats_position_size'' \<and> \<not> ends_with '':sats_position_size'' a \<and>
     \<not> ends_with a '':orders'' \<and> \<not> ends_with '':orders'' a"

lemma other_key_typed: "other_name a \<Longrightarrow> value_typed (p @ a) v"
  unfolding value_typed_def is_size_key_def is_orders_key_def other_name_def by (metis ends_with_append)

lemma other_names:
  "other_name '':initial_entry_timestamp''" "other_name '':sats_initial_entry_position_size''"
  "other_name '':sats_initial_quote_invested''" "other_name '':sats_initial_entry_price''"
  "other_name '':initial_entry_quote_asset''" "other_name '':sats_edge''"
  by (simp_all add: other_name_def ends_with_code)

section \<open>Every step keeps the types\<close>

definition typed_step :: "world \<Rightarrow> world \<Rightarrow> bool" where
  "typed_step w t \<longleftrightarrow> (store_typed w \<longrightarrow> store_typed t)"

lemma typed_step_pre [simp]: "reflp typed_step" "transp typed_step"
  by (auto simp: typed_step_def reflp_def transp_def)

lemmas typed_rules = keeps_bindE [OF typed_step_pre(2)] keeps_seqE [OF typed_step_pre(2)] keeps_tryE [OF typed_step_pre(2)]
  keeps_returnE [OF typed_step_pre(1)] keeps_throwE [OF typed_step_pre(1)] keeps_liftE [OF typed_step_pre(1)]
  keeps_getE [OF typed_step_pre(1)] keeps_assertE [OF typed_step_pre(1)]

lemma typed_of_keeps_store: "keeps_store m \<Longrightarrow> keeps typed_step m"
  by (simp add: keeps_def keeps_store_def typed_step_def store_typed_def)

text \<open>A command changes the store at most as its body does, whether or not its reply arrives.\<close>

lemma typed_redis_call:
  assumes "keeps typed_step m"
  shows "keeps typed_step (redis_call E c m)"
proof -
  have emit: "keeps typed_step (emit (Redis c))" by (rule typed_of_keeps_store) (rule keeps_store_intros)
  show ?thesis unfolding redis_call_def
    by (auto intro!: typed_rules emit assms split: redis_fault.split)
qed

lemma typed_write: "(\<And>w. store_typed w \<Longrightarrow> store_typed (f w)) \<Longrightarrow> keeps typed_step (modifyE f)"
  by (simp add: keeps_def modifyE_def typed_step_def)

lemma store_typed_update:
  "store_typed w \<Longrightarrow> value_typed k v \<Longrightarrow> store_typed (w\<lparr>store := AList.update k v (store w)\<rparr>)"
  by (simp add: store_typed_def update_conv')

lemma store_typed_updates:
  "store_typed w \<Longrightarrow> list_all2 value_typed ks vs \<Longrightarrow> store_typed (w\<lparr>store := AList.updates ks vs (store w)\<rparr>)"
proof (induction ks arbitrary: vs w)
  case (Cons k ks)
  then obtain v us where vs: "vs = v # us" "value_typed k v" "list_all2 value_typed ks us" by (auto simp: list_all2_Cons1)
  have "store_typed (w\<lparr>store := AList.update k v (store w)\<rparr>)" by (rule store_typed_update [OF Cons.prems(1) vs(2)])
  from Cons.IH [OF this vs(3)] show ?case by (simp add: vs(1))
qed (simp add: store_typed_def)

lemma typed_sadd: "(\<And>xs. value_typed k (ROrders xs)) \<Longrightarrow> keeps typed_step (redis_sadd E k new)"
  unfolding redis_sadd_def
  by (rule typed_redis_call) (auto intro!: typed_rules typed_write store_typed_update split: option.split redis_value.split)

lemma typed_incrby: "(\<And>n. value_typed k (RInt n)) \<Longrightarrow> keeps typed_step (redis_incrby E k n)"
  unfolding redis_incrby_def
  by (rule typed_redis_call) (auto intro!: typed_rules typed_write store_typed_update split: option.split redis_value.split)

lemma typed_mset: "list_all2 value_typed (map fst kvs) (map snd kvs) \<Longrightarrow> keeps typed_step (redis_mset E kvs)"
  unfolding redis_mset_def by (rule typed_redis_call, rule typed_write, rule store_typed_updates)

lemma typed_del: "keeps typed_step (redis_del E ks)"
  unfolding redis_del_def
  by (rule typed_redis_call) (auto intro!: typed_rules typed_write simp: store_typed_def map_of_filter_keys)

section \<open>The operations on positions\<close>

lemma name_to_key_Inr:
  "name_to_key p ''position_size'' = Inr k \<Longrightarrow> \<exists>prefix. k = prefix @ '':sats_position_size''"
  "name_to_key p ''orders'' = Inr k \<Longrightarrow> \<exists>prefix. k = prefix @ '':orders''"
  by (auto simp: name_to_key_def sats_names_def split: sum.splits)

lemma typed_bind_liftE:
  "(\<And>x. r = Inr x \<Longrightarrow> keeps typed_step (f x)) \<Longrightarrow> keeps typed_step (bindE (liftE r) f)"
  by (cases r) (simp_all add: keeps_wp typed_step_def)

lemma typed_add_orders: "keeps typed_step (add_orders E p os)"
  unfolding add_orders_def
  by (rule typed_bind_liftE) (auto dest!: name_to_key_Inr intro!: typed_sadd orders_key_typed)

lemma typed_adjust: "keeps typed_step (adjust_position_size_by B E p change)"
proof -
  have size: "keeps typed_step (get_position_size B E p)" by (rule typed_of_keeps_store) (rule keeps_store_keys)
  show ?thesis
    unfolding adjust_position_size_by_def
    by (rule typed_rules(1) [OF size], rule typed_bind_liftE)
      (auto dest!: name_to_key_Inr intro!: typed_rules size typed_incrby size_key_typed)
qed

lemma typed_create: "keeps typed_step (create_new_position B E p spid)"
proof -
  have mset: "keeps typed_step (redis_mset E
      [(prefix @ '':initial_entry_timestamp'', a), (prefix @ '':sats_initial_entry_position_size'', b),
       (prefix @ '':sats_position_size'', RInt n), (prefix @ '':sats_initial_quote_invested'', c),
       (prefix @ '':sats_initial_entry_price'', d), (prefix @ '':initial_entry_quote_asset'', e),
       (prefix @ '':sats_edge'', f)])" for prefix a b n c d e f
    using other_names by (intro typed_mset) (simp add: other_key_typed size_key_typed del: append_Cons)
  show ?thesis
    unfolding create_new_position_def promise_all2_def
    by (auto intro!: typed_rules typed_add_orders mset split: option.split)
qed

lemma typed_delete: "keeps typed_step (delete_position E p)"
proof -
  have keys: "keeps typed_step (redis_keys E pat)" for pat
    unfolding redis_keys_def by (intro typed_redis_call typed_rules)
  show ?thesis unfolding delete_position_def by (auto intro!: typed_rules keys typed_del)
qed

lemma typed_add_order: "keeps typed_step (add_order_to_position (redis_persistence B E) p ord)"
proof -
  have size: "keeps typed_step (get_position_size B E p)" by (rule typed_of_keeps_store) (rule keeps_store_keys)
  show ?thesis
    unfolding add_order_to_position_def redis_persistence_def
    by (auto intro!: typed_rules typed_add_orders size typed_create typed_adjust)
qed

section \<open>A filled order\<close>

lemma keeps_store_too_small: "keeps_store (is_too_small_to_trade B E symbol price volume)"
  unfolding is_too_small_to_trade_def by (intro keeps_store_intros)

lemma keeps_store_publish: "keeps_store (on_position_opened E ev)" "keeps_store (on_position_closed E ev')"
  unfolding on_position_opened_def on_position_closed_def by (rule keeps_store_intros)+

lemma keeps_store_events:
  "keeps_store (get_SpotPositionOpenedEvent (redis_persistence B E) p)"
  "keeps_store (get_SpotPositionClosedEvent B (redis_persistence B E) p a b c d e)"
  unfolding get_SpotPositionOpenedEvent_def get_SpotPositionClosedEvent_def redis_persistence_def Let_def
  by (simp_all add: keeps_store_intros)

lemmas typed_reads = keeps_store_too_small [THEN typed_of_keeps_store] keeps_store_publish [THEN typed_of_keeps_store]
  keeps_store_events [THEN typed_of_keeps_store] keeps_store_keys [THEN typed_of_keeps_store]
  keeps_store_edge_of_order [THEN typed_of_keeps_store] keeps_store_get_order_context [THEN typed_of_keeps_store]
  keeps_store_basic(5) [THEN typed_of_keeps_store]

lemma typed_load: "keeps typed_step (load_position_for_order E ord)"
  unfolding load_position_for_order_def by (intro typed_rules typed_reads)

lemma typed_buy: "keeps typed_step (buy_order_filled B E ord)"
  unfolding buy_order_filled_def by (intro typed_rules typed_reads typed_load typed_add_order)

lemma typed_sell: "keeps typed_step (sell_order_filled B E ord)"
  unfolding sell_order_filled_def sell_order_filled_by_def publish_and_delete_def
  by (auto intro!: typed_rules typed_reads typed_load typed_add_order typed_delete split: option.split)

text \<open>
  C14: The store stays typed.  Whatever the handler of a filled order is given, and whichever commands
  Redis refuses or answers too late, sizes remain integers and order sets remain sets afterwards.
\<close>
theorem fills_keep_the_store_typed:
  assumes "store_typed w"
  shows "store_typed (snd (tracker_order_filled B E exchange_info data w))"
proof -
  have "keeps typed_step (tracker_order_filled B E exchange_info data)"
    unfolding tracker_order_filled_def by (auto intro!: typed_rules typed_reads typed_buy typed_sell)
  from keepsD [OF this, of w] assms show ?thesis by (simp add: typed_step_def)
qed

definition typed_world :: world where
  "typed_world = \<lparr>store = [(size_key demo_position, RInt 5), (orders_key demo_position, ROrders [])], trace = []\<rparr>"

theorem fills_keep_the_store_typed_witness:
  "map_of (store typed_world) (size_key demo_position) = Some (RInt 5) \<and>
   store_typed (snd (tracker_order_filled ref_bignum unreadable_env demo_exchange_info
     (to_binance_order_data ref_bignum binance_spot (demo_report ''FILLED'')) typed_world))"
proof -
  have "store_typed typed_world"
    using size_key_typed [of "prefix_of demo_position" 5] orders_key_typed [of "prefix_of demo_position" "[]"]
    by (auto simp: store_typed_def typed_world_def size_key_def orders_key_def simp del: append_Cons split: if_splits)
  from fills_keep_the_store_typed [OF this] show ?thesis by (simp add: typed_world_def)
qed

end
