(* ===== verification/UserMessages.thy ===== *)
theory UserMessages
  imports Messaging "HOL-Library.Multiset"
begin

text \<open>
  How a message reaches the user: every service publishes it (\<open>classes/send_message/publish.ts\<close>), and one
  service forwards it to Telegram (\<open>services/amqp/send-message/telegram\<close>), in parts when it is too long, and
  again after a minute when Telegram limits the rate.  The broker delivers the next message when the one
  before is settled.
\<close>

section \<open>Publishing\<close>

record send_message_event =
  se_service_name :: string
  se_msg :: string
  se_edge :: "string option"

definition new_send_message_publisher :: "amqp_server \<Rightarrow> js_error + send_message_event topic_publisher" where
  "new_send_message_publisher A =
     map_sum id (\<lambda>p. snd (tryE (publisher_connect A) (\<lambda>_. returnE ()) p)) (new_topic_publisher ''SendMessageEvent'')"

text \<open>The promise of the publication is not awaited and its rejection is logged.\<close>

definition send_message :: "amqp_server \<Rightarrow> string \<Rightarrow> string \<Rightarrow> string option \<Rightarrow> (send_message_event topic_publisher, unit) prog" where
  "send_message A service_name message edge =
     detached (publisher_publish A \<lparr>se_service_name = service_name, se_msg = message, se_edge = edge\<rparr>)"

text \<open>Telling the user never fails the service; a message that was not published leaves its publisher unhealthy.\<close>

theorem send_message_never_throws:
  "wp (send_message A service_name message edge)
     (\<lambda>_ q. \<lparr>se_service_name = service_name, se_msg = message, se_edge = edge\<rparr> \<in> set (tp_sent q) \<or> \<not> tp_healthy q)
     (\<lambda>_ _. False) p"
  by (auto simp: send_message_def detached_def intro!: wp_mono [OF wp_publisher_publish])

section \<open>Telegram\<close>

text \<open>
  A request, and how it ends: no response at all, or a status.  The answers are a function \<open>F\<close> of the
  requests made so far, the newest first.
\<close>

record telegram_request =
  tr_chat_id :: string
  tr_text :: string

datatype telegram_answer = Unreachable js_error | Status nat

text \<open>
  The service: the requests it made, and its pending timers, each with the arguments bound to it.  An
  acknowledgement is the delivery it is for, or \<open>fake_ack\<close>, which does nothing.
\<close>

type_synonym bound_message = "nat option \<times> string \<times> string \<times> string option"

record telegram = consumer +
  tg_requests :: "telegram_request list"
  tg_timers :: "bound_message list"

definition get_chat_id :: "string \<Rightarrow> string option \<Rightarrow> string" where
  "get_chat_id chat edge =
     (if edge = Some ''edge61'' then ''-682031175''
      else if edge = Some ''edge60'' \<or> edge = Some ''edge70'' then ''-795241615''
      else if edge = Some ''edge62'' then ''-781625968''
      else chat)"

definition ack_func :: "nat option \<Rightarrow> (telegram, unit) prog" where
  "ack_func ack = (case ack of None \<Rightarrow> returnE () | Some tag \<Rightarrow> channel_ack tag)"

definition telegram_request_of :: "string \<Rightarrow> string \<Rightarrow> string option \<Rightarrow> string \<Rightarrow> telegram_request" where
  "telegram_request_of chat service_name edge message =
     \<lparr>tr_chat_id = get_chat_id chat edge, tr_text = service_name @ '': '' @ message\<rparr>"

definition telegram_post ::
    "(telegram_request list \<Rightarrow> telegram_answer) \<Rightarrow> string \<Rightarrow> nat option \<Rightarrow> string \<Rightarrow> string \<Rightarrow> string option \<Rightarrow> (telegram, unit) prog" where
  "telegram_post F chat ack service_name message edge =
     tryE
       (seqE (modifyE (\<lambda>s. s\<lparr>tg_requests := telegram_request_of chat service_name edge message # tg_requests s\<rparr>))
        (bindE (getE (\<lambda>s. F (tg_requests s))) (\<lambda>response.
           case response of
             Unreachable err \<Rightarrow> throwE err
           | Status status \<Rightarrow>
               if status = 429
               then modifyE (\<lambda>s. s\<lparr>tg_timers := tg_timers s @ [(ack, service_name, message, edge)]\<rparr>)
               else if status \<noteq> 200 then throwE (Err ''Response status code from telegram api'')
               else ack_func ack)))
       (\<lambda>_. returnE ())"

text \<open>A character stands for one of the units that \<open>length\<close> and \<open>slice\<close> count.\<close>

definition split_index :: nat where
  "split_index = 4000"

function telegram_send ::
    "(telegram_request list \<Rightarrow> telegram_answer) \<Rightarrow> string \<Rightarrow> nat option \<Rightarrow> string \<Rightarrow> string \<Rightarrow> string option \<Rightarrow> (telegram, unit) prog" where
  "telegram_send F chat ack service_name message edge =
     (if message = [] then ack_func ack
      else if split_index < length message
      then seqE (telegram_send F chat None service_name (take split_index message) edge)
             (telegram_send F chat ack service_name (drop split_index message) edge)
      else telegram_post F chat ack service_name message edge)"
  by pat_completeness auto
termination
  by (relation "measure (\<lambda>(_, _, _, _, message, _). length message)") (auto simp: split_index_def)

text \<open>A timer that goes off, and a delivery; an unhandled rejection is logged and makes the service unhealthy.\<close>

definition fire_timer :: "(telegram_request list \<Rightarrow> telegram_answer) \<Rightarrow> string \<Rightarrow> nat \<Rightarrow> (telegram, unit) prog" where
  "fire_timer F chat i =
     bindE (getE (\<lambda>s. tg_timers s ! i)) (\<lambda>(ack, service_name, message, edge).
       seqE (modifyE (\<lambda>s. s\<lparr>tg_timers := take i (tg_timers s) @ drop (Suc i) (tg_timers s)\<rparr>))
         (telegram_send F chat ack service_name message edge))"

definition telegram_process_message ::
    "(telegram_request list \<Rightarrow> telegram_answer) \<Rightarrow> string \<Rightarrow> send_message_event \<Rightarrow> nat \<Rightarrow> (telegram, unit) prog" where
  "telegram_process_message F chat event tag =
     telegram_send F chat (Some tag) (se_service_name event) (se_msg event) (se_edge event)"

definition telegram_delivery ::
    "(telegram_request list \<Rightarrow> telegram_answer) \<Rightarrow> string \<Rightarrow> send_message_event body \<times> nat \<Rightarrow> (telegram, unit) prog" where
  "telegram_delivery F chat d =
     tryE (wrapper_process_message ''SendMessageEvent'' False (telegram_process_message F chat) (fst d) (snd d))
       (\<lambda>_. modifyE (\<lambda>s. s\<lparr>cn_service_healthy := False\<rparr>))"

section \<open>Lives of the service\<close>

definition new_telegram :: "world \<Rightarrow> telegram" where
  "new_telegram w =
     \<lparr>cn_world = w, cn_settled = [], cn_callbacks_healthy = True, cn_listener_healthy = True, cn_service_healthy = True,
      tg_requests = [], tg_timers = []\<rparr>"

definition settled_tags :: "telegram \<Rightarrow> nat set" where
  "settled_tags s = fst ` set (cn_settled s)"

text \<open>
  With a prefetch of one a message is delivered when all those before are settled, under a tag of its own.
  Timers go off in any order.
\<close>

inductive telegram_run ::
    "(telegram_request list \<Rightarrow> telegram_answer) \<Rightarrow> string \<Rightarrow> (send_message_event body \<times> nat) list \<Rightarrow> telegram \<Rightarrow> bool"
  for F chat where
  start: "telegram_run F chat [] (new_telegram w)"
| deliver: "telegram_run F chat ds s \<Longrightarrow> snd ` set ds \<subseteq> settled_tags s \<Longrightarrow> snd d \<notin> snd ` set ds \<Longrightarrow>
    telegram_delivery F chat d s = (Inr (), t) \<Longrightarrow> telegram_run F chat (ds @ [d]) t"
| timer: "telegram_run F chat ds s \<Longrightarrow> i < length (tg_timers s) \<Longrightarrow> fire_timer F chat i s = (Inr (), t) \<Longrightarrow>
    telegram_run F chat ds t"

inductive_cases telegram_run_nonempty: "telegram_run F chat (d # ds) s"

text \<open>The requests that were accepted.\<close>

fun accepted :: "(telegram_request list \<Rightarrow> telegram_answer) \<Rightarrow> telegram_request list \<Rightarrow> telegram_request list" where
  "accepted F [] = []"
| "accepted F (r # rs) = (if F (r # rs) = Status 200 then r # accepted F rs else accepted F rs)"

text \<open>What a delivery asks for: the parts of its message.\<close>

function message_parts :: "string \<Rightarrow> string list" where
  "message_parts m = (if m = [] then [] else take split_index m # message_parts (drop split_index m))"
  by pat_completeness auto
termination
  by (relation "measure length") (auto simp: split_index_def)

declare telegram_send.simps [simp del] message_parts.simps [simp del]

definition event_of :: "send_message_event body \<Rightarrow> send_message_event option" where
  "event_of b = (case b of Body ty ev \<Rightarrow> if ty = Some ''SendMessageEvent'' then Some ev else None | _ \<Rightarrow> None)"

definition requests_of :: "string \<Rightarrow> send_message_event body \<Rightarrow> telegram_request list" where
  "requests_of chat b = (case event_of b of
     None \<Rightarrow> [] | Some ev \<Rightarrow> map (telegram_request_of chat (se_service_name ev) (se_edge ev)) (message_parts (se_msg ev)))"

lemma message_parts_join: "concat (message_parts m) = m"
  by (induction m rule: message_parts.induct) (subst message_parts.simps, simp)

lemma message_parts_bound: "p \<in> set (message_parts m) \<Longrightarrow> p \<noteq> [] \<and> length p \<le> 4000"
  by (induction m rule: message_parts.induct)
    (subst (asm) (2) message_parts.simps, auto simp: split_index_def split: if_splits)

section \<open>What the service owes\<close>

text \<open>Telegram at its best: it accepts a request or limits the rate.\<close>

definition calm :: "(telegram_request list \<Rightarrow> telegram_answer) \<Rightarrow> bool" where
  "calm F \<longleftrightarrow> (\<forall>h. F h = Status 200 \<or> F h = Status 429)"

definition timer_request :: "string \<Rightarrow> bound_message \<Rightarrow> telegram_request" where
  "timer_request chat b = (case b of (ack, service_name, message, edge) \<Rightarrow> telegram_request_of chat service_name edge message)"

definition owed :: "(telegram_request list \<Rightarrow> telegram_answer) \<Rightarrow> string \<Rightarrow> telegram \<Rightarrow> telegram_request multiset" where
  "owed F chat s = mset (accepted F (tg_requests s)) + mset (map (timer_request chat) (tg_timers s))"

definition answered_tags :: "telegram \<Rightarrow> nat set" where
  "answered_tags s = settled_tags s \<union> {tag. Some tag \<in> fst ` set (tg_timers s)}"

definition timers_ok :: "telegram \<Rightarrow> bool" where
  "timers_ok s \<longleftrightarrow> (\<forall>b \<in> set (tg_timers s). case b of (_, _, m, _) \<Rightarrow> m \<noteq> [] \<and> length m \<le> split_index)"

definition adds_requests ::
    "(telegram_request list \<Rightarrow> telegram_answer) \<Rightarrow> string \<Rightarrow> telegram_request multiset \<Rightarrow> nat set \<Rightarrow> telegram \<Rightarrow> telegram \<Rightarrow> bool" where
  "adds_requests F chat rs tags s t \<longleftrightarrow> owed F chat t = owed F chat s + rs \<and>
     answered_tags t = answered_tags s \<union> tags \<and> (timers_ok s \<longrightarrow> timers_ok t)"

lemma adds_requests_trans:
  "adds_requests F chat rs tags s t \<Longrightarrow> adds_requests F chat rs' tags' t u \<Longrightarrow>
   adds_requests F chat (rs + rs') (tags \<union> tags') s u"
  by (auto simp: adds_requests_def ac_simps)

lemma short_parts: "m \<noteq> [] \<Longrightarrow> length m \<le> split_index \<Longrightarrow> message_parts m = [m]"
  by (simp add: message_parts.simps [of m] message_parts.simps [of "[]"])

lemma long_parts:
  "split_index < length m \<Longrightarrow>
   message_parts m = message_parts (take split_index m) @ message_parts (drop split_index m)"
  by (subst message_parts.simps) (auto simp: short_parts split_index_def)

lemma wp_ack_func: "wp (ack_func ack) (\<lambda>_. adds_requests F chat {#} (set_option ack) s) (\<lambda>_ _. False) s"
  by (auto simp: ack_func_def channel_ack_def adds_requests_def owed_def answered_tags_def settled_tags_def timers_ok_def
      split: option.split)

lemma wp_telegram_post:
  assumes "calm F" "m \<noteq> []" "length m \<le> split_index"
  shows "wp (telegram_post F chat ack sn m edge)
    (\<lambda>_. adds_requests F chat {#telegram_request_of chat sn edge m#} (set_option ack) s) (\<lambda>_ _. False) s"
proof -
  let ?r = "telegram_request_of chat sn edge m # tg_requests s"
  consider "F ?r = Status 200" | "F ?r = Status 429" using assms(1) by (auto simp: calm_def)
  then show ?thesis
    using assms(2,3)
    by cases
      (auto simp: telegram_post_def ack_func_def channel_ack_def adds_requests_def owed_def answered_tags_def settled_tags_def
        timers_ok_def timer_request_def ac_simps split: option.split)
qed

lemma wp_telegram_send:
  "calm F \<Longrightarrow> wp (telegram_send F chat ack sn m edge)
    (\<lambda>_. adds_requests F chat (mset (map (telegram_request_of chat sn edge) (message_parts m))) (set_option ack) s)
    (\<lambda>_ _. False) s"
proof (induction F chat ack sn m edge arbitrary: s rule: telegram_send.induct)
  case (1 F chat ack sn m edge)
  show ?case
  proof (cases "m \<noteq> [] \<and> split_index < length m")
    case True
    note parts = long_parts [OF conjunct2 [OF True]]
    show ?thesis unfolding telegram_send.simps [of F chat ack sn m edge] parts using True
      by (auto intro!: wp_mono [OF "1.IH"(1)] wp_mono [OF "1.IH"(2)] "1.prems" dest: adds_requests_trans)
  next
    case False
    then show ?thesis
      using wp_ack_func [of ack F chat s] wp_telegram_post [OF "1.prems", of m chat ack sn edge s] short_parts [of m]
      by (cases "m = []") (simp_all add: telegram_send.simps [of F chat ack sn m edge] telegram_send.simps [of F chat ack sn "[]" edge]
          message_parts.simps [of "[]"])
  qed
qed

definition tags_due :: "send_message_event body \<times> nat \<Rightarrow> nat set" where
  "tags_due d = (if fst d = JsonNull then {} else {snd d})"

lemma adds_requests_healthy [simp]:
  "adds_requests F chat rs tags s (t\<lparr>cn_service_healthy := h\<rparr>) = adds_requests F chat rs tags s t"
  by (simp add: adds_requests_def owed_def answered_tags_def settled_tags_def timers_ok_def)

lemma wp_telegram_delivery:
  assumes "calm F"
  shows "wp (telegram_delivery F chat d)
    (\<lambda>_. adds_requests F chat (mset (requests_of chat (fst d))) (tags_due d) s) (\<lambda>_ _. False) s"
proof (cases "fst d")
  case (Body ty ev)
  show ?thesis
  proof (cases "ty = Some ''SendMessageEvent''")
    case True
    show ?thesis
      by (auto simp: telegram_delivery_def wrapper_process_message_def Body True telegram_process_message_def requests_of_def
          event_of_def tags_due_def intro!: wp_mono [OF wp_telegram_send [OF assms]])
  qed (auto simp: telegram_delivery_def wrapper_process_message_def Body requests_of_def event_of_def tags_due_def
      channel_ack_def channel_nack_def adds_requests_def owed_def answered_tags_def settled_tags_def timers_ok_def)
qed (auto simp: telegram_delivery_def wrapper_process_message_def requests_of_def event_of_def tags_due_def
      channel_ack_def channel_nack_def adds_requests_def owed_def answered_tags_def settled_tags_def timers_ok_def)

lemma mset_nth_out: "i < length xs \<Longrightarrow> mset xs = add_mset (xs ! i) (mset (take i xs @ drop (Suc i) xs))"
  by (subst id_take_nth_drop [of i xs]) simp_all

lemma set_nth_out: "i < length xs \<Longrightarrow> set xs = insert (xs ! i) (set (take i xs @ drop (Suc i) xs))"
  using arg_cong [OF mset_nth_out, of i xs set_mset] by simp

lemma wp_fire_timer:
  assumes "calm F" "i < length (tg_timers s)" "timers_ok s"
  shows "wp (fire_timer F chat i) (\<lambda>_. adds_requests F chat {#} {} s) (\<lambda>_ _. False) s"
proof -
  obtain ack sn m edge where b: "tg_timers s ! i = (ack, sn, m, edge)" by (cases "tg_timers s ! i") auto
  have "tg_timers s ! i \<in> set (tg_timers s)" using assms(2) by simp
  with assms(3) b have m: "m \<noteq> []" "length m \<le> split_index" by (force simp: timers_ok_def)+
  let ?ts = "take i (tg_timers s) @ drop (Suc i) (tg_timers s)"
  let ?u = "s\<lparr>tg_timers := ?ts\<rparr>"
  have o: "owed F chat s = owed F chat ?u + {#telegram_request_of chat sn edge m#}"
    using arg_cong [OF mset_nth_out [OF assms(2)], of "image_mset (timer_request chat)"]
    by (simp add: owed_def b timer_request_def)
  have a: "answered_tags s = answered_tags ?u \<union> set_option ack"
    using set_nth_out [OF assms(2)] by (auto simp: answered_tags_def settled_tags_def b)
  have k: "timers_ok ?u" using assms(3) set_nth_out [OF assms(2)] by (auto simp: timers_ok_def)
  have "adds_requests F chat {#} {} s t"
    if "adds_requests F chat {#telegram_request_of chat sn edge m#} (set_option ack) ?u t" for t
    using that k by (simp add: adds_requests_def o a)
  then show ?thesis
    by (simp add: fire_timer_def b, intro wp_mono [OF wp_telegram_send [OF assms(1)]]) (simp_all add: short_parts m)
qed

lemma run_invariant:
  assumes "calm F" "telegram_run F chat ds s"
  shows "owed F chat s = mset (concat (map (requests_of chat \<circ> fst) ds)) \<and> \<Union> (tags_due ` set ds) \<subseteq> answered_tags s \<and> timers_ok s"
  using assms(2)
proof induction
  case (start w)
  show ?case by (simp add: owed_def new_telegram_def timers_ok_def)
next
  case (deliver ds s d t)
  from wp_result [OF deliver.hyps(4) wp_telegram_delivery [OF assms(1)]] deliver.IH show ?case
    by (auto simp: adds_requests_def)
next
  case (timer ds s i t)
  from wp_result [OF timer.hyps(3) wp_fire_timer [OF assms(1) timer.hyps(2)]] timer.IH show ?case
    by (auto simp: adds_requests_def)
qed

section \<open>A Telegram that refuses\<close>

definition refuses :: "(telegram_request list \<Rightarrow> telegram_answer) \<Rightarrow> bool" where
  "refuses F \<longleftrightarrow> (\<forall>h. F h \<noteq> Status 200 \<and> F h \<noteq> Status 429)"

definition asks_telegram :: "send_message_event body \<Rightarrow> bool" where
  "asks_telegram b = (case event_of b of None \<Rightarrow> False | Some ev \<Rightarrow> se_msg ev \<noteq> [])"

definition held_up :: "telegram \<Rightarrow> telegram \<Rightarrow> bool" where
  "held_up s t \<longleftrightarrow> cn_settled t = cn_settled s \<and> tg_timers t = tg_timers s \<and> cn_service_healthy t = cn_service_healthy s"

lemma wp_refused_post:
  assumes "refuses F"
  shows "wp (telegram_post F chat ack sn m edge) (\<lambda>_. held_up s) (\<lambda>_ _. False) s"
  using assms [unfolded refuses_def, rule_format, of "telegram_request_of chat sn edge m # tg_requests s"]
  by (simp add: telegram_post_def held_up_def split: telegram_answer.split)

lemma wp_refused_send:
  "refuses F \<Longrightarrow> m \<noteq> [] \<Longrightarrow> wp (telegram_send F chat ack sn m edge) (\<lambda>_. held_up s) (\<lambda>_ _. False) s"
proof (induction F chat ack sn m edge arbitrary: s rule: telegram_send.induct)
  case (1 F chat ack sn m edge)
  show ?case
  proof (cases "split_index < length m")
    case True
    then have n: "take split_index m \<noteq> []" "drop split_index m \<noteq> []" using "1.prems" by (auto simp: split_index_def)
    show ?thesis unfolding telegram_send.simps [of F chat ack sn m edge] using True "1.prems"
      by (auto simp: held_up_def intro!: wp_mono [OF "1.IH"(1)] wp_mono [OF "1.IH"(2)] n)
  qed (use "1.prems" wp_refused_post in \<open>simp add: telegram_send.simps [of F chat ack sn m edge]\<close>)
qed

lemma wp_refused_delivery:
  assumes "refuses F"
  shows "wp (telegram_delivery F chat d)
    (\<lambda>_ t. tg_timers t = tg_timers s \<and> settled_tags t \<subseteq> insert (snd d) (settled_tags s) \<and>
       (asks_telegram (fst d) \<longrightarrow> settled_tags t = settled_tags s) \<and>
       (no_object (fst d) \<or> cn_service_healthy t = cn_service_healthy s)) (\<lambda>_ _. False) s"
proof (cases "event_of (fst d)")
  case None
  then show ?thesis
    by (cases "fst d")
      (auto simp: event_of_def asks_telegram_def telegram_delivery_def wrapper_process_message_def channel_ack_def
        channel_nack_def settled_tags_def no_object_def split: if_splits)
next
  case (Some ev)
  then obtain b: "fst d = Body (Some ''SendMessageEvent'') ev" by (cases "fst d") (auto simp: event_of_def split: if_splits)
  show ?thesis
  proof (cases "se_msg ev = []")
    case True
    then show ?thesis
      by (simp add: b asks_telegram_def event_of_def telegram_delivery_def wrapper_process_message_def
          telegram_process_message_def telegram_send.simps [of _ _ _ _ "[]"] ack_func_def channel_ack_def settled_tags_def)
        auto
  next
    case False
    show ?thesis
      by (auto simp: b asks_telegram_def event_of_def telegram_delivery_def wrapper_process_message_def
          telegram_process_message_def held_up_def settled_tags_def intro!: wp_mono [OF wp_refused_send [OF assms False]])
  qed
qed

lemma refused_run:
  assumes "refuses F" "telegram_run F chat ds s"
  shows "tg_timers s = [] \<and> settled_tags s \<subseteq> snd ` set ds \<and>
    (\<forall>d \<in> set ds. asks_telegram (fst d) \<longrightarrow> d = last ds \<and> snd d \<notin> settled_tags s) \<and>
    (list_ex (no_object \<circ> fst) ds \<or> cn_service_healthy s)"
  using assms(2)
proof induction
  case (start w)
  show ?case by (simp add: new_telegram_def settled_tags_def)
next
  case (deliver ds s d t)
  from deliver.IH deliver.hyps(2) have "\<forall>d \<in> set ds. \<not> asks_telegram (fst d)" by auto
  with wp_result [OF deliver.hyps(4) wp_refused_delivery [OF assms(1)]] deliver.IH deliver.hyps(3) show ?case by auto
qed simp

section \<open>Properties\<close>

text \<open>
  C13: No message is lost while Telegram accepts requests or limits their rate.  Whatever is delivered and
  in whatever order the timers go off, the requests that were accepted and those whose timers are pending
  are together the parts of the delivered messages, each as often as it should be; when no timer is
  pending, every delivery but one of a bare null is settled, so that the broker goes on.
\<close>
theorem no_message_is_lost:
  assumes "calm F" "telegram_run F chat ds s"
  shows "mset (accepted F (tg_requests s)) + mset (map (timer_request chat) (tg_timers s)) =
      mset (concat (map (requests_of chat \<circ> fst) ds)) \<and>
    (tg_timers s = [] \<longrightarrow> (\<forall>d \<in> set ds. fst d \<noteq> JsonNull \<longrightarrow> snd d \<in> settled_tags s))"
  using run_invariant [OF assms] by (auto simp: owed_def answered_tags_def tags_due_def)

text \<open>
  A message that Telegram refuses, or that finds it unreachable, is never settled: nothing is delivered
  after it, and the health checks see nothing of it.
\<close>
theorem refused_message_is_the_last:
  assumes "refuses F" "telegram_run F chat ds s" "d \<in> set ds" "asks_telegram (fst d)"
  shows "d = last ds \<and> snd d \<notin> settled_tags s \<and> (list_ex (no_object \<circ> fst) ds \<or> cn_service_healthy s)"
  using refused_run [OF assms(1,2)] assms(3,4) by blast

text \<open>
  A message in two parts whose first part meets the rate limit: the second part is accepted first and
  the message acknowledged, so that the first part is only in a timer of the process.
\<close>
theorem split_message_is_acknowledged_early:
  assumes "length a = split_index" "b \<noteq> []" "length b \<le> split_index"
    and "F [telegram_request_of chat sn edge a] = Status 429"
    and "F [telegram_request_of chat sn edge b, telegram_request_of chat sn edge a] = Status 200"
  shows "telegram_send F chat (Some tag) sn (a @ b) edge (new_telegram w) =
    (Inr (), (new_telegram w)\<lparr>cn_settled := [(tag, Acknowledged)], tg_timers := [(None, sn, a, edge)],
      tg_requests := [telegram_request_of chat sn edge b, telegram_request_of chat sn edge a]\<rparr>)"
proof -
  have "a \<noteq> []" using assms(1) by (auto simp: split_index_def)
  with assms show ?thesis
    by (simp add: telegram_send.simps [of _ _ _ _ "a @ b"] telegram_send.simps [of _ _ _ _ a] telegram_send.simps [of _ _ _ _ b]
        telegram_post_def new_telegram_def ack_func_def channel_ack_def seqE_def bindE_def tryE_def modifyE_def getE_def
        returnE_def)
qed

section \<open>A service at work\<close>

definition demo_telegram :: "telegram_request list \<Rightarrow> telegram_answer" where
  "demo_telegram h = Status (if length h = 1 then 429 else 200)"

definition demo_message :: "send_message_event body \<times> nat" where
  "demo_message = (Body (Some ''SendMessageEvent'') \<lparr>se_service_name = ''tas'', se_msg = ''hello'', se_edge = Some ''edge70''\<rparr>, 7)"

lemma demo_calm: "calm demo_telegram"
  by (simp add: calm_def demo_telegram_def)

lemma demo_telegram_run:
  "\<exists>s. telegram_run demo_telegram ''0'' [demo_message] s \<and> tg_timers s = [] \<and> length (tg_requests s) = 2"
proof -
  let ?w = "\<lparr>store = [], trace = []\<rparr>"
  let ?r = "telegram_request_of ''0'' ''tas'' (Some ''edge70'') ''hello''"
  let ?s = "(new_telegram ?w)\<lparr>tg_requests := [?r], tg_timers := [(Some 7, ''tas'', ''hello'', Some ''edge70'')]\<rparr>"
  let ?t = "(new_telegram ?w)\<lparr>tg_requests := [?r, ?r], cn_settled := [(7, Acknowledged)]\<rparr>"
  note post = telegram_process_message_def telegram_send.simps [of _ _ _ _ "''hello''"] split_index_def telegram_post_def
    demo_telegram_def seqE_def bindE_def tryE_def modifyE_def getE_def returnE_def new_telegram_def
  have d: "telegram_delivery demo_telegram ''0'' demo_message (new_telegram ?w) = (Inr (), ?s)"
    by (simp add: telegram_delivery_def demo_message_def wrapper_process_message_def post)
  have t: "fire_timer demo_telegram ''0'' 0 ?s = (Inr (), ?t)"
    by (simp add: fire_timer_def post ack_func_def channel_ack_def)
  have "telegram_run demo_telegram ''0'' ([] @ [demo_message]) ?s"
    by (rule telegram_run.deliver [OF telegram_run.start [where w = ?w]]) (simp_all add: d)
  from telegram_run.timer [OF this _ t] show ?thesis by (intro exI [of _ ?t]) (simp add: new_telegram_def)
qed

theorem no_message_is_lost_witness:
  "\<exists>s. length (tg_requests s) = 2 \<and> 7 \<in> settled_tags s \<and>
    accepted demo_telegram (tg_requests s) = [\<lparr>tr_chat_id = ''-795241615'', tr_text = ''tas: hello''\<rparr>]"
proof -
  obtain s where s: "telegram_run demo_telegram ''0'' [demo_message] s" "tg_timers s = []" "length (tg_requests s) = 2"
    using demo_telegram_run by blast
  from no_message_is_lost [OF demo_calm s(1)] s(2,3) show ?thesis
    by (intro exI [of _ s])
      (auto simp: demo_message_def requests_of_def event_of_def short_parts split_index_def telegram_request_of_def get_chat_id_def)
qed

end
