(* ===== verification/EventLog.thy ===== *)
theory EventLog
  imports Messaging
begin

text \<open>
  Services that only pass messages on: the start of a listener (\<open>listener-factory-v2.ts\<close> and the listener to
  all traffic), the event logger that stores every message, the upload of portfolios to InfluxDB, and
  the service that publishes execution reports as they come.
\<close>

section \<open>Starting a listener\<close>

text \<open>
  What is asked of the broker; each awaited request may fail, and \<open>lb_fails\<close> says so from the requests made
  so far, the newest first.
\<close>

datatype listener_call =
    ListenerConnect
  | ListenerChannel
  | ListenerExchange string string bool
  | ListenerQueue string bool "(string \<times> string) list"
  | ListenerPrefetch nat
  | ListenerBind string string string
  | ListenerConsume string

text \<open>The health of the listener's subsystem, \<open>None\<close> before it is added; \<open>ls_rejected\<close>: unhandled rejections.\<close>

record listener =
  ls_calls :: "listener_call list"
  ls_subsystem :: "(string \<times> bool \<times> bool) option"
  ls_rejected :: "js_error list"

type_synonym listener_broker = "listener_call list \<Rightarrow> js_error option"

definition listener_request :: "listener_broker \<Rightarrow> listener_call \<Rightarrow> (listener, unit) prog" where
  "listener_request fails c =
     seqE (modifyE (\<lambda>s. s\<lparr>ls_calls := c # ls_calls s\<rparr>))
       (bindE (getE (\<lambda>s. fails (ls_calls s))) (\<lambda>r. case r of None \<Rightarrow> returnE () | Some e \<Rightarrow> throwE e))"

text \<open>Requests whose answer is not awaited.\<close>

definition listener_note :: "listener_call \<Rightarrow> (listener, unit) prog" where
  "listener_note c = modifyE (\<lambda>s. s\<lparr>ls_calls := c # ls_calls s\<rparr>)"

definition add_listener_health :: "string \<Rightarrow> (listener, unit) prog" where
  "add_listener_health name = modifyE (\<lambda>s. s\<lparr>ls_subsystem := Some (name, True, False)\<rparr>)"

definition listener_initialised :: "(listener, unit) prog" where
  "listener_initialised = modifyE (\<lambda>s. s\<lparr>ls_subsystem := map_option (\<lambda>(n, h, _). (n, h, True)) (ls_subsystem s)\<rparr>)"

definition listener_unhealthy :: "(listener, unit) prog" where
  "listener_unhealthy = modifyE (\<lambda>s. s\<lparr>ls_subsystem := map_option (\<lambda>(n, _, i). (n, False, i)) (ls_subsystem s)\<rparr>)"

definition subscribe ::
    "listener_broker \<Rightarrow> string \<Rightarrow> string \<Rightarrow> bool \<Rightarrow> (string \<times> string) list \<Rightarrow> string \<Rightarrow> string \<Rightarrow> bool \<Rightarrow> (listener, unit) prog" where
  "subscribe fails exchange_name exchange_type durable headers routing_key queue_name prefetch_one =
     seqE (listener_request fails ListenerConnect)
    (seqE (listener_request fails ListenerChannel)
    (seqE (listener_request fails (ListenerExchange exchange_name exchange_type durable))
    (seqE (listener_request fails (ListenerQueue queue_name False headers))
    (seqE (if prefetch_one then listener_note (ListenerPrefetch 1) else returnE ())
    (seqE (listener_request fails (ListenerBind queue_name exchange_name routing_key))
    (seqE (listener_note (ListenerConsume queue_name))
       listener_initialised))))))"

text \<open>
  \<open>TypedListenerFactory\<close>.  The body runs in \<open>Sentry.withScope\<close>, whose promise is not awaited: the factory
  never throws, and what the body throws is an unhandled rejection.  \<open>healthy\<close> is the health of the service
  when the listener was added.
\<close>

definition build_typed_listener ::
    "listener_broker \<Rightarrow> bool \<Rightarrow> string \<Rightarrow> string \<Rightarrow> bool \<Rightarrow> (listener, unit) prog" where
  "build_typed_listener fails healthy event_name service_name prefetch_one =
     tryE
       (bindE (liftE (amqp_routing event_name)) (\<lambda>route.
        seqE (add_listener_health (''AMQP-Listener-'' @ ro_exchange_name route @ ''-'' @ ro_routing_key route @ ''-'' @ event_name))
          (tryE
             (seqE (assertE healthy ''Likely bug - initialise healthy to true'')
               (subscribe fails (ro_exchange_name route) (ro_exchange_type route) (ro_durable route) (ro_headers route)
                 (ro_routing_key route) (event_name @ ''-'' @ service_name) prefetch_one))
             (\<lambda>err. seqE listener_unhealthy (throwE err)))))
       (\<lambda>err. modifyE (\<lambda>s. s\<lparr>ls_rejected := err # ls_rejected s\<rparr>))"

text \<open>\<open>AllTrafficTopicExchangeListenerFactory\<close>: an unhealthy service is only logged.\<close>

definition build_isolated_listener :: "listener_broker \<Rightarrow> string \<Rightarrow> (listener, unit) prog" where
  "build_isolated_listener fails service_name =
     tryE
       (seqE (add_listener_health ''AMQP-Listener-binance-tool-all-events'')
          (tryE
             (subscribe fails ''binance-tool'' ''topic'' False [(''x-queue-type'', ''quorum'')] ''#''
               (''All-Events-'' @ service_name) True)
             (\<lambda>err. seqE listener_unhealthy (throwE err))))
       (\<lambda>err. modifyE (\<lambda>s. s\<lparr>ls_rejected := err # ls_rejected s\<rparr>))"

definition new_listener :: listener where
  "new_listener = \<lparr>ls_calls = [], ls_subsystem = None, ls_rejected = []\<rparr>"

definition consuming :: "listener \<Rightarrow> bool" where
  "consuming s \<longleftrightarrow> list_ex (\<lambda>c. case c of ListenerConsume _ \<Rightarrow> True | _ \<Rightarrow> False) (ls_calls s)"

definition listener_settled :: "listener \<Rightarrow> bool" where
  "listener_settled s \<longleftrightarrow>
     (case ls_subsystem s of
        None \<Rightarrow> \<not> consuming s \<and> ls_rejected s \<noteq> []
      | Some (_, healthy, initialised) \<Rightarrow>
          (consuming s \<longleftrightarrow> healthy) \<and> (consuming s \<longleftrightarrow> initialised) \<and> (consuming s \<longleftrightarrow> ls_rejected s = []))"

lemmas listener_defs = subscribe_def listener_request_def listener_note_def add_listener_health_def listener_initialised_def
  listener_unhealthy_def new_listener_def consuming_def listener_settled_def

lemma wp_build_typed_listener:
  "wp (build_typed_listener fails healthy event_name service_name prefetch_one) (\<lambda>_. listener_settled) (\<lambda>_ _. False) new_listener"
  by (auto simp: build_typed_listener_def listener_defs split: sum.split option.split)

lemma wp_build_isolated_listener:
  "wp (build_isolated_listener fails service_name) (\<lambda>_. listener_settled) (\<lambda>_ _. False) new_listener"
  by (auto simp: build_isolated_listener_def listener_defs split: option.split)

section \<open>The event logger\<close>

text \<open>
  What the logger stored, the newest first: the key of each object and its text.  Whether S3 takes an object is a
  function of the keys tried so far; \<open>stamp\<close> renders the clock and a random id for the n-th try.
\<close>

record event_log = consumer +
  el_tried :: "string list"
  el_stored :: "(string \<times> string) list"

definition put_object :: "(string list \<Rightarrow> js_error option) \<Rightarrow> string \<Rightarrow> string \<Rightarrow> (event_log, unit) prog" where
  "put_object put key text =
     seqE (modifyE (\<lambda>s. s\<lparr>el_tried := key # el_tried s\<rparr>))
       (bindE (getE (\<lambda>s. put (el_tried s))) (\<lambda>r. case r of
          Some err \<Rightarrow> throwE err
        | None \<Rightarrow> modifyE (\<lambda>s. s\<lparr>el_stored := (key, text) # el_stored s\<rparr>)))"

definition logged_name :: "string option \<Rightarrow> string" where
  "logged_name object_type = (case object_type of None \<Rightarrow> ''Orphaned'' | Some n \<Rightarrow> if n = [] then ''Orphaned'' else n)"

definition event_log_process_message ::
    "(string list \<Rightarrow> js_error option) \<Rightarrow> (nat \<Rightarrow> string) \<Rightarrow> string body \<Rightarrow> nat \<Rightarrow> (event_log, unit) prog" where
  "event_log_process_message put stamp content tag =
     tryE
       (case content of
          NotJson \<Rightarrow> throwE (Err ''SyntaxError: Unexpected token in JSON'')
        | JsonNull \<Rightarrow> throwE (Err ''TypeError: Cannot read properties of null (reading object_type)'')
        | Body object_type text \<Rightarrow>
            bindE (getE (length \<circ> el_tried)) (\<lambda>n.
              seqE (put_object put (logged_name object_type @ ''/'' @ stamp n @ ''.json'') text) (channel_ack tag)))
       (\<lambda>_. returnE ())"

text \<open>\<open>MessageProcessorIsolator\<close>: the promise of the processor is returned, not awaited.\<close>

definition isolator_process_message ::
    "(string body \<Rightarrow> nat \<Rightarrow> (event_log, unit) prog) \<Rightarrow> string body \<Rightarrow> nat \<Rightarrow> (event_log, unit) prog" where
  "isolator_process_message processor content tag =
     (case content of NotJson \<Rightarrow> returnE () | _ \<Rightarrow> processor content tag)"

definition all_traffic_wrapper_func ::
    "(string body \<Rightarrow> nat \<Rightarrow> (event_log, unit) prog) \<Rightarrow> (string body \<times> nat) option \<Rightarrow> (event_log, unit) prog" where
  "all_traffic_wrapper_func processor event =
     (case event of
        None \<Rightarrow> seqE (modifyE (\<lambda>s. s\<lparr>cn_listener_healthy := False\<rparr>))
                  (throwE (Err ''AMQP server closed the connection''))
      | Some (content, tag) \<Rightarrow> tryE (isolator_process_message processor content tag) unhandled_rejection)"

definition event_log_consume ::
    "(string list \<Rightarrow> js_error option) \<Rightarrow> (nat \<Rightarrow> string) \<Rightarrow> (string body \<times> nat) option \<Rightarrow> (event_log, unit) prog" where
  "event_log_consume put stamp = all_traffic_wrapper_func (event_log_process_message put stamp)"

definition text_of :: "string body \<Rightarrow> string" where
  "text_of b = (case b of Body _ text \<Rightarrow> text | _ \<Rightarrow> [])"

definition logged_step :: "string body \<times> nat \<Rightarrow> event_log \<Rightarrow> event_log \<Rightarrow> bool" where
  "logged_step d s t \<longleftrightarrow> cn_service_healthy t = cn_service_healthy s \<and> cn_listener_healthy t = cn_listener_healthy s \<and>
     (cn_settled t = cn_settled s \<and> el_stored t = el_stored s \<or>
      cn_settled t = (snd d, Acknowledged) # cn_settled s \<and> map snd (el_stored t) = text_of (fst d) # map snd (el_stored s))"

lemma wp_event_log_consume: "wp (event_log_consume put stamp (Some d)) (\<lambda>_. logged_step d s) (\<lambda>_ _. False) s"
  by (cases d; cases "fst d")
    (auto simp: event_log_consume_def all_traffic_wrapper_func_def isolator_process_message_def
      event_log_process_message_def put_object_def channel_ack_def logged_step_def text_of_def split: option.split)

lemma logged: "logged_step d s (snd (event_log_consume put stamp (Some d) s))"
  using wp_total [OF wp_event_log_consume, of put stamp d s] by auto

definition logged_prefix :: "(string body \<times> nat) list \<Rightarrow> nat \<Rightarrow> event_log \<Rightarrow> event_log \<Rightarrow> bool" where
  "logged_prefix ds k s t \<longleftrightarrow> cn_service_healthy t = cn_service_healthy s \<and> cn_listener_healthy t = cn_listener_healthy s \<and>
     cn_settled t = rev (map (\<lambda>d. (snd d, Acknowledged)) (take k ds)) @ cn_settled s \<and>
     map snd (el_stored t) = rev (map (text_of \<circ> fst) (take k ds)) @ map snd (el_stored s)"

lemma deliveries_logged:
  "respects_prefetch (event_log_consume put stamp) ds s \<Longrightarrow> distinct (map snd ds) \<Longrightarrow>
   snd ` set ds \<inter> fst ` set (cn_settled s) = {} \<Longrightarrow>
   \<exists>k. k \<le> length ds \<and> length ds \<le> Suc k \<and> logged_prefix ds k s (deliveries (event_log_consume put stamp) ds s)"
proof (induction ds arbitrary: s)
  case (Cons d ds)
  let ?t = "snd (event_log_consume put stamp (Some d) s)"
  note step = logged [of d s put stamp]
  show ?case
  proof (cases ds)
    case Nil
    have "logged_prefix [d] (if cn_settled ?t = cn_settled s then 0 else 1) s ?t"
      using step by (auto simp: logged_step_def logged_prefix_def)
    then show ?thesis by (intro exI [of _ "if cn_settled ?t = cn_settled s then 0 else 1"]) (simp add: Nil)
  next
    case (Cons e es)
    with Cons.prems have p: "snd d \<in> fst ` set (cn_settled ?t)" "respects_prefetch (event_log_consume put stamp) ds ?t"
      by auto
    moreover have "snd d \<notin> fst ` set (cn_settled s)" using Cons.prems(3) by auto
    ultimately have t: "cn_settled ?t = (snd d, Acknowledged) # cn_settled s"
        "map snd (el_stored ?t) = text_of (fst d) # map snd (el_stored s)"
        "cn_service_healthy ?t = cn_service_healthy s" "cn_listener_healthy ?t = cn_listener_healthy s"
      using step by (auto simp: logged_step_def)
    have "snd ` set ds \<inter> fst ` set (cn_settled ?t) = {}" using Cons.prems(2,3) by (auto simp: t(1))
    from Cons.IH [OF p(2) _ this] Cons.prems(2) obtain k where "k \<le> length ds" "length ds \<le> Suc k"
        "logged_prefix ds k ?t (deliveries (event_log_consume put stamp) ds ?t)" by auto
    then show ?thesis by (intro exI [of _ "Suc k"]) (simp add: logged_prefix_def t)
  qed
qed (simp add: logged_prefix_def)

definition new_event_log :: "world \<Rightarrow> event_log" where
  "new_event_log w =
     \<lparr>cn_world = w, cn_settled = [], cn_callbacks_healthy = True, cn_listener_healthy = True, cn_service_healthy = True,
      el_tried = [], el_stored = []\<rparr>"

text \<open>
  The log has no gaps: as the broker holds the next message back until the one before is settled, the texts
  stored are exactly those delivered, in their order, but perhaps for the last.  The first message that is
  no JSON object, or that S3 does not take, is therefore the last one, and the service stays healthy.
\<close>

theorem event_log_has_no_gaps:
  assumes "respects_prefetch (event_log_consume put stamp) ds (new_event_log w)" "distinct (map snd ds)"
    and "t = deliveries (event_log_consume put stamp) ds (new_event_log w)"
  shows "length ds \<le> Suc (length (el_stored t)) \<and> cn_service_healthy t \<and> cn_listener_healthy t \<and>
    rev (map snd (el_stored t)) = map (text_of \<circ> fst) (take (length (el_stored t)) ds)"
proof -
  from deliveries_logged [OF assms(1,2)] assms(3) obtain k where k: "k \<le> length ds" "length ds \<le> Suc k"
      "logged_prefix ds k (new_event_log w) t" by (auto simp: new_event_log_def)
  then have "map snd (el_stored t) = rev (map (text_of \<circ> fst) (take k ds))"
    by (simp add: logged_prefix_def new_event_log_def)
  moreover from arg_cong [OF this, of length] k(1) have "length (el_stored t) = k" by simp
  ultimately show ?thesis using k by (simp add: logged_prefix_def new_event_log_def)
qed

section \<open>Portfolios to InfluxDB\<close>

text \<open>Whether the client takes a point, a value that is no number included, is a function of the points tried so far.\<close>

record influx_service = consumer +
  iu_tried :: "string option list"
  iu_points :: "string option list"
  iu_influxdb_healthy :: bool

definition influx_process_message :: "(string option list \<Rightarrow> js_error option) \<Rightarrow> string option \<Rightarrow> nat \<Rightarrow> (influx_service, unit) prog" where
  "influx_process_message write usd_value tag =
     tryE
       (seqE (modifyE (\<lambda>s. s\<lparr>iu_tried := usd_value # iu_tried s\<rparr>))
        (bindE (getE (\<lambda>s. write (iu_tried s))) (\<lambda>r. case r of
           Some err \<Rightarrow> throwE err
         | None \<Rightarrow> seqE (modifyE (\<lambda>s. s\<lparr>iu_points := usd_value # iu_points s\<rparr>)) (channel_ack tag))))
       (\<lambda>_. seqE (modifyE (\<lambda>s. s\<lparr>iu_influxdb_healthy := False\<rparr>)) (modifyE (\<lambda>s. s\<lparr>cn_service_healthy := False\<rparr>)))"

text \<open>A portfolio is uploaded and acknowledged, or the service reports itself unhealthy.\<close>

theorem portfolio_is_uploaded_or_reported:
  "wp (influx_process_message write usd_value tag)
     (\<lambda>_ t. iu_points t = usd_value # iu_points s \<and> cn_settled t = (tag, Acknowledged) # cn_settled s \<and>
          cn_service_healthy t = cn_service_healthy s \<or>
        iu_points t = iu_points s \<and> cn_settled t = cn_settled s \<and> \<not> cn_service_healthy t \<and> \<not> iu_influxdb_healthy t)
     (\<lambda>_ _. False) s"
  by (simp add: influx_process_message_def channel_ack_def split: option.split)

section \<open>Execution reports as they come\<close>

record binance_execution_report = execution_report +
  br_exchange_identifier :: exchange_identifier

record report_feed =
  rf_world :: world
  rf_publisher :: "binance_execution_report topic_publisher"

definition feed_publish :: "amqp_server \<Rightarrow> binance_execution_report \<Rightarrow> (report_feed, unit) prog" where
  "feed_publish A ber = (\<lambda>s. case publisher_publish A ber (rf_publisher s) of (r, p) \<Rightarrow> (r, s\<lparr>rf_publisher := p\<rparr>))"

definition feed_alert :: "string \<Rightarrow> (report_feed, unit) prog" where
  "feed_alert msg = modifyE (\<lambda>s. s\<lparr>rf_world := (rf_world s)\<lparr>trace := Alert msg # trace (rf_world s)\<rparr>\<rparr>)"

lemma wp_feed_publish [simp]:
  "wp (feed_publish A ber) Q R s =
   wp (publisher_publish A ber) (\<lambda>x p. Q x (s\<lparr>rf_publisher := p\<rparr>)) (\<lambda>e p. R e (s\<lparr>rf_publisher := p\<rparr>)) (rf_publisher s)"
  by (simp add: wp_def feed_publish_def split: prod.split sum.split)

definition process_execution_report :: "amqp_server \<Rightarrow> execution_report \<Rightarrow> (report_feed, unit) prog" where
  "process_execution_report A er =
     feed_publish A (execution_report.extend er \<lparr>br_exchange_identifier = binance_spot\<rparr>)"

definition on_report_stream :: "amqp_server \<Rightarrow> execution_report \<Rightarrow> (report_feed, unit) prog" where
  "on_report_stream A data =
     (if x_eventType data = ''executionReport''
      then tryE (process_execution_report A data)
             (\<lambda>_. feed_alert (''Error calling processExecutionReport for pair '' @ x_symbol data))
      else returnE ())"

definition monitor_report_stream :: "amqp_server \<Rightarrow> exchange_identifier \<Rightarrow> js_error + (execution_report \<Rightarrow> (report_feed, unit) prog)" where
  "monitor_report_stream A ei =
     (if ei_type ei = Spot then Inr (on_report_stream A)
      else Inl (Err (''Unknown exchange type: '' @ exchange_type_string (ei_type ei))))"

text \<open>An execution report is published as it is, or the user is told and the publisher is unhealthy.\<close>

theorem report_is_published_or_reported:
  assumes "x_eventType data = ''executionReport''"
  shows "wp (on_report_stream A data)
    (\<lambda>_ t. execution_report.truncate (hd (tp_sent (rf_publisher t))) = data \<and> rf_world t = rf_world s \<or>
       \<not> tp_healthy (rf_publisher t) \<and>
       trace (rf_world t) = Alert (''Error calling processExecutionReport for pair '' @ x_symbol data) # trace (rf_world s))
    (\<lambda>_ _. False) s"
  using assms
  by (auto simp: on_report_stream_def process_execution_report_def feed_alert_def execution_report.defs
      intro!: wp_mono [OF wp_publisher_publish])

section \<open>Listeners and their health\<close>

text \<open>
  A listener that started tells the truth about itself.  Whatever the broker answers, the listener
  either consumes its queue and is healthy and initialised, or it is not initialised and unhealthy and an
  unhandled rejection says why; without a route there is no subsystem at all, only the rejection.
\<close>
theorem listeners_report_their_start:
  "(\<exists>s. build_typed_listener fails healthy event_name service_name prefetch_one new_listener = (Inr (), s) \<and>
     listener_settled s) \<and>
   (\<exists>s. build_isolated_listener fails service_name new_listener = (Inr (), s) \<and> listener_settled s)"
  using wp_total [OF wp_build_typed_listener] wp_total [OF wp_build_isolated_listener] by (simp add: ex_simps(1))

end
